(* ===== verification/Bridge_Prelude.thy ===== *)
theory Bridge_Prelude
  imports Main "HOL-Library.Word"
begin

text \<open>
  Shared vocabulary of the development: machine integers as words, the result of a Rust
  expression, the little-endian conversions of the standard library, slices, decimal and
  hexadecimal printing, and UTF-8 strings.

  A Rust expression ends in one of three ways, so a result has three constructors:
  \<open>Ok\<close> a value, \<open>Err\<close> an \<^verbatim>\<open>anyhow::Error\<close> (the text is the literal head of the message
  of the \<^verbatim>\<open>bail!\<close> or \<^verbatim>\<open>anyhow!\<close> that made it, without the values it interpolates), or
  \<open>Panic\<close> (an index or slice out of range, an \<^verbatim>\<open>expect\<close> on \<^verbatim>\<open>None\<close>, and, in a build
  with overflow checks, an arithmetic overflow). A Boolean \<open>oc\<close> says whether the build has
  overflow checks: a debug build panics where a release build wraps around.
\<close>

unbundle bit_operations_syntax

type_synonym u8 = "8 word"
type_synonym u16 = "16 word"
type_synonym u32 = "32 word"
type_synonym bytes = "u8 list"

named_theorems outcome_simps \<open>evaluation of the result monad\<close>
named_theorems byte_simps \<open>byte-order conversions\<close>

section \<open>Results\<close>

datatype 'a outcome = Ok 'a | Err string | Panic

text \<open>The \<^verbatim>\<open>?\<close> operator.\<close>

definition obind :: "'a outcome \<Rightarrow> ('a \<Rightarrow> 'b outcome) \<Rightarrow> 'b outcome" where
  "obind m f = (case m of Ok a \<Rightarrow> f a | Err e \<Rightarrow> Err e | Panic \<Rightarrow> Panic)"

lemma obind_simps [simp, outcome_simps]:
  "obind (Ok a) f = f a"
  "obind (Err e) f = Err e"
  "obind Panic f = Panic"
  by (simp_all add: obind_def)

lemma obind_eq_Ok: "obind m f = Ok b \<longleftrightarrow> (\<exists>a. m = Ok a \<and> f a = Ok b)"
  by (cases m) auto

lemma obind_eq_Panic: "obind m f = Panic \<longleftrightarrow> m = Panic \<or> (\<exists>a. m = Ok a \<and> f a = Panic)"
  by (cases m) auto

lemma obind_assoc: "obind (obind m f) g = obind m (\<lambda>a. obind (f a) g)"
  by (cases m) auto

lemma obind_cong [fundef_cong]:
  "m = m' \<Longrightarrow> (\<And>a. m' = Ok a \<Longrightarrow> f a = f' a) \<Longrightarrow> obind m f = obind m' f'"
  by (cases m') auto

definition is_ok :: "'a outcome \<Rightarrow> bool" where
  "is_ok r = (case r of Ok _ \<Rightarrow> True | _ \<Rightarrow> False)"

definition is_err :: "'a outcome \<Rightarrow> bool" where
  "is_err r = (case r of Err _ \<Rightarrow> True | _ \<Rightarrow> False)"

lemma is_ok_simps [simp]: "is_ok (Ok a)" "\<not> is_ok (Err e)" "\<not> is_ok Panic"
  by (simp_all add: is_ok_def)

lemma is_err_simps [simp]: "is_err (Err e)" "\<not> is_err (Ok a)" "\<not> is_err Panic"
  by (simp_all add: is_err_def)

lemma is_ok_iff: "is_ok r \<longleftrightarrow> (\<exists>a. r = Ok a)"
  by (cases r) auto

lemma is_err_iff: "is_err r \<longleftrightarrow> (\<exists>e. r = Err e)"
  by (cases r) auto

text \<open>\<^verbatim>\<open>Option::expect\<close> and \<^verbatim>\<open>Option::ok_or_else\<close>.\<close>

definition oexpect :: "'a option \<Rightarrow> 'a outcome" where
  "oexpect x = (case x of Some a \<Rightarrow> Ok a | None \<Rightarrow> Panic)"

definition ok_or :: "'a option \<Rightarrow> string \<Rightarrow> 'a outcome" where
  "ok_or x e = (case x of Some a \<Rightarrow> Ok a | None \<Rightarrow> Err e)"

lemma oexpect_simps [simp, outcome_simps]: "oexpect (Some a) = Ok a" "oexpect None = Panic"
  by (simp_all add: oexpect_def)

lemma ok_or_simps [simp, outcome_simps]: "ok_or (Some a) e = Ok a" "ok_or None e = Err e"
  by (simp_all add: ok_or_def)

text \<open>\<^verbatim>\<open>map(...).collect()\<close> over a fallible function: left to right, stopping at the first failure.\<close>

fun omap :: "('a \<Rightarrow> 'b outcome) \<Rightarrow> 'a list \<Rightarrow> 'b list outcome" where
  "omap f [] = Ok []"
| "omap f (x # xs) = obind (f x) (\<lambda>y. obind (omap f xs) (\<lambda>ys. Ok (y # ys)))"

lemma omap_Ok: "(\<And>x. x \<in> set xs \<Longrightarrow> f x = Ok (g x)) \<Longrightarrow> omap f xs = Ok (map g xs)"
  by (induction xs) auto

lemma omap_cong_Ok: "omap (\<lambda>x. Ok (g x)) xs = Ok (map g xs)"
  by (rule omap_Ok) simp

lemma length_omap: "omap f xs = Ok ys \<Longrightarrow> length ys = length xs"
  by (induction xs arbitrary: ys) (auto simp: obind_eq_Ok)

lemma omap_Panic: "x \<in> set xs \<Longrightarrow> f x = Panic \<Longrightarrow> (\<And>y. y \<in> set xs \<Longrightarrow> f y \<noteq> Err e \<and> \<not> is_err (f y)) \<Longrightarrow> omap f xs = Panic"
proof (induction xs)
  case Nil
  then show ?case by simp
next
  case (Cons a xs)
  show ?case
  proof (cases "f a")
    case (Ok b)
    with Cons show ?thesis by auto
  next
    case (Err m)
    with Cons.prems(3)[of a] show ?thesis by simp
  next
    case Panic
    then show ?thesis by simp
  qed
qed

section \<open>Checked and unchecked machine arithmetic\<close>

text \<open>The operators \<^verbatim>\<open>+\<close> and \<^verbatim>\<open>-\<close> on unsigned integers, in either kind of build.\<close>

definition add_oc :: "bool \<Rightarrow> 'a::len word \<Rightarrow> 'a word \<Rightarrow> 'a word outcome" where
  "add_oc oc a b = (if oc \<and> unat a + unat b \<ge> 2 ^ LENGTH('a) then Panic else Ok (a + b))"

definition sub_oc :: "bool \<Rightarrow> 'a::len word \<Rightarrow> 'a word \<Rightarrow> 'a word outcome" where
  "sub_oc oc a b = (if oc \<and> unat a < unat b then Panic else Ok (a - b))"

definition mul_oc :: "bool \<Rightarrow> 'a::len word \<Rightarrow> 'a word \<Rightarrow> 'a word outcome" where
  "mul_oc oc a b = (if oc \<and> unat a * unat b \<ge> 2 ^ LENGTH('a) then Panic else Ok (a * b))"

text \<open>\<^verbatim>\<open>u16::checked_add\<close>.\<close>

definition checked_add :: "'a::len word \<Rightarrow> 'a word \<Rightarrow> 'a word option" where
  "checked_add a b = (if unat a + unat b < 2 ^ LENGTH('a) then Some (a + b) else None)"

lemma add_oc_small:
  "unat a + unat b < 2 ^ LENGTH('a) \<Longrightarrow> add_oc oc (a::'a::len word) b = Ok (a + b)"
  by (simp add: add_oc_def)

lemma add_oc_unchecked [simp]: "add_oc False a b = Ok (a + b)"
  by (simp add: add_oc_def)

lemma sub_oc_unchecked [simp]: "sub_oc False a b = Ok (a - b)"
  by (simp add: sub_oc_def)

lemma not_err_add_oc [simp]: "\<not> is_err (add_oc oc a b)" "add_oc oc a b \<noteq> Err e"
  by (auto simp: add_oc_def)

lemma checked_add_Some:
  "checked_add a b = Some c \<Longrightarrow> unat c = unat a + unat b"
  by (auto simp: checked_add_def unat_word_ariths split: if_splits)

lemma checked_add_None:
  "checked_add (a::'a::len word) b = None \<longleftrightarrow> 2 ^ LENGTH('a) \<le> unat a + unat b"
  by (auto simp: checked_add_def)

section \<open>Slices\<close>

text \<open>\<^verbatim>\<open>array[i]\<close> and \<^verbatim>\<open>&array[a..b]\<close>, which panic out of range.\<close>

definition index :: "'a list \<Rightarrow> nat \<Rightarrow> 'a outcome" where
  "index xs i = (if i < length xs then Ok (xs ! i) else Panic)"

definition slice :: "'a list \<Rightarrow> nat \<Rightarrow> nat \<Rightarrow> 'a list outcome" where
  "slice xs a b = (if a \<le> b \<and> b \<le> length xs then Ok (take (b - a) (drop a xs)) else Panic)"

definition slice_from :: "'a list \<Rightarrow> nat \<Rightarrow> 'a list outcome" where
  "slice_from xs a = (if a \<le> length xs then Ok (drop a xs) else Panic)"

lemma index_Ok [simp]: "i < length xs \<Longrightarrow> index xs i = Ok (xs ! i)"
  by (simp add: index_def)

lemma slice_Ok [simp]: "a \<le> b \<Longrightarrow> b \<le> length xs \<Longrightarrow> slice xs a b = Ok (take (b - a) (drop a xs))"
  by (simp add: slice_def)

lemma slice_from_Ok [simp]: "a \<le> length xs \<Longrightarrow> slice_from xs a = Ok (drop a xs)"
  by (simp add: slice_from_def)

text \<open>\<^verbatim>\<open>chunks(2)\<close>: the last chunk of an odd slice has one element.\<close>

fun chunks2 :: "'a list \<Rightarrow> 'a list list" where
  "chunks2 [] = []"
| "chunks2 [a] = [[a]]"
| "chunks2 (a # b # xs) = [a, b] # chunks2 xs"

text \<open>\<^verbatim>\<open>iter().enumerate()\<close>, from a given position.\<close>

definition enumerate :: "'a list \<Rightarrow> (nat \<times> 'a) list" where
  "enumerate xs = List.enumerate 0 xs"

lemma chunks2_even:
  "even (length xs) \<Longrightarrow> c \<in> set (chunks2 xs) \<Longrightarrow> length c = 2"
  by (induction xs rule: chunks2.induct) auto

lemma chunks2_odd: "odd (length xs) \<Longrightarrow> \<exists>c \<in> set (chunks2 xs). length c = 1"
  by (induction xs rule: chunks2.induct) auto

lemma length_chunks2: "length (chunks2 xs) = (length xs + 1) div 2"
  by (induction xs rule: chunks2.induct) auto

lemma chunks2_nth:
  "even (length xs) \<Longrightarrow> i < length xs div 2 \<Longrightarrow> chunks2 xs ! i = [xs ! (2 * i), xs ! (2 * i + 1)]"
proof (induction xs arbitrary: i rule: chunks2.induct)
  case (3 a b xs)
  then show ?case by (cases i) auto
qed auto

section \<open>Byte order\<close>

text \<open>\<^verbatim>\<open>u16::from_le_bytes\<close>, \<^verbatim>\<open>u32::from_le_bytes\<close>, \<^verbatim>\<open>to_le_bytes\<close> and \<^verbatim>\<open>to_be_bytes\<close>.\<close>

definition u16_from_le :: "u8 \<Rightarrow> u8 \<Rightarrow> u16" where
  "u16_from_le lo hi = ucast lo OR push_bit 8 (ucast hi)"

definition u32_from_le :: "u8 \<Rightarrow> u8 \<Rightarrow> u8 \<Rightarrow> u8 \<Rightarrow> u32" where
  "u32_from_le a b c d =
     ucast a OR push_bit 8 (ucast b) OR push_bit 16 (ucast c) OR push_bit 24 (ucast d)"

definition lo8 :: "u16 \<Rightarrow> u8" where
  "lo8 v = ucast v"

definition hi8 :: "u16 \<Rightarrow> u8" where
  "hi8 v = ucast (drop_bit 8 v)"

definition to_le_bytes :: "u16 \<Rightarrow> bytes" where
  "to_le_bytes v = [lo8 v, hi8 v]"

definition to_be_bytes :: "u16 \<Rightarrow> bytes" where
  "to_be_bytes v = [hi8 v, lo8 v]"

lemma u16_from_le_hi_lo [simp, byte_simps]: "u16_from_le (lo8 v) (hi8 v) = v"
  unfolding u16_from_le_def lo8_def hi8_def
  by (rule bit_word_eqI) (auto simp: bit_simps)

lemma lo8_u16_from_le [simp, byte_simps]: "lo8 (u16_from_le a b) = a"
  unfolding u16_from_le_def lo8_def
  by (rule bit_word_eqI) (auto simp: bit_simps)

lemma hi8_u16_from_le [simp, byte_simps]: "hi8 (u16_from_le a b) = b"
  unfolding u16_from_le_def hi8_def
  by (rule bit_word_eqI) (auto simp: bit_simps dest: bit_imp_le_length)

lemma to_le_bytes_from_le [simp]: "to_le_bytes (u16_from_le a b) = [a, b]"
  by (simp add: to_le_bytes_def)

lemma length_to_le_bytes [simp]: "length (to_le_bytes v) = 2"
  by (simp add: to_le_bytes_def)

lemma u16_from_le_inject [simp]: "u16_from_le a b = u16_from_le c d \<longleftrightarrow> a = c \<and> b = d"
  by (metis lo8_u16_from_le hi8_u16_from_le)

lemma unat_ucast_u8 [simp, byte_simps]: "unat (ucast (a::u8) :: u16) = unat a"
proof -
  have "unat a < 2 ^ 16"
    using unsigned_less[of a, where ?'a = nat] by simp
  then show ?thesis
    by (simp add: unsigned_ucast_eq take_bit_nat_eq_self)
qed

lemma unat_u16_from_le: "unat (u16_from_le a b) = unat a + 256 * unat b"
proof -
  have "u16_from_le a b = ucast a + push_bit 8 (ucast b)"
    unfolding u16_from_le_def
    by (rule disjunctive_add_eq_or [symmetric]) (auto simp: bit_eq_iff bit_simps dest: bit_imp_le_length)
  moreover have "unat (push_bit 8 (ucast b :: u16)) = 256 * unat b"
    using unsigned_less[of b, where ?'a = nat] by (simp add: push_bit_eq_mult unat_word_ariths)
  ultimately show ?thesis
    using unsigned_less[of a, where ?'a = nat] unsigned_less[of b, where ?'a = nat]
    by (simp add: unat_word_ariths)
qed

text \<open>\<^verbatim>\<open>u16::from_le_bytes\<close> of a register equals two bytes, low byte first: \<^verbatim>\<open>Utils::u16ify\<close>.\<close>

definition u16ify :: "bytes \<Rightarrow> nat \<Rightarrow> u16 outcome" where
  "u16ify array offset =
     obind (index array offset) (\<lambda>lo. obind (index array (offset + 1)) (\<lambda>hi. Ok (u16_from_le lo hi)))"

lemma u16ify_Ok [simp]:
  "offset + 1 < length array \<Longrightarrow>
     u16ify array offset = Ok (u16_from_le (array ! offset) (array ! (offset + 1)))"
  by (simp add: u16ify_def)

lemma u16ify_Panic: "length array \<le> offset + 1 \<Longrightarrow> u16ify array offset = Panic"
  by (auto simp: u16ify_def index_def)

lemma not_err_u16ify [simp]: "\<not> is_err (u16ify array offset)" "u16ify array offset \<noteq> Err e"
  by (auto simp: u16ify_def index_def)

end
