(* ===== verification/F64.thy ===== *)
theory F64
  imports Bridge_Prelude Complex_Main "HOL-Library.Log_Nat"
begin

text \<open>
  The \<^verbatim>\<open>f64\<close> arithmetic the bridge uses. A finite double is the rational number it denotes, and
  every operation is the exact result rounded to 53 significant bits, ties to even, as IEEE 754
  and Rust prescribe. The exponent is not bounded: every value the bridge decodes is 0 or has a
  magnitude between \<open>10\<^sup>-\<^sup>3\<close> and \<open>2\<^sup>3\<^sup>4\<close> (sixteen- or thirty-two-bit integers over 10, 100 or
  1000 and sums of three of them), far from the subnormal and the overflow range, and no
  division is by zero, so infinities and NaN do not arise.
\<close>

type_synonym f64 = rat

named_theorems f64_simps \<open>evaluation and bounds of rounded arithmetic\<close>

section \<open>Rounding to 53 bits\<close>

definition pow2 :: "int \<Rightarrow> rat" where
  "pow2 e = (if 0 \<le> e then 2 ^ nat e else 1 / 2 ^ nat (- e))"

lemma pow2_pos [simp]: "0 < pow2 e"
  by (simp add: pow2_def)

lemma pow2_nonzero [simp]: "pow2 e \<noteq> 0"
  by (metis pow2_pos less_irrefl)

lemma pow2_add1: "pow2 (e + 1) = 2 * pow2 e"
proof -
  consider "0 \<le> e" | "e = -1" | "e < -1" by linarith
  then show ?thesis
  proof cases
    case 1
    then have "nat (e + 1) = Suc (nat e)" by simp
    with 1 show ?thesis by (simp add: pow2_def)
  next
    case 2
    then show ?thesis by (simp add: pow2_def)
  next
    case 3
    then have "nat (- e) = Suc (nat (- (e + 1)))" by simp
    with 3 show ?thesis by (simp add: pow2_def)
  qed
qed

lemma pow2_add_nat: "pow2 (e + int k) = 2 ^ k * pow2 e"
proof (induction k)
  case (Suc k)
  have "pow2 (e + int (Suc k)) = pow2 ((e + int k) + 1)"
    by (simp add: algebra_simps)
  then show ?case by (simp only: pow2_add1 Suc.IH) simp
qed simp

lemma pow2_nat [simp]: "pow2 (int k) = 2 ^ k"
  by (simp add: pow2_def)

lemma pow2_diff: "pow2 (int a - int b) = 2 ^ a / 2 ^ b"
proof -
  have "pow2 (int a) = pow2 ((int a - int b) + int b)" by simp
  also have "\<dots> = 2 ^ b * pow2 (int a - int b)" by (rule pow2_add_nat)
  finally show ?thesis by (simp add: field_simps)
qed

text \<open>The position of the leading bit: \<open>\<lfloor>log\<^sub>2 \<bar>q\<bar>\<rfloor>\<close>, from the lengths of numerator and denominator.\<close>

definition lead_exp :: "rat \<Rightarrow> int" where
  "lead_exp q =
     (let (n, d) = quotient_of \<bar>q\<bar>; e = bitlen n - bitlen d
      in if pow2 e \<le> \<bar>q\<bar> then e else e - 1)"

text \<open>Round half to even.\<close>

definition round_even :: "rat \<Rightarrow> int" where
  "round_even q =
     (let f = \<lfloor>q\<rfloor>; d = q - of_int f
      in if d < 1 / 2 then f else if d > 1 / 2 then f + 1 else if even f then f else f + 1)"

definition ulp :: "rat \<Rightarrow> rat" where
  "ulp q = pow2 (lead_exp q - 52)"

definition fl :: "rat \<Rightarrow> f64" where
  "fl q = (if q = 0 then 0 else of_int (round_even (q / ulp q)) * ulp q)"

section \<open>Operations\<close>

definition f64_add :: "f64 \<Rightarrow> f64 \<Rightarrow> f64" where "f64_add x y = fl (x + y)"
definition f64_mul :: "f64 \<Rightarrow> f64 \<Rightarrow> f64" where "f64_mul x y = fl (x * y)"
definition f64_div :: "f64 \<Rightarrow> f64 \<Rightarrow> f64" where "f64_div x y = fl (x / y)"

text \<open>\<^verbatim>\<open>num as f64\<close> for an unsigned integer of at most 32 bits, which a double represents exactly.\<close>

definition f64_of_word :: "'a::len word \<Rightarrow> f64" where
  "f64_of_word w = of_nat (unat w)"

text \<open>\<^verbatim>\<open>f64::round\<close>: to the nearest integer, halves away from zero.\<close>

definition f64_round :: "f64 \<Rightarrow> f64" where
  "f64_round x = (if 0 \<le> x then of_int \<lfloor>x + 1 / 2\<rfloor> else - of_int \<lfloor>- x + 1 / 2\<rfloor>)"

text \<open>
  \<^verbatim>\<open>Utils::round\<close>. The power is an \<^verbatim>\<open>i32\<close>; every caller passes one decimal, for which it is 10.
\<close>

definition utils_round :: "f64 \<Rightarrow> nat \<Rightarrow> f64" where
  "utils_round x decimals =
     (let y = of_int (sint (10 ^ decimals :: 32 word))
      in f64_div (f64_round (f64_mul x y)) y)"

section \<open>Bounds\<close>

lemma lead_exp_bounds:
  assumes "q \<noteq> 0"
  shows "pow2 (lead_exp q) \<le> \<bar>q\<bar>" "\<bar>q\<bar> < 2 * pow2 (lead_exp q)"
proof -
  obtain n d where nd: "quotient_of \<bar>q\<bar> = (n, d)" by (cases "quotient_of \<bar>q\<bar>")
  then have d: "0 < d" and q: "\<bar>q\<bar> = of_int n / of_int d"
    by (auto dest: quotient_of_denom_pos quotient_of_div)
  from assms q d have n: "0 < n"
    by (metis abs_ge_zero abs_zero divide_eq_0_iff of_int_0_le_iff of_int_0 linorder_neqE_linordered_idom
        abs_eq_0 divide_less_0_iff of_int_less_0_iff of_int_0_less_iff not_less)
  define a where "a = nat (bitlen n - 1)"
  define b where "b = nat (bitlen d - 1)"
  have bn: "0 < bitlen n" and bd: "0 < bitlen d"
    using n d by (metis bitlen_eq_zero_iff bitlen_nonneg not_le order_le_less)+
  have a: "bitlen n = int a + 1" and b: "bitlen d = int b + 1"
    using bn bd by (simp_all add: a_def b_def)
  have nb: "2 ^ a \<le> n" "n < 2 ^ (a + 1)"
    using bitlen_bounds[OF n] bn by (simp_all add: a_def nat_diff_distrib' Suc_nat_eq_nat_zadd1 add.commute)
  have db: "2 ^ b \<le> d" "d < 2 ^ (b + 1)"
    using bitlen_bounds[OF d] bd by (simp_all add: b_def nat_diff_distrib' Suc_nat_eq_nat_zadd1 add.commute)
  have nq: "(2::rat) ^ a \<le> of_int n" "(of_int n :: rat) < 2 * 2 ^ a"
    using nb of_int_le_iff[of "2 ^ a" n, where ?'a = rat] of_int_less_iff[of n "2 * 2 ^ a", where ?'a = rat]
    by simp_all
  have dq: "(2::rat) ^ b \<le> of_int d" "(of_int d :: rat) < 2 * 2 ^ b"
    using db of_int_le_iff[of "2 ^ b" d, where ?'a = rat] of_int_less_iff[of d "2 * 2 ^ b", where ?'a = rat]
    by simp_all
  define e where "e = int a - int b"
  have pe: "pow2 e = 2 ^ a / 2 ^ b" by (simp add: e_def pow2_diff)
  have pe1: "2 * pow2 (e - 1) = pow2 e" using pow2_add1[of "e - 1"] by simp
  have up: "\<bar>q\<bar> < 2 * pow2 e"
  proof -
    have "of_int n / of_int d < (2 * 2 ^ a) / (2 ^ b :: rat)"
      using nq(2) dq(1) by (intro frac_less) (use n in auto)
    then show ?thesis by (simp add: q pe)
  qed
  have low: "pow2 (e - 1) \<le> \<bar>q\<bar>"
  proof -
    have "2 ^ a / (2 * 2 ^ b :: rat) \<le> of_int n / of_int d"
      using nq(1) dq(2) d n by (intro frac_le) auto
    then show ?thesis using pe1 by (simp add: q pe)
  qed
  have le: "lead_exp q = (if pow2 e \<le> \<bar>q\<bar> then e else e - 1)"
    using a b by (simp add: lead_exp_def nd Let_def e_def)
  show "pow2 (lead_exp q) \<le> \<bar>q\<bar>"
    using low by (simp add: le)
  show "\<bar>q\<bar> < 2 * pow2 (lead_exp q)"
    using up pe1 by (simp add: le)
qed

lemma round_even_error: "\<bar>of_int (round_even q) - q\<bar> \<le> 1 / 2"
proof -
  have "of_int \<lfloor>q\<rfloor> \<le> q" "q < of_int \<lfloor>q\<rfloor> + 1" by linarith+
  then show ?thesis by (auto simp: round_even_def Let_def)
qed

lemma round_even_of_int [simp]: "round_even (of_int n) = n"
  by (simp add: round_even_def)

lemma ulp_pos [simp]: "0 < ulp q"
  by (simp add: ulp_def)

lemma pow2_minus52: "2 ^ 52 * pow2 (e - 52) = pow2 e"
  using pow2_add_nat[of "e - 52" 52] by simp

lemma fl_zero [simp]: "fl 0 = 0"
  by (simp add: fl_def)

text \<open>The error of one rounding is at most one part in \<open>2\<^sup>5\<^sup>3\<close>.\<close>

lemma fl_error: "\<bar>fl q - q\<bar> \<le> \<bar>q\<bar> / 2 ^ 53"
proof (cases "q = 0")
  case False
  define u where "u = ulp q"
  have u: "0 < u" by (simp add: u_def)
  have "fl q = of_int (round_even (q / u)) * u"
    using False by (simp add: fl_def u_def)
  then have "fl q - q = (of_int (round_even (q / u)) - q / u) * u"
    using u by (simp add: field_simps)
  then have "\<bar>fl q - q\<bar> = \<bar>of_int (round_even (q / u)) - q / u\<bar> * u"
    using u by (simp add: abs_mult)
  also have "\<dots> \<le> 1 / 2 * u"
    using u round_even_error by (intro mult_right_mono) auto
  finally have "\<bar>fl q - q\<bar> \<le> u / 2" by simp
  moreover have "2 ^ 52 * u \<le> \<bar>q\<bar>"
    using lead_exp_bounds(1)[OF False] pow2_minus52[of "lead_exp q"] by (simp add: u_def ulp_def)
  ultimately show ?thesis by simp
qed simp

text \<open>Integers below \<open>2\<^sup>5\<^sup>3\<close> are exact.\<close>

lemma lead_exp_nonneg_int:
  assumes "n \<noteq> 0"
  shows "0 \<le> lead_exp (of_int n)"
proof (rule ccontr)
  assume "\<not> 0 \<le> lead_exp (of_int n)"
  then have "nat (- lead_exp (of_int n)) = Suc (nat (- lead_exp (of_int n) - 1))"
    and neg: "lead_exp (of_int n) < 0" by simp_all
  then have "2 * pow2 (lead_exp (of_int n)) \<le> 1"
    by (simp add: pow2_def)
  with lead_exp_bounds(2)[of "of_int n"] assms have "\<bar>of_int n :: rat\<bar> < 1" by simp
  with assms show False by linarith
qed

lemma fl_of_int:
  assumes "\<bar>n\<bar> < 2 ^ 53"
  shows "fl (of_int n) = of_int n"
proof (cases "n = 0")
  case False
  define e where "e = lead_exp (of_int n)"
  have e0: "0 \<le> e" using lead_exp_nonneg_int[OF False] by (simp add: e_def)
  have "pow2 e \<le> \<bar>of_int n\<bar>" using lead_exp_bounds(1)[of "of_int n"] False by (simp add: e_def)
  moreover have "\<bar>of_int n :: rat\<bar> < 2 ^ 53"
    using assms of_int_less_iff[of "\<bar>n\<bar>" "2 ^ 53", where ?'a = rat] by simp
  ultimately have "(2::rat) ^ nat e < 2 ^ 53" using e0 by (simp only: pow2_def if_True)
  then have "nat e < 53" by (rule power_less_imp_less_exp[rotated]) simp
  then have e52: "e \<le> 52" using e0 by simp
  define k where "k = nat (52 - e)"
  have u: "ulp (of_int n) = 1 / 2 ^ k"
  proof (cases "e = 52")
    case True
    then show ?thesis by (simp add: ulp_def k_def pow2_def flip: e_def)
  next
    case False
    with e52 show ?thesis by (simp add: ulp_def k_def pow2_def flip: e_def)
  qed
  have "of_int n / ulp (of_int n) = (of_int (n * 2 ^ k) :: rat)" by (simp add: u)
  then have "round_even (of_int n / ulp (of_int n)) = n * 2 ^ k"
    by (simp only: round_even_of_int)
  with False show ?thesis by (simp add: fl_def u)
qed simp

lemma fl_of_nat: "n < 2 ^ 53 \<Longrightarrow> fl (of_nat n) = of_nat n"
  using fl_of_int[of "int n"] by simp

section \<open>Decoded register values\<close>

text \<open>
  A register value is an integer over 10, 100 or 1000, rounded once. Comparing it with an
  integral limit is comparing the raw integer with the scaled limit: no rounding error shows.
\<close>

lemma fl_ratio_cmp:
  assumes k: "0 < k" "k \<le> 1000" and m: "m < 2 ^ 34"
  shows "n < m * k \<Longrightarrow> fl (of_nat n / of_nat k) < of_nat m"
    and "n = m * k \<Longrightarrow> fl (of_nat n / of_nat k) = of_nat m"
    and "m * k < n \<Longrightarrow> of_nat m < fl (of_nat n / of_nat k)"
proof -
  let ?q = "of_nat n / of_nat k :: rat"
  have kq: "0 < (of_nat k :: rat)" "(of_nat k :: rat) \<le> 1000" using k by simp_all
  have ik: "1 / 1000 \<le> (1 / of_nat k :: rat)" using kq by (simp add: field_simps)
  have mq: "(of_nat m :: rat) \<le> 2 ^ 34"
    using m of_nat_le_iff[of m "2 ^ 34", where ?'a = rat] by simp
  have err: "\<bar>fl ?q - ?q\<bar> \<le> ?q / 2 ^ 53" using fl_error[of ?q] by simp
  show "fl ?q < of_nat m" if "n < m * k"
  proof -
    have "(of_nat n :: rat) + 1 \<le> of_nat m * of_nat k"
      using that of_nat_le_iff[of "n + 1" "m * k", where ?'a = rat] by simp
    then have "(of_nat n + 1) / of_nat k \<le> (of_nat m :: rat)" using kq by (simp add: pos_divide_le_eq)
    then have "?q + 1 / of_nat k \<le> of_nat m" by (simp add: add_divide_distrib)
    with ik have "?q \<le> of_nat m - 1 / 1000" by linarith
    with mq have "?q + ?q / 2 ^ 53 < of_nat m" by simp
    with err show ?thesis by linarith
  qed
  show "fl ?q = of_nat m" if "n = m * k"
  proof -
    have "?q = of_nat m" using that kq by simp
    then show ?thesis using m fl_of_nat[of m] by simp
  qed
  show "of_nat m < fl ?q" if "m * k < n"
  proof -
    have "of_nat m * of_nat k + 1 \<le> (of_nat n :: rat)"
      using that of_nat_le_iff[of "m * k + 1" n, where ?'a = rat] by simp
    then have "of_nat m \<le> (of_nat n - 1) / (of_nat k :: rat)" using kq by (simp add: pos_le_divide_eq)
    then have "of_nat m + 1 / of_nat k \<le> ?q" by (simp add: diff_divide_distrib)
    with ik have "of_nat m + 1 / 1000 \<le> ?q" by linarith
    with mq have "of_nat m < ?q - ?q / 2 ^ 53" by simp
    with err show ?thesis by linarith
  qed
qed

lemma fl_ratio_less:
  assumes "0 < k" "k \<le> 1000" "m < 2 ^ 34"
  shows "fl (of_nat n / of_nat k) < of_nat m \<longleftrightarrow> n < m * k"
  using fl_ratio_cmp[OF assms, of n] by (metis linorder_neqE_nat order_less_asym order_less_irrefl)

lemma fl_ratio_greater:
  assumes "0 < k" "k \<le> 1000" "m < 2 ^ 34"
  shows "of_nat m < fl (of_nat n / of_nat k) \<longleftrightarrow> m * k < n"
  using fl_ratio_cmp[OF assms, of n] by (metis linorder_neqE_nat order_less_asym order_less_irrefl)

text \<open>Rounding a rational that is close to an integer gives the integer.\<close>

lemma f64_round_near:
  assumes "of_nat n - 1 / 2 < x" "x < of_nat n + 1 / 2"
  shows "f64_round x = of_nat n"
proof (cases "0 \<le> x")
  case True
  have "\<lfloor>x + 1 / 2\<rfloor> = int n"
    using assms by (intro floor_unique) simp_all
  with True show ?thesis by (simp add: f64_round_def)
next
  case False
  have "n = 0"
  proof (rule ccontr)
    assume "n \<noteq> 0"
    then have "1 \<le> (of_nat n :: rat)" by simp
    with assms False show False by simp
  qed
  moreover have "\<lfloor>- x + 1 / 2\<rfloor> = 0"
    using assms False \<open>n = 0\<close> by (intro floor_unique) simp_all
  ultimately show ?thesis using False by (simp add: f64_round_def)
qed

lemma fl_near:
  assumes "0 \<le> q" "q \<le> 2 ^ 34"
  shows "q - 1 / 2 ^ 19 \<le> fl q" "fl q \<le> q + 1 / 2 ^ 19"
proof -
  have "\<bar>fl q - q\<bar> \<le> q / 2 ^ 53" using fl_error[of q] assms by simp
  also have "\<dots> \<le> 1 / 2 ^ 19" using assms by simp
  finally show "q - 1 / 2 ^ 19 \<le> fl q" "fl q \<le> q + 1 / 2 ^ 19" by linarith+
qed

lemma fl_nonneg:
  assumes "0 \<le> q" shows "0 \<le> fl q"
proof -
  have "\<bar>fl q - q\<bar> \<le> q / 2 ^ 53" using fl_error[of q] assms by simp
  moreover have "q / 2 ^ 53 \<le> q" using assms by simp
  ultimately show ?thesis by linarith
qed

text \<open>
  The sum of three tenths, rounded to one decimal, is the double closest to the exact total:
  the errors of the rounded operations before the final division never reach half a unit.
\<close>

lemma round1_sum3:
  assumes "a < 2 ^ 32" "b < 2 ^ 32" "c < 2 ^ 32"
  shows "utils_round
           (f64_add (f64_add (f64_div (of_nat a) 10) (f64_div (of_nat b) 10)) (f64_div (of_nat c) 10)) 1
         = f64_div (of_nat (a + b + c)) 10"
proof -
  define qa qb qc :: rat where "qa = of_nat a / 10" and "qb = of_nat b / 10" and "qc = of_nat c / 10"
  define A B C where "A = fl qa" and "B = fl qb" and "C = fl qc"
  define S where "S = fl (A + B)"
  define T where "T = fl (S + C)"
  define P where "P = fl (T * 10)"
  have q: "0 \<le> qa" "qa \<le> 2 ^ 29" "0 \<le> qb" "qb \<le> 2 ^ 29" "0 \<le> qc" "qc \<le> 2 ^ 29"
    using assms of_nat_less_iff[of a "2 ^ 32", where ?'a = rat]
      of_nat_less_iff[of b "2 ^ 32", where ?'a = rat] of_nat_less_iff[of c "2 ^ 32", where ?'a = rat]
    by (simp_all add: qa_def qb_def qc_def)
  have nn: "0 \<le> A" "0 \<le> B" "0 \<le> C" using q by (simp_all add: A_def B_def C_def fl_nonneg)
  have A: "qa - 1 / 2 ^ 19 \<le> A" "A \<le> qa + 1 / 2 ^ 19"
    using fl_near[of qa] q by (simp_all add: A_def)
  have B: "qb - 1 / 2 ^ 19 \<le> B" "B \<le> qb + 1 / 2 ^ 19"
    using fl_near[of qb] q by (simp_all add: B_def)
  have C: "qc - 1 / 2 ^ 19 \<le> C" "C \<le> qc + 1 / 2 ^ 19"
    using fl_near[of qc] q by (simp_all add: C_def)
  have sn: "0 \<le> S" using nn by (simp add: S_def fl_nonneg)
  have S: "A + B - 1 / 2 ^ 19 \<le> S" "S \<le> A + B + 1 / 2 ^ 19"
    unfolding S_def using q nn A B by (intro fl_near; simp)+
  have tn: "0 \<le> T" using nn sn by (simp add: T_def fl_nonneg)
  have T: "S + C - 1 / 2 ^ 19 \<le> T" "T \<le> S + C + 1 / 2 ^ 19"
    unfolding T_def using q nn sn A B C S by (intro fl_near; simp)+
  have P: "T * 10 - 1 / 2 ^ 19 \<le> P" "P \<le> T * 10 + 1 / 2 ^ 19"
    unfolding P_def using q tn A B C S T by (intro fl_near; simp)+
  have "of_nat (a + b + c) = 10 * (qa + qb + qc)" by (simp add: qa_def qb_def qc_def)
  with A B C S T P have "of_nat (a + b + c) - 1 / 2 < P" "P < of_nat (a + b + c) + 1 / 2"
    by (simp_all del: of_nat_add)
  then have "f64_round P = of_nat (a + b + c)" by (rule f64_round_near)
  then show ?thesis
    by (simp add: utils_round_def f64_add_def f64_mul_def f64_div_def P_def T_def S_def A_def B_def C_def
        qa_def qb_def qc_def)
qed

end
