(* ===== verification/Texts.thy ===== *)
theory Texts
  imports Bridge_Prelude
begin

text \<open>
  Text as the bridge handles it: a Rust string is the list of its UTF-8 bytes, kept as a
  \<open>string\<close> (a character is a byte). The theory models the standard-library functions the
  sources call on text: decimal and hexadecimal printing (\<^verbatim>\<open>{}\<close>, \<^verbatim>\<open>{:02}\<close>, \<^verbatim>\<open>{:04x}\<close>,
  \<^verbatim>\<open>{:04X}\<close>), \<^verbatim>\<open>str::parse\<close> for unsigned integers and \<^verbatim>\<open>from_str_radix\<close>, \<^verbatim>\<open>split\<close>,
  \<^verbatim>\<open>join\<close>, \<^verbatim>\<open>replace\<close>, \<^verbatim>\<open>to_ascii_lowercase\<close> and \<^verbatim>\<open>String::from_utf8_lossy\<close>.
\<close>

named_theorems text_simps \<open>evaluation of text functions\<close>

section \<open>Printing\<close>

definition digit_char :: "bool \<Rightarrow> nat \<Rightarrow> char" where
  "digit_char upper d =
     (if d < 10 then char_of (48 + d) else char_of ((if upper then 55 else 87) + d))"

fun show_radix :: "bool \<Rightarrow> nat \<Rightarrow> nat \<Rightarrow> string" where
  "show_radix upper r n =
     (if n < r \<or> r < 2 then [digit_char upper n]
      else show_radix upper r (n div r) @ [digit_char upper (n mod r)])"

declare show_radix.simps [simp del]

definition show_nat :: "nat \<Rightarrow> string" where
  "show_nat n = show_radix False 10 n"

definition pad_left :: "nat \<Rightarrow> string \<Rightarrow> string" where
  "pad_left w s = replicate (w - length s) (CHR ''0'') @ s"

definition show_02 :: "nat \<Rightarrow> string" where
  "show_02 n = pad_left 2 (show_nat n)"

definition show_04x :: "nat \<Rightarrow> string" where
  "show_04x n = pad_left 4 (show_radix False 16 n)"

definition show_04X :: "nat \<Rightarrow> string" where
  "show_04X n = pad_left 4 (show_radix True 16 n)"

section \<open>Parsing\<close>

definition char_digit :: "nat \<Rightarrow> char \<Rightarrow> nat option" where
  "char_digit r c =
     (let k = of_char c :: nat;
          d = (if 48 \<le> k \<and> k \<le> 57 then k - 48
               else if 97 \<le> k \<and> k \<le> 122 then k - 87
               else if 65 \<le> k \<and> k \<le> 90 then k - 55 else r)
      in if d < r then Some d else None)"

fun parse_digits :: "nat \<Rightarrow> nat \<Rightarrow> string \<Rightarrow> nat option" where
  "parse_digits r acc [] = Some acc"
| "parse_digits r acc (c # cs) =
     (case char_digit r c of None \<Rightarrow> None | Some d \<Rightarrow> parse_digits r (acc * r + d) cs)"

text \<open>
  \<^verbatim>\<open>uN::from_str_radix\<close>: one leading plus sign is allowed, at least one digit is needed, and a
  value of \<open>2\<^sup>w\<close> or more is an overflow error.
\<close>

definition parse_radix :: "nat \<Rightarrow> string \<Rightarrow> 'a::len word option" where
  "parse_radix r s =
     (let t = (case s of c # cs \<Rightarrow> if c = CHR ''+'' then cs else s | [] \<Rightarrow> s)
      in if t = [] then None
         else (case parse_digits r 0 t of
                 None \<Rightarrow> None
               | Some n \<Rightarrow> if n < 2 ^ LENGTH('a) then Some (word_of_nat n) else None))"

definition parse_uint :: "string \<Rightarrow> 'a::len word outcome" where
  "parse_uint s = ok_or (parse_radix 10 s) ''ParseIntError''"

section \<open>Round trip\<close>

lemma of_char_char_of_nat: "n < 256 \<Longrightarrow> (of_char (char_of n) :: nat) = n"
  by simp

lemma char_digit_digit_char:
  assumes "d < r" "r \<le> 16"
  shows "char_digit r (digit_char upper d) = Some d"
  using assms by (auto simp: char_digit_def digit_char_def Let_def)

lemma digit_char_not_plus: "d < 16 \<Longrightarrow> digit_char upper d \<noteq> CHR ''+''"
proof
  assume "d < 16" "digit_char upper d = CHR ''+''"
  then have "(of_char (digit_char upper d) :: nat) = 43" by simp
  with \<open>d < 16\<close> show False by (auto simp: digit_char_def split: if_splits)
qed

lemma parse_digits_append:
  "parse_digits r acc (xs @ ys) =
     (case parse_digits r acc xs of None \<Rightarrow> None | Some a \<Rightarrow> parse_digits r a ys)"
  by (induction xs arbitrary: acc) (auto split: option.splits)

lemma show_radix_nonempty: "show_radix upper r n \<noteq> []"
  by (subst show_radix.simps) simp

lemma parse_show_radix:
  assumes "2 \<le> r" "r \<le> 16"
  shows "parse_digits r 0 (show_radix upper r n) = Some n"
  using assms
proof (induction upper r n rule: show_radix.induct)
  case (1 upper r n)
  show ?case
  proof (cases "n < r")
    case True
    with 1 show ?thesis by (subst show_radix.simps) (simp add: char_digit_digit_char)
  next
    case False
    with 1 have IH: "parse_digits r 0 (show_radix upper r (n div r)) = Some (n div r)" by simp
    have m: "n mod r < r" using 1 by simp
    from False 1 show ?thesis
      by (subst show_radix.simps) (simp add: parse_digits_append IH char_digit_digit_char[OF m])
  qed
qed

lemma hd_show_radix: "2 \<le> r \<Longrightarrow> r \<le> 16 \<Longrightarrow> hd (show_radix upper r n) \<noteq> CHR ''+''"
proof (induction upper r n rule: show_radix.induct)
  case (1 upper r n)
  then show ?case
    by (subst show_radix.simps)
      (auto simp: digit_char_not_plus hd_append show_radix_nonempty intro: digit_char_not_plus)
qed

lemma parse_radix_no_plus:
  "s \<noteq> [] \<Longrightarrow> hd s \<noteq> CHR ''+'' \<Longrightarrow>
   (parse_radix r s :: 'a::len word option) =
     (case parse_digits r 0 s of
        None \<Rightarrow> None | Some n \<Rightarrow> if n < 2 ^ LENGTH('a) then Some (word_of_nat n) else None)"
  by (cases s) (auto simp: parse_radix_def Let_def)

lemma parse_radix_show:
  assumes "2 \<le> r" "r \<le> 16"
  shows "parse_radix r (show_radix upper r (unat w)) = Some (w :: 'a::len word)"
  using assms
  by (simp add: parse_radix_no_plus show_radix_nonempty hd_show_radix parse_show_radix unsigned_less)

lemma parse_uint_show_nat [text_simps]: "parse_uint (show_nat (unat w)) = Ok (w :: 'a::len word)"
  by (simp add: parse_uint_def show_nat_def parse_radix_show)

lemma show_nat_inject [simp]: "show_nat m = show_nat n \<longleftrightarrow> m = n"
  by (metis parse_show_radix show_nat_def option.inject numeral_le_iff semiring_norm(69) semiring_norm(71)
      order_refl one_le_numeral le_numeral_extra(4) numerals(1) Num.le_num_simps nat_le_linear numeral_One)

lemma parse_digits_zeros: "parse_digits r 0 (replicate k (CHR ''0'') @ s) = parse_digits r 0 s" if "2 \<le> r"
  using that by (induction k) (auto simp: char_digit_def Let_def)

lemma parse_radix_show_04x [text_simps]:
  "parse_radix 16 (show_04x (unat w)) = Some (w :: 'a::len word)"
  by (subst parse_radix_no_plus)
    (auto simp: show_04x_def pad_left_def show_radix_nonempty hd_append hd_replicate hd_show_radix
      parse_digits_zeros parse_show_radix unsigned_less)

section \<open>Splitting and joining\<close>

fun split_on :: "char \<Rightarrow> string \<Rightarrow> string list" where
  "split_on c [] = [[]]"
| "split_on c (x # xs) =
     (if x = c then [] # split_on c xs
      else (case split_on c xs of [] \<Rightarrow> [[x]] | y # ys \<Rightarrow> (x # y) # ys))"

fun join :: "string \<Rightarrow> string list \<Rightarrow> string" where
  "join sep [] = []"
| "join sep [x] = x"
| "join sep (x # y # xs) = x @ sep @ join sep (y # xs)"

definition replace_char :: "char \<Rightarrow> char \<Rightarrow> string \<Rightarrow> string" where
  "replace_char a b = map (\<lambda>c. if c = a then b else c)"

definition ascii_lower :: "char \<Rightarrow> char" where
  "ascii_lower c = (let k = of_char c :: nat in if 65 \<le> k \<and> k \<le> 90 then char_of (k + 32) else c)"

definition to_ascii_lowercase :: "string \<Rightarrow> string" where
  "to_ascii_lowercase = map ascii_lower"

lemma split_on_nonempty [simp]: "split_on c xs \<noteq> []"
  by (induction xs) (auto split: list.splits)

lemma split_on_no_sep: "c \<notin> set s \<Longrightarrow> split_on c s = [s]"
  by (induction s) auto

lemma split_on_append: "c \<notin> set a \<Longrightarrow> split_on c (a @ c # b) = a # split_on c b"
  by (induction a) auto

lemma split_on_join:
  "xs \<noteq> [] \<Longrightarrow> (\<And>x. x \<in> set xs \<Longrightarrow> c \<notin> set x) \<Longrightarrow> split_on c (join [c] xs) = xs"
proof (induction "[c]" xs rule: join.induct)
  case (3 x y xs)
  then show ?case by (simp add: split_on_append)
qed (auto simp: split_on_no_sep)

lemma set_show_radix: "2 \<le> r \<Longrightarrow> r \<le> 16 \<Longrightarrow> c \<in> set (show_radix upper r n) \<Longrightarrow> char_digit r c \<noteq> None"
proof (induction upper r n rule: show_radix.induct)
  case (1 upper r n)
  then show ?case
    by (subst (asm) (2) show_radix.simps) (auto split: if_splits simp: char_digit_digit_char)
qed

lemma show_nat_no_char: "char_digit 10 c = None \<Longrightarrow> c \<notin> set (show_nat n)"
  using set_show_radix[of 10 c False n] by (auto simp: show_nat_def)

lemma slash_notin_show_nat [simp]: "CHR ''/'' \<notin> set (show_nat n)"
  by (rule show_nat_no_char) (simp add: char_digit_def)

section \<open>UTF-8\<close>

definition str_of_bytes :: "bytes \<Rightarrow> string" where
  "str_of_bytes = map (\<lambda>b. char_of (unat b))"

definition bytes_of_str :: "string \<Rightarrow> bytes" where
  "bytes_of_str = map (\<lambda>c. word_of_nat (of_char c))"

lemma bytes_of_str_of_bytes [simp]: "bytes_of_str (str_of_bytes bs) = bs"
proof -
  have "unat b mod 256 = unat b" for b :: u8
    using unsigned_less[of b, where ?'a = nat] by simp
  then show ?thesis by (simp add: bytes_of_str_def str_of_bytes_def comp_def of_char_mod_256 map_idI)
qed

lemma str_of_bytes_of_str [simp]: "str_of_bytes (bytes_of_str s) = s"
proof -
  have "unat (word_of_nat (of_char c) :: u8) = of_char c" for c
    by (simp add: unat_of_nat of_char_mod_256)
  then show ?thesis by (simp add: bytes_of_str_def str_of_bytes_def comp_def map_idI)
qed

lemma length_str_of_bytes [simp]: "length (str_of_bytes bs) = length bs"
  by (simp add: str_of_bytes_def)

lemma length_bytes_of_str [simp]: "length (bytes_of_str s) = length s"
  by (simp add: bytes_of_str_def)

definition cont :: "u8 \<Rightarrow> bool" where
  "cont b \<longleftrightarrow> 0x80 \<le> b \<and> b \<le> 0xBF"

text \<open>Whether a second byte is allowed after a first byte of a three- or four-byte character.\<close>

definition second3 :: "u8 \<Rightarrow> u8 \<Rightarrow> bool" where
  "second3 a b \<longleftrightarrow> cont b \<and> (a = 0xE0 \<longrightarrow> 0xA0 \<le> b) \<and> (a = 0xED \<longrightarrow> b \<le> 0x9F)"

definition second4 :: "u8 \<Rightarrow> u8 \<Rightarrow> bool" where
  "second4 a b \<longleftrightarrow> cont b \<and> (a = 0xF0 \<longrightarrow> 0x90 \<le> b) \<and> (a = 0xF4 \<longrightarrow> b \<le> 0x8F)"

text \<open>
  \<^verbatim>\<open>String::from_utf8_lossy\<close>: every maximal prefix of an ill-formed character becomes one
  replacement character (the bytes \<^verbatim>\<open>EF BF BD\<close>).
\<close>

definition replacement :: bytes where
  "replacement = [0xEF, 0xBF, 0xBD]"

fun utf8_lossy :: "bytes \<Rightarrow> bytes" where
  "utf8_lossy [] = []"
| "utf8_lossy (a # r) =
    (if a < 0x80 then a # utf8_lossy r
     else if 0xC2 \<le> a \<and> a \<le> 0xDF then
       (case r of b # r1 \<Rightarrow> if cont b then a # b # utf8_lossy r1 else replacement @ utf8_lossy r
        | [] \<Rightarrow> replacement)
     else if 0xE0 \<le> a \<and> a \<le> 0xEF then
       (case r of b # r1 \<Rightarrow>
          if second3 a b then
            (case r1 of c # r2 \<Rightarrow> if cont c then a # b # c # utf8_lossy r2 else replacement @ utf8_lossy r1
             | [] \<Rightarrow> replacement)
          else replacement @ utf8_lossy r
        | [] \<Rightarrow> replacement)
     else if 0xF0 \<le> a \<and> a \<le> 0xF4 then
       (case r of b # r1 \<Rightarrow>
          if second4 a b then
            (case r1 of c # r2 \<Rightarrow>
               if cont c then
                 (case r2 of d # r3 \<Rightarrow> if cont d then a # b # c # d # utf8_lossy r3
                                      else replacement @ utf8_lossy r2
                  | [] \<Rightarrow> replacement)
               else replacement @ utf8_lossy r1
             | [] \<Rightarrow> replacement)
          else replacement @ utf8_lossy r
        | [] \<Rightarrow> replacement)
     else replacement @ utf8_lossy r)"

declare utf8_lossy.simps(2) [simp del]

lemma utf8_lossy_ascii: "(\<And>b. b \<in> set bs \<Longrightarrow> b < 0x80) \<Longrightarrow> utf8_lossy bs = bs"
  by (induction bs) (simp_all add: utf8_lossy.simps(2))

end
