(* ===== verification/Wire.thy ===== *)
theory Wire
  imports Bridge_Prelude Texts F64
begin

text \<open>
  Serial numbers (\<^verbatim>\<open>Serial\<close> of \<^verbatim>\<open>eg4/inverter.rs\<close>) and the binary parsers of \<^verbatim>\<open>utils.rs\<close>, with
  the parser combinators that the derive attribute \<^verbatim>\<open>Nom\<close> expands to.

  The crate \<^verbatim>\<open>nom\<close> is not part of the repository. Its primitive parsers are a record
  \<open>nom_lib\<close> that every parser of the model takes as an argument, and \<open>nom_ok\<close> states their
  documented behaviour: a little-endian integer is read from the front of the input, and the
  parse fails exactly when too few bytes are left. The streaming and the complete variants of
  \<^verbatim>\<open>nom\<close> differ only in the error value on short input, which the bridge prints and drops, so a
  failure is \<open>None\<close> here.
\<close>

section \<open>Serial numbers\<close>

datatype serial = Serial (serial_data: bytes)

text \<open>The type of the field is \<^verbatim>\<open>[u8; 10]\<close>.\<close>

definition serial_wf :: "serial \<Rightarrow> bool" where
  "serial_wf s = (length (serial_data s) = 10)"

definition serial_default :: serial where
  "serial_default = Serial (replicate 10 0)"

definition serial_new :: "bytes \<Rightarrow> serial outcome" where
  "serial_new bs = (if length bs = 10 then Ok (Serial bs) else Err ''TryFromSliceError'')"

text \<open>\<^verbatim>\<open>From<&[u8]>\<close> and \<^verbatim>\<open>From<&str>\<close>: \<^verbatim>\<open>copy_from_slice\<close> panics when the lengths differ.\<close>

definition serial_from_slice :: "bytes \<Rightarrow> serial outcome" where
  "serial_from_slice bs =
     (let src = take (min (length bs) 10) bs
      in if length src = 10 then Ok (Serial src) else Panic)"

definition serial_from_str :: "string \<Rightarrow> serial outcome" where
  "serial_from_str s =
     (if length s \<noteq> 10 then Err ''inverter.rs:{} must be exactly 10 characters''
      else Ok (Serial (bytes_of_str s)))"

definition serial_display :: "serial \<Rightarrow> string" where
  "serial_display s = str_of_bytes (utf8_lossy (serial_data s))"

lemma serial_wf_default [simp]: "serial_wf serial_default"
  by (simp add: serial_wf_def serial_default_def)

lemma serial_new_Ok [simp, outcome_simps]: "length bs = 10 \<Longrightarrow> serial_new bs = Ok (Serial bs)"
  by (simp add: serial_new_def)

lemma serial_wf_Serial [simp]: "serial_wf (Serial bs) \<longleftrightarrow> length bs = 10"
  by (simp add: serial_wf_def)

lemma length_serial_data [simp]: "serial_wf s \<Longrightarrow> length (serial_data s) = 10"
  by (simp add: serial_wf_def)

lemma serial_new_eq_Ok: "serial_new bs = Ok s \<longleftrightarrow> length bs = 10 \<and> s = Serial bs"
  by (auto simp: serial_new_def)

section \<open>Primitive parsers\<close>

type_synonym 'a parser = "bytes \<Rightarrow> (bytes \<times> 'a) option"

record nom_lib =
  nom_u8 :: "u8 parser"
  nom_i8 :: "u8 parser"
  nom_u16 :: "u16 parser"
  nom_u32 :: "u32 parser"
  nom_take :: "nat \<Rightarrow> bytes parser"

definition reads :: "'a parser \<Rightarrow> nat \<Rightarrow> (bytes \<Rightarrow> 'a) \<Rightarrow> bool" where
  "reads p n g = (\<forall>bs. p bs = (if n \<le> length bs then Some (drop n bs, g bs) else None))"

text \<open>The value of a 16-bit and of a 32-bit register at a byte position.\<close>

definition word_at :: "bytes \<Rightarrow> nat \<Rightarrow> u16" where
  "word_at bs i = u16_from_le (bs ! i) (bs ! (i + 1))"

definition dword_at :: "bytes \<Rightarrow> nat \<Rightarrow> u32" where
  "dword_at bs i = u32_from_le (bs ! i) (bs ! (i + 1)) (bs ! (i + 2)) (bs ! (i + 3))"

definition nom_ok :: "nom_lib \<Rightarrow> bool" where
  "nom_ok N \<longleftrightarrow>
     reads (nom_u8 N) 1 (\<lambda>bs. bs ! 0) \<and>
     reads (nom_i8 N) 1 (\<lambda>bs. bs ! 0) \<and>
     reads (nom_u16 N) 2 (\<lambda>bs. word_at bs 0) \<and>
     reads (nom_u32 N) 4 (\<lambda>bs. dword_at bs 0) \<and>
     (\<forall>n. reads (nom_take N n) n (take n))"

text \<open>A concrete library that has the documented behaviour, for evaluating the model.\<close>

definition nom_reader :: "nat \<Rightarrow> (bytes \<Rightarrow> 'a) \<Rightarrow> 'a parser" where
  "nom_reader n g bs = (if n \<le> length bs then Some (drop n bs, g bs) else None)"

definition nom_ref :: nom_lib where
  "nom_ref =
     \<lparr> nom_u8 = nom_reader 1 (\<lambda>bs. bs ! 0),
       nom_i8 = nom_reader 1 (\<lambda>bs. bs ! 0),
       nom_u16 = nom_reader 2 (\<lambda>bs. word_at bs 0),
       nom_u32 = nom_reader 4 (\<lambda>bs. dword_at bs 0),
       nom_take = (\<lambda>n. nom_reader n (take n)) \<rparr>"

lemma nom_ok_ref [simp]: "nom_ok nom_ref"
  by (simp add: nom_ok_def nom_ref_def reads_def nom_reader_def)

section \<open>Combinators\<close>

definition preturn :: "'a \<Rightarrow> 'a parser" where
  "preturn a bs = Some (bs, a)"

definition pbind :: "'a parser \<Rightarrow> ('a \<Rightarrow> 'b parser) \<Rightarrow> 'b parser" where
  "pbind p f bs = (case p bs of None \<Rightarrow> None | Some (rest, a) \<Rightarrow> f a rest)"

text \<open>\<^verbatim>\<open>SkipBefore(n)\<close>.\<close>

definition skip_before :: "nom_lib \<Rightarrow> nat \<Rightarrow> 'a parser \<Rightarrow> 'a parser" where
  "skip_before N n p = pbind (nom_take N n) (\<lambda>_. p)"

section \<open>The parsers of Utils\<close>

definition le_u16_checked_div10 :: "nom_lib \<Rightarrow> f64 option parser" where
  "le_u16_checked_div10 N =
     pbind (nom_u16 N) (\<lambda>num.
       if num = 0 \<or> num = 0xFFFF then preturn None
       else preturn (Some (f64_div (f64_of_word num) 10)))"

definition le_u16_div10 :: "nom_lib \<Rightarrow> f64 parser" where
  "le_u16_div10 N = pbind (nom_u16 N) (\<lambda>num. preturn (f64_div (f64_of_word num) 10))"

definition le_u16_div100 :: "nom_lib \<Rightarrow> f64 parser" where
  "le_u16_div100 N = pbind (nom_u16 N) (\<lambda>num. preturn (f64_div (f64_of_word num) 100))"

definition le_u16_div1000 :: "nom_lib \<Rightarrow> f64 parser" where
  "le_u16_div1000 N = pbind (nom_u16 N) (\<lambda>num. preturn (f64_div (f64_of_word num) 1000))"

definition le_u32_div10 :: "nom_lib \<Rightarrow> f64 parser" where
  "le_u32_div10 N = pbind (nom_u32 N) (\<lambda>num. preturn (f64_div (f64_of_word num) 10))"

definition le_u32_checked_div10 :: "nom_lib \<Rightarrow> f64 option parser" where
  "le_u32_checked_div10 N =
     pbind (nom_u32 N) (\<lambda>num.
       if num = 0 \<or> num = 0xFFFFFFFF then preturn None
       else preturn (Some (f64_div (f64_of_word num) 10)))"

text \<open>The clock is an argument: the Unix time in seconds that \<^verbatim>\<open>UnixTime::now()\<close> returns.\<close>

type_synonym unix_time = int

definition current_time_for_nom :: "unix_time \<Rightarrow> unix_time parser" where
  "current_time_for_nom now = preturn now"

section \<open>What a sequence of parsers reads\<close>

text \<open>
  The values that the \<open>Utils\<close> parsers compute from a register, as functions of the bytes.
\<close>

definition deci :: "u16 \<Rightarrow> f64" where "deci w = f64_div (f64_of_word w) 10"
definition centi :: "u16 \<Rightarrow> f64" where "centi w = f64_div (f64_of_word w) 100"
definition milli :: "u16 \<Rightarrow> f64" where "milli w = f64_div (f64_of_word w) 1000"
definition deci32 :: "u32 \<Rightarrow> f64" where "deci32 w = f64_div (f64_of_word w) 10"
definition checked_deci :: "u16 \<Rightarrow> f64 option" where
  "checked_deci w = (if w = 0 \<or> w = 0xFFFF then None else Some (deci w))"

lemma reads_preturn: "reads (preturn a) 0 (\<lambda>_. a)"
  by (simp add: reads_def preturn_def)

lemma reads_time: "reads (current_time_for_nom now) 0 (\<lambda>_. now)"
  by (simp add: current_time_for_nom_def reads_preturn)

lemma reads_pbind:
  assumes "reads p n g" and "\<And>a. reads (f a) m (h a)"
  shows "reads (pbind p f) (n + m) (\<lambda>bs. h (g bs) (drop n bs))"
  using assms unfolding reads_def pbind_def
  by (auto simp: drop_drop add.commute)

lemma reads_map:
  assumes "reads p n g"
  shows "reads (pbind p (\<lambda>a. preturn (f a))) n (\<lambda>bs. f (g bs))"
  using reads_pbind[OF assms reads_preturn] by simp

lemma nom_okD:
  assumes "nom_ok N"
  shows "reads (nom_u8 N) 1 (\<lambda>bs. bs ! 0)" "reads (nom_i8 N) 1 (\<lambda>bs. bs ! 0)"
    "reads (nom_u16 N) 2 (\<lambda>bs. word_at bs 0)" "reads (nom_u32 N) 4 (\<lambda>bs. dword_at bs 0)"
    "reads (nom_take N n) n (take n)"
  using assms by (simp_all add: nom_ok_def)

lemma reads_utils:
  assumes "nom_ok N"
  shows "reads (le_u16_div10 N) 2 (\<lambda>bs. deci (word_at bs 0))"
    "reads (le_u16_div100 N) 2 (\<lambda>bs. centi (word_at bs 0))"
    "reads (le_u16_div1000 N) 2 (\<lambda>bs. milli (word_at bs 0))"
    "reads (le_u32_div10 N) 4 (\<lambda>bs. deci32 (dword_at bs 0))"
  unfolding le_u16_div10_def le_u16_div100_def le_u16_div1000_def le_u32_div10_def
    deci_def centi_def milli_def deci32_def
  by (rule reads_map nom_okD[OF assms])+

lemma reads_checked:
  assumes "nom_ok N"
  shows "reads (le_u16_checked_div10 N) 2 (\<lambda>bs. checked_deci (word_at bs 0))"
proof -
  have "le_u16_checked_div10 N = pbind (nom_u16 N) (\<lambda>num. preturn (checked_deci num))"
    by (auto simp: le_u16_checked_div10_def checked_deci_def deci_def fun_eq_iff pbind_def split: option.splits)
  then show ?thesis
    using reads_map[OF nom_okD(3)[OF assms]] by simp
qed

lemma reads_skip:
  assumes "nom_ok N" "reads p n g"
  shows "reads (skip_before N k p) (k + n) (\<lambda>bs. g (drop k bs))"
  unfolding skip_before_def using reads_pbind[OF nom_okD(5)[OF assms(1)] assms(2)] .

lemma reads_length: "reads p n g \<Longrightarrow> p bs \<noteq> None \<longleftrightarrow> n \<le> length bs"
  by (auto simp: reads_def)

text \<open>
  The shape of the parsers below: a field parser followed by the rest. A goal
  \<open>reads (pbind p f) ?n ?g\<close> is split by \<open>reads_pbind\<close>, the field parsers are closed by
  \<open>reads_utils\<close> and \<open>nom_okD\<close>, and the record is closed by \<open>reads_preturn\<close>.
\<close>

lemma word_at_drop: "word_at (drop k bs) i = word_at bs (k + i)" if "k + i + 1 < length bs"
  using that by (simp add: word_at_def add.assoc)

lemma dword_at_drop: "dword_at (drop k bs) i = dword_at bs (k + i)" if "k + i + 3 < length bs"
  using that by (simp add: dword_at_def add.assoc)

text \<open>A weaker statement for the long structs: only how many bytes are needed.\<close>

definition plen :: "'a parser \<Rightarrow> nat \<Rightarrow> bool" where
  "plen p n = (\<forall>bs. (n \<le> length bs \<longrightarrow> (\<exists>a. p bs = Some (drop n bs, a))) \<and> (length bs < n \<longrightarrow> p bs = None))"

lemma plen_reads: "reads p n g \<Longrightarrow> plen p n"
  by (auto simp: reads_def plen_def)

lemma plen_pbind:
  assumes "plen p n" and "\<And>a. plen (f a) m"
  shows "plen (pbind p f) (n + m)"
  unfolding plen_def
proof (intro allI conjI impI)
  fix bs :: bytes
  assume le: "n + m \<le> length bs"
  then have "n \<le> length bs" by simp
  with assms(1) obtain a where a: "p bs = Some (drop n bs, a)" by (auto simp: plen_def)
  from le have "m \<le> length (drop n bs)" by simp
  with assms(2)[of a] obtain b where "f a (drop n bs) = Some (drop m (drop n bs), b)"
    unfolding plen_def by blast
  with a show "\<exists>b. pbind p f bs = Some (drop (n + m) bs, b)" by (simp add: pbind_def add.commute)
next
  fix bs :: bytes
  assume lt: "length bs < n + m"
  show "pbind p f bs = None"
  proof (cases "n \<le> length bs")
    case True
    then obtain a where a: "p bs = Some (drop n bs, a)" using assms(1) by (auto simp: plen_def)
    from lt True assms(2)[of a] have "f a (drop n bs) = None" by (auto simp: plen_def)
    with a show ?thesis by (simp add: pbind_def)
  next
    case False
    with assms(1) show ?thesis by (simp add: pbind_def plen_def)
  qed
qed

lemma plen_field:
  assumes "nom_ok N"
  shows "plen (nom_u8 N) 1" "plen (nom_i8 N) 1" "plen (nom_u16 N) 2" "plen (nom_u32 N) 4"
    "plen (le_u16_div10 N) 2" "plen (le_u16_div100 N) 2" "plen (le_u16_div1000 N) 2"
    "plen (le_u32_div10 N) 4" "plen (le_u16_checked_div10 N) 2"
  by (rule plen_reads nom_okD[OF assms] reads_utils[OF assms] reads_checked[OF assms])+

lemma plen_skip: "nom_ok N \<Longrightarrow> plen p n \<Longrightarrow> plen (skip_before N k p) (k + n)"
  unfolding skip_before_def by (rule plen_pbind[OF plen_reads[OF nom_okD(5)]])

lemma plen_free: "plen (preturn a) 0" "plen (current_time_for_nom now) 0"
  by (auto intro: plen_reads reads_preturn reads_time)

lemmas plen_intros = plen_pbind plen_skip plen_field plen_free

end
