(* ===== verification/Codes.thy ===== *)
theory Codes
  imports Bridge_Prelude Texts
begin

text \<open>
  The code tables of \<^verbatim>\<open>eg4/packet.rs\<close>: the enums that stand for numbers on the wire
  (\<^verbatim>\<open>TcpFunction\<close>, \<^verbatim>\<open>DeviceFunction\<close>, \<^verbatim>\<open>Register\<close>, \<^verbatim>\<open>RegisterBit\<close>, \<^verbatim>\<open>ModbusError\<close>), each with its
  number and, where the code converts back, the conversion that rejects every other number, and
  the tables that turn a status, warning, fault or battery word into text. A constructor carries
  the source's name after a prefix that says which enum it belongs to.
\<close>

section \<open>TCP functions\<close>

datatype tcp_function =
  TcpHeartbeat | TcpTranslatedData | TcpReadParam | TcpWriteParam

primrec tcp_function_u8 :: "tcp_function \<Rightarrow> u8" where
  "tcp_function_u8 TcpHeartbeat = 193"
| "tcp_function_u8 TcpTranslatedData = 194"
| "tcp_function_u8 TcpReadParam = 195"
| "tcp_function_u8 TcpWriteParam = 196"

definition tcp_function_try_from :: "u8 \<Rightarrow> tcp_function outcome" where
  "tcp_function_try_from n =
     (if n = 193 then Ok TcpHeartbeat else
      if n = 194 then Ok TcpTranslatedData else
      if n = 195 then Ok TcpReadParam else
      if n = 196 then Ok TcpWriteParam else
      Err ''TryFromPrimitiveError'')"

lemma tcp_function_round_trip [simp]: "tcp_function_try_from (tcp_function_u8 f) = Ok f"
  by (cases f) (simp_all add: tcp_function_try_from_def)

lemma tcp_function_try_from_Ok: "tcp_function_try_from n = Ok f \<longleftrightarrow> n = tcp_function_u8 f"
  by (cases f) (auto simp: tcp_function_try_from_def split: if_splits)

lemma tcp_function_not_Panic [simp]: "tcp_function_try_from n \<noteq> Panic"
  by (simp add: tcp_function_try_from_def)

section \<open>Modbus functions\<close>

datatype device_function =
  DevReadHold | DevReadInput | DevWriteSingle | DevWriteMulti | DevUpdatePrepare
  | DevUpdateSendData | DevUpdateReset | DevReadHoldError | DevReadInputError
  | DevWriteSingleError | DevWriteMultiError

primrec device_function_u8 :: "device_function \<Rightarrow> u8" where
  "device_function_u8 DevReadHold = 0x03"
| "device_function_u8 DevReadInput = 0x04"
| "device_function_u8 DevWriteSingle = 0x06"
| "device_function_u8 DevWriteMulti = 0x10"
| "device_function_u8 DevUpdatePrepare = 0x21"
| "device_function_u8 DevUpdateSendData = 0x22"
| "device_function_u8 DevUpdateReset = 0x23"
| "device_function_u8 DevReadHoldError = 0x83"
| "device_function_u8 DevReadInputError = 0x84"
| "device_function_u8 DevWriteSingleError = 0x86"
| "device_function_u8 DevWriteMultiError = 0x90"

definition device_function_try_from :: "u8 \<Rightarrow> device_function outcome" where
  "device_function_try_from n =
     (if n = 0x03 then Ok DevReadHold else
      if n = 0x04 then Ok DevReadInput else
      if n = 0x06 then Ok DevWriteSingle else
      if n = 0x10 then Ok DevWriteMulti else
      if n = 0x21 then Ok DevUpdatePrepare else
      if n = 0x22 then Ok DevUpdateSendData else
      if n = 0x23 then Ok DevUpdateReset else
      if n = 0x83 then Ok DevReadHoldError else
      if n = 0x84 then Ok DevReadInputError else
      if n = 0x86 then Ok DevWriteSingleError else
      if n = 0x90 then Ok DevWriteMultiError else
      Err ''TryFromPrimitiveError'')"

lemma device_function_round_trip [simp]: "device_function_try_from (device_function_u8 f) = Ok f"
  by (cases f) (simp_all add: device_function_try_from_def)

lemma device_function_try_from_Ok: "device_function_try_from n = Ok f \<longleftrightarrow> n = device_function_u8 f"
  by (cases f) (auto simp: device_function_try_from_def split: if_splits)

lemma device_function_not_Panic [simp]: "device_function_try_from n \<noteq> Panic"
  by (simp add: device_function_try_from_def)

section \<open>Holding registers\<close>

datatype (plugins only: code) register =
  RegModel | RegSerialNum | RegFirmwareCode | RegTime | RegComAddr | RegLanguage
  | RegDeviceType | RegPvInputMode | RegConnectTime | RegReconnectTime | RegAutoTestStatus
  | RegAutoTestLimit | RegAutoTestDefaultTime | RegAutoTestTripValue | RegAutoTestTripTime
  | RegStartPvVolt | RegGridVoltConnLow | RegGridVoltConnHigh | RegGridFreqConnLow
  | RegGridFreqConnHigh | RegGridVoltLimit1Low | RegGridVoltLimit1High
  | RegGridVoltLimit1LowTime | RegGridVoltLimit1HighTime | RegGridVoltLimit2Low
  | RegGridVoltLimit2High | RegGridVoltLimit2LowTime | RegGridVoltLimit2HighTime
  | RegGridVoltLimit3Low | RegGridVoltLimit3High | RegGridVoltLimit3LowTime
  | RegGridVoltLimit3HighTime | RegGridVoltMovAvgHigh | RegGridFreqLimit1Low
  | RegGridFreqLimit1High | RegGridFreqLimit1LowTime | RegGridFreqLimit1HighTime
  | RegGridFreqLimit2Low | RegGridFreqLimit2High | RegGridFreqLimit2LowTime
  | RegGridFreqLimit2HighTime | RegGridFreqLimit3Low | RegGridFreqLimit3High
  | RegGridFreqLimit3LowTime | RegGridFreqLimit3HighTime | RegMaxQPercentForQv | RegV1L
  | RegV2L | RegV1H | RegV2H | RegReactivePowerCmdType | RegActivePowerPercentCmd
  | RegReactivePowerPercentCmd | RegPfCmd | RegPowerSoftStartSlope | RegRegister21
  | RegChargePowerPercentCmd | RegDischgPowerPercentCmd | RegAcChargePowerCmd
  | RegAcChargeSocLimit | RegChargePriorityPowerCmd | RegChargePrioritySocLimit
  | RegForcedDischgSocLimit | RegDischgCutOffSocEod | RegEpsDischgCutoffSocEod
  | RegAcChargeStartSocLimit | RegAcChargeEndSocLimit

primrec register_u16 :: "register \<Rightarrow> u16" where
  "register_u16 RegModel = 0"
| "register_u16 RegSerialNum = 2"
| "register_u16 RegFirmwareCode = 7"
| "register_u16 RegTime = 12"
| "register_u16 RegComAddr = 15"
| "register_u16 RegLanguage = 16"
| "register_u16 RegDeviceType = 19"
| "register_u16 RegPvInputMode = 20"
| "register_u16 RegConnectTime = 23"
| "register_u16 RegReconnectTime = 24"
| "register_u16 RegAutoTestStatus = 171"
| "register_u16 RegAutoTestLimit = 172"
| "register_u16 RegAutoTestDefaultTime = 173"
| "register_u16 RegAutoTestTripValue = 174"
| "register_u16 RegAutoTestTripTime = 175"
| "register_u16 RegStartPvVolt = 22"
| "register_u16 RegGridVoltConnLow = 25"
| "register_u16 RegGridVoltConnHigh = 26"
| "register_u16 RegGridFreqConnLow = 27"
| "register_u16 RegGridFreqConnHigh = 28"
| "register_u16 RegGridVoltLimit1Low = 29"
| "register_u16 RegGridVoltLimit1High = 30"
| "register_u16 RegGridVoltLimit1LowTime = 31"
| "register_u16 RegGridVoltLimit1HighTime = 32"
| "register_u16 RegGridVoltLimit2Low = 33"
| "register_u16 RegGridVoltLimit2High = 34"
| "register_u16 RegGridVoltLimit2LowTime = 35"
| "register_u16 RegGridVoltLimit2HighTime = 36"
| "register_u16 RegGridVoltLimit3Low = 37"
| "register_u16 RegGridVoltLimit3High = 38"
| "register_u16 RegGridVoltLimit3LowTime = 39"
| "register_u16 RegGridVoltLimit3HighTime = 40"
| "register_u16 RegGridVoltMovAvgHigh = 41"
| "register_u16 RegGridFreqLimit1Low = 42"
| "register_u16 RegGridFreqLimit1High = 43"
| "register_u16 RegGridFreqLimit1LowTime = 44"
| "register_u16 RegGridFreqLimit1HighTime = 45"
| "register_u16 RegGridFreqLimit2Low = 46"
| "register_u16 RegGridFreqLimit2High = 47"
| "register_u16 RegGridFreqLimit2LowTime = 48"
| "register_u16 RegGridFreqLimit2HighTime = 49"
| "register_u16 RegGridFreqLimit3Low = 50"
| "register_u16 RegGridFreqLimit3High = 51"
| "register_u16 RegGridFreqLimit3LowTime = 52"
| "register_u16 RegGridFreqLimit3HighTime = 53"
| "register_u16 RegMaxQPercentForQv = 54"
| "register_u16 RegV1L = 55"
| "register_u16 RegV2L = 56"
| "register_u16 RegV1H = 57"
| "register_u16 RegV2H = 58"
| "register_u16 RegReactivePowerCmdType = 59"
| "register_u16 RegActivePowerPercentCmd = 60"
| "register_u16 RegReactivePowerPercentCmd = 61"
| "register_u16 RegPfCmd = 62"
| "register_u16 RegPowerSoftStartSlope = 63"
| "register_u16 RegRegister21 = 21"
| "register_u16 RegChargePowerPercentCmd = 64"
| "register_u16 RegDischgPowerPercentCmd = 65"
| "register_u16 RegAcChargePowerCmd = 66"
| "register_u16 RegAcChargeSocLimit = 67"
| "register_u16 RegChargePriorityPowerCmd = 74"
| "register_u16 RegChargePrioritySocLimit = 75"
| "register_u16 RegForcedDischgSocLimit = 83"
| "register_u16 RegDischgCutOffSocEod = 105"
| "register_u16 RegEpsDischgCutoffSocEod = 125"
| "register_u16 RegAcChargeStartSocLimit = 160"
| "register_u16 RegAcChargeEndSocLimit = 161"

text \<open>Bits of holding register 21.\<close>

datatype register_bit =
  BitAcChargeEnable | BitForcedDischargeEnable | BitChargePriorityEnable

primrec register_bit_u16 :: "register_bit \<Rightarrow> u16" where
  "register_bit_u16 BitAcChargeEnable = push_bit 7 1"
| "register_bit_u16 BitForcedDischargeEnable = push_bit 10 1"
| "register_bit_u16 BitChargePriorityEnable = push_bit 11 1"

definition is_bit_set :: "u16 \<Rightarrow> u16 \<Rightarrow> string" where
  "is_bit_set data b = (if data AND b = b then ''ON'' else ''OFF'')"

record register21_bits =
  r21_eps_en :: string
  r21_ovf_load_derate_en :: string
  r21_drms_en :: string
  r21_lvrt_en :: string
  r21_anti_island_en :: string
  r21_neutral_detect_en :: string
  r21_grid_on_power_ss_en :: string
  r21_ac_charge_en :: string
  r21_sw_seamless_en :: string
  r21_set_to_standby :: string
  r21_forced_discharge_en :: string
  r21_charge_priority_en :: string
  r21_iso_en :: string
  r21_gfci_en :: string
  r21_dci_en :: string
  r21_feed_in_grid_en :: string

definition register21_bits_new :: "u16 \<Rightarrow> register21_bits" where
  "register21_bits_new data =
     \<lparr> r21_eps_en = is_bit_set data (push_bit 0 1),
       r21_ovf_load_derate_en = is_bit_set data (push_bit 1 1),
       r21_drms_en = is_bit_set data (push_bit 2 1),
       r21_lvrt_en = is_bit_set data (push_bit 3 1),
       r21_anti_island_en = is_bit_set data (push_bit 4 1),
       r21_neutral_detect_en = is_bit_set data (push_bit 5 1),
       r21_grid_on_power_ss_en = is_bit_set data (push_bit 6 1),
       r21_ac_charge_en = is_bit_set data (push_bit 7 1),
       r21_sw_seamless_en = is_bit_set data (push_bit 8 1),
       r21_set_to_standby = is_bit_set data (push_bit 9 1),
       r21_forced_discharge_en = is_bit_set data (push_bit 10 1),
       r21_charge_priority_en = is_bit_set data (push_bit 11 1),
       r21_iso_en = is_bit_set data (push_bit 12 1),
       r21_gfci_en = is_bit_set data (push_bit 13 1),
       r21_dci_en = is_bit_set data (push_bit 14 1),
       r21_feed_in_grid_en = is_bit_set data (push_bit 15 1) \<rparr>"

record register110_bits =
  r110_ub_pv_grid_off_en :: string
  r110_ub_run_without_grid :: string
  r110_ub_micro_grid_en :: string

definition register110_bits_new :: "u16 \<Rightarrow> register110_bits" where
  "register110_bits_new data =
     \<lparr> r110_ub_pv_grid_off_en = is_bit_set data (push_bit 0 1),
       r110_ub_run_without_grid = is_bit_set data (push_bit 1 1),
       r110_ub_micro_grid_en = is_bit_set data (push_bit 2 1) \<rparr>"

section \<open>Status, warning and fault texts\<close>

definition status_string :: "u16 \<Rightarrow> string" where
  "status_string status =
     (if status = 0x00 then ''Standby'' else
      if status = 0x02 then ''FW Updating'' else
      if status = 0x04 then ''PV On-grid'' else
      if status = 0x08 then ''PV Charge'' else
      if status = 0x0C then ''PV Charge On-grid'' else
      if status = 0x10 then ''Battery On-grid'' else
      if status = 0x11 then ''Bypass'' else
      if status = 0x14 then ''PV & Battery On-grid'' else
      if status = 0x19 then ''PV Charge + Bypass'' else
      if status = 0x20 then ''AC Charge'' else
      if status = 0x28 then ''PV & AC Charge'' else
      if status = 0x40 then ''Battery Off-grid'' else
      if status = 0x80 then ''PV Off-grid'' else
      if status = 0xC0 then ''PV & Battery Off-grid'' else
      if status = 0x88 then ''PV Charge Off-grid'' else
      ''Unknown'')"

text \<open>\<^verbatim>\<open>todo!\<close> in \<^verbatim>\<open>from_bit\<close> panics.\<close>

definition warning_from_bit :: "nat \<Rightarrow> string outcome" where
  "warning_from_bit b =
     (if b = 0 then Ok ''W000: Battery communication failure'' else
      if b = 1 then Ok ''W001: AFCI communication failure'' else
      if b = 2 then Ok ''W002: AFCI high'' else
      if b = 3 then Ok ''W003: Meter communication failure'' else
      if b = 4 then Ok ''W004: Both charge and discharge forbidden by battery'' else
      if b = 5 then Ok ''W005: Auto test failed'' else
      if b = 6 then Ok ''W006: Reserved'' else
      if b = 7 then Ok ''W007: LCD communication failure'' else
      if b = 8 then Ok ''W008: FW version mismatch'' else
      if b = 9 then Ok ''W009: Fan stuck'' else
      if b = 10 then Ok ''W010: Reserved'' else
      if b = 11 then Ok ''W011: Parallel number out of range'' else
      if b = 12 then Ok ''W012: Bat On Mos'' else
      if b = 13 then Ok ''W013: Overtemperature (NTC reading is too high)'' else
      if b = 14 then Ok ''W014: Reserved'' else
      if b = 15 then Ok ''W015: Battery reverse connection'' else
      if b = 16 then Ok ''W016: Grid power outage'' else
      if b = 17 then Ok ''W017: Grid voltage out of range'' else
      if b = 18 then Ok ''W018: Grid frequency out of range'' else
      if b = 19 then Ok ''W019: Reserved'' else
      if b = 20 then Ok ''W020: PV insulation low'' else
      if b = 21 then Ok ''W021: Leakage current high'' else
      if b = 22 then Ok ''W022: DCI high'' else
      if b = 23 then Ok ''W023: PV short'' else
      if b = 24 then Ok ''W024: Reserved'' else
      if b = 25 then Ok ''W025: Battery voltage high'' else
      if b = 26 then Ok ''W026: Battery voltage low'' else
      if b = 27 then Ok ''W027: Battery open circuit'' else
      if b = 28 then Ok ''W028: EPS overload'' else
      if b = 29 then Ok ''W029: EPS voltage high'' else
      if b = 30 then Ok ''W030: Meter reverse connection'' else
      if b = 31 then Ok ''W031: DCV high'' else
      Panic)"

definition warning_code_string :: "u32 \<Rightarrow> string outcome" where
  "warning_code_string value =
     (if value = 0 then Ok ''OK''
      else obind (oexpect (find (\<lambda>i. value AND push_bit i 1 > 0) [0..<32])) warning_from_bit)"

definition fault_from_bit :: "nat \<Rightarrow> string outcome" where
  "fault_from_bit b =
     (if b = 0 then Ok ''E000: Internal communication fault 1'' else
      if b = 1 then Ok ''E001: Model fault'' else
      if b = 2 then Ok ''E002: BatOnMosFail'' else
      if b = 3 then Ok ''E003: CT Fail'' else
      if b = 4 then Ok ''E004: Reserved'' else
      if b = 5 then Ok ''E005: Reserved'' else
      if b = 6 then Ok ''E006: Reserved'' else
      if b = 7 then Ok ''E007: Reserved'' else
      if b = 8 then Ok ''E008: CAN communication error in parallel system'' else
      if b = 9 then Ok ''E009: master lost in parallel system'' else
      if b = 10 then Ok ''E010: multiple master units in parallel system'' else
      if b = 11 then Ok ''E011: AC input inconsistent in parallel system'' else
      if b = 12 then Ok ''E012: UPS short'' else
      if b = 13 then Ok ''E013: Reverse current on UPS output'' else
      if b = 14 then Ok ''E014: Bus short'' else
      if b = 15 then Ok ''E015: Phase error in three phase system'' else
      if b = 16 then Ok ''E016: Relay check fault'' else
      if b = 17 then Ok ''E017: Internal communication fault 2'' else
      if b = 18 then Ok ''E018: Internal communication fault 3'' else
      if b = 19 then Ok ''E019: Bus voltage high'' else
      if b = 20 then Ok ''E020: EPS connection fault'' else
      if b = 21 then Ok ''E021: PV voltage high'' else
      if b = 22 then Ok ''E022: Over current protection'' else
      if b = 23 then Ok ''E023: Neutral fault'' else
      if b = 24 then Ok ''E024: PV short'' else
      if b = 25 then Ok ''E025: Radiator temperature over range'' else
      if b = 26 then Ok ''E026: Internal fault'' else
      if b = 27 then Ok ''E027: Sample inconsistent between Main CPU and redundant CPU'' else
      if b = 28 then Ok ''E028: Reserved'' else
      if b = 29 then Ok ''E029: Reserved'' else
      if b = 30 then Ok ''E030: Reserved'' else
      if b = 31 then Ok ''E031: Internal communication fault 4'' else
      Panic)"

definition fault_code_string :: "u32 \<Rightarrow> string outcome" where
  "fault_code_string value =
     (if value = 0 then Ok ''OK''
      else obind (oexpect (find (\<lambda>i. value AND push_bit i 1 > 0) [0..<32])) fault_from_bit)"

text \<open>The battery status words: one push per set bit, in the order of the bits.\<close>

fun push_flags :: "u16 \<Rightarrow> (nat \<times> string) list \<Rightarrow> string list" where
  "push_flags value [] = []"
| "push_flags value ((b, s) # t) =
     (if value AND push_bit b 1 \<noteq> 0 then s # push_flags value t else push_flags value t)"

definition status_9_names :: "(nat \<times> string) list" where
  "status_9_names =
     [(0, ''Cell Balancing Active''),
      (1, ''Charging Enabled''),
      (2, ''Discharging Enabled''),
      (3, ''Heating Active''),
      (4, ''Battery Full''),
      (5, ''Battery Empty''),
      (6, ''SOC Calibration Active''),
      (7, ''BMS Fault Present''),
      (8, ''BMS Warning Present''),
      (9, ''Protection Active''),
      (10, ''Battery Disconnected''),
      (11, ''Battery Sleeping''),
      (12, ''Battery Standby''),
      (13, ''Battery Power Save''),
      (14, ''Battery Self Testing''),
      (15, ''Battery Fault'')]"

definition decode_status_9 :: "u16 \<Rightarrow> string list" where
  "decode_status_9 value =
     (let statuses = push_flags value status_9_names
      in if statuses = [] then [''No Status Flags Set''] else statuses)"

definition status_inv_names :: "(nat \<times> string) list" where
  "status_inv_names =
     [(0, ''Inverter Battery Active''),
      (1, ''Inverter Charging''),
      (2, ''Inverter Discharging''),
      (3, ''Battery Communication OK''),
      (4, ''BMS Protocol Matched''),
      (5, ''Battery Type Matched''),
      (6, ''Battery Power Limited''),
      (7, ''Battery Current Limited''),
      (8, ''Battery Voltage Limited''),
      (9, ''Battery Temperature Limited''),
      (10, ''Battery SOC Limited''),
      (11, ''Battery Maintenance Mode''),
      (12, ''Battery Force Charging''),
      (13, ''Battery Force Discharging''),
      (14, ''Battery Calibration Mode''),
      (15, ''Battery Protection Active'')]"

definition decode_status_inv :: "u16 \<Rightarrow> string list" where
  "decode_status_inv value =
     (let statuses = push_flags value status_inv_names
      in if statuses = [] then [''No Status Flags Set''] else statuses)"

section \<open>Modbus errors\<close>

datatype modbus_error =
  MbIllegalFunction | MbIllegalAddress | MbIllegalValue | MbSlaveFailure | MbSlaveIsBusy

primrec modbus_error_u8 :: "modbus_error \<Rightarrow> u8" where
  "modbus_error_u8 MbIllegalFunction = 0x01"
| "modbus_error_u8 MbIllegalAddress = 0x02"
| "modbus_error_u8 MbIllegalValue = 0x03"
| "modbus_error_u8 MbSlaveFailure = 0x04"
| "modbus_error_u8 MbSlaveIsBusy = 0x06"

definition modbus_error_from_code :: "u8 \<Rightarrow> modbus_error option" where
  "modbus_error_from_code code =
     (if code = 0x01 then Some MbIllegalFunction else
      if code = 0x02 then Some MbIllegalAddress else
      if code = 0x03 then Some MbIllegalValue else
      if code = 0x04 then Some MbSlaveFailure else
      if code = 0x06 then Some MbSlaveIsBusy else
      None)"

primrec modbus_error_description :: "modbus_error \<Rightarrow> string" where
  "modbus_error_description MbIllegalFunction = ''Function code not supported by the inverter''"
| "modbus_error_description MbIllegalAddress = ''Data address is outside valid range''"
| "modbus_error_description MbIllegalValue = ''Data value is out of bounds or invalid''"
| "modbus_error_description MbSlaveFailure = ''Inverter read/write operation failed''"
| "modbus_error_description MbSlaveIsBusy = ''Inverter is busy processing another command''"

lemma modbus_error_round_trip: "modbus_error_from_code (modbus_error_u8 e) = Some e"
  by (cases e) (simp_all add: modbus_error_from_code_def)

section \<open>Properties of the tables\<close>

lemma and_bit_pos: "(v AND push_bit i 1 > 0) = bit v i" for v :: "'a::len word"
  by (simp add: bit_iff_and_push_bit_not_eq_0 word_gt_0)

lemma nonzero_has_bit: "v \<noteq> 0 \<Longrightarrow> \<exists>i < LENGTH('a). bit v i" for v :: "'a::len word"
  by (metis bit_imp_le_length bit_eqI bit_0_eq bot_apply bot_bool_def)

text \<open>The scan \<^verbatim>\<open>(0..=31).find(..)\<close> stops at the lowest set bit.\<close>

lemma find_lowest_bit:
  fixes v :: u32
  assumes "v \<noteq> 0"
  obtains i where "i < 32" "bit v i" "\<forall>j<i. \<not> bit v j"
    "find (\<lambda>i. v AND push_bit i 1 > 0) [0..<32] = Some i"
proof -
  have "find (\<lambda>i. v AND push_bit i 1 > 0) [0..<32] \<noteq> None"
    unfolding find_None_iff and_bit_pos using nonzero_has_bit[OF assms] by (auto simp del: upt.simps upt_rec_numeral)
  then obtain i where i: "find (\<lambda>i. v AND push_bit i 1 > 0) [0..<32] = Some i" by blast
  then obtain k where "k < 32" "i = [0..<32] ! k" "bit v i" "\<forall>j<k. \<not> bit v ([0..<32] ! j)"
    unfolding find_Some_iff and_bit_pos by (auto simp del: upt.simps upt_rec_numeral)
  then have "i = k" "i < 32" "bit v i" "\<forall>j<i. \<not> bit v j" by (simp_all del: upt.simps upt_rec_numeral)
  with i that show ?thesis by blast
qed

lemma from_bit_ok:
  assumes "i < 32"
  shows "is_ok (warning_from_bit i)" "is_ok (fault_from_bit i)"
proof -
  have "\<forall>i < 32. is_ok (warning_from_bit i) \<and> is_ok (fault_from_bit i)"
    by (simp add: eval_nat_numeral All_less_Suc) (simp add: warning_from_bit_def fault_from_bit_def)
  then show "is_ok (warning_from_bit i)" "is_ok (fault_from_bit i)" using assms by simp_all
qed

text \<open>
  The warning text of a non-zero word is the entry of its lowest set bit, the fault text
  likewise, and neither the \<^verbatim>\<open>unwrap\<close> nor the \<^verbatim>\<open>todo!\<close> of the code can be reached.
\<close>

theorem code_string_lowest_bit:
  assumes "value \<noteq> 0"
  shows "\<exists>i < 32. bit value i \<and> (\<forall>j<i. \<not> bit value j) \<and>
      warning_code_string value = warning_from_bit i \<and> fault_code_string value = fault_from_bit i \<and>
      is_ok (warning_code_string value) \<and> is_ok (fault_code_string value)"
  using find_lowest_bit[OF assms] assms
  by (metis from_bit_ok obind_simps(1) oexpect_simps(1) warning_code_string_def fault_code_string_def)

theorem code_string_lowest_bit_witness:
  "warning_code_string 0x00030000 = Ok ''W016: Grid power outage'' \<and>
   (\<exists>i < 32. bit (0x00030000 :: u32) i \<and> fault_code_string 0x00030000 = fault_from_bit i)"
proof
  show "warning_code_string 0x00030000 = Ok ''W016: Grid power outage''" by code_simp
  show "\<exists>i < 32. bit (0x00030000 :: u32) i \<and> fault_code_string 0x00030000 = fault_from_bit i"
    using code_string_lowest_bit[of "0x00030000"] by auto
qed

lemma set_push_flags: "s \<in> set (push_flags v t) \<longleftrightarrow> (\<exists>b. (b, s) \<in> set t \<and> bit v b)"
  by (induction v t rule: push_flags.induct) (auto simp: bit_iff_and_push_bit_not_eq_0)

lemma flags_determine:
  assumes "push_flags v t = push_flags w t"
    and "distinct (map snd t)" "map fst t = [0..<16]"
  shows "v = (w :: u16)"
proof (rule bit_word_eqI)
  fix n assume "n < LENGTH(16)"
  then have n: "n < 16" by simp
  have len: "length t = 16" using assms(3) by (metis length_map length_upt minus_nat.diff_0)
  have fst_t: "fst (t ! k) = k" if "k < 16" for k
    using assms(3) len that by (metis add_0 diff_zero length_upt nth_map nth_upt)
  have only: "b = n" if "(b, snd (t ! n)) \<in> set t" for b
  proof -
    from that obtain k where k: "k < 16" "t ! k = (b, snd (t ! n))" by (metis in_set_conv_nth len)
    then have "map snd t ! k = map snd t ! n" using len n by simp
    then have "k = n" using nth_eq_iff_index_eq[OF assms(2), of k n] k(1) n len by simp
    then show ?thesis using fst_t[OF n] k(2) by (metis fst_conv)
  qed
  have "(n, snd (t ! n)) \<in> set t" using fst_t[OF n] n len by (metis nth_mem prod.collapse)
  then have "bit v n \<longleftrightarrow> snd (t ! n) \<in> set (push_flags v t)" for v :: u16
    using only by (auto simp: set_push_flags)
  then show "bit v n = bit w n" using assms(1) by metis
qed

lemma status_names_bits: "map fst status_9_names = [0..<16]" "map fst status_inv_names = [0..<16]"
  by (simp_all add: status_9_names_def status_inv_names_def eval_nat_numeral)

lemma status_names_distinct: "distinct (map snd status_9_names)" "distinct (map snd status_inv_names)"
  by (simp_all add: status_9_names_def status_inv_names_def)

lemma push_flags_names: "s \<notin> set (map snd t) \<Longrightarrow> s \<notin> set (push_flags v t)"
  by (induction v t rule: push_flags.induct) auto

lemma no_flags_text:
  "''No Status Flags Set'' \<notin> set (push_flags v status_9_names)"
  "''No Status Flags Set'' \<notin> set (push_flags v status_inv_names)"
  by (rule push_flags_names, simp add: status_9_names_def status_inv_names_def)+

lemma decode_status_eq:
  assumes "''No Status Flags Set'' \<notin> set (push_flags v t)" "''No Status Flags Set'' \<notin> set (push_flags w t)"
    and "(if push_flags v t = [] then [''No Status Flags Set''] else push_flags v t) =
         (if push_flags w t = [] then [''No Status Flags Set''] else push_flags w t)"
  shows "push_flags v t = push_flags w t"
  using assms by (cases "push_flags v t"; cases "push_flags w t") auto

text \<open>
  The battery status texts lose nothing: two status words with the same list of texts are the
  same word, for both status registers.
\<close>

theorem decode_status_injective:
  "(decode_status_9 v = decode_status_9 w \<longleftrightarrow> v = w) \<and>
   (decode_status_inv v = decode_status_inv w \<longleftrightarrow> v = w)"
proof -
  have "v = w" if "decode_status_9 v = decode_status_9 w"
    by (rule flags_determine[OF decode_status_eq status_names_distinct(1) status_names_bits(1)])
      (rule no_flags_text, rule no_flags_text, use that in \<open>simp add: decode_status_9_def Let_def\<close>)
  moreover have "v = w" if "decode_status_inv v = decode_status_inv w"
    by (rule flags_determine[OF decode_status_eq status_names_distinct(2) status_names_bits(2)])
      (rule no_flags_text, rule no_flags_text, use that in \<open>simp add: decode_status_inv_def Let_def\<close>)
  ultimately show ?thesis by blast
qed

lemma is_bit_set_exp: "is_bit_set v (push_bit b 1) = (if bit v b then ''ON'' else ''OFF'')" if "b < 16"
proof -
  have "(v AND push_bit b 1 = push_bit b 1) = bit v b"
    unfolding bit_eq_iff[of "v AND push_bit b 1"] using that
    by (auto simp: bit_simps simp del: push_bit_of_1)
  then show ?thesis by (simp add: is_bit_set_def)
qed

end
