(* ===== verification/Packet.thy ===== *)
theory Packet
  imports Bridge_Prelude Texts Wire Codes
begin

text \<open>
  The packets of \<^verbatim>\<open>eg4/packet.rs\<close>: the four packet structs with their \<^verbatim>\<open>decode\<close>, \<^verbatim>\<open>pairs\<close> and
  \<^verbatim>\<open>PacketCommon\<close> operations, \<^verbatim>\<open>Parser::parse\<close> and \<^verbatim>\<open>TcpFrameFactory::create_frame\<close>.

  The checksum is the function \<open>crc\<close> that every operation takes: \<^verbatim>\<open>crc16::State<MODBUS>::calculate\<close>
  is not part of the repository, and nothing here depends on which function it is. The flag \<open>oc\<close>
  says whether the build checks arithmetic overflow.
\<close>

type_synonym crc16 = "bytes \<Rightarrow> u16"

section \<open>Register pairs\<close>

text \<open>
  The body that the three \<^verbatim>\<open>pairs\<close> methods share: the chunks of two bytes, numbered from the
  first register. A last chunk of one byte makes \<^verbatim>\<open>u16ify\<close> index out of range.
\<close>

definition value_pairs :: "bool \<Rightarrow> u16 \<Rightarrow> bytes \<Rightarrow> (u16 \<times> u16) list outcome" where
  "value_pairs oc register values =
     omap (\<lambda>(pos, value).
         obind (add_oc oc register (word_of_nat pos)) (\<lambda>r.
         obind (u16ify value 0) (\<lambda>v. Ok (r, v))))
       (enumerate (chunks2 values))"

section \<open>Heartbeats\<close>

record heartbeat =
  hb_datalog :: serial

definition heartbeat_decode :: "bytes \<Rightarrow> heartbeat outcome" where
  "heartbeat_decode input =
     (let len = length input
      in if len < 19 then Err ''heartbeat packet too short''
         else obind (index input 18) (\<lambda>n.
           if n \<noteq> 0 then Err ''heartbeat with non-zero ({}) length byte?''
           else obind (slice input 8 18) (\<lambda>s.
                obind (serial_new s) (\<lambda>datalog. Ok \<lparr> hb_datalog = datalog \<rparr>))))"

definition heartbeat_bytes :: "heartbeat \<Rightarrow> bytes" where
  "heartbeat_bytes h = [0]"

section \<open>Translated data\<close>

record translated_data =
  td_datalog :: serial
  td_device_function :: device_function
  td_inverter :: serial
  td_register :: u16
  td_values :: bytes

datatype packet_source = SrcInverter | SrcClient

definition td_pairs :: "bool \<Rightarrow> translated_data \<Rightarrow> (u16 \<times> u16) list outcome" where
  "td_pairs oc p = value_pairs oc (td_register p) (td_values p)"

definition td_has_value_length_byte :: "packet_source \<Rightarrow> u16 \<Rightarrow> device_function \<Rightarrow> bool" where
  "td_has_value_length_byte source protocol device_function =
     (let p1 = (protocol = 1); psi = (source = SrcInverter)
      in case device_function of
           DevReadHold \<Rightarrow> \<not> p1 \<and> psi
         | DevReadInput \<Rightarrow> \<not> p1 \<and> psi
         | DevWriteSingle \<Rightarrow> False
         | DevWriteMulti \<Rightarrow> \<not> p1 \<and> \<not> psi
         | DevUpdatePrepare \<Rightarrow> False
         | DevUpdateSendData \<Rightarrow> False
         | DevUpdateReset \<Rightarrow> False
         | DevReadHoldError \<Rightarrow> False
         | DevReadInputError \<Rightarrow> False
         | DevWriteSingleError \<Rightarrow> False
         | DevWriteMultiError \<Rightarrow> False)"

definition td_checksum :: "crc16 \<Rightarrow> bytes \<Rightarrow> bytes" where
  "td_checksum crc data = to_le_bytes (crc data)"

definition MIN_TRANSLATED_DATA_SIZE :: nat where
  "MIN_TRANSLATED_DATA_SIZE = 38"

text \<open>The part of \<^verbatim>\<open>decode\<close> after the checksum: the fields of the data section.\<close>

definition td_decode_data :: "u16 \<Rightarrow> serial \<Rightarrow> bytes \<Rightarrow> translated_data outcome" where
  "td_decode_data protocol datalog data =
     obind (index data 1) (\<lambda>f.
     obind (device_function_try_from f) (\<lambda>device_function.
     obind (slice data 2 12) (\<lambda>s.
     obind (serial_new s) (\<lambda>inverter.
     obind (u16ify data 12) (\<lambda>register.
     obind (if td_has_value_length_byte SrcInverter protocol device_function
            then obind (index data 14) (\<lambda>n. Ok (unat n, 15))
            else Ok (2, 14)) (\<lambda>(value_len, value_offset).
     obind (slice_from data value_offset) (\<lambda>values.
       if length values \<noteq> value_len then Err ''TranslatedData::decode mismatch''
       else Ok \<lparr> td_datalog = datalog, td_device_function = device_function, td_inverter = inverter,
                 td_register = register, td_values = values \<rparr>)))))))"

definition td_decode :: "crc16 \<Rightarrow> bytes \<Rightarrow> translated_data outcome" where
  "td_decode crc input =
     (let len = length input
      in if len < MIN_TRANSLATED_DATA_SIZE then Err ''TranslatedData::decode packet too short''
         else obind (u16ify input 2) (\<lambda>protocol.
              obind (slice input 8 18) (\<lambda>s.
              obind (serial_new s) (\<lambda>datalog.
              obind (slice input 20 (len - 2)) (\<lambda>data.
                if length data < 14 then Err ''TranslatedData::decode data section too short''
                else obind (slice_from input (len - 2)) (\<lambda>checksum.
                  if td_checksum crc data \<noteq> checksum then Err ''TranslatedData::decode checksum mismatch''
                  else td_decode_data protocol datalog data))))))"

definition td_protocol :: "translated_data \<Rightarrow> u16" where
  "td_protocol p = (if td_device_function p = DevWriteMulti then 2 else 1)"

definition td_set_datalog :: "serial \<Rightarrow> translated_data \<Rightarrow> translated_data" where
  "td_set_datalog s p = p\<lparr> td_datalog := s \<rparr>"

definition td_set_inverter :: "serial \<Rightarrow> translated_data \<Rightarrow> translated_data" where
  "td_set_inverter s p = p\<lparr> td_inverter := s \<rparr>"

text \<open>
  \<^verbatim>\<open>bytes\<close>: the data with its length in the first two bytes, then the checksum of everything
  after the length.
\<close>

definition td_bytes :: "bool \<Rightarrow> crc16 \<Rightarrow> translated_data \<Rightarrow> bytes outcome" where
  "td_bytes oc crc p =
     (let head = [0, device_function_u8 (td_device_function p)] @ serial_data (td_inverter p)
                   @ to_le_bytes (td_register p)
      in obind (if td_device_function p = DevWriteMulti
                then obind (td_pairs oc p) (\<lambda>ps. Ok (head @ to_le_bytes (word_of_nat (length ps))))
                else Ok head) (\<lambda>d1.
         let d2 = (if td_has_value_length_byte SrcClient (td_protocol p) (td_device_function p)
                   then d1 @ [word_of_nat (length (td_values p))] else d1);
             d3 = d2 @ td_values p;
             data_length = word_of_nat (length d3 + 2)
         in Ok (to_le_bytes data_length @ d3 @ td_checksum crc d3)))"

definition td_value :: "translated_data \<Rightarrow> u16 outcome" where
  "td_value p = u16ify (td_values p) 0"

section \<open>Read and write of the data logger's parameters\<close>

record read_param =
  rp_datalog :: serial
  rp_register :: u16
  rp_values :: bytes

definition rp_pairs :: "bool \<Rightarrow> read_param \<Rightarrow> (u16 \<times> u16) list outcome" where
  "rp_pairs oc p = value_pairs oc (rp_register p) (rp_values p)"

definition rp_has_value_length_bytes :: "u16 \<Rightarrow> bool" where
  "rp_has_value_length_bytes protocol = (protocol = 2)"

definition rp_decode :: "bytes \<Rightarrow> read_param outcome" where
  "rp_decode input =
     (let len = length input
      in if len < 24 then Err ''ReadParam::decode packet too short''
         else obind (u16ify input 2) (\<lambda>protocol.
              obind (slice input 8 18) (\<lambda>s.
              obind (serial_new s) (\<lambda>datalog.
              obind (slice_from input 18) (\<lambda>data.
              obind (u16ify data 0) (\<lambda>register.
              obind (if rp_has_value_length_bytes protocol
                     then obind (u16ify data 2) (\<lambda>n. Ok (unat n, 4))
                     else Ok (2, 2)) (\<lambda>(value_len, value_offset).
              obind (slice_from data value_offset) (\<lambda>values.
                if length values \<noteq> value_len then Err ''ReadParam::decode mismatch''
                else Ok \<lparr> rp_datalog = datalog, rp_register = register, rp_values = values \<rparr>))))))))"

definition rp_bytes :: "read_param \<Rightarrow> bytes" where
  "rp_bytes p = [ucast (rp_register p), 0]"

definition rp_value :: "read_param \<Rightarrow> u16 outcome" where
  "rp_value p = u16ify (rp_values p) 0"

record write_param =
  wp_datalog :: serial
  wp_register :: u16
  wp_values :: bytes

definition wp_pairs :: "bool \<Rightarrow> write_param \<Rightarrow> (u16 \<times> u16) list outcome" where
  "wp_pairs oc p = value_pairs oc (wp_register p) (wp_values p)"

definition wp_has_value_length_bytes :: "u16 \<Rightarrow> bool" where
  "wp_has_value_length_bytes protocol = False"

definition wp_decode :: "bytes \<Rightarrow> write_param outcome" where
  "wp_decode input =
     (let len = length input
      in if len < 21 then Err ''WriteParam::decode packet too short''
         else obind (u16ify input 2) (\<lambda>protocol.
              obind (slice input 8 18) (\<lambda>s.
              obind (serial_new s) (\<lambda>datalog.
              obind (slice_from input 18) (\<lambda>data.
              obind (index data 0) (\<lambda>r.
              obind (if wp_has_value_length_bytes protocol
                     then obind (u16ify data 1) (\<lambda>n. Ok (unat n, 3))
                     else Ok (2, 1)) (\<lambda>(value_len, value_offset).
              obind (slice_from data value_offset) (\<lambda>values.
                if length values \<noteq> value_len then Err ''WriteParam::decode mismatch''
                else Ok \<lparr> wp_datalog = datalog, wp_register = ucast r, wp_values = values \<rparr>))))))))"

definition wp_bytes :: "write_param \<Rightarrow> bytes" where
  "wp_bytes p =
     to_le_bytes (wp_register p) @ to_le_bytes (word_of_nat (length (wp_values p))) @ wp_values p"

definition wp_value :: "write_param \<Rightarrow> u16 outcome" where
  "wp_value p = u16ify (wp_values p) 0"

section \<open>Packets\<close>

datatype packet =
    PHeartbeat heartbeat
  | PTranslatedData translated_data
  | PReadParam read_param
  | PWriteParam write_param

text \<open>The trait \<^verbatim>\<open>PacketCommon\<close> on the enum.\<close>

fun packet_datalog :: "packet \<Rightarrow> serial" where
  "packet_datalog (PHeartbeat p) = hb_datalog p"
| "packet_datalog (PTranslatedData p) = td_datalog p"
| "packet_datalog (PReadParam p) = rp_datalog p"
| "packet_datalog (PWriteParam p) = wp_datalog p"

fun packet_inverter :: "packet \<Rightarrow> serial option" where
  "packet_inverter (PTranslatedData p) = Some (td_inverter p)"
| "packet_inverter _ = None"

fun packet_tcp_function :: "packet \<Rightarrow> tcp_function" where
  "packet_tcp_function (PHeartbeat _) = TcpHeartbeat"
| "packet_tcp_function (PTranslatedData _) = TcpTranslatedData"
| "packet_tcp_function (PReadParam _) = TcpReadParam"
| "packet_tcp_function (PWriteParam _) = TcpWriteParam"

fun packet_protocol :: "packet \<Rightarrow> u16" where
  "packet_protocol (PTranslatedData p) = td_protocol p"
| "packet_protocol _ = 2"

fun packet_bytes :: "bool \<Rightarrow> crc16 \<Rightarrow> packet \<Rightarrow> bytes outcome" where
  "packet_bytes oc crc (PHeartbeat p) = Ok (heartbeat_bytes p)"
| "packet_bytes oc crc (PTranslatedData p) = td_bytes oc crc p"
| "packet_bytes oc crc (PReadParam p) = Ok (rp_bytes p)"
| "packet_bytes oc crc (PWriteParam p) = Ok (wp_bytes p)"

text \<open>A heartbeat has the default methods, which are \<^verbatim>\<open>unimplemented!\<close>.\<close>

fun packet_register :: "packet \<Rightarrow> u16 outcome" where
  "packet_register (PHeartbeat p) = Panic"
| "packet_register (PTranslatedData p) = Ok (td_register p)"
| "packet_register (PReadParam p) = Ok (rp_register p)"
| "packet_register (PWriteParam p) = Ok (wp_register p)"

fun packet_value :: "packet \<Rightarrow> u16 outcome" where
  "packet_value (PHeartbeat p) = Panic"
| "packet_value (PTranslatedData p) = td_value p"
| "packet_value (PReadParam p) = rp_value p"
| "packet_value (PWriteParam p) = wp_value p"

section \<open>The frame factory\<close>

definition create_frame :: "bool \<Rightarrow> crc16 \<Rightarrow> serial \<Rightarrow> packet \<Rightarrow> bytes outcome" where
  "create_frame oc crc datalog p =
     obind (packet_bytes oc crc p) (\<lambda>data_bytes.
       let ty = (case p of PTranslatedData _ \<Rightarrow> 0x01 | PReadParam _ \<Rightarrow> 0x02
                  | PWriteParam _ \<Rightarrow> 0x03 | PHeartbeat _ \<Rightarrow> 0x04)
       in Ok (serial_data datalog @ [ty] @ to_be_bytes (word_of_nat (length data_bytes)) @ data_bytes))"

section \<open>The parser\<close>

text \<open>The decoder of each function.\<close>

definition packet_dispatch :: "crc16 \<Rightarrow> tcp_function \<Rightarrow> bytes \<Rightarrow> packet outcome" where
  "packet_dispatch crc function input =
     (case function of
        TcpHeartbeat \<Rightarrow> obind (heartbeat_decode input) (\<lambda>p. Ok (PHeartbeat p))
      | TcpTranslatedData \<Rightarrow> obind (td_decode crc input) (\<lambda>p. Ok (PTranslatedData p))
      | TcpReadParam \<Rightarrow> obind (rp_decode input) (\<lambda>p. Ok (PReadParam p))
      | TcpWriteParam \<Rightarrow> obind (wp_decode input) (\<lambda>p. Ok (PWriteParam p)))"

text \<open>The length is cut to eight bits before it is compared.\<close>

definition packet_parse :: "bool \<Rightarrow> crc16 \<Rightarrow> bytes \<Rightarrow> packet outcome" where
  "packet_parse oc crc input =
     (let input_len = (word_of_nat (length input) :: u8)
      in if input_len < 18 then Err ''packet less than 18 bytes?''
         else obind (slice input 0 2) (\<lambda>prefix.
           if prefix \<noteq> [161, 26] then Err ''invalid packet prefix''
           else obind (index input 4) (\<lambda>n.
                obind (sub_oc oc n 6) (\<lambda>frame_length.
                  if input_len < frame_length then Err ''Parser::parse mismatch''
                  else obind (index input 7) (\<lambda>f.
                       obind (tcp_function_try_from f) (\<lambda>function.
                         packet_dispatch crc function input))))))"

end
