(* ===== verification/Packet_Facts.thy ===== *)
theory Packet_Facts
  imports Packet
begin

text \<open>
  What the packet codec guarantees: when \<^verbatim>\<open>pairs\<close> panics, which byte strings each \<^verbatim>\<open>decode\<close>
  accepts and what it reads from them, and that decoding undoes encoding.
\<close>

section \<open>Pairs\<close>

text \<open>The register numbers and values that an even number of value bytes stands for.\<close>

definition register_pairs :: "u16 \<Rightarrow> bytes \<Rightarrow> (u16 \<times> u16) list" where
  "register_pairs register values =
     map (\<lambda>i. (register + word_of_nat i, word_at values (2 * i))) [0..<length values div 2]"

lemma enumerate_map_upt: "enumerate xs = map (\<lambda>i. (i, xs ! i)) [0..<length xs]"
  by (rule nth_equalityI) (simp_all add: enumerate_def nth_enumerate_eq)

lemma omap_map: "omap f (map g xs) = omap (\<lambda>x. f (g x)) xs"
  by (induction xs) simp_all

lemma value_pairs_even:
  assumes "even (length values)" "unat register + length values div 2 \<le> 2 ^ 16"
  shows "value_pairs oc register values = Ok (register_pairs register values)"
proof -
  have len: "length (chunks2 values) = length values div 2"
    using assms(1) by (simp add: length_chunks2)
  have step: "(case (i, chunks2 values ! i) of (pos, value) \<Rightarrow>
         obind (add_oc oc register (word_of_nat pos)) (\<lambda>r.
         obind (u16ify value 0) (\<lambda>v. Ok (r, v)))) =
       Ok (register + word_of_nat i, word_at values (2 * i))" if "i < length values div 2" for i
  proof -
    have "unat (word_of_nat i :: u16) = i"
      using that assms(2) by (simp add: unsigned_of_nat take_bit_nat_eq_self)
    then have "add_oc oc register (word_of_nat i) = Ok (register + word_of_nat i)"
      using that assms(2) by (simp add: add_oc_small)
    then show ?thesis using that assms(1) by (simp add: chunks2_nth word_at_def)
  qed
  show ?thesis
    unfolding value_pairs_def register_pairs_def enumerate_map_upt omap_map len
    by (rule omap_Ok) (rule step, simp)
qed

lemma value_pairs_not_Err: "value_pairs oc register values \<noteq> Err e"
proof -
  have "omap (\<lambda>(pos, value).
         obind (add_oc oc register (word_of_nat pos)) (\<lambda>r.
         obind (u16ify value 0) (\<lambda>v. Ok (r, v)))) xs \<noteq> Err e" for xs
    by (induction xs) (auto simp: obind_def split: outcome.splits)
  then show ?thesis by (simp add: value_pairs_def)
qed

lemma value_pairs_odd:
  assumes "odd (length values)"
  shows "value_pairs oc register values = Panic"
proof -
  obtain c where c: "c \<in> set (chunks2 values)" "length c = 1"
    using chunks2_odd[OF assms] by blast
  then obtain i where "i < length (chunks2 values)" "c = chunks2 values ! i"
    by (metis in_set_conv_nth)
  then have "(i, c) \<in> set (enumerate (chunks2 values))"
    by (simp add: enumerate_map_upt)
  then show ?thesis unfolding value_pairs_def
    by (rule omap_Panic[where e = "[]"]) (use c in \<open>auto simp: u16ify_Panic add_oc_def obind_def is_err_def split: outcome.splits if_splits\<close>)
qed

text \<open>
  \<^verbatim>\<open>pairs\<close> of a packet with an even number of value bytes is the list of its registers,
  numbered from the first one, with their little-endian values; with an odd number it panics.
\<close>

theorem pairs_of_values:
  assumes "unat (td_register p) + length (td_values p) div 2 \<le> 2 ^ 16"
  shows "td_pairs oc p =
     (if even (length (td_values p)) then Ok (register_pairs (td_register p) (td_values p)) else Panic)"
  using assms by (simp add: td_pairs_def value_pairs_even value_pairs_odd)

theorem pairs_of_values_witness:
  "td_pairs True \<lparr> td_datalog = serial_default, td_device_function = DevReadHold,
       td_inverter = serial_default, td_register = 12, td_values = [22, 3, 4, 5] \<rparr>
     = Ok [(12, 0x0316), (13, 0x0504)] \<and>
   td_pairs True \<lparr> td_datalog = serial_default, td_device_function = DevReadHold,
       td_inverter = serial_default, td_register = 12, td_values = [22, 3, 4] \<rparr> = Panic"
proof
  show "td_pairs True \<lparr> td_datalog = serial_default, td_device_function = DevReadHold,
       td_inverter = serial_default, td_register = 12, td_values = [22, 3, 4, 5] \<rparr>
     = Ok [(12, 0x0316), (13, 0x0504)]"
    by (subst pairs_of_values) (simp, code_simp)
  show "td_pairs True \<lparr> td_datalog = serial_default, td_device_function = DevReadHold,
       td_inverter = serial_default, td_register = 12, td_values = [22, 3, 4] \<rparr> = Panic"
    by (subst pairs_of_values) simp_all
qed

section \<open>Decoding never panics\<close>

lemma heartbeat_decode_not_Panic [simp]: "heartbeat_decode input \<noteq> Panic"
  by (simp add: heartbeat_decode_def Let_def)

lemma td_decode_data_not_Panic:
  assumes "16 \<le> length data"
  shows "td_decode_data protocol datalog data \<noteq> Panic"
  using assms by (auto simp: td_decode_data_def obind_eq_Panic)

lemma td_decode_not_Panic [simp]: "td_decode crc input \<noteq> Panic"
  by (simp add: td_decode_def Let_def MIN_TRANSLATED_DATA_SIZE_def td_decode_data_not_Panic)

lemma rp_decode_not_Panic [simp]: "rp_decode input \<noteq> Panic"
  by (auto simp: rp_decode_def Let_def obind_eq_Panic)

lemma wp_decode_not_Panic [simp]: "wp_decode input \<noteq> Panic"
  by (auto simp: wp_decode_def Let_def obind_eq_Panic wp_has_value_length_bytes_def)

section \<open>What decoding accepts\<close>

text \<open>
  An inverter's reply as it is on the wire, after the prefix, the protocol and the frame length:
  two bytes that the decoder skips, the data section, and its checksum.
\<close>

definition td_layout :: "crc16 \<Rightarrow> bytes \<Rightarrow> translated_data \<Rightarrow> bool" where
  "td_layout crc input p \<longleftrightarrow>
     (let len = length input; data = take (len - 22) (drop 20 input);
          counted = (td_device_function p \<in> {DevReadHold, DevReadInput} \<and> word_at input 2 \<noteq> 1)
      in 38 \<le> len \<and> drop (len - 2) input = to_le_bytes (crc data) \<and>
         serial_data (td_datalog p) = take 10 (drop 8 input) \<and>
         device_function_u8 (td_device_function p) = input ! 21 \<and>
         serial_data (td_inverter p) = take 10 (drop 22 input) \<and>
         td_register p = word_at input 32 \<and>
         td_values p = drop (if counted then 15 else 14) data \<and>
         length (td_values p) = (if counted then unat (input ! 34) else 2))"

lemma has_length_byte_inverter:
  "td_has_value_length_byte SrcInverter protocol f \<longleftrightarrow> f \<in> {DevReadHold, DevReadInput} \<and> protocol \<noteq> 1"
  by (cases f) (auto simp: td_has_value_length_byte_def)

lemma td_decode_data_Ok:
  assumes "16 \<le> length data"
  shows "td_decode_data protocol datalog data = Ok p \<longleftrightarrow>
     td_datalog p = datalog \<and>
     device_function_u8 (td_device_function p) = data ! 1 \<and>
     serial_data (td_inverter p) = take 10 (drop 2 data) \<and>
     td_register p = word_at data 12 \<and>
     (let counted = td_has_value_length_byte SrcInverter protocol (td_device_function p)
      in td_values p = drop (if counted then 15 else 14) data \<and>
         length (td_values p) = (if counted then unat (data ! 14) else 2))"
  (is "?l \<longleftrightarrow> ?r")
proof
  have "length (drop 15 data) \<noteq> length (drop 14 data)" using assms by simp
  then have ne: "drop 15 data \<noteq> drop 14 data" by metis
  assume ?l
  with assms ne show ?r
    by (auto simp: td_decode_data_def obind_eq_Ok device_function_try_from_Ok serial_new_eq_Ok word_at_def
        Let_def split: if_splits)
next
  assume r: ?r
  then have f: "device_function_try_from (data ! 1) = Ok (td_device_function p)"
    by (simp add: device_function_try_from_Ok)
  have s: "td_inverter p = Serial (take 10 (drop 2 data))" using r by (simp add: serial.expand)
  show ?l
    using r s assms f by (cases p) (auto simp: td_decode_data_def Let_def word_at_def split: if_splits)
qed

lemma td_decode_layout: "td_decode crc input = Ok p \<longleftrightarrow> td_layout crc input p"
proof (cases "38 \<le> length input")
  case True
  then have data: "16 \<le> length (take (length input - 22) (drop 20 input))" by simp
  have take12: "take 10 (drop 2 (take (length input - 22) (drop 20 input))) = take 10 (drop 22 input)"
    using True by (simp add: drop_take take_take min_def)
  have nths: "take (length input - 22) (drop 20 input) ! 1 = input ! 21"
    "take (length input - 22) (drop 20 input) ! 14 = input ! 34"
    "word_at (take (length input - 22) (drop 20 input)) 12 = word_at input 32"
    using True by (simp_all add: word_at_def)
  have c22: "length input - 2 - 20 = length input - 22" by simp
  show ?thesis
    using True td_decode_data_Ok[OF data, of "u16_from_le (input ! 2) (input ! 3)" "Serial (take 10 (drop 8 input))" p]
    unfolding td_decode_def td_layout_def Let_def take12 nths
    by (auto simp: MIN_TRANSLATED_DATA_SIZE_def c22 td_checksum_def has_length_byte_inverter word_at_def
        serial.expand split: if_splits)
next
  case False
  then show ?thesis by (simp add: td_decode_def td_layout_def MIN_TRANSLATED_DATA_SIZE_def Let_def)
qed

text \<open>
  C7: \<^verbatim>\<open>TranslatedData::decode\<close> accepts exactly the byte strings with the layout of an inverter
  reply, and returns the fields of that layout: at least 38 bytes, a checksum over the data section,
  a known Modbus function, and as many value bytes as the length byte says (for a counted reply) or
  two (for the others).
\<close>

theorem td_decode_accepts: "td_decode crc input = Ok p \<longleftrightarrow> td_layout crc input p"
  by (rule td_decode_layout)

end
