(* ===== verification/Packet_Decoder.thy ===== *)
theory Packet_Decoder
  imports Packet_Facts
begin

text \<open>
  The frame decoder \<^verbatim>\<open>PacketDecoder\<close> of \<^verbatim>\<open>eg4/packet_decoder.rs\<close>. A call looks at the bytes
  received so far and returns an error, \<^verbatim>\<open>None\<close> (more bytes are needed) or one packet, together
  with the buffer it leaves: the buffer loses a frame exactly when the frame was complete and its
  checksum was right. \<^verbatim>\<open>reserve\<close> changes the capacity of the buffer only.
\<close>

definition MAX_PACKET_SIZE :: nat where "MAX_PACKET_SIZE = 1024"
definition HEADER_BYTES :: bytes where "HEADER_BYTES = [161, 26]"
definition MIN_PACKET_SIZE :: nat where "MIN_PACKET_SIZE = 20"

definition verify_checksum :: "crc16 \<Rightarrow> bytes \<Rightarrow> u8 \<Rightarrow> unit outcome" where
  "verify_checksum crc data tcp_function =
     (if tcp_function = 194 then
        (let len = length data
         in if len < 22 then Err ''Packet too short for TranslatedData checksum verification''
            else let data_start = 20; data_end = len - 2
                 in if data_end \<le> data_start then Err ''Invalid packet length for checksum calculation''
                    else obind (slice data data_start data_end) (\<lambda>payload.
                         obind (slice_from data data_end) (\<lambda>received_checksum.
                         obind (slice received_checksum 0 2) (\<lambda>received.
                           if to_le_bytes (crc payload) \<noteq> received then Err ''Checksum mismatch''
                           else Ok ()))))
      else Ok ())"

definition decoder_decode :: "bool \<Rightarrow> crc16 \<Rightarrow> bytes \<Rightarrow> packet option outcome \<times> bytes" where
  "decoder_decode oc crc src =
     (let src_len = length src
      in if src_len < 6 then (Ok None, src)
         else if take 2 src \<noteq> HEADER_BYTES then (Err ''Invalid packet header'', src)
         else let packet_len = unat (u16_from_le (src ! 4) (src ! 5));
                  frame_len = 6 + packet_len
              in if frame_len < MIN_PACKET_SIZE then (Err ''Total frame length is too small'', src)
                 else if packet_len > MAX_PACKET_SIZE then (Err ''Packet size exceeds maximum allowed size'', src)
                 else if src_len < frame_len then (Ok None, src)
                 else let tcp_function = src ! 7
                      in case verify_checksum crc (take frame_len src) tcp_function of
                           Err e \<Rightarrow> (Err e, src)
                         | Panic \<Rightarrow> (Panic, src)
                         | Ok _ \<Rightarrow>
                             let data = take frame_len src; src' = drop frame_len src
                             in case packet_parse oc crc data of
                                  Ok packet \<Rightarrow> (Ok (Some packet), src')
                                | Err e \<Rightarrow> (Err e, src')
                                | Panic \<Rightarrow> (Panic, src'))"

section \<open>No panic\<close>

lemma verify_checksum_not_Panic [simp]: "verify_checksum crc data f \<noteq> Panic"
  by (auto simp: verify_checksum_def Let_def)

lemma unat_u8_of_nat: "unat (word_of_nat n :: u8) = n mod 256"
  by (simp add: unat_of_nat)

lemma low_byte_of_length: "unat (u16_from_le a b) mod 256 = unat a"
  using unsigned_less[of a, where ?'a = nat] by (simp add: unat_u16_from_le)

text \<open>
  In a frame of the decoder, whose length is six more than the little-endian number in its bytes 4
  and 5, the eight-bit test of \<^verbatim>\<open>Parser::parse\<close> for 18 bytes also guards the subtraction
  \<^verbatim>\<open>input[4] - 6\<close>: where it passes, the byte is at least twelve.
\<close>

lemma frame_length_guard:
  assumes "n = 6 + unat (u16_from_le a b)" "\<not> (word_of_nat n :: u8) < 18"
  shows "12 \<le> unat a" "unat a - 6 \<le> unat (word_of_nat n :: u8)"
proof -
  have "18 \<le> n mod 256"
    using assms(2) by (simp add: word_less_nat_alt unat_u8_of_nat)
  moreover have "n mod 256 = (6 + unat a) mod 256"
    using low_byte_of_length[of a b] assms(1) by (metis mod_add_right_eq)
  moreover have "unat a < 256" using unsigned_less[of a, where ?'a = nat] by simp
  ultimately have "n mod 256 = 6 + unat a"
  proof -
    assume n: "18 \<le> n mod 256" "n mod 256 = (6 + unat a) mod 256" and a: "unat a < 256"
    have "6 + unat a < 256"
    proof (rule ccontr)
      assume "\<not> 6 + unat a < 256"
      then have "(6 + unat a) mod 256 = 6 + unat a - 256" using a by (simp add: mod_if)
      with n a show False by simp
    qed
    with n show ?thesis by simp
  qed
  with \<open>18 \<le> n mod 256\<close> show "12 \<le> unat a" "unat a - 6 \<le> unat (word_of_nat n :: u8)"
    by (simp_all add: unat_u8_of_nat)
qed

text \<open>What \<^verbatim>\<open>Parser::parse\<close> does with a frame that the decoder cut out.\<close>

definition is_frame :: "bytes \<Rightarrow> bool" where
  "is_frame data \<longleftrightarrow> 20 \<le> length data \<and> take 2 data = HEADER_BYTES \<and>
     length data = 6 + unat (word_at data 4)"

lemma packet_parse_frame:
  assumes "is_frame data"
  shows "packet_parse oc crc data =
     (if length data mod 256 < 18 then Err ''packet less than 18 bytes?''
      else obind (tcp_function_try_from (data ! 7)) (\<lambda>f. packet_dispatch crc f data))"
proof -
  have small: "(word_of_nat (length data) :: u8) < 18 \<longleftrightarrow> length data mod 256 < 18"
    by (simp add: word_less_nat_alt unat_u8_of_nat)
  have data: "20 \<le> length data" "take 2 data = [161, 26]" "length data = 6 + unat (u16_from_le (data ! 4) (data ! 5))"
    using assms by (simp_all add: is_frame_def HEADER_BYTES_def word_at_def)
  show ?thesis
  proof (cases "length data mod 256 < 18")
    case True
    with small show ?thesis by (simp add: packet_parse_def Let_def)
  next
    case False
    then have big: "\<not> (word_of_nat (length data) :: u8) < 18" using small by simp
    note g = frame_length_guard[OF data(3) big]
    have sub: "sub_oc oc (data ! 4) 6 = Ok (data ! 4 - 6)"
      using g(1) by (simp add: sub_oc_def)
    have "unat (data ! 4 - 6) = unat (data ! 4) - 6"
      using g(1) by (simp add: unat_sub word_le_nat_alt)
    then have "\<not> (word_of_nat (length data) :: u8) < data ! 4 - 6"
      using g(2) by (simp add: word_less_nat_alt)
    with big sub data(1,2) False show ?thesis by (simp add: packet_parse_def Let_def)
  qed
qed

lemma packet_dispatch_not_Panic [simp]: "packet_dispatch crc f data \<noteq> Panic"
  by (cases f) (auto simp: packet_dispatch_def obind_eq_Panic)

lemma packet_parse_frame_not_Panic: "is_frame data \<Longrightarrow> packet_parse oc crc data \<noteq> Panic"
  by (auto simp: packet_parse_frame obind_eq_Panic)

text \<open>A buffer that passes the tests of the decoder starts with a frame.\<close>

definition frame_len :: "bytes \<Rightarrow> nat" where
  "frame_len src = 6 + unat (word_at src 4)"

definition has_frame :: "bytes \<Rightarrow> bool" where
  "has_frame src \<longleftrightarrow> 6 \<le> length src \<and> take 2 src = HEADER_BYTES \<and>
     20 \<le> frame_len src \<and> frame_len src \<le> 1030 \<and> frame_len src \<le> length src"

lemma has_frame_is_frame: "has_frame src \<Longrightarrow> is_frame (take (frame_len src) src)"
  by (auto simp: has_frame_def is_frame_def frame_len_def word_at_def min_def take_take)

lemma decoder_decode_frame:
  assumes "has_frame src"
  shows "decoder_decode oc crc src =
     (case verify_checksum crc (take (frame_len src) src) (src ! 7) of
        Err e \<Rightarrow> (Err e, src)
      | Panic \<Rightarrow> (Panic, src)
      | Ok _ \<Rightarrow> (case packet_parse oc crc (take (frame_len src) src) of
            Ok packet \<Rightarrow> (Ok (Some packet), drop (frame_len src) src)
          | Err e \<Rightarrow> (Err e, drop (frame_len src) src)
          | Panic \<Rightarrow> (Panic, drop (frame_len src) src)))"
  using assms
  by (auto simp: decoder_decode_def has_frame_def frame_len_def word_at_def Let_def MIN_PACKET_SIZE_def
      MAX_PACKET_SIZE_def split: outcome.splits)

lemma decoder_decode_no_frame:
  assumes "\<not> has_frame src"
  shows "snd (decoder_decode oc crc src) = src"
    "fst (decoder_decode oc crc src) = Ok None \<or> is_err (fst (decoder_decode oc crc src))"
  using assms
  by (auto simp: decoder_decode_def has_frame_def frame_len_def word_at_def Let_def MIN_PACKET_SIZE_def
      MAX_PACKET_SIZE_def split: outcome.splits)

text \<open>What the parser does with any bytes: only the subtraction \<^verbatim>\<open>input[4] - 6\<close> can fail.\<close>

lemma packet_parse_Panic:
  "packet_parse oc crc input = Panic \<longleftrightarrow>
    oc \<and> 18 \<le> length input mod 256 \<and> take 2 input = HEADER_BYTES \<and> input ! 4 < 6"
proof (cases "length input mod 256 < 18")
  case True
  then have "(word_of_nat (length input) :: u8) < 18" by (simp add: word_less_nat_alt unat_u8_of_nat)
  with True show ?thesis by (simp add: packet_parse_def Let_def)
next
  case False
  then have small: "\<not> (word_of_nat (length input) :: u8) < 18" by (simp add: word_less_nat_alt unat_u8_of_nat)
  have len: "18 \<le> length input" using False mod_less_eq_dividend[of "length input" 256] by linarith
  then have "slice input 0 2 = Ok (take 2 input)" "index input 4 = Ok (input ! 4)" "index input 7 = Ok (input ! 7)"
    by (simp_all add: slice_def index_def)
  with small False show ?thesis
    by (auto simp: packet_parse_def Let_def HEADER_BYTES_def sub_oc_def obind_eq_Panic not_less not_le word_less_nat_alt[of "input ! 4"] word_le_nat_alt[of 6]
        split: if_splits)
qed

text \<open>
  C5: no byte sequence makes the frame decoder panic, in a build with overflow checks or without. The
  packet parser that it calls is not safe by itself: on arbitrary bytes \<^verbatim>\<open>Parser::parse\<close> panics exactly
  when overflow is checked, the tests of length and prefix pass and the low byte of the length field is
  below six, so that \<^verbatim>\<open>input[4] - 6\<close> underflows. The decoder never gives it such bytes.
\<close>

theorem decoder_never_panics:
  "fst (decoder_decode oc crc src) \<noteq> Panic \<and>
   (packet_parse oc crc input = Panic \<longleftrightarrow>
      oc \<and> 18 \<le> length input mod 256 \<and> take 2 input = HEADER_BYTES \<and> input ! 4 < 6)"
proof (intro conjI packet_parse_Panic)
  show "fst (decoder_decode oc crc src) \<noteq> Panic"
  proof (cases "has_frame src")
    case True
    then show ?thesis
      using packet_parse_frame_not_Panic[OF has_frame_is_frame[OF True]]
      by (auto simp: decoder_decode_frame split: outcome.splits)
  next
    case False
    then show ?thesis using decoder_decode_no_frame(2)[OF False] by (metis is_err_simps(3) outcome.distinct(3))
  qed
qed

end
