(* ===== verification/Framing.thy ===== *)
theory Framing
  imports Packet_Decoder
begin

text \<open>
  The byte stream as the receiver of \<^verbatim>\<open>eg4/inverter.rs\<close> reads it: bytes are appended to a buffer
  and the frame decoder is called until it returns no packet (\<open>drain\<close>). The theory shows that the
  result does not depend on how the stream was cut into reads, and that the frames an inverter sends
  come out as the packets they stand for, in order.
\<close>

section \<open>The receive loop\<close>

lemma decoder_decode_shorter:
  assumes "decoder_decode oc crc src = (Ok (Some p), src')"
  shows "length src' < length src"
proof -
  have h: "has_frame src"
    using assms decoder_decode_no_frame[of src oc crc] by (metis fst_conv is_err_simps(2) option.distinct(1) outcome.inject(1))
  with assms show ?thesis
    by (auto simp: decoder_decode_frame has_frame_def split: outcome.splits)
qed

text \<open>
  \<^verbatim>\<open>while let Some(packet) = decoder.decode(&mut buf)?\<close>: the packets it yields, how it ends (without
  a packet, or with the error that ends the receiver) and the bytes it leaves in the buffer.
\<close>

function drain :: "bool \<Rightarrow> crc16 \<Rightarrow> bytes \<Rightarrow> packet list \<times> unit outcome \<times> bytes" where
  "drain oc crc buf =
     (case decoder_decode oc crc buf of
        (Ok (Some p), buf') \<Rightarrow> (case drain oc crc buf' of (ps, e, rest) \<Rightarrow> (p # ps, e, rest))
      | (Ok None, buf') \<Rightarrow> ([], Ok (), buf')
      | (Err e, buf') \<Rightarrow> ([], Err e, buf')
      | (Panic, buf') \<Rightarrow> ([], Panic, buf'))"
  by pat_completeness auto
termination
  by (relation "measure (\<lambda>(oc, crc, buf). length buf)") (auto intro: decoder_decode_shorter[OF sym])

declare drain.simps [simp del]

lemma has_frame_append: "has_frame src \<Longrightarrow> has_frame (src @ ext) \<and> frame_len (src @ ext) = frame_len src"
  by (auto simp: has_frame_def frame_len_def word_at_def nth_append)

lemma decoder_decode_append:
  assumes "fst (decoder_decode oc crc src) \<noteq> Ok None"
  shows "decoder_decode oc crc (src @ ext) =
     (fst (decoder_decode oc crc src), snd (decoder_decode oc crc src) @ ext)"
proof (cases "has_frame src")
  case True
  note ha = has_frame_append[OF True, of ext]
  have "8 \<le> length src" "frame_len src \<le> length src" using True by (auto simp: has_frame_def)
  with ha True show ?thesis
    by (auto simp: decoder_decode_frame nth_append split: outcome.splits)
next
  case False
  have six: "6 \<le> length src"
    using assms by (rule contrapos_np) (simp add: decoder_decode_def)
  then have same: "take 2 (src @ ext) = take 2 src" "(src @ ext) ! 4 = src ! 4" "(src @ ext) ! 5 = src ! 5"
    by (simp_all add: nth_append)
  show ?thesis
  proof (cases "take 2 src = HEADER_BYTES \<and> 20 \<le> frame_len src \<and> frame_len src \<le> 1030")
    case True
    with False six have "length src < frame_len src" by (auto simp: has_frame_def)
    with True six assms show ?thesis
      by (simp add: decoder_decode_def frame_len_def word_at_def Let_def MIN_PACKET_SIZE_def MAX_PACKET_SIZE_def)
  next
    case False
    with six same show ?thesis
      by (auto simp add: decoder_decode_def frame_len_def word_at_def Let_def MIN_PACKET_SIZE_def MAX_PACKET_SIZE_def)
  qed
qed

lemma drain_split:
  "drain oc crc (a @ b) =
     (case drain oc crc a of
        (ps, Ok _, rest) \<Rightarrow> (case drain oc crc (rest @ b) of (qs, e, rest') \<Rightarrow> (ps @ qs, e, rest'))
      | (ps, Err e, rest) \<Rightarrow> (ps, Err e, rest @ b)
      | (ps, Panic, rest) \<Rightarrow> (ps, Panic, rest @ b))"
proof (induction oc crc a rule: drain.induct)
  case (1 oc crc a)
  show ?case
  proof (cases "fst (decoder_decode oc crc a) = Ok None")
    case True
    then obtain a' where d: "decoder_decode oc crc a = (Ok None, a')" by (cases "decoder_decode oc crc a") auto
    then have "\<not> has_frame a \<or> a' = a"
      by (auto simp: decoder_decode_frame split: outcome.splits)
    then have "a' = a" using d decoder_decode_no_frame(1)[of a oc crc] by auto
    with d show ?thesis by (subst (2) drain.simps) (simp split: prod.split)
  next
    case False
    note app = decoder_decode_append[OF False, of b]
    show ?thesis
      using 1 app False
      by (subst drain.simps, subst (2) drain.simps)
        (auto split: prod.splits outcome.splits option.splits)
  qed
qed

text \<open>
  The packets do not depend on where the stream was cut. Draining \<open>a @ b\<close> at once gives what
  draining \<open>a\<close>, keeping the rest, and draining that rest with \<open>b\<close> behind it gives; where \<open>a\<close>
  already ends in an error, the same error comes after the same packets.
\<close>

theorem drain_append:
  "drain oc crc (a @ b) =
     (case drain oc crc a of
        (ps, Ok _, rest) \<Rightarrow> (case drain oc crc (rest @ b) of (qs, e, rest') \<Rightarrow> (ps @ qs, e, rest'))
      | (ps, Err e, rest) \<Rightarrow> (ps, Err e, rest @ b)
      | (ps, Panic, rest) \<Rightarrow> (ps, Panic, rest @ b))"
  by (rule drain_split)

section \<open>The frames of an inverter\<close>

text \<open>
  The frames as the inverter builds them, from the layouts that the decoders expect: the prefix, the
  protocol, the number of bytes that follow, a byte 1, the function, the serial number of the data
  logger and the payload. A reply to a read carries the number of its value bytes, a reply to a
  write carries the two bytes it wrote.
\<close>

definition lxp_frame :: "u16 \<Rightarrow> tcp_function \<Rightarrow> serial \<Rightarrow> bytes \<Rightarrow> bytes" where
  "lxp_frame protocol f datalog payload =
     HEADER_BYTES @ to_le_bytes protocol @ to_le_bytes (word_of_nat (12 + length payload))
       @ [1, tcp_function_u8 f] @ serial_data datalog @ payload"

definition reply_data :: "translated_data \<Rightarrow> bytes" where
  "reply_data p =
     [1, device_function_u8 (td_device_function p)] @ serial_data (td_inverter p)
       @ to_le_bytes (td_register p)
       @ (if td_device_function p \<in> {DevReadHold, DevReadInput} then [word_of_nat (length (td_values p))] else [])
       @ td_values p"

fun reply_payload :: "crc16 \<Rightarrow> packet \<Rightarrow> bytes" where
  "reply_payload crc (PHeartbeat p) = [0]"
| "reply_payload crc (PTranslatedData p) =
     to_le_bytes (word_of_nat (length (reply_data p) + 2)) @ reply_data p @ to_le_bytes (crc (reply_data p))"
| "reply_payload crc (PReadParam p) =
     to_le_bytes (rp_register p) @ to_le_bytes (word_of_nat (length (rp_values p))) @ rp_values p"
| "reply_payload crc (PWriteParam p) = [ucast (wp_register p)] @ wp_values p"

definition reply_frame :: "crc16 \<Rightarrow> packet \<Rightarrow> bytes" where
  "reply_frame crc p = lxp_frame 2 (packet_tcp_function p) (packet_datalog p) (reply_payload crc p)"

text \<open>
  The packets whose frame fits in 255 bytes and, heartbeats excepted, carries at least one value
  (a heartbeat frame has 19 bytes, one less than the decoder's minimum).
\<close>

fun reply_ok :: "packet \<Rightarrow> bool" where
  "reply_ok (PHeartbeat p) = False"
| "reply_ok (PTranslatedData p) =
     (serial_wf (td_datalog p) \<and> serial_wf (td_inverter p) \<and>
      (if td_device_function p \<in> {DevReadHold, DevReadInput}
       then 1 \<le> length (td_values p) \<and> length (td_values p) \<le> 218
       else length (td_values p) = 2))"
| "reply_ok (PReadParam p) =
     (serial_wf (rp_datalog p) \<and> 2 \<le> length (rp_values p) \<and> length (rp_values p) \<le> 233)"
| "reply_ok (PWriteParam p) =
     (serial_wf (wp_datalog p) \<and> unat (wp_register p) < 256 \<and> length (wp_values p) = 2)"

lemma lxp_frame_fields:
  assumes "serial_wf d" "length payload \<le> 1000"
  shows "length (lxp_frame pr f d payload) = 18 + length payload"
    "take 2 (lxp_frame pr f d payload) = HEADER_BYTES"
    "word_at (lxp_frame pr f d payload) 2 = pr"
    "unat (word_at (lxp_frame pr f d payload) 4) = 12 + length payload"
    "lxp_frame pr f d payload ! 7 = tcp_function_u8 f"
    "take 10 (drop 8 (lxp_frame pr f d payload)) = serial_data d"
    "drop 18 (lxp_frame pr f d payload) = payload"
proof -
  have "unat (word_of_nat (12 + length payload) :: u16) = 12 + length payload"
    using assms(2) by (simp add: unsigned_of_nat take_bit_nat_eq_self del: of_nat_add)
  then show "length (lxp_frame pr f d payload) = 18 + length payload"
    "take 2 (lxp_frame pr f d payload) = HEADER_BYTES"
    "word_at (lxp_frame pr f d payload) 2 = pr"
    "unat (word_at (lxp_frame pr f d payload) 4) = 12 + length payload"
    "lxp_frame pr f d payload ! 7 = tcp_function_u8 f"
    "take 10 (drop 8 (lxp_frame pr f d payload)) = serial_data d"
    "drop 18 (lxp_frame pr f d payload) = payload"
    using assms(1)
    by (simp_all add: lxp_frame_def HEADER_BYTES_def to_le_bytes_def serial_wf_def word_at_def del: of_nat_add)
qed

lemma nth_18: "drop 18 xs = ys \<Longrightarrow> 18 + i < length xs \<Longrightarrow> xs ! (18 + i) = ys ! i"
  by auto

lemma drop_18: "drop 18 xs = ys \<Longrightarrow> 18 \<le> k \<Longrightarrow> drop k xs = drop (k - 18) ys"
  by auto

lemma is_frame_lxp:
  assumes "serial_wf d" "2 \<le> length payload" "length payload \<le> 1000"
  shows "is_frame (lxp_frame pr f d payload)"
  using assms lxp_frame_fields[OF assms(1,3)] by (simp add: is_frame_def)

lemma has_frame_lxp:
  assumes "serial_wf d" "2 \<le> length payload" "length payload \<le> 237"
  shows "has_frame (lxp_frame pr f d payload @ rest)"
    "frame_len (lxp_frame pr f d payload @ rest) = length (lxp_frame pr f d payload)"
proof -
  let ?x = "lxp_frame pr f d payload"
  note f = lxp_frame_fields[OF assms(1), of payload pr f]
  have h: "has_frame ?x" using f assms(2,3) by (simp add: has_frame_def frame_len_def)
  show "has_frame (?x @ rest)" "frame_len (?x @ rest) = length ?x"
    using has_frame_append[OF h, of rest] f(1,4) assms(3) by (simp_all add: frame_len_def)
qed

text \<open>Once the payload's own decoder and checksum are known to accept, so does the frame decoder.\<close>

lemma decoder_decode_lxp:
  assumes "serial_wf d" "2 \<le> length payload" "length payload \<le> 237"
    and "verify_checksum crc (lxp_frame pr f d payload) (tcp_function_u8 f) = Ok ()"
    and "packet_dispatch crc f (lxp_frame pr f d payload) = Ok p"
  shows "decoder_decode oc crc (lxp_frame pr f d payload @ rest) = (Ok (Some p), rest)"
proof -
  let ?x = "lxp_frame pr f d payload"
  have le: "length payload \<le> 1000" using assms(3) by simp
  note f = lxp_frame_fields[OF assms(1) le, of pr f]
  note h = has_frame_lxp[OF assms(1-3), of pr f rest]
  have "(?x @ rest) ! 7 = tcp_function_u8 f" using f by (simp add: nth_append)
  moreover have "packet_parse oc crc ?x = Ok p"
    using packet_parse_frame[OF is_frame_lxp[OF assms(1,2) le]] f(1,5) assms(2,3,5) by simp
  ultimately show ?thesis
    using decoder_decode_frame[OF h(1)] h(2) assms(4) by simp
qed

text \<open>The three payloads, starting with the data section \<open>d\<close> of a translated-data frame.\<close>

lemma td_frame:
  fixes crc :: crc16 and pr :: u16
  assumes "serial_wf s" "16 \<le> length d" "length d \<le> 233" "length pre = 2"
  defines "x \<equiv> lxp_frame pr TcpTranslatedData s (pre @ d @ to_le_bytes (crc d))"
  shows "verify_checksum crc x 194 = Ok ()"
    "td_layout crc x p \<longleftrightarrow>
      (let counted = (td_device_function p \<in> {DevReadHold, DevReadInput} \<and> pr \<noteq> 1)
       in serial_data (td_datalog p) = serial_data s \<and>
         device_function_u8 (td_device_function p) = d ! 1 \<and>
         serial_data (td_inverter p) = take 10 (drop 2 d) \<and> td_register p = word_at d 12 \<and>
         td_values p = drop (if counted then 15 else 14) d \<and>
         length (td_values p) = (if counted then unat (d ! 14) else 2))"
proof -
  let ?pl = "pre @ d @ to_le_bytes (crc d)"
  have pl: "length ?pl = length d + 4" "length ?pl \<le> 1000" using assms(3,4) by simp_all
  note f = lxp_frame_fields[OF assms(1) pl(2), of pr TcpTranslatedData, folded x_def]
  have lx: "length x = 22 + length d" and px: "drop 18 x = ?pl" using f pl by simp_all
  have "drop 20 x = drop 2 (drop 18 x)" by simp
  then have d20: "drop 20 x = d @ to_le_bytes (crc d)" unfolding px using assms(4) by simp
  have "drop (length x - 2) x = drop (length d) (drop 20 x)" using lx by (simp add: add.commute)
  then have chk: "drop (length x - 2) x = to_le_bytes (crc d)" unfolding d20 by simp
  have data: "take (length x - 22) (drop 20 x) = d" unfolding d20 using lx by simp
  have n: "x ! (20 + i) = d ! i" if "i < length d" for i
  proof -
    have "x ! (20 + i) = drop 20 x ! i" using lx by simp
    then show ?thesis using that by (simp add: d20 nth_append)
  qed
  show "verify_checksum crc x 194 = Ok ()"
    using lx data chk assms(2) by (auto simp add: verify_checksum_def Let_def to_le_bytes_def)
  have "drop 22 x = drop 2 (drop 20 x)" by simp
  then have inv: "take 10 (drop 22 x) = take 10 (drop 2 d)" unfolding d20 using assms(2) by simp
  have "x ! 21 = d ! 1" "x ! 34 = d ! 14" "word_at x 32 = word_at d 12"
    using n[of 1] n[of 14] n[of 12] n[of 13] assms(2) by (simp_all add: word_at_def)
  then show "td_layout crc x p \<longleftrightarrow>
      (let counted = (td_device_function p \<in> {DevReadHold, DevReadInput} \<and> pr \<noteq> 1)
       in serial_data (td_datalog p) = serial_data s \<and>
         device_function_u8 (td_device_function p) = d ! 1 \<and>
         serial_data (td_inverter p) = take 10 (drop 2 d) \<and> td_register p = word_at d 12 \<and>
         td_values p = drop (if counted then 15 else 14) d \<and>
         length (td_values p) = (if counted then unat (d ! 14) else 2))"
    unfolding td_layout_def Let_def data inv f(6) f(3) chk using lx assms(2) by simp
qed

lemma td_reply:
  fixes crc :: crc16
  assumes "reply_ok (PTranslatedData p)"
  shows "td_layout crc (reply_frame crc (PTranslatedData p)) p"
    "verify_checksum crc (reply_frame crc (PTranslatedData p)) 194 = Ok ()"
    "2 \<le> length (reply_payload crc (PTranslatedData p))"
    "length (reply_payload crc (PTranslatedData p)) \<le> 237"
proof -
  let ?d = "reply_data p" and ?counted = "td_device_function p \<in> {DevReadHold, DevReadInput}"
  have wf: "serial_wf (td_datalog p)" "serial_wf (td_inverter p)" using assms by auto
  have len: "length ?d = 14 + (if ?counted then 1 else 0) + length (td_values p)"
    using wf by (simp add: reply_data_def serial_wf_def)
  have vlen: "16 \<le> length ?d" "length ?d \<le> 233" using assms len by (auto split: if_splits)
  then show "2 \<le> length (reply_payload crc (PTranslatedData p))"
    "length (reply_payload crc (PTranslatedData p)) \<le> 237" by simp_all
  have v: "unat (word_of_nat (length (td_values p)) :: u8) = length (td_values p)"
    using vlen(2) len by (simp add: unsigned_of_nat take_bit_nat_eq_self)
  note t = td_frame[OF wf(1) vlen, where pre = "to_le_bytes (word_of_nat (length ?d + 2))" and pr = 2 and crc = crc]
  have x: "reply_frame crc (PTranslatedData p) = lxp_frame 2 TcpTranslatedData (td_datalog p)
      (to_le_bytes (word_of_nat (length ?d + 2)) @ ?d @ to_le_bytes (crc ?d))"
    by (simp add: reply_frame_def)
  show "verify_checksum crc (reply_frame crc (PTranslatedData p)) 194 = Ok ()"
    unfolding x by (rule t(1)) simp
  have "?d ! 1 = device_function_u8 (td_device_function p)" "take 10 (drop 2 ?d) = serial_data (td_inverter p)"
    "word_at ?d 12 = td_register p"
    "drop (if ?counted then 15 else 14) ?d = td_values p"
    "?counted \<Longrightarrow> ?d ! 14 = word_of_nat (length (td_values p))"
    using wf by (auto simp: reply_data_def serial_wf_def to_le_bytes_def word_at_def nth_append)
  then show "td_layout crc (reply_frame crc (PTranslatedData p)) p"
    unfolding x using t(2) v assms by (auto simp: Let_def)
qed

lemma rp_reply:
  fixes crc :: crc16
  assumes "reply_ok (PReadParam p)"
  shows "rp_decode (reply_frame crc (PReadParam p)) = Ok p"
proof -
  let ?pl = "reply_payload crc (PReadParam p)" and ?x = "reply_frame crc (PReadParam p)"
  have wf: "serial_wf (rp_datalog p)" "length ?pl \<le> 1000" and n: "2 \<le> length (rp_values p)"
    using assms by auto
  note f = lxp_frame_fields[OF wf, of 2 TcpReadParam]
  have x: "?x = lxp_frame 2 TcpReadParam (rp_datalog p) ?pl" by (simp add: reply_frame_def)
  have v: "unat (word_of_nat (length (rp_values p)) :: u16) = length (rp_values p)"
    using wf(2) by (simp add: unsigned_of_nat take_bit_nat_eq_self)
  show ?thesis
    using f n v wf(1) unfolding x[symmetric]
    by (simp add: rp_decode_def Let_def word_at_def rp_has_value_length_bytes_def to_le_bytes_def serial_wf_def
        numeral_2_eq_2)
qed

lemma wp_reply:
  fixes crc :: crc16
  assumes "reply_ok (PWriteParam p)"
  shows "wp_decode (reply_frame crc (PWriteParam p)) = Ok p"
proof -
  let ?pl = "reply_payload crc (PWriteParam p)" and ?x = "reply_frame crc (PWriteParam p)"
  have wf: "serial_wf (wp_datalog p)" "length ?pl \<le> 1000" and n: "length (wp_values p) = 2"
    using assms by auto
  note f = lxp_frame_fields[OF wf, of 2 TcpWriteParam]
  have x: "?x = lxp_frame 2 TcpWriteParam (wp_datalog p) ?pl" by (simp add: reply_frame_def)
  have "unat (ucast (wp_register p) :: u8) = unat (wp_register p)"
    using assms by (simp add: unsigned_ucast_eq take_bit_nat_eq_self)
  then have r: "ucast (ucast (wp_register p) :: u8) = wp_register p"
    by (simp add: word_unat_eq_iff)
  show ?thesis
    using f n r wf(1) unfolding x[symmetric]
    by (simp add: wp_decode_def Let_def word_at_def wp_has_value_length_bytes_def to_le_bytes_def serial_wf_def)
qed

lemma decoder_decode_reply:
  assumes "reply_ok p"
  shows "decoder_decode oc crc (reply_frame crc p @ rest) = (Ok (Some p), rest)"
proof (cases p)
  case (PHeartbeat h)
  with assms show ?thesis by simp
next
  case (PTranslatedData t)
  note t = td_reply[of t crc, OF assms[unfolded PTranslatedData]]
  have "td_decode crc (reply_frame crc p) = Ok t"
    using t(1) PTranslatedData by (simp add: td_decode_layout)
  then show ?thesis
    using t(2-4) assms unfolding PTranslatedData reply_frame_def
    by (intro decoder_decode_lxp) (auto simp: packet_dispatch_def)
next
  case (PReadParam r)
  then show ?thesis
    using rp_reply[of r crc] assms unfolding reply_frame_def PReadParam
    by (intro decoder_decode_lxp) (auto simp: packet_dispatch_def verify_checksum_def)
next
  case (PWriteParam w)
  then show ?thesis
    using wp_reply[of w crc] assms unfolding reply_frame_def PWriteParam
    by (intro decoder_decode_lxp) (auto simp: packet_dispatch_def verify_checksum_def)
qed

lemma drain_reply_frames:
  assumes "\<forall>p \<in> set ps. reply_ok p"
  shows "drain oc crc (concat (map (reply_frame crc) ps) @ rest) =
    (case drain oc crc rest of (qs, e, rest') \<Rightarrow> (ps @ qs, e, rest'))"
  using assms
proof (induction ps)
  case Nil
  then show ?case by (simp split: prod.split)
next
  case (Cons p ps)
  then show ?case
    by (subst drain.simps) (simp add: decoder_decode_reply split: prod.split)
qed

text \<open>
  C4: the frames of an inverter come out of the receive loop as the packets they encode, in the order
  in which they were sent, each consuming exactly its own bytes, and the loop goes on with what
  follows them.
\<close>

theorem drain_replies:
  assumes "\<forall>p \<in> set ps. reply_ok p"
  shows "drain oc crc (concat (map (reply_frame crc) ps) @ rest) =
    (case drain oc crc rest of (qs, e, rest') \<Rightarrow> (ps @ qs, e, rest'))"
  using assms by (rule drain_reply_frames)

theorem drain_replies_witness:
  "let crc = (\<lambda>_. 0x1234);
       s = Serial (replicate 10 0x41);
       hold = PTranslatedData \<lparr> td_datalog = s, td_device_function = DevReadHold, td_inverter = s,
                td_register = 21, td_values = [0x80, 0] \<rparr>;
       par = PReadParam \<lparr> rp_datalog = s, rp_register = 4, rp_values = [1, 2, 3] \<rparr>
   in drain True crc (reply_frame crc hold @ reply_frame crc par @ [161, 26]) = ([hold, par], Ok (), [161, 26])"
proof -
  define crc :: crc16 where "crc = (\<lambda>_. 0x1234)"
  define s where "s = Serial (replicate 10 0x41)"
  define hold where "hold = PTranslatedData \<lparr> td_datalog = s, td_device_function = DevReadHold,
     td_inverter = s, td_register = 21, td_values = [0x80, 0] \<rparr>"
  define par where "par = PReadParam \<lparr> rp_datalog = s, rp_register = 4, rp_values = [1, 2, 3] \<rparr>"
  have ok: "\<forall>p \<in> set [hold, par]. reply_ok p"
    by (simp add: hold_def par_def s_def)
  have "drain True crc [161, 26] = ([], Ok (), [161, 26])"
    by (subst drain.simps) (simp add: decoder_decode_def)
  then show ?thesis
    using drain_replies[OF ok, of True crc "[161, 26]"]
    by (simp add: Let_def crc_def[symmetric] s_def[symmetric] hold_def[symmetric] par_def[symmetric])
qed

lemma rejected_frames_parts:
  assumes "serial_wf s" "is_frame data" "256 \<le> length data" "length data \<le> 273"
  shows "packet_parse oc crc (reply_frame crc (PHeartbeat \<lparr> hb_datalog = s \<rparr>)) = Ok (PHeartbeat \<lparr> hb_datalog = s \<rparr>)"
    and "fst (decoder_decode oc crc (reply_frame crc (PHeartbeat \<lparr> hb_datalog = s \<rparr>) @ rest)) =
       Err ''Total frame length is too small''"
    and "\<not> is_ok (packet_parse oc crc data)"
proof -
  let ?x = "lxp_frame 2 TcpHeartbeat s [0]"
  note f = lxp_frame_fields[OF assms(1), of "[0]" 2 TcpHeartbeat]
  have i: "?x ! 4 = 13 \<and> ?x ! 5 = 0 \<and> ?x ! 18 = 0 \<and> drop 8 ?x = serial_data s @ [0]"
    using assms(1) by (simp add: lxp_frame_def HEADER_BYTES_def to_le_bytes_def serial_wf_def nth_append lo8_def hi8_def)
  show "packet_parse oc crc (reply_frame crc (PHeartbeat \<lparr> hb_datalog = s \<rparr>)) = Ok (PHeartbeat \<lparr> hb_datalog = s \<rparr>)"
    using f i assms(1)
    by (simp add: reply_frame_def packet_parse_def Let_def sub_oc_def HEADER_BYTES_def
        packet_dispatch_def heartbeat_decode_def serial_wf_def tcp_function_try_from_def)
  show "fst (decoder_decode oc crc (reply_frame crc (PHeartbeat \<lparr> hb_datalog = s \<rparr>) @ rest)) =
       Err ''Total frame length is too small''"
    using f i by (simp add: reply_frame_def decoder_decode_def Let_def nth_append unat_u16_from_le MIN_PACKET_SIZE_def)
  have "length data mod 256 < 18"
    using assms(3,4) by (auto simp add: mod_if)
  then show "\<not> is_ok (packet_parse oc crc data)"
    using packet_parse_frame[OF assms(2)] by simp
qed

text \<open>
  C11: what the frame decoder does not let through although the parser behind it accepts it or the
  length limit allows it: a heartbeat frame, which has 19 bytes, and every frame of 256 to 273 bytes.
\<close>

theorem rejected_frames:
  assumes "serial_wf s" "is_frame data" "256 \<le> length data" "length data \<le> 273"
  shows "packet_parse oc crc (reply_frame crc (PHeartbeat \<lparr> hb_datalog = s \<rparr>)) = Ok (PHeartbeat \<lparr> hb_datalog = s \<rparr>) \<and>
     fst (decoder_decode oc crc (reply_frame crc (PHeartbeat \<lparr> hb_datalog = s \<rparr>) @ rest)) =
       Err ''Total frame length is too small'' \<and>
     \<not> is_ok (packet_parse oc crc data)"
  using rejected_frames_parts[OF assms] by blast

theorem rejected_frames_witness:
  "let s = Serial (replicate 10 0x41); long = lxp_frame 2 TcpReadParam s (replicate 240 0)
   in length long = 258 \<and> \<not> is_ok (packet_parse False (\<lambda>_. 0) long) \<and>
      fst (decoder_decode False (\<lambda>_. 0) (reply_frame (\<lambda>_. 0) (PHeartbeat \<lparr> hb_datalog = s \<rparr>))) =
       Err ''Total frame length is too small''"
proof -
  define s where "s = Serial (replicate 10 0x41)"
  define long where "long = lxp_frame 2 TcpReadParam s (replicate 240 0)"
  have wf: "serial_wf s" by (simp add: s_def)
  have fr: "is_frame long" unfolding long_def by (rule is_frame_lxp[OF wf]) simp_all
  have len: "length long = 258" unfolding long_def by (subst lxp_frame_fields(1)[OF wf]) simp_all
  note r = rejected_frames[OF wf fr, where oc = False and crc = "\<lambda>_. 0"]
  show ?thesis
    using r[where rest = "[]"] len
    unfolding s_def[symmetric] Let_def long_def[symmetric] by simp
qed

section \<open>The frames of the bridge\<close>

lemma td_bytes_single:
  assumes "td_device_function p \<noteq> DevWriteMulti"
  shows "td_bytes oc crc p =
    (let d = [0, device_function_u8 (td_device_function p)] @ serial_data (td_inverter p)
              @ to_le_bytes (td_register p) @ td_values p
     in Ok (to_le_bytes (word_of_nat (length d + 2)) @ d @ to_le_bytes (crc d)))"
  using assms by (cases "td_device_function p")
    (simp_all add: td_bytes_def td_has_value_length_byte_def td_protocol_def td_checksum_def Let_def)

text \<open>
  C12: a request of the bridge to the inverter, sent in a frame of its protocol, is decoded by the
  bridge's own decoder to the same packet, for every Modbus function but the multiple write (whose
  request carries a count and a length byte that the decoder does not expect).
\<close>

theorem td_request_round_trip:
  assumes "serial_wf (td_datalog p)" "serial_wf (td_inverter p)" "length (td_values p) = 2"
    and "td_device_function p \<noteq> DevWriteMulti"
  shows "\<exists>bs. td_bytes oc crc p = Ok bs \<and> length bs = 20 \<and>
    decoder_decode oc crc (lxp_frame (td_protocol p) TcpTranslatedData (td_datalog p) bs @ rest) =
      (Ok (Some (PTranslatedData p)), rest)"
proof -
  define d where "d = [0, device_function_u8 (td_device_function p)] @ serial_data (td_inverter p)
              @ to_le_bytes (td_register p) @ td_values p"
  define bs where "bs = to_le_bytes (word_of_nat (length d + 2)) @ d @ to_le_bytes (crc d)"
  have ld: "length d = 16" using assms by (simp add: serial_wf_def d_def)
  have b: "td_bytes oc crc p = Ok bs" "length bs = 20"
    using td_bytes_single[OF assms(4), of oc crc] ld unfolding bs_def d_def Let_def by (blast, simp)
  note t = td_frame[OF assms(1), where d = d and pre = "to_le_bytes (word_of_nat (length d + 2))" and pr = 1 and crc = crc, folded bs_def]
  have "d ! 1 = device_function_u8 (td_device_function p)" "take 10 (drop 2 d) = serial_data (td_inverter p)"
    "word_at d 12 = td_register p" "drop 14 d = td_values p"
    using assms by (simp_all add: d_def serial_wf_def to_le_bytes_def word_at_def nth_append)
  then have "td_decode crc (lxp_frame 1 TcpTranslatedData (td_datalog p) bs) = Ok p"
    unfolding td_decode_layout using t(2)[of p] ld assms(3) by (simp add: Let_def)
  moreover have "verify_checksum crc (lxp_frame 1 TcpTranslatedData (td_datalog p) bs) 194 = Ok ()"
    using t(1) ld by simp
  ultimately have "decoder_decode oc crc (lxp_frame 1 TcpTranslatedData (td_datalog p) bs @ rest) =
      (Ok (Some (PTranslatedData p)), rest)"
    using assms(1) b(2) by (intro decoder_decode_lxp) (simp_all add: packet_dispatch_def)
  then show ?thesis using b assms(4) by (simp add: td_protocol_def)
qed

theorem td_request_round_trip_witness:
  "let p = \<lparr> td_datalog = serial_default, td_device_function = DevReadHold, td_inverter = serial_default,
             td_register = 12, td_values = [3, 0] \<rparr>
   in \<exists>bs. td_bytes True (\<lambda>_. 7) p = Ok bs \<and>
     decoder_decode True (\<lambda>_. 7) (lxp_frame 1 TcpTranslatedData serial_default bs @ [1]) =
       (Ok (Some (PTranslatedData p)), [1])"
  using td_request_round_trip[of "\<lparr> td_datalog = serial_default, td_device_function = DevReadHold,
     td_inverter = serial_default, td_register = 12, td_values = [3, 0] \<rparr>" True "\<lambda>_. 7" "[1]"]
  by (simp add: Let_def td_protocol_def) blast

text \<open>
  What \<^verbatim>\<open>TcpFrameFactory\<close> builds is not a frame of the protocol: it starts with the serial
  number of the data logger instead of the prefix, so the decoder rejects it unless the serial
  number happens to start with the two bytes of the prefix.
\<close>

theorem create_frame_no_prefix:
  assumes "serial_wf datalog" "create_frame oc crc datalog p = Ok frame"
    and "take 2 (serial_data datalog) \<noteq> HEADER_BYTES"
  shows "decoder_decode oc crc frame = (Err ''Invalid packet header'', frame)"
proof -
  obtain t where t: "frame = serial_data datalog @ t"
    using assms(2) by (auto simp: create_frame_def obind_eq_Ok Let_def)
  then show ?thesis using assms(1,3) by (simp add: decoder_decode_def Let_def serial_wf_def)
qed

theorem create_frame_no_prefix_witness:
  "create_frame True (\<lambda>_. 7) serial_default (PHeartbeat \<lparr> hb_datalog = serial_default \<rparr>) =
     Ok (replicate 10 0 @ [4, 0, 1, 0]) \<and>
   decoder_decode True (\<lambda>_. 7) (replicate 10 0 @ [4, 0, 1, 0]) =
     (Err ''Invalid packet header'', replicate 10 0 @ [4, 0, 1, 0])"
proof -
  have f: "create_frame True (\<lambda>_. 7) serial_default (PHeartbeat \<lparr> hb_datalog = serial_default \<rparr>) =
     Ok (replicate 10 0 @ [4, 0, 1, 0])"
    by (simp add: create_frame_def heartbeat_bytes_def serial_default_def to_be_bytes_def hi8_def lo8_def)
  have "take 2 (serial_data serial_default) = [0, 0]"
    by (simp add: serial_default_def numeral_2_eq_2)
  then have "take 2 (serial_data serial_default) \<noteq> HEADER_BYTES"
    by (simp add: HEADER_BYTES_def)
  with create_frame_no_prefix[OF serial_wf_default f] f show ?thesis by blast
qed

end
