(* ===== verification/Packet_Types.thy ===== *)
theory Packet_Types
  imports Framing
begin

text \<open>
  The type of the packets that leave the frame decoder: what the rest of the program may rely on for
  every packet it is handed, whatever bytes came over the connection.
\<close>

fun packet_wf :: "packet \<Rightarrow> bool" where
  "packet_wf (PHeartbeat p) \<longleftrightarrow> serial_wf (hb_datalog p)"
| "packet_wf (PTranslatedData p) \<longleftrightarrow>
     serial_wf (td_datalog p) \<and> serial_wf (td_inverter p) \<and>
     (if td_device_function p \<in> {DevReadHold, DevReadInput} then length (td_values p) \<le> 255
      else length (td_values p) = 2)"
| "packet_wf (PReadParam p) \<longleftrightarrow> serial_wf (rp_datalog p) \<and> length (rp_values p) \<le> 1008"
| "packet_wf (PWriteParam p) \<longleftrightarrow> serial_wf (wp_datalog p) \<and> length (wp_values p) = 2 \<and> wp_register p < 256"

lemma heartbeat_decode_wf: "heartbeat_decode input = Ok p \<Longrightarrow> serial_wf (hb_datalog p)"
  by (auto simp: heartbeat_decode_def Let_def obind_eq_Ok serial_new_eq_Ok split: if_splits)

lemma serial_wf_data: "length (serial_data s) = 10 \<Longrightarrow> serial_wf s"
  by (cases s) simp

lemma td_decode_wf:
  assumes "td_decode crc input = Ok p"
  shows "packet_wf (PTranslatedData p)"
proof -
  have l: "td_layout crc input p" using assms by (simp add: td_decode_layout)
  have s: "38 \<le> length input" "serial_data (td_datalog p) = take 10 (drop 8 input)"
      "serial_data (td_inverter p) = take 10 (drop 22 input)"
    using l by (simp_all add: td_layout_def Let_def)
  have "unat (input ! 34) \<le> 255" using unsigned_less[of "input ! 34", where ?'a = nat] by simp
  then have "length (td_values p) \<le> 255 \<and>
      (td_device_function p \<notin> {DevReadHold, DevReadInput} \<longrightarrow> length (td_values p) = 2)"
    using l by (auto simp: td_layout_def Let_def split: if_splits)
  with s show ?thesis by (simp add: serial_wf_data)
qed

lemma rp_decode_wf:
  assumes "rp_decode input = Ok p" "length input \<le> 1030"
  shows "packet_wf (PReadParam p)"
  using assms
  by (auto simp: rp_decode_def Let_def obind_eq_Ok serial_new_eq_Ok rp_has_value_length_bytes_def split: if_splits)

lemma ucast_u8_less: "(ucast (r :: u8) :: u16) < 256"
  using unsigned_less[of r, where ?'a = nat] by (simp add: word_less_nat_alt unsigned_ucast_eq take_bit_nat_eq_self)

lemma wp_decode_wf: "wp_decode input = Ok p \<Longrightarrow> packet_wf (PWriteParam p)"
  by (auto simp: wp_decode_def Let_def obind_eq_Ok serial_new_eq_Ok wp_has_value_length_bytes_def ucast_u8_less
      split: if_splits)

lemma packet_dispatch_wf: "packet_dispatch crc f input = Ok p \<Longrightarrow> length input \<le> 1030 \<Longrightarrow> packet_wf p"
  using td_decode_wf[of crc input] rp_decode_wf[of input] wp_decode_wf[of input]
  by (cases f) (auto simp: packet_dispatch_def obind_eq_Ok heartbeat_decode_wf)

lemma decoder_decode_wf:
  assumes "decoder_decode oc crc src = (Ok (Some p), src')"
  shows "packet_wf p"
proof -
  have h: "has_frame src"
    using assms decoder_decode_no_frame[of src oc crc] by (metis fst_conv is_err_simps(2) option.distinct(1) outcome.inject(1))
  have "length (take (frame_len src) src) \<le> 1030" using h by (simp add: has_frame_def)
  moreover have "packet_parse oc crc (take (frame_len src) src) = Ok p"
    using assms by (simp add: decoder_decode_frame[OF h] split: outcome.splits)
  ultimately show ?thesis
    using packet_dispatch_wf by (auto simp: packet_parse_frame[OF has_frame_is_frame[OF h]] obind_eq_Ok split: if_splits)
qed

text \<open>
  C6: the type of the packets of the receive loop. Whatever the bytes, every packet has serial numbers
  of ten bytes; register data has at most 255 value bytes for a read and exactly two for every other
  function, a parameter reply at most 1008, and the echo of a parameter write exactly two, for a
  register below 256. So the fixed-size accesses to an echo of a write are in range.
\<close>

theorem drain_packets_wf: "list_all packet_wf (fst (drain oc crc buf))"
proof (induction oc crc buf rule: drain.induct)
  case (1 oc crc buf)
  then show ?case
    using decoder_decode_wf[of oc crc buf]
    by (subst drain.simps) (auto split: prod.splits outcome.splits option.splits)
qed

end
