(* ===== verification/Inputs.thy ===== *)
theory Inputs
  imports Bridge_Prelude F64 Wire
begin

text \<open>
  The input-register blocks of \<^verbatim>\<open>eg4/packet.rs\<close>: the structs \<^verbatim>\<open>ReadInput1\<close> to \<^verbatim>\<open>ReadInput6\<close>
  with the parsers that the derive attributes \<^verbatim>\<open>Nom\<close> of the first five expand to: the fields in
  declaration order, each read by its own parser, an ignored field set to its default. For each
  parser a layout says which bytes of the block every field comes from, and a lemma that the parser
  reads exactly that layout.
\<close>

type_synonym i8 = "8 word"
type_synonym i32 = "32 word"

lemma reads_intros:
  assumes "nom_ok N"
  shows "\<And>p n g f m h. reads p n g \<Longrightarrow> (\<And>a. reads (f a) m (h a)) \<Longrightarrow>
      reads (pbind p f) (n + m) (\<lambda>bs. h (g bs) (drop n bs))"
    "\<And>p n g k. reads p n g \<Longrightarrow> reads (skip_before N k p) (k + n) (\<lambda>bs. g (drop k bs))"
    "\<And>now. reads (current_time_for_nom now) 0 (\<lambda>_. now)"
    "reads (nom_u8 N) 1 (\<lambda>bs. bs ! 0)" "reads (nom_i8 N) 1 (\<lambda>bs. bs ! 0)"
    "reads (nom_u16 N) 2 (\<lambda>bs. word_at bs 0)" "reads (nom_u32 N) 4 (\<lambda>bs. dword_at bs 0)"
    "reads (le_u16_div10 N) 2 (\<lambda>bs. deci (word_at bs 0))"
    "reads (le_u16_div100 N) 2 (\<lambda>bs. centi (word_at bs 0))"
    "reads (le_u16_div1000 N) 2 (\<lambda>bs. milli (word_at bs 0))"
    "reads (le_u32_div10 N) 4 (\<lambda>bs. deci32 (dword_at bs 0))"
    "reads (le_u16_checked_div10 N) 2 (\<lambda>bs. checked_deci (word_at bs 0))"
    "\<And>a. reads (preturn a) 0 (\<lambda>_. a)"
  by (rule reads_pbind reads_skip[OF assms] reads_time nom_okD[OF assms] reads_utils[OF assms]
      reads_checked[OF assms] reads_preturn; assumption?)+

section \<open>ReadInput1\<close>

record read_input1 = 
  r1_status :: "u16"
  r1_v_pv_1 :: "f64 option"
  r1_v_pv_2 :: "f64 option"
  r1_v_pv_3 :: "f64 option"
  r1_v_bat :: "f64 option"
  r1_soc :: "i8"
  r1_soh :: "i8"
  r1_internal_fault :: "u16"
  r1_p_pv :: "u16"
  r1_p_pv_1 :: "u16"
  r1_p_pv_2 :: "u16"
  r1_p_pv_3 :: "u16"
  r1_p_battery :: "i32"
  r1_p_charge :: "u16"
  r1_p_discharge :: "u16"
  r1_v_ac_r :: "f64"
  r1_v_ac_s :: "f64"
  r1_v_ac_t :: "f64"
  r1_f_ac :: "f64"
  r1_p_inv :: "u16"
  r1_p_rec :: "u16"
  r1_pf :: "f64"
  r1_v_eps_r :: "f64"
  r1_v_eps_s :: "f64"
  r1_v_eps_t :: "f64"
  r1_f_eps :: "f64"
  r1_p_eps :: "u16"
  r1_s_eps :: "u16"
  r1_p_grid :: "i32"
  r1_p_to_grid :: "u16"
  r1_p_to_user :: "u16"
  r1_e_pv_day :: "f64"
  r1_e_pv_day_1 :: "f64"
  r1_e_pv_day_2 :: "f64"
  r1_e_pv_day_3 :: "f64"
  r1_e_inv_day :: "f64"
  r1_e_rec_day :: "f64"
  r1_e_chg_day :: "f64"
  r1_e_dischg_day :: "f64"
  r1_e_eps_day :: "f64"
  r1_e_to_grid_day :: "f64"
  r1_e_to_user_day :: "f64"
  r1_v_bus_1 :: "f64"
  r1_v_bus_2 :: "f64"
  r1_time :: "unix_time"
  r1_datalog :: "serial"

definition parse_read_input1 :: "nom_lib \<Rightarrow> unix_time \<Rightarrow> read_input1 parser" where
  "parse_read_input1 N now =
     pbind (nom_u16 N) (\<lambda>status.
     pbind (le_u16_checked_div10 N) (\<lambda>v_pv_1.
     pbind (le_u16_checked_div10 N) (\<lambda>v_pv_2.
     pbind (le_u16_checked_div10 N) (\<lambda>v_pv_3.
     pbind (le_u16_checked_div10 N) (\<lambda>v_bat.
     pbind (nom_i8 N) (\<lambda>soc.
     pbind (nom_i8 N) (\<lambda>soh.
     pbind (nom_u16 N) (\<lambda>internal_fault.
     pbind (nom_u16 N) (\<lambda>p_pv_1.
     pbind (nom_u16 N) (\<lambda>p_pv_2.
     pbind (nom_u16 N) (\<lambda>p_pv_3.
     pbind (nom_u16 N) (\<lambda>p_charge.
     pbind (nom_u16 N) (\<lambda>p_discharge.
     pbind (le_u16_div10 N) (\<lambda>v_ac_r.
     pbind (le_u16_div10 N) (\<lambda>v_ac_s.
     pbind (le_u16_div10 N) (\<lambda>v_ac_t.
     pbind (le_u16_div100 N) (\<lambda>f_ac.
     pbind (nom_u16 N) (\<lambda>p_inv.
     pbind (nom_u16 N) (\<lambda>p_rec.
     pbind (skip_before N 2 (le_u16_div1000 N)) (\<lambda>pf.
     pbind (le_u16_div10 N) (\<lambda>v_eps_r.
     pbind (le_u16_div10 N) (\<lambda>v_eps_s.
     pbind (le_u16_div10 N) (\<lambda>v_eps_t.
     pbind (le_u16_div100 N) (\<lambda>f_eps.
     pbind (nom_u16 N) (\<lambda>p_eps.
     pbind (nom_u16 N) (\<lambda>s_eps.
     pbind (nom_u16 N) (\<lambda>p_to_grid.
     pbind (nom_u16 N) (\<lambda>p_to_user.
     pbind (le_u16_div10 N) (\<lambda>e_pv_day_1.
     pbind (le_u16_div10 N) (\<lambda>e_pv_day_2.
     pbind (le_u16_div10 N) (\<lambda>e_pv_day_3.
     pbind (le_u16_div10 N) (\<lambda>e_inv_day.
     pbind (le_u16_div10 N) (\<lambda>e_rec_day.
     pbind (le_u16_div10 N) (\<lambda>e_chg_day.
     pbind (le_u16_div10 N) (\<lambda>e_dischg_day.
     pbind (le_u16_div10 N) (\<lambda>e_eps_day.
     pbind (le_u16_div10 N) (\<lambda>e_to_grid_day.
     pbind (le_u16_div10 N) (\<lambda>e_to_user_day.
     pbind (le_u16_div10 N) (\<lambda>v_bus_1.
     pbind (le_u16_div10 N) (\<lambda>v_bus_2.
     pbind (current_time_for_nom now) (\<lambda>time.
     preturn
       \<lparr> r1_status = status,
         r1_v_pv_1 = v_pv_1,
         r1_v_pv_2 = v_pv_2,
         r1_v_pv_3 = v_pv_3,
         r1_v_bat = v_bat,
         r1_soc = soc,
         r1_soh = soh,
         r1_internal_fault = internal_fault,
         r1_p_pv = 0,
         r1_p_pv_1 = p_pv_1,
         r1_p_pv_2 = p_pv_2,
         r1_p_pv_3 = p_pv_3,
         r1_p_battery = 0,
         r1_p_charge = p_charge,
         r1_p_discharge = p_discharge,
         r1_v_ac_r = v_ac_r,
         r1_v_ac_s = v_ac_s,
         r1_v_ac_t = v_ac_t,
         r1_f_ac = f_ac,
         r1_p_inv = p_inv,
         r1_p_rec = p_rec,
         r1_pf = pf,
         r1_v_eps_r = v_eps_r,
         r1_v_eps_s = v_eps_s,
         r1_v_eps_t = v_eps_t,
         r1_f_eps = f_eps,
         r1_p_eps = p_eps,
         r1_s_eps = s_eps,
         r1_p_grid = 0,
         r1_p_to_grid = p_to_grid,
         r1_p_to_user = p_to_user,
         r1_e_pv_day = 0,
         r1_e_pv_day_1 = e_pv_day_1,
         r1_e_pv_day_2 = e_pv_day_2,
         r1_e_pv_day_3 = e_pv_day_3,
         r1_e_inv_day = e_inv_day,
         r1_e_rec_day = e_rec_day,
         r1_e_chg_day = e_chg_day,
         r1_e_dischg_day = e_dischg_day,
         r1_e_eps_day = e_eps_day,
         r1_e_to_grid_day = e_to_grid_day,
         r1_e_to_user_day = e_to_user_day,
         r1_v_bus_1 = v_bus_1,
         r1_v_bus_2 = v_bus_2,
         r1_time = time,
         r1_datalog = serial_default \<rparr>)))))))))))))))))))))))))))))))))))))))))"

definition r1_layout :: "unix_time \<Rightarrow> bytes \<Rightarrow> read_input1" where
  "r1_layout now bs =
     \<lparr> r1_status = word_at bs 0,
       r1_v_pv_1 = checked_deci (word_at bs 2),
       r1_v_pv_2 = checked_deci (word_at bs 4),
       r1_v_pv_3 = checked_deci (word_at bs 6),
       r1_v_bat = checked_deci (word_at bs 8),
       r1_soc = bs ! 10,
       r1_soh = bs ! 11,
       r1_internal_fault = word_at bs 12,
       r1_p_pv = 0,
       r1_p_pv_1 = word_at bs 14,
       r1_p_pv_2 = word_at bs 16,
       r1_p_pv_3 = word_at bs 18,
       r1_p_battery = 0,
       r1_p_charge = word_at bs 20,
       r1_p_discharge = word_at bs 22,
       r1_v_ac_r = deci (word_at bs 24),
       r1_v_ac_s = deci (word_at bs 26),
       r1_v_ac_t = deci (word_at bs 28),
       r1_f_ac = centi (word_at bs 30),
       r1_p_inv = word_at bs 32,
       r1_p_rec = word_at bs 34,
       r1_pf = milli (word_at bs 38),
       r1_v_eps_r = deci (word_at bs 40),
       r1_v_eps_s = deci (word_at bs 42),
       r1_v_eps_t = deci (word_at bs 44),
       r1_f_eps = centi (word_at bs 46),
       r1_p_eps = word_at bs 48,
       r1_s_eps = word_at bs 50,
       r1_p_grid = 0,
       r1_p_to_grid = word_at bs 52,
       r1_p_to_user = word_at bs 54,
       r1_e_pv_day = 0,
       r1_e_pv_day_1 = deci (word_at bs 56),
       r1_e_pv_day_2 = deci (word_at bs 58),
       r1_e_pv_day_3 = deci (word_at bs 60),
       r1_e_inv_day = deci (word_at bs 62),
       r1_e_rec_day = deci (word_at bs 64),
       r1_e_chg_day = deci (word_at bs 66),
       r1_e_dischg_day = deci (word_at bs 68),
       r1_e_eps_day = deci (word_at bs 70),
       r1_e_to_grid_day = deci (word_at bs 72),
       r1_e_to_user_day = deci (word_at bs 74),
       r1_v_bus_1 = deci (word_at bs 76),
       r1_v_bus_2 = deci (word_at bs 78),
       r1_time = now,
       r1_datalog = serial_default \<rparr>"

lemma reads_r1:
  assumes "nom_ok N"
  shows "reads (parse_read_input1 N now) 80 (r1_layout now)"
proof -
  have "\<exists>n g. reads (parse_read_input1 N now) n g \<and> n = 80 \<and> (\<forall>bs. 80 \<le> length bs \<longrightarrow> g bs = r1_layout now bs)"
    unfolding parse_read_input1_def
    apply (rule exI, rule exI, rule conjI)
     apply (rule reads_intros[OF assms])+
    apply (simp add: r1_layout_def word_at_def dword_at_def)
    done
  then show ?thesis by (auto simp: reads_def)
qed

section \<open>ReadInput2\<close>

record read_input2 = 
  r2_e_pv_all :: "f64"
  r2_e_pv_all_1 :: "f64"
  r2_e_pv_all_2 :: "f64"
  r2_e_pv_all_3 :: "f64"
  r2_e_inv_all :: "f64"
  r2_e_rec_all :: "f64"
  r2_e_chg_all :: "f64"
  r2_e_dischg_all :: "f64"
  r2_e_eps_all :: "f64"
  r2_e_to_grid_all :: "f64"
  r2_e_to_user_all :: "f64"
  r2_fault_code :: "u32"
  r2_warning_code :: "u32"
  r2_t_inner :: "u16"
  r2_t_rad_1 :: "u16"
  r2_t_rad_2 :: "u16"
  r2_t_bat :: "u16"
  r2_t_rad_3 :: "u16"
  r2_runtime :: "u32"
  r2_auto_test_status :: "u16"
  r2_auto_test_stage :: "u16"
  r2_auto_test_timeout :: "u16"
  r2_auto_test_frequency_upper :: "u16"
  r2_auto_test_frequency_lower :: "u16"
  r2_auto_test_voltage_upper :: "u16"
  r2_auto_test_voltage_lower :: "u16"
  r2_auto_test_power :: "u16"
  r2_auto_test_result :: "u16"
  r2_bat_brand :: "u8"
  r2_bat_com_type :: "u8"
  r2_time :: "unix_time"
  r2_datalog :: "serial"

definition parse_read_input2 :: "nom_lib \<Rightarrow> unix_time \<Rightarrow> read_input2 parser" where
  "parse_read_input2 N now =
     pbind (le_u32_div10 N) (\<lambda>e_pv_all_1.
     pbind (le_u32_div10 N) (\<lambda>e_pv_all_2.
     pbind (le_u32_div10 N) (\<lambda>e_pv_all_3.
     pbind (le_u32_div10 N) (\<lambda>e_inv_all.
     pbind (le_u32_div10 N) (\<lambda>e_rec_all.
     pbind (le_u32_div10 N) (\<lambda>e_chg_all.
     pbind (le_u32_div10 N) (\<lambda>e_dischg_all.
     pbind (le_u32_div10 N) (\<lambda>e_eps_all.
     pbind (le_u32_div10 N) (\<lambda>e_to_grid_all.
     pbind (le_u32_div10 N) (\<lambda>e_to_user_all.
     pbind (nom_u32 N) (\<lambda>fault_code.
     pbind (nom_u32 N) (\<lambda>warning_code.
     pbind (nom_u16 N) (\<lambda>t_inner.
     pbind (nom_u16 N) (\<lambda>t_rad_1.
     pbind (nom_u16 N) (\<lambda>t_rad_2.
     pbind (nom_u16 N) (\<lambda>t_bat.
     pbind (nom_u16 N) (\<lambda>t_rad_3.
     pbind (nom_u32 N) (\<lambda>runtime.
     pbind (nom_u16 N) (\<lambda>auto_test_status.
     pbind (nom_u16 N) (\<lambda>auto_test_stage.
     pbind (nom_u16 N) (\<lambda>auto_test_timeout.
     pbind (nom_u16 N) (\<lambda>auto_test_frequency_upper.
     pbind (nom_u16 N) (\<lambda>auto_test_frequency_lower.
     pbind (nom_u16 N) (\<lambda>auto_test_voltage_upper.
     pbind (nom_u16 N) (\<lambda>auto_test_voltage_lower.
     pbind (nom_u16 N) (\<lambda>auto_test_power.
     pbind (nom_u16 N) (\<lambda>auto_test_result.
     pbind (nom_u8 N) (\<lambda>bat_brand.
     pbind (nom_u8 N) (\<lambda>bat_com_type.
     pbind (current_time_for_nom now) (\<lambda>time.
     preturn
       \<lparr> r2_e_pv_all = 0,
         r2_e_pv_all_1 = e_pv_all_1,
         r2_e_pv_all_2 = e_pv_all_2,
         r2_e_pv_all_3 = e_pv_all_3,
         r2_e_inv_all = e_inv_all,
         r2_e_rec_all = e_rec_all,
         r2_e_chg_all = e_chg_all,
         r2_e_dischg_all = e_dischg_all,
         r2_e_eps_all = e_eps_all,
         r2_e_to_grid_all = e_to_grid_all,
         r2_e_to_user_all = e_to_user_all,
         r2_fault_code = fault_code,
         r2_warning_code = warning_code,
         r2_t_inner = t_inner,
         r2_t_rad_1 = t_rad_1,
         r2_t_rad_2 = t_rad_2,
         r2_t_bat = t_bat,
         r2_t_rad_3 = t_rad_3,
         r2_runtime = runtime,
         r2_auto_test_status = auto_test_status,
         r2_auto_test_stage = auto_test_stage,
         r2_auto_test_timeout = auto_test_timeout,
         r2_auto_test_frequency_upper = auto_test_frequency_upper,
         r2_auto_test_frequency_lower = auto_test_frequency_lower,
         r2_auto_test_voltage_upper = auto_test_voltage_upper,
         r2_auto_test_voltage_lower = auto_test_voltage_lower,
         r2_auto_test_power = auto_test_power,
         r2_auto_test_result = auto_test_result,
         r2_bat_brand = bat_brand,
         r2_bat_com_type = bat_com_type,
         r2_time = time,
         r2_datalog = serial_default \<rparr>))))))))))))))))))))))))))))))"

definition r2_layout :: "unix_time \<Rightarrow> bytes \<Rightarrow> read_input2" where
  "r2_layout now bs =
     \<lparr> r2_e_pv_all = 0,
       r2_e_pv_all_1 = deci32 (dword_at bs 0),
       r2_e_pv_all_2 = deci32 (dword_at bs 4),
       r2_e_pv_all_3 = deci32 (dword_at bs 8),
       r2_e_inv_all = deci32 (dword_at bs 12),
       r2_e_rec_all = deci32 (dword_at bs 16),
       r2_e_chg_all = deci32 (dword_at bs 20),
       r2_e_dischg_all = deci32 (dword_at bs 24),
       r2_e_eps_all = deci32 (dword_at bs 28),
       r2_e_to_grid_all = deci32 (dword_at bs 32),
       r2_e_to_user_all = deci32 (dword_at bs 36),
       r2_fault_code = dword_at bs 40,
       r2_warning_code = dword_at bs 44,
       r2_t_inner = word_at bs 48,
       r2_t_rad_1 = word_at bs 50,
       r2_t_rad_2 = word_at bs 52,
       r2_t_bat = word_at bs 54,
       r2_t_rad_3 = word_at bs 56,
       r2_runtime = dword_at bs 58,
       r2_auto_test_status = word_at bs 62,
       r2_auto_test_stage = word_at bs 64,
       r2_auto_test_timeout = word_at bs 66,
       r2_auto_test_frequency_upper = word_at bs 68,
       r2_auto_test_frequency_lower = word_at bs 70,
       r2_auto_test_voltage_upper = word_at bs 72,
       r2_auto_test_voltage_lower = word_at bs 74,
       r2_auto_test_power = word_at bs 76,
       r2_auto_test_result = word_at bs 78,
       r2_bat_brand = bs ! 80,
       r2_bat_com_type = bs ! 81,
       r2_time = now,
       r2_datalog = serial_default \<rparr>"

lemma reads_r2:
  assumes "nom_ok N"
  shows "reads (parse_read_input2 N now) 82 (r2_layout now)"
proof -
  have "\<exists>n g. reads (parse_read_input2 N now) n g \<and> n = 82 \<and> (\<forall>bs. 82 \<le> length bs \<longrightarrow> g bs = r2_layout now bs)"
    unfolding parse_read_input2_def
    apply (rule exI, rule exI, rule conjI)
     apply (rule reads_intros[OF assms])+
    apply (simp add: r2_layout_def word_at_def dword_at_def)
    done
  then show ?thesis by (auto simp: reads_def)
qed

section \<open>ReadInput3\<close>

record read_input3 = 
  r3_max_chg_curr :: "f64"
  r3_max_dischg_curr :: "f64"
  r3_charge_volt_ref :: "f64"
  r3_dischg_cut_volt :: "f64"
  r3_bat_status_0 :: "u16"
  r3_bat_status_1 :: "u16"
  r3_bat_status_2 :: "u16"
  r3_bat_status_3 :: "u16"
  r3_bat_status_4 :: "u16"
  r3_bat_status_5 :: "u16"
  r3_bat_status_6 :: "u16"
  r3_bat_status_7 :: "u16"
  r3_bat_status_8 :: "u16"
  r3_bat_status_9 :: "u16"
  r3_bat_status_inv :: "u16"
  r3_bat_count :: "u16"
  r3_bat_capacity :: "u16"
  r3_bat_current :: "f64"
  r3_bms_event_1 :: "u16"
  r3_bms_event_2 :: "u16"
  r3_max_cell_voltage :: "f64"
  r3_min_cell_voltage :: "f64"
  r3_max_cell_temp :: "f64"
  r3_min_cell_temp :: "f64"
  r3_bms_fw_update_state :: "u16"
  r3_cycle_count :: "u16"
  r3_vbat_inv :: "f64"
  r3_t_bat_1 :: "f64"
  r3_t_bat_2 :: "f64"
  r3_t_bat_3 :: "f64"
  r3_t_bat_4 :: "f64"
  r3_v_bat_1 :: "f64"
  r3_v_bat_2 :: "f64"
  r3_v_bat_3 :: "f64"
  r3_v_bat_4 :: "f64"
  r3_i_bat_1 :: "f64"
  r3_i_bat_2 :: "f64"
  r3_i_bat_3 :: "f64"
  r3_i_bat_4 :: "f64"
  r3_soc_1 :: "u8"
  r3_soc_2 :: "u8"
  r3_soc_3 :: "u8"
  r3_soc_4 :: "u8"
  r3_soh_1 :: "u8"
  r3_soh_2 :: "u8"
  r3_soh_3 :: "u8"
  r3_soh_4 :: "u8"
  r3_time :: "unix_time"
  r3_datalog :: "serial"

definition parse_read_input3 :: "nom_lib \<Rightarrow> unix_time \<Rightarrow> read_input3 parser" where
  "parse_read_input3 N now =
     pbind (skip_before N 2 (le_u16_div100 N)) (\<lambda>max_chg_curr.
     pbind (le_u16_div100 N) (\<lambda>max_dischg_curr.
     pbind (le_u16_div10 N) (\<lambda>charge_volt_ref.
     pbind (le_u16_div10 N) (\<lambda>dischg_cut_volt.
     pbind (nom_u16 N) (\<lambda>bat_status_0.
     pbind (nom_u16 N) (\<lambda>bat_status_1.
     pbind (nom_u16 N) (\<lambda>bat_status_2.
     pbind (nom_u16 N) (\<lambda>bat_status_3.
     pbind (nom_u16 N) (\<lambda>bat_status_4.
     pbind (nom_u16 N) (\<lambda>bat_status_5.
     pbind (nom_u16 N) (\<lambda>bat_status_6.
     pbind (nom_u16 N) (\<lambda>bat_status_7.
     pbind (nom_u16 N) (\<lambda>bat_status_8.
     pbind (nom_u16 N) (\<lambda>bat_status_9.
     pbind (nom_u16 N) (\<lambda>bat_status_inv.
     pbind (nom_u16 N) (\<lambda>bat_count.
     pbind (nom_u16 N) (\<lambda>bat_capacity.
     pbind (le_u16_div100 N) (\<lambda>bat_current.
     pbind (nom_u16 N) (\<lambda>bms_event_1.
     pbind (nom_u16 N) (\<lambda>bms_event_2.
     pbind (le_u16_div1000 N) (\<lambda>max_cell_voltage.
     pbind (le_u16_div1000 N) (\<lambda>min_cell_voltage.
     pbind (le_u16_div10 N) (\<lambda>max_cell_temp.
     pbind (le_u16_div10 N) (\<lambda>min_cell_temp.
     pbind (nom_u16 N) (\<lambda>bms_fw_update_state.
     pbind (nom_u16 N) (\<lambda>cycle_count.
     pbind (le_u16_div10 N) (\<lambda>vbat_inv.
     pbind (le_u16_div10 N) (\<lambda>t_bat_1.
     pbind (le_u16_div10 N) (\<lambda>t_bat_2.
     pbind (le_u16_div10 N) (\<lambda>t_bat_3.
     pbind (le_u16_div10 N) (\<lambda>t_bat_4.
     pbind (le_u16_div10 N) (\<lambda>v_bat_1.
     pbind (le_u16_div10 N) (\<lambda>v_bat_2.
     pbind (le_u16_div10 N) (\<lambda>v_bat_3.
     pbind (le_u16_div10 N) (\<lambda>v_bat_4.
     pbind (le_u16_div100 N) (\<lambda>i_bat_1.
     pbind (le_u16_div100 N) (\<lambda>i_bat_2.
     pbind (le_u16_div100 N) (\<lambda>i_bat_3.
     pbind (le_u16_div100 N) (\<lambda>i_bat_4.
     pbind (nom_u8 N) (\<lambda>soc_1.
     pbind (nom_u8 N) (\<lambda>soc_2.
     pbind (nom_u8 N) (\<lambda>soc_3.
     pbind (nom_u8 N) (\<lambda>soc_4.
     pbind (nom_u8 N) (\<lambda>soh_1.
     pbind (nom_u8 N) (\<lambda>soh_2.
     pbind (nom_u8 N) (\<lambda>soh_3.
     pbind (nom_u8 N) (\<lambda>soh_4.
     pbind (current_time_for_nom now) (\<lambda>time.
     preturn
       \<lparr> r3_max_chg_curr = max_chg_curr,
         r3_max_dischg_curr = max_dischg_curr,
         r3_charge_volt_ref = charge_volt_ref,
         r3_dischg_cut_volt = dischg_cut_volt,
         r3_bat_status_0 = bat_status_0,
         r3_bat_status_1 = bat_status_1,
         r3_bat_status_2 = bat_status_2,
         r3_bat_status_3 = bat_status_3,
         r3_bat_status_4 = bat_status_4,
         r3_bat_status_5 = bat_status_5,
         r3_bat_status_6 = bat_status_6,
         r3_bat_status_7 = bat_status_7,
         r3_bat_status_8 = bat_status_8,
         r3_bat_status_9 = bat_status_9,
         r3_bat_status_inv = bat_status_inv,
         r3_bat_count = bat_count,
         r3_bat_capacity = bat_capacity,
         r3_bat_current = bat_current,
         r3_bms_event_1 = bms_event_1,
         r3_bms_event_2 = bms_event_2,
         r3_max_cell_voltage = max_cell_voltage,
         r3_min_cell_voltage = min_cell_voltage,
         r3_max_cell_temp = max_cell_temp,
         r3_min_cell_temp = min_cell_temp,
         r3_bms_fw_update_state = bms_fw_update_state,
         r3_cycle_count = cycle_count,
         r3_vbat_inv = vbat_inv,
         r3_t_bat_1 = t_bat_1,
         r3_t_bat_2 = t_bat_2,
         r3_t_bat_3 = t_bat_3,
         r3_t_bat_4 = t_bat_4,
         r3_v_bat_1 = v_bat_1,
         r3_v_bat_2 = v_bat_2,
         r3_v_bat_3 = v_bat_3,
         r3_v_bat_4 = v_bat_4,
         r3_i_bat_1 = i_bat_1,
         r3_i_bat_2 = i_bat_2,
         r3_i_bat_3 = i_bat_3,
         r3_i_bat_4 = i_bat_4,
         r3_soc_1 = soc_1,
         r3_soc_2 = soc_2,
         r3_soc_3 = soc_3,
         r3_soc_4 = soc_4,
         r3_soh_1 = soh_1,
         r3_soh_2 = soh_2,
         r3_soh_3 = soh_3,
         r3_soh_4 = soh_4,
         r3_time = time,
         r3_datalog = serial_default \<rparr>))))))))))))))))))))))))))))))))))))))))))))))))"

definition r3_layout :: "unix_time \<Rightarrow> bytes \<Rightarrow> read_input3" where
  "r3_layout now bs =
     \<lparr> r3_max_chg_curr = centi (word_at bs 2),
       r3_max_dischg_curr = centi (word_at bs 4),
       r3_charge_volt_ref = deci (word_at bs 6),
       r3_dischg_cut_volt = deci (word_at bs 8),
       r3_bat_status_0 = word_at bs 10,
       r3_bat_status_1 = word_at bs 12,
       r3_bat_status_2 = word_at bs 14,
       r3_bat_status_3 = word_at bs 16,
       r3_bat_status_4 = word_at bs 18,
       r3_bat_status_5 = word_at bs 20,
       r3_bat_status_6 = word_at bs 22,
       r3_bat_status_7 = word_at bs 24,
       r3_bat_status_8 = word_at bs 26,
       r3_bat_status_9 = word_at bs 28,
       r3_bat_status_inv = word_at bs 30,
       r3_bat_count = word_at bs 32,
       r3_bat_capacity = word_at bs 34,
       r3_bat_current = centi (word_at bs 36),
       r3_bms_event_1 = word_at bs 38,
       r3_bms_event_2 = word_at bs 40,
       r3_max_cell_voltage = milli (word_at bs 42),
       r3_min_cell_voltage = milli (word_at bs 44),
       r3_max_cell_temp = deci (word_at bs 46),
       r3_min_cell_temp = deci (word_at bs 48),
       r3_bms_fw_update_state = word_at bs 50,
       r3_cycle_count = word_at bs 52,
       r3_vbat_inv = deci (word_at bs 54),
       r3_t_bat_1 = deci (word_at bs 56),
       r3_t_bat_2 = deci (word_at bs 58),
       r3_t_bat_3 = deci (word_at bs 60),
       r3_t_bat_4 = deci (word_at bs 62),
       r3_v_bat_1 = deci (word_at bs 64),
       r3_v_bat_2 = deci (word_at bs 66),
       r3_v_bat_3 = deci (word_at bs 68),
       r3_v_bat_4 = deci (word_at bs 70),
       r3_i_bat_1 = centi (word_at bs 72),
       r3_i_bat_2 = centi (word_at bs 74),
       r3_i_bat_3 = centi (word_at bs 76),
       r3_i_bat_4 = centi (word_at bs 78),
       r3_soc_1 = bs ! 80,
       r3_soc_2 = bs ! 81,
       r3_soc_3 = bs ! 82,
       r3_soc_4 = bs ! 83,
       r3_soh_1 = bs ! 84,
       r3_soh_2 = bs ! 85,
       r3_soh_3 = bs ! 86,
       r3_soh_4 = bs ! 87,
       r3_time = now,
       r3_datalog = serial_default \<rparr>"

lemma reads_r3:
  assumes "nom_ok N"
  shows "reads (parse_read_input3 N now) 88 (r3_layout now)"
proof -
  have "\<exists>n g. reads (parse_read_input3 N now) n g \<and> n = 88 \<and> (\<forall>bs. 88 \<le> length bs \<longrightarrow> g bs = r3_layout now bs)"
    unfolding parse_read_input3_def
    apply (rule exI, rule exI, rule conjI)
     apply (rule reads_intros[OF assms])+
    apply (simp add: r3_layout_def word_at_def dword_at_def)
    done
  then show ?thesis by (auto simp: reads_def)
qed

section \<open>ReadInput4\<close>

record read_input4 = 
  r4_v_gen :: "f64"
  r4_f_gen :: "f64"
  r4_p_gen :: "u16"
  r4_e_gen_day :: "f64"
  r4_e_gen_all :: "f64"
  r4_v_eps_l1 :: "f64"
  r4_v_eps_l2 :: "f64"
  r4_p_eps_l1 :: "u16"
  r4_p_eps_l2 :: "u16"
  r4_s_eps_l1 :: "u16"
  r4_s_eps_l2 :: "u16"
  r4_e_eps_l1_day :: "f64"
  r4_e_eps_l2_day :: "f64"
  r4_e_eps_l1_all :: "f64"
  r4_e_eps_l2_all :: "f64"
  r4_i_eps_l1 :: "f64"
  r4_i_eps_l2 :: "f64"
  r4_pf_eps_l1 :: "f64"
  r4_pf_eps_l2 :: "f64"
  r4_f_eps_l1 :: "f64"
  r4_f_eps_l2 :: "f64"
  r4_datalog :: "serial"

definition parse_read_input4 :: "nom_lib \<Rightarrow> unix_time \<Rightarrow> read_input4 parser" where
  "parse_read_input4 N now =
     pbind (skip_before N 2 (le_u16_div10 N)) (\<lambda>v_gen.
     pbind (le_u16_div100 N) (\<lambda>f_gen.
     pbind (nom_u16 N) (\<lambda>p_gen.
     pbind (le_u16_div10 N) (\<lambda>e_gen_day.
     pbind (le_u32_div10 N) (\<lambda>e_gen_all.
     pbind (le_u16_div10 N) (\<lambda>v_eps_l1.
     pbind (le_u16_div10 N) (\<lambda>v_eps_l2.
     pbind (nom_u16 N) (\<lambda>p_eps_l1.
     pbind (nom_u16 N) (\<lambda>p_eps_l2.
     pbind (nom_u16 N) (\<lambda>s_eps_l1.
     pbind (nom_u16 N) (\<lambda>s_eps_l2.
     pbind (le_u16_div10 N) (\<lambda>e_eps_l1_day.
     pbind (le_u16_div10 N) (\<lambda>e_eps_l2_day.
     pbind (le_u32_div10 N) (\<lambda>e_eps_l1_all.
     pbind (le_u32_div10 N) (\<lambda>e_eps_l2_all.
     pbind (le_u16_div100 N) (\<lambda>i_eps_l1.
     pbind (le_u16_div100 N) (\<lambda>i_eps_l2.
     pbind (le_u16_div1000 N) (\<lambda>pf_eps_l1.
     pbind (le_u16_div1000 N) (\<lambda>pf_eps_l2.
     pbind (le_u16_div100 N) (\<lambda>f_eps_l1.
     pbind (le_u16_div100 N) (\<lambda>f_eps_l2.
     preturn
       \<lparr> r4_v_gen = v_gen,
         r4_f_gen = f_gen,
         r4_p_gen = p_gen,
         r4_e_gen_day = e_gen_day,
         r4_e_gen_all = e_gen_all,
         r4_v_eps_l1 = v_eps_l1,
         r4_v_eps_l2 = v_eps_l2,
         r4_p_eps_l1 = p_eps_l1,
         r4_p_eps_l2 = p_eps_l2,
         r4_s_eps_l1 = s_eps_l1,
         r4_s_eps_l2 = s_eps_l2,
         r4_e_eps_l1_day = e_eps_l1_day,
         r4_e_eps_l2_day = e_eps_l2_day,
         r4_e_eps_l1_all = e_eps_l1_all,
         r4_e_eps_l2_all = e_eps_l2_all,
         r4_i_eps_l1 = i_eps_l1,
         r4_i_eps_l2 = i_eps_l2,
         r4_pf_eps_l1 = pf_eps_l1,
         r4_pf_eps_l2 = pf_eps_l2,
         r4_f_eps_l1 = f_eps_l1,
         r4_f_eps_l2 = f_eps_l2,
         r4_datalog = serial_default \<rparr>)))))))))))))))))))))"

definition r4_layout :: "unix_time \<Rightarrow> bytes \<Rightarrow> read_input4" where
  "r4_layout now bs =
     \<lparr> r4_v_gen = deci (word_at bs 2),
       r4_f_gen = centi (word_at bs 4),
       r4_p_gen = word_at bs 6,
       r4_e_gen_day = deci (word_at bs 8),
       r4_e_gen_all = deci32 (dword_at bs 10),
       r4_v_eps_l1 = deci (word_at bs 14),
       r4_v_eps_l2 = deci (word_at bs 16),
       r4_p_eps_l1 = word_at bs 18,
       r4_p_eps_l2 = word_at bs 20,
       r4_s_eps_l1 = word_at bs 22,
       r4_s_eps_l2 = word_at bs 24,
       r4_e_eps_l1_day = deci (word_at bs 26),
       r4_e_eps_l2_day = deci (word_at bs 28),
       r4_e_eps_l1_all = deci32 (dword_at bs 30),
       r4_e_eps_l2_all = deci32 (dword_at bs 34),
       r4_i_eps_l1 = centi (word_at bs 38),
       r4_i_eps_l2 = centi (word_at bs 40),
       r4_pf_eps_l1 = milli (word_at bs 42),
       r4_pf_eps_l2 = milli (word_at bs 44),
       r4_f_eps_l1 = centi (word_at bs 46),
       r4_f_eps_l2 = centi (word_at bs 48),
       r4_datalog = serial_default \<rparr>"

lemma reads_r4:
  assumes "nom_ok N"
  shows "reads (parse_read_input4 N now) 50 (r4_layout now)"
proof -
  have "\<exists>n g. reads (parse_read_input4 N now) n g \<and> n = 50 \<and> (\<forall>bs. 50 \<le> length bs \<longrightarrow> g bs = r4_layout now bs)"
    unfolding parse_read_input4_def
    apply (rule exI, rule exI, rule conjI)
     apply (rule reads_intros[OF assms])+
    apply (simp add: r4_layout_def word_at_def dword_at_def)
    done
  then show ?thesis by (auto simp: reads_def)
qed

section \<open>ReadInput5\<close>

record read_input5 = 
  r5_bat_cell_count :: "u16"
  r5_bat_parallel_count :: "u16"
  r5_under_freq_start :: "u16"
  r5_under_freq_end :: "u16"
  r5_under_freq_slope :: "u16"
  r5_max_compensation :: "u16"
  r5_chg_power_pct :: "u16"
  r5_dischg_power_pct :: "u16"
  r5_ac_charge_pct :: "u16"
  r5_chg_priority_pct :: "u16"
  r5_forced_dischg_pct :: "u16"
  r5_inv_power_pct :: "u16"
  r5_ac_chg_start_v :: "f64"
  r5_ac_chg_end_v :: "f64"
  r5_ac_chg_start_soc :: "u16"
  r5_ac_chg_end_soc :: "u16"
  r5_bat_low_v :: "f64"
  r5_bat_low_back_v :: "f64"
  r5_bat_low_soc :: "u16"
  r5_bat_low_back_soc :: "u16"
  r5_bat_low_utility_v :: "f64"
  r5_bat_low_utility_soc :: "u16"
  r5_ac_chg_curr :: "u16"
  r5_ongrid_eod_v :: "f64"
  r5_soc_volt1 :: "f64"
  r5_soc_volt2 :: "f64"
  r5_soc_pct1 :: "u16"
  r5_soc_pct2 :: "u16"
  r5_soc_inner_resistance :: "u16"
  r5_max_grid_input_power :: "u16"
  r5_gen_rated_power :: "u16"
  r5_function_bit_flags :: "u16"
  r5_afci_threshold :: "u16"
  r5_volt_watt_v1 :: "f64"
  r5_volt_watt_v2 :: "f64"
  r5_volt_watt_delay :: "u16"
  r5_volt_watt_p2 :: "u16"
  r5_time :: "unix_time"
  r5_datalog :: "serial"

definition parse_read_input5 :: "nom_lib \<Rightarrow> unix_time \<Rightarrow> read_input5 parser" where
  "parse_read_input5 N now =
     pbind (nom_u16 N) (\<lambda>bat_cell_count.
     pbind (nom_u16 N) (\<lambda>bat_parallel_count.
     pbind (nom_u16 N) (\<lambda>under_freq_start.
     pbind (nom_u16 N) (\<lambda>under_freq_end.
     pbind (nom_u16 N) (\<lambda>under_freq_slope.
     pbind (nom_u16 N) (\<lambda>max_compensation.
     pbind (nom_u16 N) (\<lambda>chg_power_pct.
     pbind (nom_u16 N) (\<lambda>dischg_power_pct.
     pbind (nom_u16 N) (\<lambda>ac_charge_pct.
     pbind (nom_u16 N) (\<lambda>chg_priority_pct.
     pbind (nom_u16 N) (\<lambda>forced_dischg_pct.
     pbind (nom_u16 N) (\<lambda>inv_power_pct.
     pbind (le_u16_div10 N) (\<lambda>ac_chg_start_v.
     pbind (le_u16_div10 N) (\<lambda>ac_chg_end_v.
     pbind (nom_u16 N) (\<lambda>ac_chg_start_soc.
     pbind (nom_u16 N) (\<lambda>ac_chg_end_soc.
     pbind (le_u16_div10 N) (\<lambda>bat_low_v.
     pbind (le_u16_div10 N) (\<lambda>bat_low_back_v.
     pbind (nom_u16 N) (\<lambda>bat_low_soc.
     pbind (nom_u16 N) (\<lambda>bat_low_back_soc.
     pbind (le_u16_div10 N) (\<lambda>bat_low_utility_v.
     pbind (nom_u16 N) (\<lambda>bat_low_utility_soc.
     pbind (nom_u16 N) (\<lambda>ac_chg_curr.
     pbind (le_u16_div10 N) (\<lambda>ongrid_eod_v.
     pbind (le_u16_div10 N) (\<lambda>soc_volt1.
     pbind (le_u16_div10 N) (\<lambda>soc_volt2.
     pbind (nom_u16 N) (\<lambda>soc_pct1.
     pbind (nom_u16 N) (\<lambda>soc_pct2.
     pbind (nom_u16 N) (\<lambda>soc_inner_resistance.
     pbind (nom_u16 N) (\<lambda>max_grid_input_power.
     pbind (nom_u16 N) (\<lambda>gen_rated_power.
     pbind (nom_u16 N) (\<lambda>function_bit_flags.
     pbind (nom_u16 N) (\<lambda>afci_threshold.
     pbind (le_u16_div10 N) (\<lambda>volt_watt_v1.
     pbind (le_u16_div10 N) (\<lambda>volt_watt_v2.
     pbind (nom_u16 N) (\<lambda>volt_watt_delay.
     pbind (nom_u16 N) (\<lambda>volt_watt_p2.
     pbind (current_time_for_nom now) (\<lambda>time.
     preturn
       \<lparr> r5_bat_cell_count = bat_cell_count,
         r5_bat_parallel_count = bat_parallel_count,
         r5_under_freq_start = under_freq_start,
         r5_under_freq_end = under_freq_end,
         r5_under_freq_slope = under_freq_slope,
         r5_max_compensation = max_compensation,
         r5_chg_power_pct = chg_power_pct,
         r5_dischg_power_pct = dischg_power_pct,
         r5_ac_charge_pct = ac_charge_pct,
         r5_chg_priority_pct = chg_priority_pct,
         r5_forced_dischg_pct = forced_dischg_pct,
         r5_inv_power_pct = inv_power_pct,
         r5_ac_chg_start_v = ac_chg_start_v,
         r5_ac_chg_end_v = ac_chg_end_v,
         r5_ac_chg_start_soc = ac_chg_start_soc,
         r5_ac_chg_end_soc = ac_chg_end_soc,
         r5_bat_low_v = bat_low_v,
         r5_bat_low_back_v = bat_low_back_v,
         r5_bat_low_soc = bat_low_soc,
         r5_bat_low_back_soc = bat_low_back_soc,
         r5_bat_low_utility_v = bat_low_utility_v,
         r5_bat_low_utility_soc = bat_low_utility_soc,
         r5_ac_chg_curr = ac_chg_curr,
         r5_ongrid_eod_v = ongrid_eod_v,
         r5_soc_volt1 = soc_volt1,
         r5_soc_volt2 = soc_volt2,
         r5_soc_pct1 = soc_pct1,
         r5_soc_pct2 = soc_pct2,
         r5_soc_inner_resistance = soc_inner_resistance,
         r5_max_grid_input_power = max_grid_input_power,
         r5_gen_rated_power = gen_rated_power,
         r5_function_bit_flags = function_bit_flags,
         r5_afci_threshold = afci_threshold,
         r5_volt_watt_v1 = volt_watt_v1,
         r5_volt_watt_v2 = volt_watt_v2,
         r5_volt_watt_delay = volt_watt_delay,
         r5_volt_watt_p2 = volt_watt_p2,
         r5_time = time,
         r5_datalog = serial_default \<rparr>))))))))))))))))))))))))))))))))))))))"

definition r5_layout :: "unix_time \<Rightarrow> bytes \<Rightarrow> read_input5" where
  "r5_layout now bs =
     \<lparr> r5_bat_cell_count = word_at bs 0,
       r5_bat_parallel_count = word_at bs 2,
       r5_under_freq_start = word_at bs 4,
       r5_under_freq_end = word_at bs 6,
       r5_under_freq_slope = word_at bs 8,
       r5_max_compensation = word_at bs 10,
       r5_chg_power_pct = word_at bs 12,
       r5_dischg_power_pct = word_at bs 14,
       r5_ac_charge_pct = word_at bs 16,
       r5_chg_priority_pct = word_at bs 18,
       r5_forced_dischg_pct = word_at bs 20,
       r5_inv_power_pct = word_at bs 22,
       r5_ac_chg_start_v = deci (word_at bs 24),
       r5_ac_chg_end_v = deci (word_at bs 26),
       r5_ac_chg_start_soc = word_at bs 28,
       r5_ac_chg_end_soc = word_at bs 30,
       r5_bat_low_v = deci (word_at bs 32),
       r5_bat_low_back_v = deci (word_at bs 34),
       r5_bat_low_soc = word_at bs 36,
       r5_bat_low_back_soc = word_at bs 38,
       r5_bat_low_utility_v = deci (word_at bs 40),
       r5_bat_low_utility_soc = word_at bs 42,
       r5_ac_chg_curr = word_at bs 44,
       r5_ongrid_eod_v = deci (word_at bs 46),
       r5_soc_volt1 = deci (word_at bs 48),
       r5_soc_volt2 = deci (word_at bs 50),
       r5_soc_pct1 = word_at bs 52,
       r5_soc_pct2 = word_at bs 54,
       r5_soc_inner_resistance = word_at bs 56,
       r5_max_grid_input_power = word_at bs 58,
       r5_gen_rated_power = word_at bs 60,
       r5_function_bit_flags = word_at bs 62,
       r5_afci_threshold = word_at bs 64,
       r5_volt_watt_v1 = deci (word_at bs 66),
       r5_volt_watt_v2 = deci (word_at bs 68),
       r5_volt_watt_delay = word_at bs 70,
       r5_volt_watt_p2 = word_at bs 72,
       r5_time = now,
       r5_datalog = serial_default \<rparr>"

lemma reads_r5:
  assumes "nom_ok N"
  shows "reads (parse_read_input5 N now) 74 (r5_layout now)"
proof -
  have "\<exists>n g. reads (parse_read_input5 N now) n g \<and> n = 74 \<and> (\<forall>bs. 74 \<le> length bs \<longrightarrow> g bs = r5_layout now bs)"
    unfolding parse_read_input5_def
    apply (rule exI, rule exI, rule conjI)
     apply (rule reads_intros[OF assms])+
    apply (simp add: r5_layout_def word_at_def dword_at_def)
    done
  then show ?thesis by (auto simp: reads_def)
qed

section \<open>ReadInput6\<close>

record read_input6 =
  r6_grid_voltage_high_pure :: u16
  r6_grid_voltage_low_pure :: u16
  r6_grid_freq_high_pure :: u16
  r6_grid_freq_low_pure :: u16
  r6_grid_volt_high_delay :: u16
  r6_grid_volt_low_delay :: u16
  r6_grid_freq_high_delay :: u16
  r6_grid_freq_low_delay :: u16
  r6_grid_volt_recover_high :: u16
  r6_grid_volt_recover_low :: u16
  r6_grid_freq_recover_high :: u16
  r6_grid_freq_recover_low :: u16
  r6_grid_volt_recover_delay :: u16
  r6_grid_freq_recover_delay :: u16
  r6_island_detect_time :: u16
  r6_pf_cmd_memory_en :: u16
  r6_pf_cmd_memory_pf :: u16
  r6_pf_cmd_memory_p_ref :: u16
  r6_pf_cmd_memory_v_ref :: u16
  r6_pf_cmd_memory_q_ref :: u16
  r6_time :: unix_time
  r6_datalog :: serial


end
