(* ===== verification/Inputs_All.thy ===== *)
theory Inputs_All
  imports Bridge_Prelude F64 Wire Inputs
begin

text \<open>
  \<^verbatim>\<open>ReadInputAll\<close> of \<^verbatim>\<open>eg4/packet.rs\<close>, the struct of all input registers, and its parser. The
  struct has 177 fields; the record is declared in two steps, the second extending the first, in the
  order of the source.
\<close>

record read_input_all_base = 
  all_status :: "u16"
  all_v_pv_1 :: "f64 option"
  all_v_pv_2 :: "f64 option"
  all_v_pv_3 :: "f64 option"
  all_v_bat :: "f64 option"
  all_soc :: "i8"
  all_soh :: "i8"
  all_internal_fault :: "u16"
  all_p_pv :: "u16"
  all_p_pv_1 :: "u16"
  all_p_pv_2 :: "u16"
  all_p_pv_3 :: "u16"
  all_p_battery :: "i32"
  all_p_charge :: "u16"
  all_p_discharge :: "u16"
  all_v_ac_r :: "f64"
  all_v_ac_s :: "f64"
  all_v_ac_t :: "f64"
  all_f_ac :: "f64"
  all_p_inv :: "u16"
  all_p_rec :: "u16"
  all_pf :: "f64"
  all_v_eps_r :: "f64"
  all_v_eps_s :: "f64"
  all_v_eps_t :: "f64"
  all_f_eps :: "f64"
  all_p_eps :: "u16"
  all_s_eps :: "u16"
  all_p_grid :: "i32"
  all_p_to_grid :: "u16"
  all_p_to_user :: "u16"
  all_e_pv_day :: "f64"
  all_e_pv_day_1 :: "f64"
  all_e_pv_day_2 :: "f64"
  all_e_pv_day_3 :: "f64"
  all_e_inv_day :: "f64"
  all_e_rec_day :: "f64"
  all_e_chg_day :: "f64"
  all_e_dischg_day :: "f64"
  all_e_eps_day :: "f64"
  all_e_to_grid_day :: "f64"
  all_e_to_user_day :: "f64"
  all_v_bus_1 :: "f64"
  all_v_bus_2 :: "f64"
  all_e_pv_all :: "f64"
  all_e_pv_all_1 :: "f64"
  all_e_pv_all_2 :: "f64"
  all_e_pv_all_3 :: "f64"
  all_e_inv_all :: "f64"
  all_e_rec_all :: "f64"
  all_e_chg_all :: "f64"
  all_e_dischg_all :: "f64"
  all_e_eps_all :: "f64"
  all_e_to_grid_all :: "f64"
  all_e_to_user_all :: "f64"
  all_fault_code :: "u32"
  all_warning_code :: "u32"
  all_t_inner :: "u16"
  all_t_rad_1 :: "u16"
  all_t_rad_2 :: "u16"
  all_t_bat :: "u16"
  all_runtime :: "u32"
  all_max_chg_curr :: "f64"
  all_max_dischg_curr :: "f64"
  all_charge_volt_ref :: "f64"
  all_dischg_cut_volt :: "f64"
  all_bat_status_0 :: "u16"
  all_bat_status_1 :: "u16"
  all_bat_status_2 :: "u16"
  all_bat_status_3 :: "u16"
  all_bat_status_4 :: "u16"
  all_bat_status_5 :: "u16"
  all_bat_status_6 :: "u16"
  all_bat_status_7 :: "u16"
  all_bat_status_8 :: "u16"
  all_bat_status_9 :: "u16"
  all_bat_status_inv :: "u16"
  all_bat_count :: "u16"
  all_bat_capacity :: "u16"
  all_bat_current :: "f64"

record read_input_all = read_input_all_base +
  all_bms_event_1 :: "u16"
  all_bms_event_2 :: "u16"
  all_max_cell_voltage :: "f64"
  all_min_cell_voltage :: "f64"
  all_max_cell_temp :: "f64"
  all_min_cell_temp :: "f64"
  all_bms_fw_update_state :: "u16"
  all_cycle_count :: "u16"
  all_vbat_inv :: "f64"
  all_gen_status :: "u16"
  all_gen_power_factor :: "u16"
  all_gen_current :: "u16"
  all_gen_power_limit :: "u16"
  all_gen_connect_status :: "u16"
  all_gen_control_mode :: "u16"
  all_gen_dispatch_mode :: "u16"
  all_v_bus_half :: "f64"
  all_v_gen :: "f64"
  all_f_gen :: "f64"
  all_p_gen :: "u16"
  all_e_gen_day :: "f64"
  all_e_gen_all :: "f64"
  all_v_eps_l1 :: "f64"
  all_v_eps_l2 :: "f64"
  all_p_eps_l1 :: "u16"
  all_p_eps_l2 :: "u16"
  all_s_eps_l1 :: "u16"
  all_s_eps_l2 :: "u16"
  all_e_eps_l1_day :: "f64"
  all_e_eps_l2_day :: "f64"
  all_e_eps_l1_all :: "f64"
  all_e_eps_l2_all :: "f64"
  all_i_eps_l1 :: "f64"
  all_i_eps_l2 :: "f64"
  all_pf_eps_l1 :: "f64"
  all_pf_eps_l2 :: "f64"
  all_f_eps_l1 :: "f64"
  all_f_eps_l2 :: "f64"
  all_time :: "unix_time"
  all_datalog :: "serial"
  all_bat_cell_count :: "u16"
  all_bat_parallel_count :: "u16"
  all_under_freq_start :: "u16"
  all_under_freq_end :: "u16"
  all_under_freq_slope :: "u16"
  all_max_compensation :: "u16"
  all_chg_power_pct :: "u16"
  all_dischg_power_pct :: "u16"
  all_ac_charge_pct :: "u16"
  all_chg_priority_pct :: "u16"
  all_forced_dischg_pct :: "u16"
  all_inv_power_pct :: "u16"
  all_ac_chg_start_v :: "f64"
  all_ac_chg_end_v :: "f64"
  all_ac_chg_start_soc :: "u16"
  all_ac_chg_end_soc :: "u16"
  all_bat_low_v :: "f64"
  all_bat_low_back_v :: "f64"
  all_bat_low_soc :: "u16"
  all_bat_low_back_soc :: "u16"
  all_bat_low_utility_v :: "f64"
  all_bat_low_utility_soc :: "u16"
  all_ac_chg_curr :: "u16"
  all_ongrid_eod_v :: "f64"
  all_soc_volt1 :: "f64"
  all_soc_volt2 :: "f64"
  all_soc_pct1 :: "u16"
  all_soc_pct2 :: "u16"
  all_soc_inner_resistance :: "u16"
  all_max_grid_input_power :: "u16"
  all_gen_rated_power :: "u16"
  all_function_bit_flags :: "u16"
  all_afci_threshold :: "u16"
  all_volt_watt_v1 :: "f64"
  all_volt_watt_v2 :: "f64"
  all_volt_watt_delay :: "u16"
  all_volt_watt_p2 :: "u16"
  all_grid_voltage_high_pure :: "u16"
  all_grid_voltage_low_pure :: "u16"
  all_grid_freq_high_pure :: "u16"
  all_grid_freq_low_pure :: "u16"
  all_grid_volt_high_delay :: "u16"
  all_grid_volt_low_delay :: "u16"
  all_grid_freq_high_delay :: "u16"
  all_grid_freq_low_delay :: "u16"
  all_grid_volt_recover_high :: "u16"
  all_grid_volt_recover_low :: "u16"
  all_grid_freq_recover_high :: "u16"
  all_grid_freq_recover_low :: "u16"
  all_grid_volt_recover_delay :: "u16"
  all_grid_freq_recover_delay :: "u16"
  all_island_detect_time :: "u16"
  all_pf_cmd_memory_en :: "u16"
  all_pf_cmd_memory_pf :: "u16"
  all_pf_cmd_memory_p_ref :: "u16"
  all_pf_cmd_memory_v_ref :: "u16"
  all_pf_cmd_memory_q_ref :: "u16"

definition parse_read_input_all :: "nom_lib \<Rightarrow> unix_time \<Rightarrow> read_input_all parser" where
  "parse_read_input_all N now =
     pbind (nom_u16 N) (\<lambda>status.
     pbind (le_u16_checked_div10 N) (\<lambda>v_pv_1.
     pbind (le_u16_checked_div10 N) (\<lambda>v_pv_2.
     pbind (le_u16_checked_div10 N) (\<lambda>v_pv_3.
     pbind (le_u16_checked_div10 N) (\<lambda>v_bat.
     pbind (nom_i8 N) (\<lambda>soc.
     pbind (nom_i8 N) (\<lambda>soh.
     pbind (nom_u16 N) (\<lambda>internal_fault.
     pbind (nom_u16 N) (\<lambda>p_pv_1.
     pbind (nom_u16 N) (\<lambda>p_pv_2.
     pbind (nom_u16 N) (\<lambda>p_pv_3.
     pbind (nom_u16 N) (\<lambda>p_charge.
     pbind (nom_u16 N) (\<lambda>p_discharge.
     pbind (le_u16_div10 N) (\<lambda>v_ac_r.
     pbind (le_u16_div10 N) (\<lambda>v_ac_s.
     pbind (le_u16_div10 N) (\<lambda>v_ac_t.
     pbind (le_u16_div100 N) (\<lambda>f_ac.
     pbind (nom_u16 N) (\<lambda>p_inv.
     pbind (nom_u16 N) (\<lambda>p_rec.
     pbind (skip_before N 2 (le_u16_div1000 N)) (\<lambda>pf.
     pbind (le_u16_div10 N) (\<lambda>v_eps_r.
     pbind (le_u16_div10 N) (\<lambda>v_eps_s.
     pbind (le_u16_div10 N) (\<lambda>v_eps_t.
     pbind (le_u16_div100 N) (\<lambda>f_eps.
     pbind (nom_u16 N) (\<lambda>p_eps.
     pbind (nom_u16 N) (\<lambda>s_eps.
     pbind (nom_u16 N) (\<lambda>p_to_grid.
     pbind (nom_u16 N) (\<lambda>p_to_user.
     pbind (le_u16_div10 N) (\<lambda>e_pv_day_1.
     pbind (le_u16_div10 N) (\<lambda>e_pv_day_2.
     pbind (le_u16_div10 N) (\<lambda>e_pv_day_3.
     pbind (le_u16_div10 N) (\<lambda>e_inv_day.
     pbind (le_u16_div10 N) (\<lambda>e_rec_day.
     pbind (le_u16_div10 N) (\<lambda>e_chg_day.
     pbind (le_u16_div10 N) (\<lambda>e_dischg_day.
     pbind (le_u16_div10 N) (\<lambda>e_eps_day.
     pbind (le_u16_div10 N) (\<lambda>e_to_grid_day.
     pbind (le_u16_div10 N) (\<lambda>e_to_user_day.
     pbind (le_u16_div10 N) (\<lambda>v_bus_1.
     pbind (le_u16_div10 N) (\<lambda>v_bus_2.
     pbind (le_u32_div10 N) (\<lambda>e_pv_all_1.
     pbind (le_u32_div10 N) (\<lambda>e_pv_all_2.
     pbind (le_u32_div10 N) (\<lambda>e_pv_all_3.
     pbind (le_u32_div10 N) (\<lambda>e_inv_all.
     pbind (le_u32_div10 N) (\<lambda>e_rec_all.
     pbind (le_u32_div10 N) (\<lambda>e_chg_all.
     pbind (le_u32_div10 N) (\<lambda>e_dischg_all.
     pbind (le_u32_div10 N) (\<lambda>e_eps_all.
     pbind (le_u32_div10 N) (\<lambda>e_to_grid_all.
     pbind (le_u32_div10 N) (\<lambda>e_to_user_all.
     pbind (nom_u32 N) (\<lambda>fault_code.
     pbind (nom_u32 N) (\<lambda>warning_code.
     pbind (nom_u16 N) (\<lambda>t_inner.
     pbind (nom_u16 N) (\<lambda>t_rad_1.
     pbind (nom_u16 N) (\<lambda>t_rad_2.
     pbind (nom_u16 N) (\<lambda>t_bat.
     pbind (skip_before N 2 (nom_u32 N)) (\<lambda>runtime.
     pbind (skip_before N 2 (le_u16_div10 N)) (\<lambda>max_chg_curr.
     pbind (le_u16_div10 N) (\<lambda>max_dischg_curr.
     pbind (le_u16_div10 N) (\<lambda>charge_volt_ref.
     pbind (le_u16_div10 N) (\<lambda>dischg_cut_volt.
     pbind (nom_u16 N) (\<lambda>bat_status_0.
     pbind (nom_u16 N) (\<lambda>bat_status_1.
     pbind (nom_u16 N) (\<lambda>bat_status_2.
     pbind (nom_u16 N) (\<lambda>bat_status_3.
     pbind (nom_u16 N) (\<lambda>bat_status_4.
     pbind (nom_u16 N) (\<lambda>bat_status_5.
     pbind (nom_u16 N) (\<lambda>bat_status_6.
     pbind (nom_u16 N) (\<lambda>bat_status_7.
     pbind (nom_u16 N) (\<lambda>bat_status_8.
     pbind (nom_u16 N) (\<lambda>bat_status_9.
     pbind (nom_u16 N) (\<lambda>bat_status_inv.
     pbind (nom_u16 N) (\<lambda>bat_count.
     pbind (nom_u16 N) (\<lambda>bat_capacity.
     pbind (le_u16_div100 N) (\<lambda>bat_current.
     pbind (nom_u16 N) (\<lambda>bms_event_1.
     pbind (nom_u16 N) (\<lambda>bms_event_2.
     pbind (le_u16_div1000 N) (\<lambda>max_cell_voltage.
     pbind (le_u16_div1000 N) (\<lambda>min_cell_voltage.
     pbind (le_u16_div10 N) (\<lambda>max_cell_temp.
     pbind (le_u16_div10 N) (\<lambda>min_cell_temp.
     pbind (nom_u16 N) (\<lambda>bms_fw_update_state.
     pbind (nom_u16 N) (\<lambda>cycle_count.
     pbind (le_u16_div10 N) (\<lambda>vbat_inv.
     pbind (nom_u16 N) (\<lambda>gen_status.
     pbind (nom_u16 N) (\<lambda>gen_power_factor.
     pbind (nom_u16 N) (\<lambda>gen_current.
     pbind (nom_u16 N) (\<lambda>gen_power_limit.
     pbind (nom_u16 N) (\<lambda>gen_connect_status.
     pbind (nom_u16 N) (\<lambda>gen_control_mode.
     pbind (nom_u16 N) (\<lambda>gen_dispatch_mode.
     pbind (le_u16_div10 N) (\<lambda>v_bus_half.
     pbind (le_u16_div10 N) (\<lambda>v_gen.
     pbind (le_u16_div100 N) (\<lambda>f_gen.
     pbind (nom_u16 N) (\<lambda>p_gen.
     pbind (le_u16_div10 N) (\<lambda>e_gen_day.
     pbind (le_u32_div10 N) (\<lambda>e_gen_all.
     pbind (le_u16_div10 N) (\<lambda>v_eps_l1.
     pbind (le_u16_div10 N) (\<lambda>v_eps_l2.
     pbind (nom_u16 N) (\<lambda>p_eps_l1.
     pbind (nom_u16 N) (\<lambda>p_eps_l2.
     pbind (nom_u16 N) (\<lambda>s_eps_l1.
     pbind (nom_u16 N) (\<lambda>s_eps_l2.
     pbind (le_u16_div10 N) (\<lambda>e_eps_l1_day.
     pbind (le_u16_div10 N) (\<lambda>e_eps_l2_day.
     pbind (le_u32_div10 N) (\<lambda>e_eps_l1_all.
     pbind (le_u32_div10 N) (\<lambda>e_eps_l2_all.
     pbind (le_u16_div100 N) (\<lambda>i_eps_l1.
     pbind (le_u16_div100 N) (\<lambda>i_eps_l2.
     pbind (le_u16_div1000 N) (\<lambda>pf_eps_l1.
     pbind (le_u16_div1000 N) (\<lambda>pf_eps_l2.
     pbind (le_u16_div100 N) (\<lambda>f_eps_l1.
     pbind (le_u16_div100 N) (\<lambda>f_eps_l2.
     pbind (current_time_for_nom now) (\<lambda>time.
     pbind (nom_u16 N) (\<lambda>bat_cell_count.
     pbind (nom_u16 N) (\<lambda>bat_parallel_count.
     pbind (nom_u16 N) (\<lambda>under_freq_start.
     pbind (nom_u16 N) (\<lambda>under_freq_end.
     pbind (nom_u16 N) (\<lambda>under_freq_slope.
     pbind (nom_u16 N) (\<lambda>max_compensation.
     pbind (nom_u16 N) (\<lambda>chg_power_pct.
     pbind (nom_u16 N) (\<lambda>dischg_power_pct.
     pbind (nom_u16 N) (\<lambda>ac_charge_pct.
     pbind (nom_u16 N) (\<lambda>chg_priority_pct.
     pbind (nom_u16 N) (\<lambda>forced_dischg_pct.
     pbind (nom_u16 N) (\<lambda>inv_power_pct.
     pbind (le_u16_div10 N) (\<lambda>ac_chg_start_v.
     pbind (le_u16_div10 N) (\<lambda>ac_chg_end_v.
     pbind (nom_u16 N) (\<lambda>ac_chg_start_soc.
     pbind (nom_u16 N) (\<lambda>ac_chg_end_soc.
     pbind (le_u16_div10 N) (\<lambda>bat_low_v.
     pbind (le_u16_div10 N) (\<lambda>bat_low_back_v.
     pbind (nom_u16 N) (\<lambda>bat_low_soc.
     pbind (nom_u16 N) (\<lambda>bat_low_back_soc.
     pbind (le_u16_div10 N) (\<lambda>bat_low_utility_v.
     pbind (nom_u16 N) (\<lambda>bat_low_utility_soc.
     pbind (nom_u16 N) (\<lambda>ac_chg_curr.
     pbind (le_u16_div10 N) (\<lambda>ongrid_eod_v.
     pbind (le_u16_div10 N) (\<lambda>soc_volt1.
     pbind (le_u16_div10 N) (\<lambda>soc_volt2.
     pbind (nom_u16 N) (\<lambda>soc_pct1.
     pbind (nom_u16 N) (\<lambda>soc_pct2.
     pbind (nom_u16 N) (\<lambda>soc_inner_resistance.
     pbind (nom_u16 N) (\<lambda>max_grid_input_power.
     pbind (nom_u16 N) (\<lambda>gen_rated_power.
     pbind (nom_u16 N) (\<lambda>function_bit_flags.
     pbind (nom_u16 N) (\<lambda>afci_threshold.
     pbind (le_u16_div10 N) (\<lambda>volt_watt_v1.
     pbind (le_u16_div10 N) (\<lambda>volt_watt_v2.
     pbind (nom_u16 N) (\<lambda>volt_watt_delay.
     pbind (nom_u16 N) (\<lambda>volt_watt_p2.
     pbind (nom_u16 N) (\<lambda>grid_voltage_high_pure.
     pbind (nom_u16 N) (\<lambda>grid_voltage_low_pure.
     pbind (nom_u16 N) (\<lambda>grid_freq_high_pure.
     pbind (nom_u16 N) (\<lambda>grid_freq_low_pure.
     pbind (nom_u16 N) (\<lambda>grid_volt_high_delay.
     pbind (nom_u16 N) (\<lambda>grid_volt_low_delay.
     pbind (nom_u16 N) (\<lambda>grid_freq_high_delay.
     pbind (nom_u16 N) (\<lambda>grid_freq_low_delay.
     pbind (nom_u16 N) (\<lambda>grid_volt_recover_high.
     pbind (nom_u16 N) (\<lambda>grid_volt_recover_low.
     pbind (nom_u16 N) (\<lambda>grid_freq_recover_high.
     pbind (nom_u16 N) (\<lambda>grid_freq_recover_low.
     pbind (nom_u16 N) (\<lambda>grid_volt_recover_delay.
     pbind (nom_u16 N) (\<lambda>grid_freq_recover_delay.
     pbind (nom_u16 N) (\<lambda>island_detect_time.
     pbind (nom_u16 N) (\<lambda>pf_cmd_memory_en.
     pbind (nom_u16 N) (\<lambda>pf_cmd_memory_pf.
     pbind (nom_u16 N) (\<lambda>pf_cmd_memory_p_ref.
     pbind (nom_u16 N) (\<lambda>pf_cmd_memory_v_ref.
     pbind (nom_u16 N) (\<lambda>pf_cmd_memory_q_ref.
     preturn
       \<lparr> all_status = status,
         all_v_pv_1 = v_pv_1,
         all_v_pv_2 = v_pv_2,
         all_v_pv_3 = v_pv_3,
         all_v_bat = v_bat,
         all_soc = soc,
         all_soh = soh,
         all_internal_fault = internal_fault,
         all_p_pv = 0,
         all_p_pv_1 = p_pv_1,
         all_p_pv_2 = p_pv_2,
         all_p_pv_3 = p_pv_3,
         all_p_battery = 0,
         all_p_charge = p_charge,
         all_p_discharge = p_discharge,
         all_v_ac_r = v_ac_r,
         all_v_ac_s = v_ac_s,
         all_v_ac_t = v_ac_t,
         all_f_ac = f_ac,
         all_p_inv = p_inv,
         all_p_rec = p_rec,
         all_pf = pf,
         all_v_eps_r = v_eps_r,
         all_v_eps_s = v_eps_s,
         all_v_eps_t = v_eps_t,
         all_f_eps = f_eps,
         all_p_eps = p_eps,
         all_s_eps = s_eps,
         all_p_grid = 0,
         all_p_to_grid = p_to_grid,
         all_p_to_user = p_to_user,
         all_e_pv_day = 0,
         all_e_pv_day_1 = e_pv_day_1,
         all_e_pv_day_2 = e_pv_day_2,
         all_e_pv_day_3 = e_pv_day_3,
         all_e_inv_day = e_inv_day,
         all_e_rec_day = e_rec_day,
         all_e_chg_day = e_chg_day,
         all_e_dischg_day = e_dischg_day,
         all_e_eps_day = e_eps_day,
         all_e_to_grid_day = e_to_grid_day,
         all_e_to_user_day = e_to_user_day,
         all_v_bus_1 = v_bus_1,
         all_v_bus_2 = v_bus_2,
         all_e_pv_all = 0,
         all_e_pv_all_1 = e_pv_all_1,
         all_e_pv_all_2 = e_pv_all_2,
         all_e_pv_all_3 = e_pv_all_3,
         all_e_inv_all = e_inv_all,
         all_e_rec_all = e_rec_all,
         all_e_chg_all = e_chg_all,
         all_e_dischg_all = e_dischg_all,
         all_e_eps_all = e_eps_all,
         all_e_to_grid_all = e_to_grid_all,
         all_e_to_user_all = e_to_user_all,
         all_fault_code = fault_code,
         all_warning_code = warning_code,
         all_t_inner = t_inner,
         all_t_rad_1 = t_rad_1,
         all_t_rad_2 = t_rad_2,
         all_t_bat = t_bat,
         all_runtime = runtime,
         all_max_chg_curr = max_chg_curr,
         all_max_dischg_curr = max_dischg_curr,
         all_charge_volt_ref = charge_volt_ref,
         all_dischg_cut_volt = dischg_cut_volt,
         all_bat_status_0 = bat_status_0,
         all_bat_status_1 = bat_status_1,
         all_bat_status_2 = bat_status_2,
         all_bat_status_3 = bat_status_3,
         all_bat_status_4 = bat_status_4,
         all_bat_status_5 = bat_status_5,
         all_bat_status_6 = bat_status_6,
         all_bat_status_7 = bat_status_7,
         all_bat_status_8 = bat_status_8,
         all_bat_status_9 = bat_status_9,
         all_bat_status_inv = bat_status_inv,
         all_bat_count = bat_count,
         all_bat_capacity = bat_capacity,
         all_bat_current = bat_current,
         all_bms_event_1 = bms_event_1,
         all_bms_event_2 = bms_event_2,
         all_max_cell_voltage = max_cell_voltage,
         all_min_cell_voltage = min_cell_voltage,
         all_max_cell_temp = max_cell_temp,
         all_min_cell_temp = min_cell_temp,
         all_bms_fw_update_state = bms_fw_update_state,
         all_cycle_count = cycle_count,
         all_vbat_inv = vbat_inv,
         all_gen_status = gen_status,
         all_gen_power_factor = gen_power_factor,
         all_gen_current = gen_current,
         all_gen_power_limit = gen_power_limit,
         all_gen_connect_status = gen_connect_status,
         all_gen_control_mode = gen_control_mode,
         all_gen_dispatch_mode = gen_dispatch_mode,
         all_v_bus_half = v_bus_half,
         all_v_gen = v_gen,
         all_f_gen = f_gen,
         all_p_gen = p_gen,
         all_e_gen_day = e_gen_day,
         all_e_gen_all = e_gen_all,
         all_v_eps_l1 = v_eps_l1,
         all_v_eps_l2 = v_eps_l2,
         all_p_eps_l1 = p_eps_l1,
         all_p_eps_l2 = p_eps_l2,
         all_s_eps_l1 = s_eps_l1,
         all_s_eps_l2 = s_eps_l2,
         all_e_eps_l1_day = e_eps_l1_day,
         all_e_eps_l2_day = e_eps_l2_day,
         all_e_eps_l1_all = e_eps_l1_all,
         all_e_eps_l2_all = e_eps_l2_all,
         all_i_eps_l1 = i_eps_l1,
         all_i_eps_l2 = i_eps_l2,
         all_pf_eps_l1 = pf_eps_l1,
         all_pf_eps_l2 = pf_eps_l2,
         all_f_eps_l1 = f_eps_l1,
         all_f_eps_l2 = f_eps_l2,
         all_time = time,
         all_datalog = serial_default,
         all_bat_cell_count = bat_cell_count,
         all_bat_parallel_count = bat_parallel_count,
         all_under_freq_start = under_freq_start,
         all_under_freq_end = under_freq_end,
         all_under_freq_slope = under_freq_slope,
         all_max_compensation = max_compensation,
         all_chg_power_pct = chg_power_pct,
         all_dischg_power_pct = dischg_power_pct,
         all_ac_charge_pct = ac_charge_pct,
         all_chg_priority_pct = chg_priority_pct,
         all_forced_dischg_pct = forced_dischg_pct,
         all_inv_power_pct = inv_power_pct,
         all_ac_chg_start_v = ac_chg_start_v,
         all_ac_chg_end_v = ac_chg_end_v,
         all_ac_chg_start_soc = ac_chg_start_soc,
         all_ac_chg_end_soc = ac_chg_end_soc,
         all_bat_low_v = bat_low_v,
         all_bat_low_back_v = bat_low_back_v,
         all_bat_low_soc = bat_low_soc,
         all_bat_low_back_soc = bat_low_back_soc,
         all_bat_low_utility_v = bat_low_utility_v,
         all_bat_low_utility_soc = bat_low_utility_soc,
         all_ac_chg_curr = ac_chg_curr,
         all_ongrid_eod_v = ongrid_eod_v,
         all_soc_volt1 = soc_volt1,
         all_soc_volt2 = soc_volt2,
         all_soc_pct1 = soc_pct1,
         all_soc_pct2 = soc_pct2,
         all_soc_inner_resistance = soc_inner_resistance,
         all_max_grid_input_power = max_grid_input_power,
         all_gen_rated_power = gen_rated_power,
         all_function_bit_flags = function_bit_flags,
         all_afci_threshold = afci_threshold,
         all_volt_watt_v1 = volt_watt_v1,
         all_volt_watt_v2 = volt_watt_v2,
         all_volt_watt_delay = volt_watt_delay,
         all_volt_watt_p2 = volt_watt_p2,
         all_grid_voltage_high_pure = grid_voltage_high_pure,
         all_grid_voltage_low_pure = grid_voltage_low_pure,
         all_grid_freq_high_pure = grid_freq_high_pure,
         all_grid_freq_low_pure = grid_freq_low_pure,
         all_grid_volt_high_delay = grid_volt_high_delay,
         all_grid_volt_low_delay = grid_volt_low_delay,
         all_grid_freq_high_delay = grid_freq_high_delay,
         all_grid_freq_low_delay = grid_freq_low_delay,
         all_grid_volt_recover_high = grid_volt_recover_high,
         all_grid_volt_recover_low = grid_volt_recover_low,
         all_grid_freq_recover_high = grid_freq_recover_high,
         all_grid_freq_recover_low = grid_freq_recover_low,
         all_grid_volt_recover_delay = grid_volt_recover_delay,
         all_grid_freq_recover_delay = grid_freq_recover_delay,
         all_island_detect_time = island_detect_time,
         all_pf_cmd_memory_en = pf_cmd_memory_en,
         all_pf_cmd_memory_pf = pf_cmd_memory_pf,
         all_pf_cmd_memory_p_ref = pf_cmd_memory_p_ref,
         all_pf_cmd_memory_v_ref = pf_cmd_memory_v_ref,
         all_pf_cmd_memory_q_ref = pf_cmd_memory_q_ref \<rparr>)))))))))))))))))))))))))))))))))))))))))))))))))))))))))))))))))))))))))))))))))))))))))))))))))))))))))))))))))))))))))))))))))))))))))))))))))))))))))))))))))))))))))))"

text \<open>The parser needs more bytes than any input packet of the protocol carries.\<close>

lemma plen_read_input_all:
  assumes "nom_ok N"
  shows "plen (parse_read_input_all N now) 376"
proof -
  have "\<exists>n. plen (parse_read_input_all N now) n \<and> n = 376"
    unfolding parse_read_input_all_def
    apply (rule exI, rule conjI)
     apply (rule plen_pbind plen_skip[OF assms] plen_field[OF assms] plen_free)+
    apply simp
    done
  then show ?thesis by blast
qed

end
