(* ===== verification/Read_Inputs.thy ===== *)
theory Read_Inputs
  imports Packet Packet_Facts Inputs
begin

text \<open>
  From a reply of the inverter to an input block: \<^verbatim>\<open>TranslatedData::read_input1\<close> to
  \<^verbatim>\<open>read_input6\<close>, which parse the value bytes, compute the derived totals and set the data logger,
  and the \<^verbatim>\<open>calculate_derived_values\<close> methods of the structs.
\<close>

section \<open>Derived values\<close>

text \<open>
  \<^verbatim>\<open>a.checked_add(b).and_then(|sum| sum.checked_add(c))\<close> and the difference of two registers as
  \<^verbatim>\<open>i32\<close>.
\<close>

definition checked_sum3 :: "u16 \<Rightarrow> u16 \<Rightarrow> u16 \<Rightarrow> u16 option" where
  "checked_sum3 a b c = Option.bind (checked_add a b) (\<lambda>sum. checked_add sum c)"

definition i32_from_u16 :: "u16 \<Rightarrow> i32" where
  "i32_from_u16 w = ucast w"

definition i32_checked_sub :: "i32 \<Rightarrow> i32 \<Rightarrow> i32 option" where
  "i32_checked_sub a b =
     (let d = sint a - sint b
      in if - (2 ^ 31) \<le> d \<and> d < 2 ^ 31 then Some (word_of_int d) else None)"

definition round_total :: "f64 \<Rightarrow> f64 \<Rightarrow> f64 \<Rightarrow> f64" where
  "round_total a b c = utils_round (f64_add (f64_add a b) c) 1"

definition r1_calculate_derived_values :: "read_input1 \<Rightarrow> read_input1 outcome" where
  "r1_calculate_derived_values r =
     obind (ok_or (checked_sum3 (r1_p_pv_1 r) (r1_p_pv_2 r) (r1_p_pv_3 r))
              ''Power value overflow in p_pv calculation'') (\<lambda>p_pv.
     obind (ok_or (i32_checked_sub (i32_from_u16 (r1_p_charge r)) (i32_from_u16 (r1_p_discharge r)))
              ''Power value overflow in p_battery calculation'') (\<lambda>p_battery.
     obind (ok_or (i32_checked_sub (i32_from_u16 (r1_p_to_user r)) (i32_from_u16 (r1_p_to_grid r)))
              ''Power value overflow in p_grid calculation'') (\<lambda>p_grid.
     Ok (r\<lparr> r1_p_pv := p_pv, r1_p_battery := p_battery, r1_p_grid := p_grid,
            r1_e_pv_day := round_total (r1_e_pv_day_1 r) (r1_e_pv_day_2 r) (r1_e_pv_day_3 r) \<rparr>))))"

definition r2_calculate_derived_values :: "read_input2 \<Rightarrow> read_input2 outcome" where
  "r2_calculate_derived_values r =
     Ok (r\<lparr> r2_e_pv_all := round_total (r2_e_pv_all_1 r) (r2_e_pv_all_2 r) (r2_e_pv_all_3 r) \<rparr>)"

section \<open>The parsers of a reply\<close>

definition read_input1_of :: "nom_lib \<Rightarrow> unix_time \<Rightarrow> translated_data \<Rightarrow> read_input1 outcome" where
  "read_input1_of N now p =
     (case parse_read_input1 N now (td_values p) of
        None \<Rightarrow> Err ''Failed to parse ReadInput1 packet''
      | Some (_, r) \<Rightarrow>
          obind (ok_or (checked_sum3 (r1_p_pv_1 r) (r1_p_pv_2 r) (r1_p_pv_3 r))
                   ''Power value overflow in p_pv calculation'') (\<lambda>p_pv.
          obind (ok_or (i32_checked_sub (i32_from_u16 (r1_p_to_user r)) (i32_from_u16 (r1_p_to_grid r)))
                   ''Power value overflow in p_grid calculation'') (\<lambda>p_grid.
          obind (ok_or (i32_checked_sub (i32_from_u16 (r1_p_charge r)) (i32_from_u16 (r1_p_discharge r)))
                   ''Power value overflow in p_battery calculation'') (\<lambda>p_battery.
          Ok (r\<lparr> r1_p_pv := p_pv, r1_p_grid := p_grid, r1_p_battery := p_battery,
                 r1_e_pv_day := round_total (r1_e_pv_day_1 r) (r1_e_pv_day_2 r) (r1_e_pv_day_3 r),
                 r1_datalog := td_datalog p \<rparr>)))))"

text \<open>The checks of the battery brand and type only choose what is logged.\<close>

definition read_input2_of :: "nom_lib \<Rightarrow> unix_time \<Rightarrow> translated_data \<Rightarrow> read_input2 outcome" where
  "read_input2_of N now p =
     (if length (td_values p) < 80 then Err ''ReadInput2 data too short''
      else (case parse_read_input2 N now (td_values p) of
              None \<Rightarrow> Err ''Failed to parse ReadInput2''
            | Some (_, r) \<Rightarrow>
                Ok (r\<lparr> r2_e_pv_all := round_total (r2_e_pv_all_1 r) (r2_e_pv_all_2 r) (r2_e_pv_all_3 r),
                       r2_datalog := td_datalog p \<rparr>)))"

definition read_input3_of :: "nom_lib \<Rightarrow> unix_time \<Rightarrow> translated_data \<Rightarrow> read_input3 outcome" where
  "read_input3_of N now p =
     (case parse_read_input3 N now (td_values p) of
        None \<Rightarrow> Err ''Failed to parse ReadInput3 packet''
      | Some (_, r) \<Rightarrow> Ok (r\<lparr> r3_datalog := td_datalog p \<rparr>))"

text \<open>\<^verbatim>\<open>ReadInput4\<close> has no field for the time, so its parser ignores the clock.\<close>

definition read_input4_of :: "nom_lib \<Rightarrow> unix_time \<Rightarrow> translated_data \<Rightarrow> read_input4 outcome" where
  "read_input4_of N now p =
     (case parse_read_input4 N now (td_values p) of
        None \<Rightarrow> Err ''Failed to parse ReadInput4 packet''
      | Some (_, r) \<Rightarrow> Ok (r\<lparr> r4_datalog := td_datalog p \<rparr>))"

definition read_input5_of :: "nom_lib \<Rightarrow> unix_time \<Rightarrow> translated_data \<Rightarrow> read_input5 outcome" where
  "read_input5_of N now p =
     (case parse_read_input5 N now (td_values p) of
        None \<Rightarrow> Err ''Failed to parse ReadInput5''
      | Some (_, r) \<Rightarrow> Ok (r\<lparr> r5_datalog := td_datalog p \<rparr>))"

text \<open>\<^verbatim>\<open>read_input6\<close> starts from zeros and sets the field of each pair by its position.\<close>

definition read_input6_zero :: "unix_time \<Rightarrow> serial \<Rightarrow> read_input6" where
  "read_input6_zero now datalog =
     \<lparr> r6_grid_voltage_high_pure = 0, r6_grid_voltage_low_pure = 0, r6_grid_freq_high_pure = 0,
       r6_grid_freq_low_pure = 0, r6_grid_volt_high_delay = 0, r6_grid_volt_low_delay = 0,
       r6_grid_freq_high_delay = 0, r6_grid_freq_low_delay = 0, r6_grid_volt_recover_high = 0,
       r6_grid_volt_recover_low = 0, r6_grid_freq_recover_high = 0, r6_grid_freq_recover_low = 0,
       r6_grid_volt_recover_delay = 0, r6_grid_freq_recover_delay = 0, r6_island_detect_time = 0,
       r6_pf_cmd_memory_en = 0, r6_pf_cmd_memory_pf = 0, r6_pf_cmd_memory_p_ref = 0,
       r6_pf_cmd_memory_v_ref = 0, r6_pf_cmd_memory_q_ref = 0,
       r6_time = now, r6_datalog = datalog \<rparr>"

definition read_input6_set :: "nat \<Rightarrow> u16 \<Rightarrow> read_input6 \<Rightarrow> read_input6" where
  "read_input6_set i value r =
     (if i = 0 then r\<lparr> r6_grid_voltage_high_pure := value \<rparr>
      else if i = 1 then r\<lparr> r6_grid_voltage_low_pure := value \<rparr>
      else if i = 2 then r\<lparr> r6_grid_freq_high_pure := value \<rparr>
      else if i = 3 then r\<lparr> r6_grid_freq_low_pure := value \<rparr>
      else if i = 4 then r\<lparr> r6_grid_volt_high_delay := value \<rparr>
      else if i = 5 then r\<lparr> r6_grid_volt_low_delay := value \<rparr>
      else if i = 6 then r\<lparr> r6_grid_freq_high_delay := value \<rparr>
      else if i = 7 then r\<lparr> r6_grid_freq_low_delay := value \<rparr>
      else if i = 8 then r\<lparr> r6_grid_volt_recover_high := value \<rparr>
      else if i = 9 then r\<lparr> r6_grid_volt_recover_low := value \<rparr>
      else if i = 10 then r\<lparr> r6_grid_freq_recover_high := value \<rparr>
      else if i = 11 then r\<lparr> r6_grid_freq_recover_low := value \<rparr>
      else if i = 12 then r\<lparr> r6_grid_volt_recover_delay := value \<rparr>
      else if i = 13 then r\<lparr> r6_grid_freq_recover_delay := value \<rparr>
      else if i = 14 then r\<lparr> r6_island_detect_time := value \<rparr>
      else if i = 15 then r\<lparr> r6_pf_cmd_memory_en := value \<rparr>
      else if i = 16 then r\<lparr> r6_pf_cmd_memory_pf := value \<rparr>
      else if i = 17 then r\<lparr> r6_pf_cmd_memory_p_ref := value \<rparr>
      else if i = 18 then r\<lparr> r6_pf_cmd_memory_v_ref := value \<rparr>
      else if i = 19 then r\<lparr> r6_pf_cmd_memory_q_ref := value \<rparr>
      else r)"

definition read_input6_of :: "bool \<Rightarrow> unix_time \<Rightarrow> translated_data \<Rightarrow> read_input6 outcome" where
  "read_input6_of oc now p =
     obind (td_pairs oc p) (\<lambda>pairs.
       Ok (fold (\<lambda>(i, (_, value)). read_input6_set i value) (enumerate pairs)
             (read_input6_zero now (td_datalog p))))"

section \<open>Arithmetic of the totals\<close>

lemma checked_sum3_Some:
  "checked_sum3 a b c = Some s \<longleftrightarrow> unat a + unat b + unat c < 2 ^ 16 \<and> s = a + b + c"
proof -
  have "unat (a + b) = unat a + unat b" if "unat a + unat b < 2 ^ 16"
    using that by (simp add: unat_word_ariths)
  then show ?thesis
    by (auto simp: checked_sum3_def checked_add_def split: bind_splits if_splits)
qed

lemma checked_sum3_None: "checked_sum3 a b c = None \<longleftrightarrow> 2 ^ 16 \<le> unat a + unat b + unat c"
  using checked_sum3_Some[of a b c] by (cases "checked_sum3 a b c") (auto simp: not_less[symmetric])

lemma unat_sum3: "unat a + unat b + unat c < 2 ^ 16 \<Longrightarrow> unat (a + b + c :: u16) = unat a + unat b + unat c"
  by (simp add: unat_word_ariths)

lemma uint_u16: "0 \<le> uint (w :: u16)" "uint (w :: u16) < 65536"
  using unsigned_less[of w, where ?'a = int] by simp_all

lemma sint_i32_from_u16: "sint (i32_from_u16 w) = uint w"
proof -
  have "uint (i32_from_u16 w) = uint w"
    using uint_u16[of w] by (simp add: i32_from_u16_def unsigned_ucast_eq take_bit_int_eq_self)
  moreover have "- 2147483648 \<le> uint w" "uint w < 2147483648" using uint_u16[of w] by linarith+
  then have "signed_take_bit 31 (uint w) = uint w"
    by (intro signed_take_bit_int_eq_self) simp_all
  ultimately show ?thesis by (simp add: sint_uint)
qed

text \<open>The difference of two registers never leaves the range of an \<^verbatim>\<open>i32\<close>.\<close>

lemma sint_i32: "- 2147483648 \<le> d \<Longrightarrow> d < 2147483648 \<Longrightarrow> sint (word_of_int d :: i32) = d"
  by (simp add: sint_sbintrunc' signed_take_bit_int_eq_self)

lemma i32_checked_sub_u16:
  obtains d where "i32_checked_sub (i32_from_u16 a) (i32_from_u16 b) = Some d" "sint d = uint a - uint b"
proof -
  let ?d = "uint a - uint b"
  have r: "- 2147483648 \<le> ?d" "?d < 2147483648" using uint_u16[of a] uint_u16[of b] by linarith+
  have "sint (word_of_int ?d :: i32) = ?d" by (rule sint_i32[OF r])
  with r that[of "word_of_int ?d"] show ?thesis
    by (simp add: i32_checked_sub_def sint_i32_from_u16)
qed

lemma round_total_deci:
  "round_total (deci a) (deci b) (deci c) = f64_div (of_nat (unat a + unat b + unat c)) 10"
proof -
  have "unat a < 2 ^ 32" "unat b < 2 ^ 32" "unat c < 2 ^ 32"
    using unsigned_less[of a, where ?'a = nat] unsigned_less[of b, where ?'a = nat]
      unsigned_less[of c, where ?'a = nat] by simp_all
  then show ?thesis unfolding round_total_def deci_def f64_of_word_def by (rule round1_sum3)
qed

lemma round_total_deci32:
  "round_total (deci32 a) (deci32 b) (deci32 c) = f64_div (of_nat (unat a + unat b + unat c)) 10"
proof -
  have "unat a < 2 ^ 32" "unat b < 2 ^ 32" "unat c < 2 ^ 32"
    using unsigned_less[of a, where ?'a = nat] unsigned_less[of b, where ?'a = nat]
      unsigned_less[of c, where ?'a = nat] by simp_all
  then show ?thesis unfolding round_total_def deci32_def f64_of_word_def by (rule round1_sum3)
qed

section \<open>Block 1\<close>

definition reg :: "bytes \<Rightarrow> nat \<Rightarrow> u16" where
  "reg values k = word_at values (2 * k)"

lemma read_input1_cases:
  assumes "nom_ok N"
  shows "read_input1_of N now p =
    (let v = td_values p
     in if length v < 80 then Err ''Failed to parse ReadInput1 packet''
        else if 2 ^ 16 \<le> unat (reg v 7) + unat (reg v 8) + unat (reg v 9) then Err ''Power value overflow in p_pv calculation''
        else Ok ((r1_layout now v)\<lparr>
          r1_p_pv := reg v 7 + reg v 8 + reg v 9,
          r1_p_grid := the (i32_checked_sub (i32_from_u16 (reg v 27)) (i32_from_u16 (reg v 26))),
          r1_p_battery := the (i32_checked_sub (i32_from_u16 (reg v 10)) (i32_from_u16 (reg v 11))),
          r1_e_pv_day := f64_div (of_nat (unat (reg v 28) + unat (reg v 29) + unat (reg v 30))) 10,
          r1_datalog := td_datalog p \<rparr>))"
proof (cases "80 \<le> length (td_values p)")
  case False
  then show ?thesis
    using reads_r1[OF assms, of now] by (simp add: read_input1_of_def reads_def Let_def)
next
  case True
  let ?v = "td_values p"
  have parse: "parse_read_input1 N now ?v = Some (drop 80 ?v, r1_layout now ?v)"
    using True reads_r1[OF assms, of now] by (simp add: reads_def)
  obtain g where g: "i32_checked_sub (i32_from_u16 (word_at ?v 54)) (i32_from_u16 (word_at ?v 52)) = Some g"
    using i32_checked_sub_u16 by blast
  obtain b where b: "i32_checked_sub (i32_from_u16 (word_at ?v 20)) (i32_from_u16 (word_at ?v 22)) = Some b"
    using i32_checked_sub_u16 by blast
  have fields: "r1_p_pv_1 (r1_layout now ?v) = word_at ?v 14" "r1_p_pv_2 (r1_layout now ?v) = word_at ?v 16"
    "r1_p_pv_3 (r1_layout now ?v) = word_at ?v 18" "r1_p_charge (r1_layout now ?v) = word_at ?v 20"
    "r1_p_discharge (r1_layout now ?v) = word_at ?v 22" "r1_p_to_grid (r1_layout now ?v) = word_at ?v 52"
    "r1_p_to_user (r1_layout now ?v) = word_at ?v 54" "r1_e_pv_day_1 (r1_layout now ?v) = deci (word_at ?v 56)"
    "r1_e_pv_day_2 (r1_layout now ?v) = deci (word_at ?v 58)"
    "r1_e_pv_day_3 (r1_layout now ?v) = deci (word_at ?v 60)"
    by (simp_all add: r1_layout_def)
  show ?thesis
  proof (cases "checked_sum3 (word_at ?v 14) (word_at ?v 16) (word_at ?v 18)")
    case None
    moreover from None have "2 ^ 16 \<le> unat (word_at ?v 14) + unat (word_at ?v 16) + unat (word_at ?v 18)"
      by (simp only: checked_sum3_None)
    ultimately show ?thesis
      using True parse fields by (simp add: read_input1_of_def reg_def Let_def)
  next
    case (Some s)
    moreover from Some have "unat (word_at ?v 14) + unat (word_at ?v 16) + unat (word_at ?v 18) < 2 ^ 16"
      and "s = word_at ?v 14 + word_at ?v 16 + word_at ?v 18"
      by (simp_all only: checked_sum3_Some)
    ultimately show ?thesis
      using True parse g b fields
      by (simp add: read_input1_of_def reg_def Let_def round_total_deci)
  qed
qed

text \<open>
  C9: a reply to block 1 is accepted exactly when it carries 40 registers and the three string powers
  add up to less than 65536, and then the totals are exact: the power of the strings, the signed
  battery and grid power, and the energy of the day as the double closest to the sum of the tenths.
\<close>

theorem read_input1_totals:
  assumes "nom_ok N"
  shows "(is_ok (read_input1_of N now p) \<longleftrightarrow>
      80 \<le> length (td_values p) \<and>
      unat (reg (td_values p) 7) + unat (reg (td_values p) 8) + unat (reg (td_values p) 9) < 2 ^ 16) \<and>
    (\<forall>r. read_input1_of N now p = Ok r \<longrightarrow>
      unat (r1_p_pv r) = unat (r1_p_pv_1 r) + unat (r1_p_pv_2 r) + unat (r1_p_pv_3 r) \<and>
      sint (r1_p_battery r) = uint (r1_p_charge r) - uint (r1_p_discharge r) \<and>
      sint (r1_p_grid r) = uint (r1_p_to_user r) - uint (r1_p_to_grid r) \<and>
      r1_e_pv_day r = f64_div (of_nat (unat (reg (td_values p) 28) + unat (reg (td_values p) 29)
         + unat (reg (td_values p) 30))) 10)"
proof -
  let ?v = "td_values p"
  obtain g where g: "i32_checked_sub (i32_from_u16 (reg ?v 27)) (i32_from_u16 (reg ?v 26)) = Some g"
    "sint g = uint (reg ?v 27) - uint (reg ?v 26)" by (rule i32_checked_sub_u16)
  obtain b where b: "i32_checked_sub (i32_from_u16 (reg ?v 10)) (i32_from_u16 (reg ?v 11)) = Some b"
    "sint b = uint (reg ?v 10) - uint (reg ?v 11)" by (rule i32_checked_sub_u16)
  show ?thesis
    unfolding read_input1_cases[OF assms] using g b
    by (auto simp: Let_def r1_layout_def reg_def unat_sum3 simp del: of_nat_add)
qed

definition ones_block1 :: translated_data where
  "ones_block1 = \<lparr> td_datalog = serial_default, td_device_function = DevReadInput,
     td_inverter = serial_default, td_register = 0, td_values = replicate 80 1 \<rparr>"

lemma reg_ones_block1: "k < 40 \<Longrightarrow> unat (reg (td_values ones_block1) k) = 257"
  by (simp add: reg_def word_at_def ones_block1_def unat_u16_from_le)

theorem read_input1_totals_witness:
  "\<exists>r. read_input1_of nom_ref 1700000000 ones_block1 = Ok r \<and>
     unat (r1_p_pv r) = unat (r1_p_pv_1 r) + unat (r1_p_pv_2 r) + unat (r1_p_pv_3 r) \<and>
     r1_e_pv_day r = f64_div 771 10"
proof -
  note t = read_input1_totals[OF nom_ok_ref, of 1700000000 ones_block1]
  have "80 \<le> length (td_values ones_block1)" by (simp add: ones_block1_def)
  with t reg_ones_block1 obtain r where r: "read_input1_of nom_ref 1700000000 ones_block1 = Ok r"
    by (auto simp: is_ok_iff)
  with t show ?thesis by (auto simp: reg_ones_block1)
qed

section \<open>Blocks 4 and 5\<close>

text \<open>
  A reply to block 4 or 5 is accepted exactly when it carries at least 25 and at least 37
  registers, and then every field is read from its own registers: the layouts name the bytes.
\<close>

theorem read_input4_5_layout:
  assumes "nom_ok N"
  shows "read_input4_of N now p =
      (if 50 \<le> length (td_values p) then Ok ((r4_layout now (td_values p))\<lparr> r4_datalog := td_datalog p \<rparr>)
       else Err ''Failed to parse ReadInput4 packet'') \<and>
    read_input5_of N now p =
      (if 74 \<le> length (td_values p) then Ok ((r5_layout now (td_values p))\<lparr> r5_datalog := td_datalog p \<rparr>)
       else Err ''Failed to parse ReadInput5'')"
  using reads_r4[OF assms, of now] reads_r5[OF assms, of now]
  by (simp add: read_input4_of_def read_input5_of_def reads_def)

theorem read_input4_5_layout_witness:
  "\<exists>r. read_input5_of nom_ref 1700000000 ones_block1 = Ok r \<and> r5_bat_cell_count r = 0x0101 \<and>
     r5_time r = 1700000000 \<and> r5_datalog r = serial_default"
  using read_input4_5_layout[OF nom_ok_ref, of 1700000000 ones_block1]
  by (simp add: ones_block1_def r5_layout_def word_at_def u16_from_le_def)

section \<open>Block 6\<close>

definition r6_words :: "read_input6 \<Rightarrow> u16 list" where
  "r6_words r =
     [r6_grid_voltage_high_pure r, r6_grid_voltage_low_pure r, r6_grid_freq_high_pure r,
      r6_grid_freq_low_pure r, r6_grid_volt_high_delay r, r6_grid_volt_low_delay r,
      r6_grid_freq_high_delay r, r6_grid_freq_low_delay r, r6_grid_volt_recover_high r,
      r6_grid_volt_recover_low r, r6_grid_freq_recover_high r, r6_grid_freq_recover_low r,
      r6_grid_volt_recover_delay r, r6_grid_freq_recover_delay r, r6_island_detect_time r,
      r6_pf_cmd_memory_en r, r6_pf_cmd_memory_pf r, r6_pf_cmd_memory_p_ref r,
      r6_pf_cmd_memory_v_ref r, r6_pf_cmd_memory_q_ref r]"

lemma length_r6_words [simp]: "length (r6_words r) = 20"
  by (simp add: r6_words_def)

lemma r6_words_set: "r6_words (read_input6_set i v r) = (r6_words r)[i := v]"
proof (cases "i < 20")
  case True
  have "\<forall>i < 20. r6_words (read_input6_set i v r) = (r6_words r)[i := v]"
    unfolding r6_words_def by (simp add: eval_nat_numeral All_less_Suc) (simp add: read_input6_set_def)
  with True show ?thesis by simp
next
  case False
  then show ?thesis by (simp add: read_input6_set_def list_update_beyond)
qed

lemma r6_other_set [simp]:
  "r6_time (read_input6_set i v r) = r6_time r" "r6_datalog (read_input6_set i v r) = r6_datalog r"
  by (simp_all add: read_input6_set_def)

lemma r6_words_fold:
  "r6_words (fold (\<lambda>(i, (_, value)). read_input6_set i value) (List.enumerate k ps) r) ! j =
     (if k \<le> j \<and> j < k + length ps then snd (ps ! (j - k)) else r6_words r ! j)" if "j < 20"
  using that
proof (induction ps arbitrary: k r)
  case Nil
  then show ?case by auto
next
  case (Cons x ps)
  obtain a v where x: "x = (a, v)" by (cases x)
  show ?case
    using Cons by (simp add: x r6_words_set nth_list_update nth_Cons' Suc_diff_le)
qed

lemma r6_other_fold:
  "r6_time (fold (\<lambda>(i, (_, value)). read_input6_set i value) (List.enumerate k ps) r) = r6_time r \<and>
   r6_datalog (fold (\<lambda>(i, (_, value)). read_input6_set i value) (List.enumerate k ps) r) = r6_datalog r"
  by (induction ps arbitrary: k r) (simp_all split: prod.split)

text \<open>
  A reply to block 6 with an even number of value bytes fills the twenty fields in the order of
  the registers; the fields beyond the last register are zero, registers beyond the twentieth are
  dropped. With an odd number of bytes the code panics.
\<close>

theorem read_input6_fields:
  assumes "unat (td_register p) + length (td_values p) div 2 \<le> 2 ^ 16"
  shows "if even (length (td_values p))
    then \<exists>r. read_input6_of oc now p = Ok r \<and> r6_time r = now \<and> r6_datalog r = td_datalog p \<and>
       r6_words r = map (\<lambda>j. if j < length (td_values p) div 2 then reg (td_values p) j else 0) [0..<20]
    else read_input6_of oc now p = Panic"
proof (cases "even (length (td_values p))")
  case True
  let ?ps = "register_pairs (td_register p) (td_values p)"
  define r where "r = fold (\<lambda>(i, (_, value)). read_input6_set i value) (List.enumerate 0 ?ps)
                    (read_input6_zero now (td_datalog p))"
  have "read_input6_of oc now p = Ok r"
    using value_pairs_even[OF True assms, of oc] by (simp add: read_input6_of_def td_pairs_def r_def enumerate_def)
  moreover have "r6_time r = now" "r6_datalog r = td_datalog p"
    by (simp_all add: r_def r6_other_fold) (simp_all add: read_input6_zero_def)
  moreover have "r6_words r = map (\<lambda>j. if j < length (td_values p) div 2 then reg (td_values p) j else 0) [0..<20]"
  proof (rule nth_equalityI)
    fix j assume "j < length (r6_words r)"
    then have j: "j < 20" by simp
    have "r6_words (read_input6_zero now (td_datalog p)) = replicate 20 0"
      by (simp add: r6_words_def read_input6_zero_def numeral_eq_Suc)
    with j show "r6_words r ! j =
        map (\<lambda>j. if j < length (td_values p) div 2 then reg (td_values p) j else 0) [0..<20] ! j"
      by (simp add: r_def r6_words_fold register_pairs_def reg_def)
  qed simp
  ultimately show ?thesis using True by auto
next
  case False
  then show ?thesis by (simp add: read_input6_of_def td_pairs_def value_pairs_odd)
qed

theorem read_input6_fields_witness:
  "\<exists>r. read_input6_of True 7 \<lparr> td_datalog = serial_default, td_device_function = DevReadInput,
      td_inverter = serial_default, td_register = 200, td_values = [1, 0, 2, 0, 3, 0] \<rparr> = Ok r \<and>
    r6_grid_freq_high_pure r = 3 \<and> r6_grid_freq_low_pure r = 0"
proof -
  define p where "p = \<lparr> td_datalog = serial_default, td_device_function = DevReadInput,
      td_inverter = serial_default, td_register = 200, td_values = [1, 0, 2, 0, 3, 0] \<rparr>"
  have "unat (td_register p) + length (td_values p) div 2 \<le> 2 ^ 16" "even (length (td_values p))"
    by (simp_all add: p_def)
  with read_input6_fields[OF this(1), of True 7] obtain r where r: "read_input6_of True 7 p = Ok r"
    "r6_words r = map (\<lambda>j. if j < length (td_values p) div 2 then reg (td_values p) j else 0) [0..<20]"
    by auto
  have "length (td_values p) = 6" by (simp add: p_def)
  then have "r6_words r ! 2 = reg (td_values p) 2" "r6_words r ! 3 = 0"
    by (simp_all add: r(2)) (simp only: numeral_2_eq_2)
  then have "r6_grid_freq_high_pure r = 3" "r6_grid_freq_low_pure r = 0"
    by (simp_all add: r6_words_def reg_def p_def word_at_def u16_from_le_def)
  with r(1) show ?thesis unfolding p_def by blast
qed

end
