(* ===== verification/Inputs_Store.thy ===== *)
theory Inputs_Store
  imports Inputs_All Read_Inputs
begin

text \<open>
  \<^verbatim>\<open>ReadInputAll::calculate_derived_values\<close> and \<^verbatim>\<open>validate\<close>, the dispatch
  \<^verbatim>\<open>TranslatedData::read_input\<close>, and the store \<^verbatim>\<open>ReadInputs\<close> that collects the six blocks of one
  data logger and turns them into a \<^verbatim>\<open>ReadInputAll\<close> when all are there.
\<close>

section \<open>All input registers\<close>

definition all_calculate_derived_values :: "read_input_all \<Rightarrow> read_input_all outcome" where
  "all_calculate_derived_values r =
     obind (ok_or (checked_sum3 (all_p_pv_1 r) (all_p_pv_2 r) (all_p_pv_3 r))
              ''Power value overflow in p_pv calculation'') (\<lambda>p_pv.
     obind (ok_or (i32_checked_sub (i32_from_u16 (all_p_charge r)) (i32_from_u16 (all_p_discharge r)))
              ''Power value overflow in p_battery calculation'') (\<lambda>p_battery.
     obind (ok_or (i32_checked_sub (i32_from_u16 (all_p_to_user r)) (i32_from_u16 (all_p_to_grid r)))
              ''Power value overflow in p_grid calculation'') (\<lambda>p_grid.
     Ok (r\<lparr> all_p_pv := p_pv, all_p_battery := p_battery, all_p_grid := p_grid,
            all_e_pv_day := round_total (all_e_pv_day_1 r) (all_e_pv_day_2 r) (all_e_pv_day_3 r),
            all_e_pv_all := round_total (all_e_pv_all_1 r) (all_e_pv_all_2 r) (all_e_pv_all_3 r) \<rparr>))))"

text \<open>The battery levels are \<^verbatim>\<open>i8\<close>, compared as signed numbers.\<close>

definition all_validate :: "read_input_all \<Rightarrow> unit outcome" where
  "all_validate r =
     (if sint (all_soc r) < 0 \<or> sint (all_soc r) > 100 then Err ''Invalid SOC value: {}''
      else if sint (all_soh r) < 0 \<or> sint (all_soh r) > 100 then Err ''Invalid SOH value: {}''
      else if all_p_pv_1 r > 10000 \<or> all_p_pv_2 r > 10000 \<or> all_p_pv_3 r > 10000
        then Err ''Invalid PV power values''
      else if all_f_ac r < 45 \<or> all_f_ac r > 65 then Err ''Invalid AC frequency: {}''
      else if all_f_eps r < 45 \<or> all_f_eps r > 65 then Err ''Invalid EPS frequency: {}''
      else if all_v_gen r > 0 \<and> (all_v_gen r < 180 \<or> all_v_gen r > 270)
        then Err ''Invalid generator voltage: {}''
      else if all_f_gen r > 0 \<and> (all_f_gen r < 45 \<or> all_f_gen r > 65)
        then Err ''Invalid generator frequency: {}''
      else if all_p_gen r > 10000 then Err ''Invalid generator power: {}''
      else if all_gen_power_factor r > 1000 then Err ''Invalid generator power factor: {}''
      else if all_gen_current r > 100 then Err ''Invalid generator current: {}''
      else if all_v_bus_half r > 1000 then Err ''Invalid half bus voltage: {}''
      else Ok ())"

definition read_input_all_of :: "nom_lib \<Rightarrow> unix_time \<Rightarrow> translated_data \<Rightarrow> read_input_all outcome" where
  "read_input_all_of N now p =
     (case parse_read_input_all N now (td_values p) of
        None \<Rightarrow> Err ''Failed to parse ReadInputAll packet''
      | Some (_, r) \<Rightarrow>
          obind (ok_or (checked_sum3 (all_p_pv_1 r) (all_p_pv_2 r) (all_p_pv_3 r))
                   ''Power value overflow in p_pv calculation'') (\<lambda>p_pv.
          obind (ok_or (i32_checked_sub (i32_from_u16 (all_p_to_user r)) (i32_from_u16 (all_p_to_grid r)))
                   ''Power value overflow in p_grid calculation'') (\<lambda>p_grid.
          obind (ok_or (i32_checked_sub (i32_from_u16 (all_p_charge r)) (i32_from_u16 (all_p_discharge r)))
                   ''Power value overflow in p_battery calculation'') (\<lambda>p_battery.
          Ok (r\<lparr> all_p_pv := p_pv, all_p_grid := p_grid, all_p_battery := p_battery,
                 all_e_pv_day := round_total (all_e_pv_day_1 r) (all_e_pv_day_2 r) (all_e_pv_day_3 r),
                 all_e_pv_all := round_total (all_e_pv_all_1 r) (all_e_pv_all_2 r) (all_e_pv_all_3 r),
                 all_datalog := td_datalog p \<rparr>)))))"

section \<open>Which block a reply is\<close>

datatype read_input =
    ReadInputAll read_input_all
  | ReadInput1 read_input1
  | ReadInput2 read_input2
  | ReadInput3 read_input3
  | ReadInput4 read_input4
  | ReadInput5 read_input5
  | ReadInput6 read_input6

definition MIN_INPUT_BLOCK_SIZE :: nat where "MIN_INPUT_BLOCK_SIZE = 2"
definition MAX_INPUT_BLOCK_SIZE :: nat where "MAX_INPUT_BLOCK_SIZE = 80"
definition MIN_INPUT_ALL_SIZE :: nat where "MIN_INPUT_ALL_SIZE = 254"

definition td_read_input :: "nom_lib \<Rightarrow> bool \<Rightarrow> unix_time \<Rightarrow> translated_data \<Rightarrow> read_input outcome" where
  "td_read_input N oc now p =
     (let len = length (td_values p); register = td_register p
      in if len < MIN_INPUT_BLOCK_SIZE then Err ''Input values too short''
         else if register = 0 \<and> len = MIN_INPUT_ALL_SIZE
           then obind (read_input_all_of N now p) (\<lambda>r. Ok (ReadInputAll r))
         else if register = 0 \<and> len \<le> MAX_INPUT_BLOCK_SIZE
           then obind (read_input1_of N now p) (\<lambda>r. Ok (ReadInput1 r))
         else if register = 40 \<and> len \<le> MAX_INPUT_BLOCK_SIZE
           then obind (read_input2_of N now p) (\<lambda>r. Ok (ReadInput2 r))
         else if register = 80 \<and> len \<le> MAX_INPUT_BLOCK_SIZE
           then obind (read_input3_of N now p) (\<lambda>r. Ok (ReadInput3 r))
         else if register = 120 \<and> len \<le> MAX_INPUT_BLOCK_SIZE
           then obind (read_input4_of N now p) (\<lambda>r. Ok (ReadInput4 r))
         else if register = 160 \<and> len \<le> MAX_INPUT_BLOCK_SIZE
           then obind (read_input5_of N now p) (\<lambda>r. Ok (ReadInput5 r))
         else if register = 200 \<and> len \<le> MAX_INPUT_BLOCK_SIZE
           then obind (read_input6_of oc now p) (\<lambda>r. Ok (ReadInput6 r))
         else Err ''Invalid ReadInput block'')"

section \<open>The store of the blocks\<close>

record read_inputs =
  ris_1 :: "read_input1 option"
  ris_2 :: "read_input2 option"
  ris_3 :: "read_input3 option"
  ris_4 :: "read_input4 option"
  ris_5 :: "read_input5 option"
  ris_6 :: "read_input6 option"

definition read_inputs_default :: read_inputs where
  "read_inputs_default =
     \<lparr> ris_1 = None, ris_2 = None, ris_3 = None, ris_4 = None, ris_5 = None, ris_6 = None \<rparr>"

definition set_read_input_1 :: "read_input1 \<Rightarrow> read_inputs \<Rightarrow> read_inputs" where
  "set_read_input_1 i s = s\<lparr> ris_1 := Some i \<rparr>"
definition set_read_input_2 :: "read_input2 \<Rightarrow> read_inputs \<Rightarrow> read_inputs" where
  "set_read_input_2 i s = s\<lparr> ris_2 := Some i \<rparr>"
definition set_read_input_3 :: "read_input3 \<Rightarrow> read_inputs \<Rightarrow> read_inputs" where
  "set_read_input_3 i s = s\<lparr> ris_3 := Some i \<rparr>"
definition set_read_input_4 :: "read_input4 \<Rightarrow> read_inputs \<Rightarrow> read_inputs" where
  "set_read_input_4 i s = s\<lparr> ris_4 := Some i \<rparr>"
definition set_read_input_5 :: "read_input5 \<Rightarrow> read_inputs \<Rightarrow> read_inputs" where
  "set_read_input_5 i s = s\<lparr> ris_5 := Some i \<rparr>"
definition set_read_input_6 :: "read_input6 \<Rightarrow> read_inputs \<Rightarrow> read_inputs" where
  "set_read_input_6 i s = s\<lparr> ris_6 := Some i \<rparr>"

text \<open>The struct literal of \<^verbatim>\<open>to_input_all\<close>.\<close>

definition combine_inputs :: "read_input1 \<Rightarrow> read_input2 \<Rightarrow> read_input3 \<Rightarrow> read_input4 \<Rightarrow> read_input5 \<Rightarrow>
    read_input6 \<Rightarrow> read_input_all" where
  "combine_inputs r1 r2 r3 r4 r5 r6 =
     \<lparr> all_status = r1_status r1,
       all_v_pv_1 = r1_v_pv_1 r1,
       all_v_pv_2 = r1_v_pv_2 r1,
       all_v_pv_3 = r1_v_pv_3 r1,
       all_v_bat = r1_v_bat r1,
       all_soc = r1_soc r1,
       all_soh = r1_soh r1,
       all_internal_fault = r1_internal_fault r1,
       all_p_pv = r1_p_pv r1,
       all_p_pv_1 = r1_p_pv_1 r1,
       all_p_pv_2 = r1_p_pv_2 r1,
       all_p_pv_3 = r1_p_pv_3 r1,
       all_p_battery = r1_p_battery r1,
       all_p_charge = r1_p_charge r1,
       all_p_discharge = r1_p_discharge r1,
       all_v_ac_r = r1_v_ac_r r1,
       all_v_ac_s = r1_v_ac_s r1,
       all_v_ac_t = r1_v_ac_t r1,
       all_f_ac = r1_f_ac r1,
       all_p_inv = r1_p_inv r1,
       all_p_rec = r1_p_rec r1,
       all_pf = r1_pf r1,
       all_v_eps_r = r1_v_eps_r r1,
       all_v_eps_s = r1_v_eps_s r1,
       all_v_eps_t = r1_v_eps_t r1,
       all_f_eps = r1_f_eps r1,
       all_p_eps = r1_p_eps r1,
       all_s_eps = r1_s_eps r1,
       all_p_grid = r1_p_grid r1,
       all_p_to_grid = r1_p_to_grid r1,
       all_p_to_user = r1_p_to_user r1,
       all_e_pv_day = r1_e_pv_day r1,
       all_e_pv_day_1 = r1_e_pv_day_1 r1,
       all_e_pv_day_2 = r1_e_pv_day_2 r1,
       all_e_pv_day_3 = r1_e_pv_day_3 r1,
       all_e_inv_day = r1_e_inv_day r1,
       all_e_rec_day = r1_e_rec_day r1,
       all_e_chg_day = r1_e_chg_day r1,
       all_e_dischg_day = r1_e_dischg_day r1,
       all_e_eps_day = r1_e_eps_day r1,
       all_e_to_grid_day = r1_e_to_grid_day r1,
       all_e_to_user_day = r1_e_to_user_day r1,
       all_v_bus_1 = r1_v_bus_1 r1,
       all_v_bus_2 = r1_v_bus_2 r1,
       all_e_pv_all = r2_e_pv_all r2,
       all_e_pv_all_1 = r2_e_pv_all_1 r2,
       all_e_pv_all_2 = r2_e_pv_all_2 r2,
       all_e_pv_all_3 = r2_e_pv_all_3 r2,
       all_e_inv_all = r2_e_inv_all r2,
       all_e_rec_all = r2_e_rec_all r2,
       all_e_chg_all = r2_e_chg_all r2,
       all_e_dischg_all = r2_e_dischg_all r2,
       all_e_eps_all = r2_e_eps_all r2,
       all_e_to_grid_all = r2_e_to_grid_all r2,
       all_e_to_user_all = r2_e_to_user_all r2,
       all_fault_code = r2_fault_code r2,
       all_warning_code = r2_warning_code r2,
       all_t_inner = r2_t_inner r2,
       all_t_rad_1 = r2_t_rad_1 r2,
       all_t_rad_2 = r2_t_rad_2 r2,
       all_t_bat = r2_t_bat r2,
       all_runtime = r2_runtime r2,
       all_max_chg_curr = r3_max_chg_curr r3,
       all_max_dischg_curr = r3_max_dischg_curr r3,
       all_charge_volt_ref = r3_charge_volt_ref r3,
       all_dischg_cut_volt = r3_dischg_cut_volt r3,
       all_bat_status_0 = r3_bat_status_0 r3,
       all_bat_status_1 = r3_bat_status_1 r3,
       all_bat_status_2 = r3_bat_status_2 r3,
       all_bat_status_3 = r3_bat_status_3 r3,
       all_bat_status_4 = r3_bat_status_4 r3,
       all_bat_status_5 = r3_bat_status_5 r3,
       all_bat_status_6 = r3_bat_status_6 r3,
       all_bat_status_7 = r3_bat_status_7 r3,
       all_bat_status_8 = r3_bat_status_8 r3,
       all_bat_status_9 = r3_bat_status_9 r3,
       all_bat_status_inv = r3_bat_status_inv r3,
       all_bat_count = r3_bat_count r3,
       all_bat_capacity = r3_bat_capacity r3,
       all_bat_current = r3_bat_current r3,
       all_bms_event_1 = r3_bms_event_1 r3,
       all_bms_event_2 = r3_bms_event_2 r3,
       all_max_cell_voltage = r3_max_cell_voltage r3,
       all_min_cell_voltage = r3_min_cell_voltage r3,
       all_max_cell_temp = r3_max_cell_temp r3,
       all_min_cell_temp = r3_min_cell_temp r3,
       all_bms_fw_update_state = r3_bms_fw_update_state r3,
       all_cycle_count = r3_cycle_count r3,
       all_vbat_inv = r3_vbat_inv r3,
       all_gen_status = 0,
       all_gen_power_factor = 0,
       all_gen_current = 0,
       all_gen_power_limit = 0,
       all_gen_connect_status = 0,
       all_gen_control_mode = 0,
       all_gen_dispatch_mode = 0,
       all_v_bus_half = 0,
       all_v_gen = r4_v_gen r4,
       all_f_gen = r4_f_gen r4,
       all_p_gen = r4_p_gen r4,
       all_e_gen_day = r4_e_gen_day r4,
       all_e_gen_all = r4_e_gen_all r4,
       all_v_eps_l1 = r4_v_eps_l1 r4,
       all_v_eps_l2 = r4_v_eps_l2 r4,
       all_p_eps_l1 = r4_p_eps_l1 r4,
       all_p_eps_l2 = r4_p_eps_l2 r4,
       all_s_eps_l1 = r4_s_eps_l1 r4,
       all_s_eps_l2 = r4_s_eps_l2 r4,
       all_e_eps_l1_day = r4_e_eps_l1_day r4,
       all_e_eps_l2_day = r4_e_eps_l2_day r4,
       all_e_eps_l1_all = r4_e_eps_l1_all r4,
       all_e_eps_l2_all = r4_e_eps_l2_all r4,
       all_i_eps_l1 = r4_i_eps_l1 r4,
       all_i_eps_l2 = r4_i_eps_l2 r4,
       all_pf_eps_l1 = r4_pf_eps_l1 r4,
       all_pf_eps_l2 = r4_pf_eps_l2 r4,
       all_f_eps_l1 = r4_f_eps_l1 r4,
       all_f_eps_l2 = r4_f_eps_l2 r4,
       all_time = r1_time r1,
       all_datalog = r1_datalog r1,
       all_bat_cell_count = r5_bat_cell_count r5,
       all_bat_parallel_count = r5_bat_parallel_count r5,
       all_under_freq_start = r5_under_freq_start r5,
       all_under_freq_end = r5_under_freq_end r5,
       all_under_freq_slope = r5_under_freq_slope r5,
       all_max_compensation = r5_max_compensation r5,
       all_chg_power_pct = r5_chg_power_pct r5,
       all_dischg_power_pct = r5_dischg_power_pct r5,
       all_ac_charge_pct = r5_ac_charge_pct r5,
       all_chg_priority_pct = r5_chg_priority_pct r5,
       all_forced_dischg_pct = r5_forced_dischg_pct r5,
       all_inv_power_pct = r5_inv_power_pct r5,
       all_ac_chg_start_v = r5_ac_chg_start_v r5,
       all_ac_chg_end_v = r5_ac_chg_end_v r5,
       all_ac_chg_start_soc = r5_ac_chg_start_soc r5,
       all_ac_chg_end_soc = r5_ac_chg_end_soc r5,
       all_bat_low_v = r5_bat_low_v r5,
       all_bat_low_back_v = r5_bat_low_back_v r5,
       all_bat_low_soc = r5_bat_low_soc r5,
       all_bat_low_back_soc = r5_bat_low_back_soc r5,
       all_bat_low_utility_v = r5_bat_low_utility_v r5,
       all_bat_low_utility_soc = r5_bat_low_utility_soc r5,
       all_ac_chg_curr = r5_ac_chg_curr r5,
       all_ongrid_eod_v = r5_ongrid_eod_v r5,
       all_soc_volt1 = r5_soc_volt1 r5,
       all_soc_volt2 = r5_soc_volt2 r5,
       all_soc_pct1 = r5_soc_pct1 r5,
       all_soc_pct2 = r5_soc_pct2 r5,
       all_soc_inner_resistance = r5_soc_inner_resistance r5,
       all_max_grid_input_power = r5_max_grid_input_power r5,
       all_gen_rated_power = r5_gen_rated_power r5,
       all_function_bit_flags = r5_function_bit_flags r5,
       all_afci_threshold = r5_afci_threshold r5,
       all_volt_watt_v1 = r5_volt_watt_v1 r5,
       all_volt_watt_v2 = r5_volt_watt_v2 r5,
       all_volt_watt_delay = r5_volt_watt_delay r5,
       all_volt_watt_p2 = r5_volt_watt_p2 r5,
       all_grid_voltage_high_pure = r6_grid_voltage_high_pure r6,
       all_grid_voltage_low_pure = r6_grid_voltage_low_pure r6,
       all_grid_freq_high_pure = r6_grid_freq_high_pure r6,
       all_grid_freq_low_pure = r6_grid_freq_low_pure r6,
       all_grid_volt_high_delay = r6_grid_volt_high_delay r6,
       all_grid_volt_low_delay = r6_grid_volt_low_delay r6,
       all_grid_freq_high_delay = r6_grid_freq_high_delay r6,
       all_grid_freq_low_delay = r6_grid_freq_low_delay r6,
       all_grid_volt_recover_high = r6_grid_volt_recover_high r6,
       all_grid_volt_recover_low = r6_grid_volt_recover_low r6,
       all_grid_freq_recover_high = r6_grid_freq_recover_high r6,
       all_grid_freq_recover_low = r6_grid_freq_recover_low r6,
       all_grid_volt_recover_delay = r6_grid_volt_recover_delay r6,
       all_grid_freq_recover_delay = r6_grid_freq_recover_delay r6,
       all_island_detect_time = r6_island_detect_time r6,
       all_pf_cmd_memory_en = r6_pf_cmd_memory_en r6,
       all_pf_cmd_memory_pf = r6_pf_cmd_memory_pf r6,
       all_pf_cmd_memory_p_ref = r6_pf_cmd_memory_p_ref r6,
       all_pf_cmd_memory_v_ref = r6_pf_cmd_memory_v_ref r6,
       all_pf_cmd_memory_q_ref = r6_pf_cmd_memory_q_ref r6 \<rparr>"

text \<open>A failing step is logged and gives \<^verbatim>\<open>None\<close>.\<close>

definition to_input_all :: "read_inputs \<Rightarrow> read_input_all option" where
  "to_input_all s =
     (case (ris_1 s, ris_2 s, ris_3 s, ris_4 s, ris_5 s, ris_6 s) of
        (Some r1, Some r2, Some r3, Some r4, Some r5, Some r6) \<Rightarrow>
          (case all_calculate_derived_values (combine_inputs r1 r2 r3 r4 r5 r6) of
             Ok r \<Rightarrow> (case all_validate r of Ok _ \<Rightarrow> Some r | _ \<Rightarrow> None)
           | _ \<Rightarrow> None)
      | _ \<Rightarrow> None)"

section \<open>What reaches the store\<close>

lemma read_input2_of_short:
  "nom_ok N \<Longrightarrow> length (td_values p) \<le> 80 \<Longrightarrow> \<not> is_ok (read_input2_of N now p)"
  using reads_r2[of N now] by (simp add: read_input2_of_def reads_def)

lemma read_input3_of_short:
  "nom_ok N \<Longrightarrow> length (td_values p) \<le> 80 \<Longrightarrow> \<not> is_ok (read_input3_of N now p)"
  using reads_r3[of N now] by (simp add: read_input3_of_def reads_def)

lemma read_input_all_of_short:
  "nom_ok N \<Longrightarrow> length (td_values p) = 254 \<Longrightarrow> \<not> is_ok (read_input_all_of N now p)"
  using plen_read_input_all[of N now] by (simp add: read_input_all_of_def plen_def)

lemma read_input4_5_ok:
  assumes "nom_ok N"
  shows "is_ok (read_input4_of N now p) \<longleftrightarrow> 50 \<le> length (td_values p)"
    "is_ok (read_input5_of N now p) \<longleftrightarrow> 74 \<le> length (td_values p)"
  using reads_r4[OF assms, of now] reads_r5[OF assms, of now]
  by (simp_all add: read_input4_of_def read_input5_of_def reads_def)

lemma read_input1_ok:
  assumes "nom_ok N"
  shows "is_ok (read_input1_of N now p) \<longleftrightarrow> 80 \<le> length (td_values p) \<and>
      unat (reg (td_values p) 7) + unat (reg (td_values p) 8) + unat (reg (td_values p) 9) < 2 ^ 16"
  unfolding read_input1_cases[OF assms] by (auto simp: Let_def)

lemma read_input6_ok:
  assumes "unat (td_register p) + length (td_values p) div 2 \<le> 2 ^ 16"
  shows "is_ok (read_input6_of oc now p) \<longleftrightarrow> even (length (td_values p))"
  using assms by (cases "even (length (td_values p))")
    (simp_all add: read_input6_of_def td_pairs_def value_pairs_even value_pairs_odd)

lemma is_ok_obind_Ok [simp]: "is_ok (obind m (\<lambda>r. Ok (f r))) \<longleftrightarrow> is_ok m"
  by (cases m) simp_all

text \<open>
  C10: the replies that become an input block are exactly these: register 0 with 80 bytes whose
  string powers do not overflow, register 120 with 50 to 80 bytes, register 160 with 74 to 80 bytes,
  and register 200 with an even number of 2 to 80 bytes. No reply to register 40 or 80 and no reply
  of 254 bytes is ever accepted: their structs need 82, 88 and 376 bytes.
\<close>

theorem read_input_accepts:
  assumes "nom_ok N"
  shows "is_ok (td_read_input N oc now p) \<longleftrightarrow>
    (let v = td_values p; len = length v
     in (td_register p = 0 \<and> len = 80 \<and> unat (reg v 7) + unat (reg v 8) + unat (reg v 9) < 2 ^ 16) \<or>
        (td_register p = 120 \<and> 50 \<le> len \<and> len \<le> 80) \<or>
        (td_register p = 160 \<and> 74 \<le> len \<and> len \<le> 80) \<or>
        (td_register p = 200 \<and> 2 \<le> len \<and> len \<le> 80 \<and> even len))"
proof -
  let ?len = "length (td_values p)"
  have b2: "?len \<le> 80 \<Longrightarrow> \<not> is_ok (read_input2_of N now p)"
    and b3: "?len \<le> 80 \<Longrightarrow> \<not> is_ok (read_input3_of N now p)"
    and ba: "?len = 254 \<Longrightarrow> \<not> is_ok (read_input_all_of N now p)"
    by (simp_all add: read_input2_of_short[OF assms] read_input3_of_short[OF assms] read_input_all_of_short[OF assms])
  have b6: "td_register p = 200 \<Longrightarrow> ?len \<le> 80 \<Longrightarrow> is_ok (read_input6_of oc now p) \<longleftrightarrow> even ?len"
    by (rule read_input6_ok) simp
  show ?thesis
    using b2 b3 ba b6 unfolding td_read_input_def Let_def
    by (auto simp: read_input1_ok[OF assms] read_input4_5_ok[OF assms] MIN_INPUT_BLOCK_SIZE_def
        MAX_INPUT_BLOCK_SIZE_def MIN_INPUT_ALL_SIZE_def)
qed

theorem read_input_accepts_witness:
  "is_ok (td_read_input nom_ref True 7 ones_block1) \<and>
   \<not> is_ok (td_read_input nom_ref True 7 (ones_block1\<lparr> td_register := 40 \<rparr>)) \<and>
   \<not> is_ok (td_read_input nom_ref True 7 (ones_block1\<lparr> td_register := 80 \<rparr>))"
  using reg_ones_block1
  by (simp add: read_input_accepts[OF nom_ok_ref] Let_def) (simp add: ones_block1_def)

section \<open>The values that are let through\<close>

lemma centi_range: "45 \<le> centi w \<and> centi w \<le> 65 \<longleftrightarrow> 4500 \<le> unat w \<and> unat w \<le> 6500"
  using fl_ratio_less[of 100 45 "unat w"] fl_ratio_greater[of 100 65 "unat w"]
  by (auto simp: centi_def f64_div_def f64_of_word_def)

lemma centi_pos: "0 < centi w \<longleftrightarrow> w \<noteq> 0"
  using fl_ratio_greater[of 100 0 "unat w"]
  by (simp add: centi_def f64_div_def f64_of_word_def unat_gt_0)

lemma deci_pos: "0 < deci w \<longleftrightarrow> w \<noteq> 0"
  using fl_ratio_greater[of 10 0 "unat w"]
  by (simp add: deci_def f64_div_def f64_of_word_def unat_gt_0)

lemma deci_range: "180 \<le> deci w \<and> deci w \<le> 270 \<longleftrightarrow> 1800 \<le> unat w \<and> unat w \<le> 2700"
  using fl_ratio_less[of 10 180 "unat w"] fl_ratio_greater[of 10 270 "unat w"]
  by (auto simp: deci_def f64_div_def f64_of_word_def)

text \<open>The store of six blocks that were read from their bytes.\<close>

definition inputs_of_bytes ::
    "unix_time \<Rightarrow> bytes \<Rightarrow> bytes \<Rightarrow> bytes \<Rightarrow> bytes \<Rightarrow> bytes \<Rightarrow> read_input6 \<Rightarrow> read_inputs" where
  "inputs_of_bytes now b1 b2 b3 b4 b5 r6 =
     \<lparr> ris_1 = Some (r1_layout now b1), ris_2 = Some (r2_layout now b2), ris_3 = Some (r3_layout now b3),
       ris_4 = Some (r4_layout now b4), ris_5 = Some (r5_layout now b5), ris_6 = Some r6 \<rparr>"

lemma derived_ok:
  "is_ok (all_calculate_derived_values r) \<longleftrightarrow>
     unat (all_p_pv_1 r) + unat (all_p_pv_2 r) + unat (all_p_pv_3 r) < 2 ^ 16"
proof -
  obtain b where b: "i32_checked_sub (i32_from_u16 (all_p_charge r)) (i32_from_u16 (all_p_discharge r)) = Some b"
    using i32_checked_sub_u16 by blast
  obtain g where g: "i32_checked_sub (i32_from_u16 (all_p_to_user r)) (i32_from_u16 (all_p_to_grid r)) = Some g"
    using i32_checked_sub_u16 by blast
  show ?thesis
  proof (cases "checked_sum3 (all_p_pv_1 r) (all_p_pv_2 r) (all_p_pv_3 r)")
    case None
    moreover from None have "\<not> unat (all_p_pv_1 r) + unat (all_p_pv_2 r) + unat (all_p_pv_3 r) < 2 ^ 16"
      by (simp only: checked_sum3_None not_less)
    ultimately show ?thesis by (simp add: all_calculate_derived_values_def)
  next
    case (Some s)
    moreover from Some have "unat (all_p_pv_1 r) + unat (all_p_pv_2 r) + unat (all_p_pv_3 r) < 2 ^ 16"
      by (simp only: checked_sum3_Some)
    ultimately show ?thesis using b g by (simp add: all_calculate_derived_values_def)
  qed
qed

text \<open>\<^verbatim>\<open>validate\<close> does not look at the derived fields.\<close>

lemma validate_derived:
  assumes "all_calculate_derived_values r = Ok r'"
  shows "all_validate r' = all_validate r"
proof -
  obtain a b c d e where "r' = r\<lparr> all_p_pv := a, all_p_battery := b, all_p_grid := c,
      all_e_pv_day := d, all_e_pv_all := e \<rparr>"
    using assms unfolding all_calculate_derived_values_def obind_eq_Ok by blast
  then show ?thesis by (simp add: all_validate_def split del: if_split cong: if_cong)
qed

lemma if_Err_Ok: "(if c then Err e else x) = Ok a \<longleftrightarrow> \<not> c \<and> x = Ok a"
  by simp

lemma all_validate_Ok:
  "all_validate r = Ok () \<longleftrightarrow>
     0 \<le> sint (all_soc r) \<and> sint (all_soc r) \<le> 100 \<and> 0 \<le> sint (all_soh r) \<and> sint (all_soh r) \<le> 100 \<and>
     (all_p_pv_1 r \<le> 10000 \<and> all_p_pv_2 r \<le> 10000 \<and> all_p_pv_3 r \<le> 10000) \<and>
     (45 \<le> all_f_ac r \<and> all_f_ac r \<le> 65) \<and> (45 \<le> all_f_eps r \<and> all_f_eps r \<le> 65) \<and>
     (\<not> 0 < all_v_gen r \<or> 180 \<le> all_v_gen r \<and> all_v_gen r \<le> 270) \<and>
     (\<not> 0 < all_f_gen r \<or> 45 \<le> all_f_gen r \<and> all_f_gen r \<le> 65) \<and>
     all_p_gen r \<le> 10000 \<and> all_gen_power_factor r \<le> 1000 \<and> all_gen_current r \<le> 100 \<and>
     all_v_bus_half r \<le> 1000"
  unfolding all_validate_def
  by (simp only: if_Err_Ok de_Morgan_disj de_Morgan_conj not_less conj_assoc simp_thms)

lemma all_validate_not_Panic [simp]: "all_validate r \<noteq> Panic"
  by (simp add: all_validate_def)

lemma to_input_all_eq:
  assumes "ris_1 s = Some r1" "ris_2 s = Some r2" "ris_3 s = Some r3" "ris_4 s = Some r4"
    "ris_5 s = Some r5" "ris_6 s = Some r6"
  shows "to_input_all s \<noteq> None \<longleftrightarrow>
     is_ok (all_calculate_derived_values (combine_inputs r1 r2 r3 r4 r5 r6)) \<and>
     all_validate (combine_inputs r1 r2 r3 r4 r5 r6) = Ok ()"
  using assms validate_derived
  by (auto simp: to_input_all_def is_ok_iff split: outcome.splits)

lemma to_input_all_ranges:
  "to_input_all (inputs_of_bytes now b1 b2 b3 b4 b5 r6) \<noteq> None \<longleftrightarrow>
     (sint (b1 ! 10) \<in> {0..100} \<and> sint (b1 ! 11) \<in> {0..100} \<and>
      unat (reg b1 7) \<le> 10000 \<and> unat (reg b1 8) \<le> 10000 \<and> unat (reg b1 9) \<le> 10000 \<and>
      unat (reg b1 15) \<in> {4500..6500} \<and> unat (reg b1 23) \<in> {4500..6500} \<and>
      (reg b4 1 = 0 \<or> unat (reg b4 1) \<in> {1800..2700}) \<and>
      (reg b4 2 = 0 \<or> unat (reg b4 2) \<in> {4500..6500}) \<and> unat (reg b4 3) \<le> 10000)"
proof -
  let ?r = "combine_inputs (r1_layout now b1) (r2_layout now b2) (r3_layout now b3)
     (r4_layout now b4) (r5_layout now b5) r6"
  have f: "all_soc ?r = b1 ! 10" "all_soh ?r = b1 ! 11" "all_p_pv_1 ?r = reg b1 7"
    "all_p_pv_2 ?r = reg b1 8" "all_p_pv_3 ?r = reg b1 9" "all_f_ac ?r = centi (reg b1 15)"
    "all_f_eps ?r = centi (reg b1 23)" "all_v_gen ?r = deci (reg b4 1)" "all_f_gen ?r = centi (reg b4 2)"
    "all_p_gen ?r = reg b4 3" "all_gen_power_factor ?r = 0" "all_gen_current ?r = 0" "all_v_bus_half ?r = 0"
    by (simp_all add: combine_inputs_def r1_layout_def r4_layout_def reg_def)
  have "to_input_all (inputs_of_bytes now b1 b2 b3 b4 b5 r6) \<noteq> None \<longleftrightarrow>
      is_ok (all_calculate_derived_values ?r) \<and> all_validate ?r = Ok ()"
    by (rule to_input_all_eq) (simp_all add: inputs_of_bytes_def)
  then show ?thesis
    unfolding derived_ok all_validate_Ok f centi_range deci_range centi_pos deci_pos
    by (auto simp: word_le_nat_alt)
qed

text \<open>
  C8: six complete blocks become one \<^verbatim>\<open>ReadInputAll\<close> exactly when the registers they were read
  from are in range: both battery levels from 0 to 100, each string power at most 10000 W, both grid
  frequencies from 45.00 to 65.00 Hz, generator voltage 0 or 180.0 to 270.0 V, generator frequency 0
  or 45.00 to 65.00 Hz and generator power at most 10000 W. Rounding to doubles moves no boundary.
\<close>

theorem to_input_all_accepts:
  "to_input_all (inputs_of_bytes now b1 b2 b3 b4 b5 r6) \<noteq> None \<longleftrightarrow>
     (sint (b1 ! 10) \<in> {0..100} \<and> sint (b1 ! 11) \<in> {0..100} \<and>
      unat (reg b1 7) \<le> 10000 \<and> unat (reg b1 8) \<le> 10000 \<and> unat (reg b1 9) \<le> 10000 \<and>
      unat (reg b1 15) \<in> {4500..6500} \<and> unat (reg b1 23) \<in> {4500..6500} \<and>
      (reg b4 1 = 0 \<or> unat (reg b4 1) \<in> {1800..2700}) \<and>
      (reg b4 2 = 0 \<or> unat (reg b4 2) \<in> {4500..6500}) \<and> unat (reg b4 3) \<le> 10000)"
  by (rule to_input_all_ranges)

lemma derived_totals:
  assumes "all_calculate_derived_values r = Ok r'"
  shows "unat (all_p_pv r') = unat (all_p_pv_1 r) + unat (all_p_pv_2 r) + unat (all_p_pv_3 r)"
    "sint (all_p_battery r') = uint (all_p_charge r) - uint (all_p_discharge r)"
    "sint (all_p_grid r') = uint (all_p_to_user r) - uint (all_p_to_grid r)"
    "all_e_pv_day r' = round_total (all_e_pv_day_1 r) (all_e_pv_day_2 r) (all_e_pv_day_3 r)"
    "all_e_pv_all r' = round_total (all_e_pv_all_1 r) (all_e_pv_all_2 r) (all_e_pv_all_3 r)"
proof -
  obtain b where b: "i32_checked_sub (i32_from_u16 (all_p_charge r)) (i32_from_u16 (all_p_discharge r)) = Some b"
    "sint b = uint (all_p_charge r) - uint (all_p_discharge r)" by (rule i32_checked_sub_u16)
  obtain g where g: "i32_checked_sub (i32_from_u16 (all_p_to_user r)) (i32_from_u16 (all_p_to_grid r)) = Some g"
    "sint g = uint (all_p_to_user r) - uint (all_p_to_grid r)" by (rule i32_checked_sub_u16)
  obtain s where s: "checked_sum3 (all_p_pv_1 r) (all_p_pv_2 r) (all_p_pv_3 r) = Some s"
    using assms by (cases "checked_sum3 (all_p_pv_1 r) (all_p_pv_2 r) (all_p_pv_3 r)")
      (simp_all add: all_calculate_derived_values_def)
  then have "unat s = unat (all_p_pv_1 r) + unat (all_p_pv_2 r) + unat (all_p_pv_3 r)"
    by (auto simp only: checked_sum3_Some unat_sum3)
  with assms s b g show
    "unat (all_p_pv r') = unat (all_p_pv_1 r) + unat (all_p_pv_2 r) + unat (all_p_pv_3 r)"
    "sint (all_p_battery r') = uint (all_p_charge r) - uint (all_p_discharge r)"
    "sint (all_p_grid r') = uint (all_p_to_user r) - uint (all_p_to_grid r)"
    "all_e_pv_day r' = round_total (all_e_pv_day_1 r) (all_e_pv_day_2 r) (all_e_pv_day_3 r)"
    "all_e_pv_all r' = round_total (all_e_pv_all_1 r) (all_e_pv_all_2 r) (all_e_pv_all_3 r)"
    by (auto simp: all_calculate_derived_values_def)
qed

text \<open>
  The combined totals are exact. The power of the strings is the sum of its registers, battery
  and grid power are the signed differences, and the energies of the day and of all time are the
  doubles closest to the sums of the three 16-bit and the three 32-bit counters of tenths.
\<close>

theorem to_input_all_totals:
  assumes "to_input_all (inputs_of_bytes now b1 b2 b3 b4 b5 r6) = Some r"
  shows "unat (all_p_pv r) = unat (reg b1 7) + unat (reg b1 8) + unat (reg b1 9) \<and>
    sint (all_p_battery r) = uint (reg b1 10) - uint (reg b1 11) \<and>
    sint (all_p_grid r) = uint (reg b1 27) - uint (reg b1 26) \<and>
    all_e_pv_day r = f64_div (of_nat (unat (reg b1 28) + unat (reg b1 29) + unat (reg b1 30))) 10 \<and>
    all_e_pv_all r = f64_div (of_nat (unat (dword_at b2 0) + unat (dword_at b2 4) + unat (dword_at b2 8))) 10"
proof -
  let ?r = "combine_inputs (r1_layout now b1) (r2_layout now b2) (r3_layout now b3)
     (r4_layout now b4) (r5_layout now b5) r6"
  have "all_calculate_derived_values ?r = Ok r"
    using assms by (auto simp: to_input_all_def inputs_of_bytes_def split: outcome.splits)
  note d = derived_totals[OF this]
  have f: "all_p_pv_1 ?r = reg b1 7" "all_p_pv_2 ?r = reg b1 8" "all_p_pv_3 ?r = reg b1 9"
    "all_p_charge ?r = reg b1 10" "all_p_discharge ?r = reg b1 11"
    "all_p_to_grid ?r = reg b1 26" "all_p_to_user ?r = reg b1 27"
    "all_e_pv_day_1 ?r = deci (reg b1 28)" "all_e_pv_day_2 ?r = deci (reg b1 29)" "all_e_pv_day_3 ?r = deci (reg b1 30)"
    "all_e_pv_all_1 ?r = deci32 (dword_at b2 0)" "all_e_pv_all_2 ?r = deci32 (dword_at b2 4)"
    "all_e_pv_all_3 ?r = deci32 (dword_at b2 8)"
    by (simp_all add: combine_inputs_def r1_layout_def r2_layout_def reg_def)
  show ?thesis using d unfolding f round_total_deci round_total_deci32 by blast
qed

definition example_block1 :: bytes where
  "example_block1 = (replicate 80 0)[10 := 50, 11 := 100, 14 := 100, 20 := 7, 22 := 9,
     30 := 0x88, 31 := 0x13, 46 := 0x88, 47 := 0x13]"

theorem to_input_all_totals_witness:
  "\<exists>r. to_input_all (inputs_of_bytes 7 example_block1 (replicate 82 1) (replicate 88 0) (replicate 50 0)
       (replicate 74 0) (read_input6_zero 7 serial_default)) = Some r \<and>
     unat (all_p_pv r) = 100 \<and> sint (all_p_battery r) = -2 \<and> all_e_pv_all r = f64_div 50529027 10"
proof -
  let ?s = "inputs_of_bytes 7 example_block1 (replicate 82 1) (replicate 88 0) (replicate 50 0)
       (replicate 74 0) (read_input6_zero 7 serial_default)"
  have vals: "example_block1 ! 10 = 50" "example_block1 ! 11 = 100"
    "unat (reg example_block1 7) = 100" "unat (reg example_block1 8) = 0" "unat (reg example_block1 9) = 0"
    "unat (reg example_block1 15) = 5000" "unat (reg example_block1 23) = 5000"
    "uint (reg example_block1 10) = 7" "uint (reg example_block1 11) = 9"
    "reg (replicate 50 0) 1 = 0" "reg (replicate 50 0) 2 = 0" "reg (replicate 50 0) 3 = 0"
    "unat (dword_at (replicate 82 1) 0) = 16843009" "unat (dword_at (replicate 82 1) 4) = 16843009"
    "unat (dword_at (replicate 82 1) 8) = 16843009"
    by (simp_all add: example_block1_def reg_def word_at_def u16_from_le_def dword_at_def u32_from_le_def)
  have "to_input_all ?s \<noteq> None" unfolding to_input_all_ranges using vals by simp
  then obtain r where "to_input_all ?s = Some r" by blast
  moreover note to_input_all_totals[OF this]
  ultimately show ?thesis by (simp add: vals)
qed

end
