(* ===== verification/Config.thy ===== *)
theory Config
  imports Bridge_Prelude Texts Wire
begin

text \<open>
  The configuration of \<^verbatim>\<open>config.rs\<close>: the structs, \<^verbatim>\<open>Config::validate\<close>, and \<^verbatim>\<open>ConfigWrapper\<close> with
  its lookups and the two updates at run time. The wrapper is a mutex around the configuration;
  every method takes the lock for one read or one write, so a method is a function of the
  configuration it finds. Reading the YAML file is theory \<^verbatim>\<open>Config_File\<close>; the text of the log is not modelled; parsing a
  URL is the argument \<open>url_ok\<close>.
\<close>

section \<open>Structs\<close>

record config_inverter =
  inv_enabled :: bool
  inv_host :: string
  inv_port :: u16
  inv_serial :: "serial option"
  inv_datalog :: "serial option"
  inv_heartbeats :: "bool option"
  inv_publish_holdings_on_connect :: "bool option"
  inv_read_timeout :: "nat option"
  inv_use_tcp_nodelay :: "bool option"
  inv_register_block_size :: "u16 option"
  inv_delay_ms :: "nat option"
  inv_read_only :: "bool option"
  inv_register_read_interval :: "nat option"

definition unwrap_or :: "'a option \<Rightarrow> 'a \<Rightarrow> 'a" where
  "unwrap_or x d = (case x of Some a \<Rightarrow> a | None \<Rightarrow> d)"

definition cfg_heartbeats :: "config_inverter \<Rightarrow> bool" where
  "cfg_heartbeats i = unwrap_or (inv_heartbeats i) False"

definition cfg_publish_holdings_on_connect :: "config_inverter \<Rightarrow> bool" where
  "cfg_publish_holdings_on_connect i = unwrap_or (inv_publish_holdings_on_connect i) False"

definition cfg_read_timeout :: "config_inverter \<Rightarrow> nat" where
  "cfg_read_timeout i = unwrap_or (inv_read_timeout i) 900"

definition cfg_use_tcp_nodelay :: "config_inverter \<Rightarrow> bool" where
  "cfg_use_tcp_nodelay i = unwrap_or (inv_use_tcp_nodelay i) True"

definition cfg_register_block_size :: "config_inverter \<Rightarrow> u16" where
  "cfg_register_block_size i = unwrap_or (inv_register_block_size i) 40"

definition cfg_read_only :: "config_inverter \<Rightarrow> bool" where
  "cfg_read_only i = unwrap_or (inv_read_only i) False"

record homeassistant_config =
  ha_enabled :: bool
  ha_prefix :: string

record mqtt_config =
  mq_enabled :: bool
  mq_host :: string
  mq_port :: u16
  mq_username :: "string option"
  mq_password :: "string option"
  mq_namespace :: string
  mq_homeassistant :: homeassistant_config
  mq_publish_individual_input :: "bool option"

definition cfg_publish_individual_input :: "mqtt_config \<Rightarrow> bool" where
  "cfg_publish_individual_input m = (mq_publish_individual_input m = Some True)"

record influx_config =
  ifx_enabled :: bool
  ifx_url :: string
  ifx_username :: "string option"
  ifx_password :: "string option"
  ifx_database :: string

record database_config =
  db_enabled :: bool
  db_url :: string

record scheduler_config =
  sch_enabled :: bool
  sch_timesync_cron :: "string option"

record config =
  cfg_inverters :: "config_inverter list"
  cfg_mqtt :: mqtt_config
  cfg_influx :: influx_config
  cfg_databases :: "database_config list"
  cfg_scheduler :: "scheduler_config option"
  cfg_loglevel :: string
  cfg_global_read_only :: bool
  cfg_homeassistant_enabled :: bool
  cfg_strict_data_check :: bool
  cfg_datalog_file :: "string option"
  cfg_register_file :: "string option"
  cfg_register_read_interval :: nat
  cfg_verbose :: bool
  cfg_human_timestamps :: bool
  cfg_show_unknown :: bool
  cfg_inverter_timeout :: nat

section \<open>The wrapper\<close>

definition set_inverters :: "config_inverter list \<Rightarrow> config \<Rightarrow> config" where
  "set_inverters new c = c\<lparr> cfg_inverters := new \<rparr>"

definition enabled_inverters :: "config \<Rightarrow> config_inverter list" where
  "enabled_inverters c = filter inv_enabled (cfg_inverters c)"

definition inverter_with_host :: "config \<Rightarrow> string \<Rightarrow> config_inverter option" where
  "inverter_with_host c host = find (\<lambda>i. inv_host i = host) (cfg_inverters c)"

definition enabled_inverter_with_datalog :: "config \<Rightarrow> serial \<Rightarrow> config_inverter option" where
  "enabled_inverter_with_datalog c datalog = find (\<lambda>i. inv_datalog i = Some datalog) (enabled_inverters c)"

definition enabled_inverter_with_serial :: "config \<Rightarrow> serial \<Rightarrow> config_inverter option" where
  "enabled_inverter_with_serial c s = find (\<lambda>i. inv_serial i = Some s) (enabled_inverters c)"

definition set_databases :: "database_config list \<Rightarrow> config \<Rightarrow> config" where
  "set_databases new c = c\<lparr> cfg_databases := new \<rparr>"

definition enabled_databases :: "config \<Rightarrow> database_config list" where
  "enabled_databases c = filter db_enabled (cfg_databases c)"

definition have_enabled_database :: "config \<Rightarrow> bool" where
  "have_enabled_database c = (length (enabled_databases c) > 0)"

text \<open>The loops of the two updates: the first match is changed and the loop returns.\<close>

fun update_serial_loop :: "serial \<Rightarrow> serial \<Rightarrow> config_inverter list \<Rightarrow> config_inverter list option" where
  "update_serial_loop old_serial new_serial [] = None"
| "update_serial_loop old_serial new_serial (i # is) =
     (if inv_serial i = Some old_serial then Some (i\<lparr> inv_serial := Some new_serial \<rparr> # is)
      else map_option ((#) i) (update_serial_loop old_serial new_serial is))"

fun update_datalog_loop :: "serial \<Rightarrow> serial \<Rightarrow> config_inverter list \<Rightarrow> config_inverter list option" where
  "update_datalog_loop old_datalog new_datalog [] = None"
| "update_datalog_loop old_datalog new_datalog (i # is) =
     (if inv_datalog i = Some old_datalog then Some (i\<lparr> inv_datalog := Some new_datalog \<rparr> # is)
      else map_option ((#) i) (update_datalog_loop old_datalog new_datalog is))"

definition update_inverter_serial :: "serial \<Rightarrow> serial \<Rightarrow> config \<Rightarrow> config outcome" where
  "update_inverter_serial old_serial new_serial c =
     (case update_serial_loop old_serial new_serial (cfg_inverters c) of
        Some is \<Rightarrow> Ok (c\<lparr> cfg_inverters := is \<rparr>)
      | None \<Rightarrow> Err ''config.rs:Inverter with serial {} not found'')"

definition update_inverter_datalog :: "serial \<Rightarrow> serial \<Rightarrow> config \<Rightarrow> config outcome" where
  "update_inverter_datalog old_datalog new_datalog c =
     (case update_datalog_loop old_datalog new_datalog (cfg_inverters c) of
        Some is \<Rightarrow> Ok (c\<lparr> cfg_inverters := is \<rparr>)
      | None \<Rightarrow> Err ''config.rs:Inverter with datalog {} not found'')"

section \<open>Validation\<close>

definition validate_mqtt :: "mqtt_config \<Rightarrow> unit outcome" where
  "validate_mqtt m =
     (if mq_enabled m then
        (if mq_port m = 0 then Err ''mqtt.port must be between 1 and 65535''
         else if mq_host m = [] then Err ''config.rs:MQTT host cannot be empty''
         else Ok ())
      else Ok ())"

definition validate_influx :: "(string \<Rightarrow> bool) \<Rightarrow> influx_config \<Rightarrow> unit outcome" where
  "validate_influx url_ok x =
     (if ifx_enabled x then
        (if \<not> url_ok (ifx_url x) then Err ''config.rs:Invalid InfluxDB URL: {}''
         else if ifx_database x = [] then Err ''config.rs:InfluxDB database name cannot be empty''
         else Ok ())
      else Ok ())"

fun validate_databases :: "(string \<Rightarrow> bool) \<Rightarrow> database_config list \<Rightarrow> unit outcome" where
  "validate_databases url_ok [] = Ok ()"
| "validate_databases url_ok (d # ds) =
     (if db_enabled d \<and> \<not> url_ok (db_url d) then Err ''config.rs:Invalid database URL: {}''
      else validate_databases url_ok ds)"

fun validate_inverters :: "config_inverter list \<Rightarrow> unit outcome" where
  "validate_inverters [] = Ok ()"
| "validate_inverters (i # is) =
     (if inv_enabled i then
        (if inv_port i = 0 then Err ''inverter[{}].port must be between 1 and 65535''
         else if inv_host i = [] then Err ''config.rs:Inverter host cannot be empty''
         else if unwrap_or (inv_read_timeout i) 900 = 0 then Err ''config.rs:Invalid read timeout: 0''
         else (case inv_register_block_size i of
                 Some n \<Rightarrow> if n \<noteq> 40 then Err ''inverter[{}].register_block_size={} is invalid''
                           else validate_inverters is
               | None \<Rightarrow> validate_inverters is))
      else validate_inverters is)"

definition validate_scheduler :: "scheduler_config option \<Rightarrow> unit outcome" where
  "validate_scheduler s =
     (case s of
        Some s' \<Rightarrow>
          (if sch_enabled s' then
             (case sch_timesync_cron s' of
                Some cron \<Rightarrow> if cron = [] then Err ''config.rs:Scheduler cron expression cannot be empty'' else Ok ()
              | None \<Rightarrow> Ok ())
           else Ok ())
      | None \<Rightarrow> Ok ())"

definition config_validate :: "(string \<Rightarrow> bool) \<Rightarrow> config \<Rightarrow> unit outcome" where
  "config_validate url_ok c =
     obind (validate_mqtt (cfg_mqtt c)) (\<lambda>_.
     obind (validate_influx url_ok (cfg_influx c)) (\<lambda>_.
     obind (validate_databases url_ok (cfg_databases c)) (\<lambda>_.
     obind (validate_inverters (cfg_inverters c)) (\<lambda>_.
     validate_scheduler (cfg_scheduler c)))))"

text \<open>\<^verbatim>\<open>de_serial\<close> on the string that was read.\<close>

definition de_serial :: "string \<Rightarrow> serial option outcome" where
  "de_serial s = (if s = [] then Ok None else obind (serial_from_str s) (\<lambda>x. Ok (Some x)))"

section \<open>Facts\<close>

lemma unwrap_or_simps [simp]: "unwrap_or (Some a) d = a" "unwrap_or None d = d"
  by (simp_all add: unwrap_or_def)

lemma update_datalog_loop_first:
  "update_datalog_loop old new is = Some is' \<longleftrightarrow>
     (\<exists>pre i post. is = pre @ i # post \<and> (\<forall>j \<in> set pre. inv_datalog j \<noteq> Some old) \<and>
        inv_datalog i = Some old \<and> is' = pre @ i\<lparr> inv_datalog := Some new \<rparr> # post)"
proof (induction "is" arbitrary: is')
  case Nil
  then show ?case by simp
next
  case (Cons a as)
  show ?case
  proof (cases "inv_datalog a = Some old")
    case True
    then show ?thesis by (force simp: Cons_eq_append_conv)
  next
    case False
    then show ?thesis
      by (auto simp: Cons.IH Cons_eq_append_conv) (metis append_Cons set_ConsD)+
  qed
qed

lemma update_serial_loop_first:
  "update_serial_loop old new is = Some is' \<longleftrightarrow>
     (\<exists>pre i post. is = pre @ i # post \<and> (\<forall>j \<in> set pre. inv_serial j \<noteq> Some old) \<and>
        inv_serial i = Some old \<and> is' = pre @ i\<lparr> inv_serial := Some new \<rparr> # post)"
proof (induction "is" arbitrary: is')
  case Nil
  then show ?case by simp
next
  case (Cons a as)
  show ?case
  proof (cases "inv_serial a = Some old")
    case True
    then show ?thesis by (force simp: Cons_eq_append_conv)
  next
    case False
    then show ?thesis
      by (auto simp: Cons.IH Cons_eq_append_conv) (metis append_Cons set_ConsD)+
  qed
qed

lemma find_datalog_enabled:
  "enabled_inverter_with_datalog c d = Some i \<Longrightarrow> i \<in> set (cfg_inverters c) \<and> inv_enabled i \<and> inv_datalog i = Some d"
  by (auto simp: enabled_inverter_with_datalog_def enabled_inverters_def find_Some_iff dest: nth_mem)

end
