(* ===== verification/Task_Loop.thy ===== *)
theory Task_Loop
  imports Bridge_Prelude
begin

text \<open>
  The two interfaces through which the tasks of the bridge are reasoned about. A task is a loop that
  waits, handles what it got in one turn, and goes on or ends; a run of it is the loop over the list of
  what it gets. Several tasks together make a transition system, and a run of it is a list of actions.
  Each locale proves once what holds of every such loop; the theories of the tasks interpret them.
\<close>

section \<open>One task\<close>

text \<open>\<open>on s\<close> is the result of a turn after which the task goes on with \<open>s\<close>; any other result ends the run.\<close>

locale task_loop =
  fixes turn :: "'e \<Rightarrow> 's \<Rightarrow> 'r"
    and loop :: "'e list \<Rightarrow> 's \<Rightarrow> 'r"
    and on :: "'s \<Rightarrow> 'r"
  assumes on_inject: "on s = on s' \<Longrightarrow> s = s'"
    and loop_Nil: "loop [] s = on s"
    and loop_on: "turn e s = on s' \<Longrightarrow> loop (e # es) s = loop es s'"
    and loop_end: "\<forall>s'. turn e s \<noteq> on s' \<Longrightarrow> loop (e # es) s = turn e s"
begin

lemma loop_Cons_On:
  assumes "loop (e # es) s = on s'"
  obtains s1 where "turn e s = on s1" "loop es s1 = on s'"
  using assms loop_on[of e s] loop_end[of e s es] by metis

text \<open>A run that still goes on, event by event.\<close>

lemma on_induct [consumes 1, case_names start turn]:
  assumes "loop es s = on s'"
    and "\<And>s. P [] s s"
    and "\<And>e es s s1 s'. turn e s = on s1 \<Longrightarrow> loop es s1 = on s' \<Longrightarrow> P es s1 s' \<Longrightarrow> P (e # es) s s'"
  shows "P es s s'"
  using assms(1)
proof (induction es arbitrary: s)
  case Nil
  then show ?case using assms(2)[of s] on_inject[of s s'] by (simp add: loop_Nil)
next
  case (Cons e es)
  from Cons.prems obtain s1 where "turn e s = on s1" "loop es s1 = on s'" by (rule loop_Cons_On)
  then show ?case using assms(3) Cons.IH by blast
qed

text \<open>What holds of the results of all turns from good states holds of the result of the run.\<close>

lemma result_induct:
  assumes "P (on s)" "\<And>e s. e \<in> set es \<Longrightarrow> P (on s) \<Longrightarrow> P (turn e s)"
  shows "P (loop es s)"
  using assms
proof (induction es arbitrary: s)
  case Nil
  then show ?case by (simp add: loop_Nil)
next
  case (Cons e es)
  have step: "P (turn e s)" using Cons.prems by simp
  show ?case
  proof (cases "\<exists>s1. turn e s = on s1")
    case True
    then obtain s1 where s1: "turn e s = on s1" by blast
    have "P (loop es s1)" using step Cons.prems(2) by (intro Cons.IH) (simp_all add: s1)
    then show ?thesis by (simp add: loop_on[OF s1])
  next
    case False
    then show ?thesis using step by (simp add: loop_end)
  qed
qed

text \<open>A run that meets good events only, from states that are good for what is to come, goes on.\<close>

lemma goes_on:
  assumes "G es s" "\<And>e es s. G (e # es) s \<Longrightarrow> \<exists>s1. turn e s = on s1 \<and> G es s1"
  shows "\<exists>s'. loop es s = on s' \<and> G [] s'"
  using assms(1)
proof (induction es arbitrary: s)
  case Nil
  then show ?case by (auto simp: loop_Nil)
next
  case (Cons e es)
  then obtain s1 where "turn e s = on s1" "G es s1" using assms(2) by blast
  then show ?case using Cons.IH by (simp add: loop_on)
qed

text \<open>A run of two parts is the run of the second from where the first has got.\<close>

lemma loop_append: "loop xs s = on s1 \<Longrightarrow> loop (xs @ ys) s = loop ys s1"
  by (induction rule: on_induct) (simp_all add: loop_on)

lemma loop_ended: "\<forall>s1. loop xs s \<noteq> on s1 \<Longrightarrow> loop (xs @ ys) s = loop xs s"
proof (induction xs arbitrary: s)
  case Nil
  then show ?case using loop_Nil by blast
next
  case (Cons e es)
  show ?case
  proof (cases "\<exists>s1. turn e s = on s1")
    case True
    then obtain s1 where "turn e s = on s1" by blast
    then show ?thesis using Cons by (simp add: loop_on)
  next
    case False
    then show ?thesis by (simp add: loop_end)
  qed
qed

end

section \<open>Several tasks\<close>

locale interleaving =
  fixes step :: "'s \<Rightarrow> 'a \<Rightarrow> 's \<Rightarrow> bool"
    and run :: "'s \<Rightarrow> 'a list \<Rightarrow> 's \<Rightarrow> bool"
  assumes run_Nil: "run b [] b' \<longleftrightarrow> b' = b"
    and run_snoc: "run b (acts @ [act]) b'' \<longleftrightarrow> (\<exists>b'. run b acts b' \<and> step b' act b'')"
begin

text \<open>An invariant that may speak of the actions so far.\<close>

lemma run_invariant:
  assumes "run b acts b'" "I [] b" "\<And>acts b b' act. I acts b \<Longrightarrow> step b act b' \<Longrightarrow> I (acts @ [act]) b'"
  shows "I acts b'"
  using assms(1)
proof (induction acts arbitrary: b' rule: rev_induct)
  case Nil
  then show ?case using assms(2) by (simp add: run_Nil)
next
  case (snoc act acts)
  then obtain b1 where "run b acts b1" "step b1 act b'" by (auto simp: run_snoc)
  then show ?case using assms(3) snoc.IH by blast
qed

text \<open>What every step relates, every run relates.\<close>

lemma run_related:
  assumes "run b acts b'" "\<And>b. R b b" "\<And>a b c. R a b \<Longrightarrow> R b c \<Longrightarrow> R a c" "\<And>b act b'. step b act b' \<Longrightarrow> R b b'"
  shows "R b b'"
  using run_invariant[OF assms(1), of "\<lambda>_. R b"] assms(2-4) by blast

lemma run_append: "run b (xs @ ys) b'' \<longleftrightarrow> (\<exists>b'. run b xs b' \<and> run b' ys b'')"
proof (induction ys arbitrary: b'' rule: rev_induct)
  case Nil
  then show ?case by (simp add: run_Nil)
next
  case (snoc y ys)
  then show ?case by (auto simp: run_snoc simp flip: append_assoc)
qed

end

end
