(* ===== verification/Channels.thy ===== *)
theory Channels
  imports Packet Config Inputs_Store Task_Loop
begin

text \<open>
  The channels that connect the tasks of the bridge, and the wait of a command for its reply
  (\<^verbatim>\<open>WaitForReply\<close> of \<^verbatim>\<open>eg4/inverter.rs\<close>).

  A task that sends and waits is a function of a \<open>world\<close>: the clock in milliseconds, what each poll
  of its receiver will return and when, which channels have no receiver (\<open>w_closed\<close>) and which no
  sender (\<open>w_dropped\<close>), and the messages it has sent so far, in order. A broadcast send fails exactly when the channel has no receiver. A run ends with
  a result (\<open>Finished\<close>) or is still waiting when the listed polls are used up (\<open>Waiting\<close>).
\<close>

section \<open>Messages\<close>

record mqtt_message =
  msg_topic :: string
  msg_retain :: bool
  msg_payload :: string

datatype inverter_msg =
    ChConnected serial
  | ChDisconnect serial
  | ChPacket packet
  | ChShutdown
  | ChHeartbeat packet
  | ChModbusError config_inverter u8 modbus_error
  | ChSerialMismatch config_inverter serial serial

datatype coordinator_msg =
    CoShutdown
  | CoPacket packet
  | CoSendPacket packet

text \<open>
  The JSON object that the coordinator sends to InfluxDB: the fields of the packet, and the three
  that are added to them.
\<close>

record influx_data =
  ifd_packet :: translated_data
  ifd_serial :: string
  ifd_time :: int
  ifd_raw_data :: "string \<rightharpoonup> string"

datatype channel =
    ChanCoordinator | ChanToInverter | ChanFromInverter | ChanMqtt | ChanFromMqtt | ChanInflux | ChanDatabase
  | ChanCache | ChanReadCache

datatype sent =
    ToCoordinator coordinator_msg
  | ToInverter inverter_msg
  | FromInverter inverter_msg
  | ToMqtt mqtt_message
  | ToInflux influx_data
  | ToDatabase read_input_all
  | ToRegisterCache u16 u16
  | FromMqtt mqtt_message
  | SendShutdown channel

fun channel_of :: "sent \<Rightarrow> channel" where
  "channel_of (ToCoordinator _) = ChanCoordinator"
| "channel_of (ToInverter _) = ChanToInverter"
| "channel_of (FromInverter _) = ChanFromInverter"
| "channel_of (ToMqtt _) = ChanMqtt"
| "channel_of (ToInflux _) = ChanInflux"
| "channel_of (ToDatabase _) = ChanDatabase"
| "channel_of (ToRegisterCache _ _) = ChanCache"
| "channel_of (FromMqtt _) = ChanFromMqtt"
| "channel_of (SendShutdown c) = c"

datatype try_recv = RecvMsg inverter_msg | RecvEmpty | RecvLagged | RecvClosed

record world =
  w_now :: nat
  w_inbox :: "(nat \<times> try_recv) list"
  w_closed :: "channel list"
  w_dropped :: "channel list"
  w_sent :: "sent list"

text \<open>
  \<^verbatim>\<open>serde_json::to_string\<close> on the types that the bridge serialises (\<open>js_input\<close> is the JSON of the
  struct inside the variant), and \<^verbatim>\<open>from_str\<close> on a start and an end time.
\<close>

record json_lib =
  js_u16 :: "u16 \<Rightarrow> string outcome"
  js_bits21 :: "register21_bits \<Rightarrow> string outcome"
  js_bits110 :: "register110_bits \<Rightarrow> string outcome"
  js_time :: "string \<times> string \<Rightarrow> string outcome"
  js_input :: "read_input \<Rightarrow> string outcome"
  js_input_all :: "read_input_all \<Rightarrow> string outcome"
  js_read_times :: "string \<Rightarrow> (string \<times> string) outcome"

section \<open>Runs\<close>

datatype 'a run = Finished "'a outcome" world | Waiting world

definition rbind :: "'a run \<Rightarrow> ('a \<Rightarrow> world \<Rightarrow> 'b run) \<Rightarrow> 'b run" where
  "rbind m f = (case m of
       Finished (Ok a) w \<Rightarrow> f a w
     | Finished (Err e) w \<Rightarrow> Finished (Err e) w
     | Finished Panic w \<Rightarrow> Finished Panic w
     | Waiting w \<Rightarrow> Waiting w)"

definition lift :: "'a outcome \<Rightarrow> world \<Rightarrow> 'a run" where
  "lift x w = Finished x w"

lemma rbind_simps [simp]:
  "rbind (Finished (Ok a) w) f = f a w"
  "rbind (Finished (Err e) w) f = Finished (Err e) w"
  "rbind (Finished Panic w) f = Finished Panic w"
  "rbind (Waiting w) f = Waiting w"
  by (simp_all add: rbind_def)

lemma rbind_eq_Ok:
  "rbind m f = Finished (Ok b) w' \<longleftrightarrow> (\<exists>a w. m = Finished (Ok a) w \<and> f a w = Finished (Ok b) w')"
  by (cases m rule: run.exhaust; cases "case m of Finished x _ \<Rightarrow> x | Waiting _ \<Rightarrow> Panic")
    (auto simp: rbind_def split: outcome.splits)

text \<open>\<^verbatim>\<open>send\<close> of a broadcast channel; \<open>e\<close> is the error the caller makes of a failure.\<close>

definition send :: "sent \<Rightarrow> string \<Rightarrow> world \<Rightarrow> unit run" where
  "send s e w =
     (if channel_of s \<in> set (w_closed w) then Finished (Err e) w
      else Finished (Ok ()) (w\<lparr> w_sent := w_sent w @ [s] \<rparr>))"

section \<open>Waiting for a reply\<close>

text \<open>The time-out in milliseconds.\<close>

definition TIMEOUT :: nat where
  "TIMEOUT = 30000"

text \<open>
  The outcome of one turn of the loop: \<open>None\<close> goes on, \<open>Some\<close> returns. A message of the kind that
  was asked for but with other fields falls through its arm, and so does every other packet.
\<close>

fun reply_step :: "packet \<Rightarrow> try_recv \<Rightarrow> packet outcome option" where
  "reply_step (PTranslatedData td) (RecvMsg (ChPacket (PTranslatedData reply))) =
     (if td_datalog td = td_datalog reply \<and> td_register td = td_register reply \<and>
         td_device_function td = td_device_function reply
      then Some (Ok (PTranslatedData reply)) else None)"
| "reply_step (PReadParam rp) (RecvMsg (ChPacket (PReadParam reply))) =
     (if rp_datalog rp = rp_datalog reply \<and> rp_register rp = rp_register reply
      then Some (Ok (PReadParam reply)) else None)"
| "reply_step (PWriteParam wp) (RecvMsg (ChPacket (PWriteParam reply))) =
     (if wp_datalog wp = wp_datalog reply \<and> wp_register wp = wp_register reply
      then Some (Ok (PWriteParam reply)) else None)"
| "reply_step (PHeartbeat hb) (RecvMsg (ChPacket (PHeartbeat reply))) =
     (if hb_datalog hb = hb_datalog reply then Some (Ok (PHeartbeat reply)) else None)"
| "reply_step packet (RecvMsg (ChPacket _)) = None"
| "reply_step packet (RecvMsg (ChHeartbeat _)) = None"
| "reply_step packet (RecvMsg (ChConnected _)) = None"
| "reply_step packet (RecvMsg (ChDisconnect inverter_datalog)) =
     (if inverter_datalog = packet_datalog packet
      then Some (Err ''Inverter {} disconnected while waiting for reply'') else None)"
| "reply_step packet (RecvMsg ChShutdown) = Some (Err ''Channel shutdown received while waiting for reply'')"
| "reply_step packet (RecvMsg (ChModbusError _ _ _)) = None"
| "reply_step packet (RecvMsg (ChSerialMismatch _ _ _)) = None"
| "reply_step packet RecvEmpty = None"
| "reply_step packet RecvLagged = Some (Err ''Channel error while waiting for reply'')"
| "reply_step packet RecvClosed = Some (Err ''Channel error while waiting for reply'')"

text \<open>
  The loop. A turn looks at the clock first; a poll that comes too late is not made and stays in the
  inbox.
\<close>

fun wait_loop :: "packet \<Rightarrow> nat \<Rightarrow> nat \<Rightarrow> (nat \<times> try_recv) list \<Rightarrow>
    packet outcome option \<times> nat \<times> (nat \<times> try_recv) list" where
  "wait_loop packet start now [] = (None, now, [])"
| "wait_loop packet start now ((t, r) # evs) =
     (if t - start \<ge> TIMEOUT then (Some (Err ''Timeout waiting for reply''), t, (t, r) # evs)
      else (case reply_step packet r of
              Some x \<Rightarrow> (Some x, t, evs)
            | None \<Rightarrow> wait_loop packet start t evs))"

definition wait_for_reply :: "packet \<Rightarrow> world \<Rightarrow> packet run" where
  "wait_for_reply packet w =
     (case wait_loop packet (w_now w) (w_now w) (w_inbox w) of
        (Some x, now, evs) \<Rightarrow> Finished x (w\<lparr> w_now := now, w_inbox := evs \<rparr>)
      | (None, now, evs) \<Rightarrow> Waiting (w\<lparr> w_now := now, w_inbox := evs \<rparr>))"

section \<open>What a wait guarantees\<close>

text \<open>A reply answers a request: same kind, same data logger, same register and same function.\<close>

fun answers :: "packet \<Rightarrow> packet \<Rightarrow> bool" where
  "answers (PTranslatedData td) (PTranslatedData reply) =
     (td_datalog td = td_datalog reply \<and> td_register td = td_register reply \<and>
      td_device_function td = td_device_function reply)"
| "answers (PReadParam rp) (PReadParam reply) =
     (rp_datalog rp = rp_datalog reply \<and> rp_register rp = rp_register reply)"
| "answers (PWriteParam wp) (PWriteParam reply) =
     (wp_datalog wp = wp_datalog reply \<and> wp_register wp = wp_register reply)"
| "answers (PHeartbeat hb) (PHeartbeat reply) = (hb_datalog hb = hb_datalog reply)"
| "answers _ _ = False"

lemma reply_step_Ok: "reply_step p r = Some (Ok q) \<longleftrightarrow> r = RecvMsg (ChPacket q) \<and> answers p q"
  by (induction p r rule: reply_step.induct; cases q) auto

lemma reply_step_not_Panic: "reply_step p r \<noteq> Some Panic"
  by (induction p r rule: reply_step.induct) auto

lemma wait_loop_Ok:
  "wait_loop p start now evs = (Some (Ok q), t, rest) \<Longrightarrow>
     answers p q \<and> t - start < TIMEOUT \<and>
     (\<exists>pre. evs = pre @ (t, RecvMsg (ChPacket q)) # rest \<and>
        (\<forall>(_, r) \<in> set pre. reply_step p r = None))"
proof (induction p start now evs rule: wait_loop.induct)
  case (2 packet start now u r evs)
  show ?case
  proof (cases "reply_step packet r")
    case None
    with 2 obtain pre where "answers packet q" "t - start < TIMEOUT" "evs = pre @ (t, RecvMsg (ChPacket q)) # rest"
      "\<forall>(_, r) \<in> set pre. reply_step packet r = None"
      by (auto split: if_splits)
    with None show ?thesis by (intro conjI exI[of _ "(u, r) # pre"]) auto
  next
    case (Some x)
    with 2(2) show ?thesis by (auto split: if_splits simp: reply_step_Ok)
  qed
qed simp

lemma wait_loop_not_Panic: "fst (wait_loop p start now evs) \<noteq> Some Panic"
  by (induction p start now evs rule: wait_loop.induct) (auto simp: reply_step_not_Panic split: option.split)

lemma wait_loop_finishes:
  "\<exists>(t, _) \<in> set evs. t - start \<ge> TIMEOUT \<Longrightarrow> fst (wait_loop p start now evs) \<noteq> None"
  by (induction p start now evs rule: wait_loop.induct) (auto split: option.split)

text \<open>
  C13: a command that gets a reply got an answer to its own request. The message it returns is the
  first in its receiver that decides anything, it was polled less than 30 seconds after the wait
  began, and it has the kind, data logger, register and function of the request; waiting sends
  nothing.
\<close>

theorem wait_for_reply_answers:
  assumes "wait_for_reply p w = Finished (Ok q) w'"
  shows "answers p q \<and> w_sent w' = w_sent w \<and> w_now w' - w_now w < 30000 \<and>
    (\<exists>pre. w_inbox w = pre @ (w_now w', RecvMsg (ChPacket q)) # w_inbox w' \<and>
       (\<forall>(_, r) \<in> set pre. reply_step p r = None))"
proof -
  have "wait_loop p (w_now w) (w_now w) (w_inbox w) = (Some (Ok q), w_now w', w_inbox w')"
    "w_sent w' = w_sent w"
    using assms by (auto simp: wait_for_reply_def split: prod.splits option.splits)
  with wait_loop_Ok[OF this(1)] show ?thesis by (auto simp: TIMEOUT_def)
qed

definition example_world :: "inverter_msg list \<Rightarrow> world" where
  "example_world ms = \<lparr> w_now = 1000, w_inbox = map (\<lambda>m. (1005, RecvMsg m)) ms @ [(40000, RecvEmpty)],
     w_closed = [], w_dropped = [], w_sent = [] \<rparr>"

definition example_td :: "device_function \<Rightarrow> u16 \<Rightarrow> bytes \<Rightarrow> packet" where
  "example_td f register values = PTranslatedData \<lparr> td_datalog = serial_default,
     td_device_function = f, td_inverter = serial_default, td_register = register, td_values = values \<rparr>"

theorem wait_for_reply_answers_witness:
  "let p = example_td DevReadHold 21 [1, 0];
       reply = example_td DevReadHold 21 [0x80, 0]; other = example_td DevReadHold 22 [9, 9];
       w = example_world [ChPacket other, ChPacket reply]
   in \<exists>w'. wait_for_reply p w = Finished (Ok reply) w' \<and> answers p reply \<and> w_sent w' = []"
proof -
  have "\<exists>w'. wait_for_reply (example_td DevReadHold 21 [1, 0])
      (example_world [ChPacket (example_td DevReadHold 22 [9, 9]), ChPacket (example_td DevReadHold 21 [0x80, 0])])
      = Finished (Ok (example_td DevReadHold 21 [0x80, 0])) w'"
    by (simp add: wait_for_reply_def example_world_def example_td_def TIMEOUT_def)
  then show ?thesis
    using wait_for_reply_answers by (fastforce simp: Let_def example_world_def)
qed

text \<open>
  C14: a wait ends. If the receiver is polled once at or after 30 seconds, the wait has a result by
  then, a reply or an error, and it is never a panic.
\<close>

theorem wait_for_reply_terminates:
  assumes "\<exists>(t, _) \<in> set (w_inbox w). t - w_now w \<ge> 30000"
  shows "\<exists>x w'. wait_for_reply p w = Finished x w' \<and> x \<noteq> Panic"
proof -
  have "\<exists>(t, _) \<in> set (w_inbox w). t - w_now w \<ge> TIMEOUT" using assms by (simp add: TIMEOUT_def)
  from wait_loop_finishes[OF this, of p "w_now w"] wait_loop_not_Panic[of p "w_now w" "w_now w" "w_inbox w"]
  show ?thesis by (auto simp: wait_for_reply_def split: prod.splits)
qed

theorem wait_for_reply_terminates_witness:
  "\<exists>w'. wait_for_reply (example_td DevReadHold 21 [1, 0]) (example_world []) =
     Finished (Err ''Timeout waiting for reply'') w'"
proof -
  have "\<exists>(t, _) \<in> set (w_inbox (example_world [])). t - w_now (example_world []) \<ge> 30000"
    by (simp add: example_world_def)
  from wait_for_reply_terminates[OF this, of "example_td DevReadHold 21 [1, 0]"]
  show ?thesis by (auto simp: wait_for_reply_def example_world_def TIMEOUT_def)
qed

end
