(* ===== verification/Commands.thy ===== *)
theory Commands
  imports Channels
begin

text \<open>
  The commands of \<^verbatim>\<open>coordinator/commands/\<close>: each builds a packet, sends it, waits for the reply
  and checks it. Most send through the coordinator, the bit update and the time registers send to
  the inverter's channel directly.
\<close>

section \<open>Requests\<close>

text \<open>Subscribe, send, wait: the lines that every command shares.\<close>

definition request_coordinator :: "packet \<Rightarrow> world \<Rightarrow> packet run" where
  "request_coordinator p w =
     rbind (send (ToCoordinator (CoSendPacket p)) ''Failed to send packet to coordinator: {}'' w)
       (\<lambda>_. wait_for_reply p)"

definition request_inverter :: "string \<Rightarrow> packet \<Rightarrow> world \<Rightarrow> packet run" where
  "request_inverter e p w = rbind (send (ToInverter (ChPacket p)) e w) (\<lambda>_. wait_for_reply p)"

text \<open>\<^verbatim>\<open>datalog().expect(..)\<close> and \<^verbatim>\<open>serial().expect(..)\<close> panic when the configuration has none.\<close>

definition td_request :: "config_inverter \<Rightarrow> device_function \<Rightarrow> u16 \<Rightarrow> bytes \<Rightarrow> packet outcome" where
  "td_request inverter f register values =
     obind (oexpect (inv_datalog inverter)) (\<lambda>datalog.
     obind (oexpect (inv_serial inverter)) (\<lambda>s.
     Ok (PTranslatedData \<lparr> td_datalog = datalog, td_device_function = f, td_inverter = s,
          td_register = register, td_values = values \<rparr>)))"

section \<open>Reads\<close>

definition read_hold_run :: "config_inverter \<Rightarrow> u16 \<Rightarrow> u16 \<Rightarrow> world \<Rightarrow> packet run" where
  "read_hold_run inverter register count w =
     rbind (lift (td_request inverter DevReadHold register [ucast count, 0]) w) request_coordinator"

definition read_inputs_run :: "config_inverter \<Rightarrow> u16 \<Rightarrow> u16 \<Rightarrow> world \<Rightarrow> packet run" where
  "read_inputs_run inverter register count w =
     rbind (lift (td_request inverter DevReadInput register [ucast count, 0]) w) request_coordinator"

definition read_param_run :: "config_inverter \<Rightarrow> u16 \<Rightarrow> world \<Rightarrow> packet run" where
  "read_param_run inverter register w =
     rbind (lift (oexpect (inv_datalog inverter)) w) (\<lambda>datalog.
       request_coordinator (PReadParam \<lparr> rp_datalog = datalog, rp_register = register, rp_values = [] \<rparr>))"

section \<open>Writes\<close>

definition set_hold_run :: "config_inverter \<Rightarrow> u16 \<Rightarrow> u16 \<Rightarrow> world \<Rightarrow> packet run" where
  "set_hold_run inverter register value w =
     (if cfg_read_only inverter
      then Finished (Err ''Cannot set holding register {} to value {} - inverter {} is in read-only mode'') w
      else rbind (lift (td_request inverter DevWriteSingle register (to_le_bytes value)) w) (\<lambda>p w.
           rbind (request_coordinator p w) (\<lambda>reply w.
           rbind (lift (packet_value reply) w) (\<lambda>v w.
             if v \<noteq> value then Finished (Err ''failed to set register {}, got back value {} (wanted {})'') w
             else Finished (Ok reply) w))))"

definition write_param_run :: "config_inverter \<Rightarrow> u16 \<Rightarrow> u16 \<Rightarrow> world \<Rightarrow> packet run" where
  "write_param_run inverter register value w =
     rbind (lift (oexpect (inv_datalog inverter)) w) (\<lambda>datalog w.
     rbind (request_coordinator (PWriteParam \<lparr> wp_datalog = datalog, wp_register = register,
              wp_values = to_le_bytes value \<rparr>) w) (\<lambda>reply w.
     rbind (lift (packet_value reply) w) (\<lambda>v w.
       if v \<noteq> 0 then Finished (Err ''failed to set register {}'') w else Finished (Ok reply) w)))"

text \<open>Read the register, set or clear the bit, write it back, and compare the echo.\<close>

definition update_hold_value :: "bool \<Rightarrow> register_bit \<Rightarrow> u16 \<Rightarrow> u16" where
  "update_hold_value enable b current =
     (if enable then current OR register_bit_u16 b else current AND NOT (register_bit_u16 b))"

definition update_hold_write :: "config_inverter \<Rightarrow> u16 \<Rightarrow> u16 \<Rightarrow> world \<Rightarrow> unit run" where
  "update_hold_write inverter register new_value w =
     rbind (lift (td_request inverter DevWriteSingle register (to_le_bytes new_value)) w) (\<lambda>write_packet w.
     rbind (request_inverter ''send(to_inverter) failed: {}'' write_packet w) (\<lambda>reply w.
     rbind (lift (packet_value reply) w) (\<lambda>v w.
       if v \<noteq> new_value then Finished (Err ''failed to update register {:?}, got back value {} (wanted {})'') w
       else Finished (Ok ()) w)))"

definition update_hold_run :: "config_inverter \<Rightarrow> u16 \<Rightarrow> register_bit \<Rightarrow> bool \<Rightarrow> world \<Rightarrow> unit run" where
  "update_hold_run inverter register b enable w =
     rbind (lift (td_request inverter DevReadHold register [1, 0]) w) (\<lambda>read_packet w.
     rbind (request_inverter ''send(to_inverter) failed: {}'' read_packet w) (\<lambda>reply w.
     rbind (lift (packet_value reply) w) (\<lambda>current_value.
       update_hold_write inverter register (update_hold_value enable b current_value))))"

section \<open>Time registers\<close>

datatype time_action = AcCharge u16 | AcFirst u16 | ChargePriority u16 | ForcedDischarge u16

text \<open>The window of a time register: start hour and minute, end hour and minute.\<close>

type_synonym time_values = "u8 \<times> u8 \<times> u8 \<times> u8"

fun action_register :: "time_action \<Rightarrow> u16 outcome" where
  "action_register (AcCharge n) =
     (if n = 1 then Ok 68 else if n = 2 then Ok 70 else if n = 3 then Ok 72 else Err ''unsupported command'')"
| "action_register (AcFirst n) =
     (if n = 1 then Ok 152 else if n = 2 then Ok 154 else if n = 3 then Ok 156 else Err ''unsupported command'')"
| "action_register (ChargePriority n) =
     (if n = 1 then Ok 76 else if n = 2 then Ok 78 else if n = 3 then Ok 80 else Err ''unsupported command'')"
| "action_register (ForcedDischarge n) =
     (if n = 1 then Ok 84 else if n = 2 then Ok 86 else if n = 3 then Ok 88 else Err ''unsupported command'')"

fun mqtt_reply_topic :: "time_action \<Rightarrow> serial \<Rightarrow> string" where
  "mqtt_reply_topic (AcCharge n) datalog = serial_display datalog @ ''/ac_charge/'' @ show_nat (unat n)"
| "mqtt_reply_topic (AcFirst n) datalog = serial_display datalog @ ''/ac_first/'' @ show_nat (unat n)"
| "mqtt_reply_topic (ChargePriority n) datalog =
     serial_display datalog @ ''/charge_priority/'' @ show_nat (unat n)"
| "mqtt_reply_topic (ForcedDischarge n) datalog =
     serial_display datalog @ ''/forced_discharge/'' @ show_nat (unat n)"

definition show_time :: "u8 \<Rightarrow> u8 \<Rightarrow> string" where
  "show_time h m = show_02 (unat h) @ '':'' @ show_02 (unat m)"

text \<open>The message with the two times of the window, when MQTT is enabled.\<close>

definition send_times :: "json_lib \<Rightarrow> bool \<Rightarrow> string \<Rightarrow> string \<times> string \<Rightarrow> world \<Rightarrow> unit run" where
  "send_times J mqtt_enabled topic window w =
     (if mqtt_enabled then
        rbind (lift (js_time J window) w) (\<lambda>payload.
          send (ToMqtt \<lparr> msg_topic = topic, msg_retain = True, msg_payload = payload \<rparr>)
            ''send(to_mqtt) failed - channel closed?'')
      else Finished (Ok ()) w)"

definition read_time_register_run :: "json_lib \<Rightarrow> bool \<Rightarrow> config_inverter \<Rightarrow> time_action \<Rightarrow> world \<Rightarrow> unit run" where
  "read_time_register_run J mqtt_enabled inverter action w =
     rbind (lift (obind (oexpect (inv_datalog inverter)) (\<lambda>_. obind (oexpect (inv_serial inverter)) (\<lambda>_.
              action_register action))) w) (\<lambda>register w.
     rbind (lift (td_request inverter DevReadHold register [2, 0]) w) (\<lambda>p w.
     rbind (request_coordinator p w) (\<lambda>reply w.
       case reply of
         PTranslatedData td \<Rightarrow>
           if mqtt_enabled then
             rbind (lift (obind (index (td_values td) 0) (\<lambda>a. obind (index (td_values td) 1) (\<lambda>b.
                obind (index (td_values td) 2) (\<lambda>c. obind (index (td_values td) 3) (\<lambda>d.
                  Ok (show_time a b, show_time c d)))))) w)
               (send_times J mqtt_enabled (mqtt_reply_topic action (td_datalog td)))
           else Finished (Ok ()) w
       | _ \<Rightarrow> Finished (Err ''didn't get expected reply from inverter'') w)))"

definition set_register :: "config_inverter \<Rightarrow> u16 \<Rightarrow> bytes \<Rightarrow> world \<Rightarrow> unit run" where
  "set_register inverter register values w =
     (if cfg_read_only inverter
      then Finished (Err ''Cannot set time register {} to value {:?} - inverter {} is in read-only mode'') w
      else rbind (lift (td_request inverter DevWriteSingle register values) w) (\<lambda>p w.
           rbind (request_inverter ''send(to_inverter) failed - channel closed?'' p w) (\<lambda>reply w.
             case reply of
               PTranslatedData td \<Rightarrow>
                 if td_values td \<noteq> values
                 then Finished (Err ''failed to set register {}, got back value {:?} (wanted {:?})'') w
                 else Finished (Ok ()) w
             | _ \<Rightarrow> Finished (Err ''didn't get expected reply from inverter'') w)))"

definition set_time_register_run ::
    "json_lib \<Rightarrow> bool \<Rightarrow> config_inverter \<Rightarrow> time_action \<Rightarrow> time_values \<Rightarrow> world \<Rightarrow> unit run" where
  "set_time_register_run J mqtt_enabled inverter action values w =
     (case values of (a, b, c, d) \<Rightarrow>
       rbind (lift (action_register action) w) (\<lambda>r w.
       rbind (set_register inverter r [a, b] w) (\<lambda>_ w.
       rbind (lift (action_register action) w) (\<lambda>r w.
       rbind (set_register inverter (r + 1) [c, d] w) (\<lambda>_ w.
         if mqtt_enabled then
           rbind (lift (oexpect (inv_datalog inverter)) w) (\<lambda>datalog.
             send_times J mqtt_enabled (mqtt_reply_topic action datalog) (show_time a b, show_time c d))
         else Finished (Ok ()) w)))))"

section \<open>Time synchronisation\<close>

text \<open>
  The calendar of \<^verbatim>\<open>chrono\<close>, as the record of the functions the code uses. A time is a number of
  nanoseconds since 1970; \<open>ch_make\<close> is \<^verbatim>\<open>Utc.with_ymd_and_hms\<close>, which has a single result for a
  valid date only.
\<close>

record chrono_lib =
  ch_make :: "int \<Rightarrow> nat \<Rightarrow> nat \<Rightarrow> nat \<Rightarrow> nat \<Rightarrow> nat \<Rightarrow> int option"
  ch_year :: "int \<Rightarrow> int"
  ch_month :: "int \<Rightarrow> nat"
  ch_day :: "int \<Rightarrow> nat"
  ch_hour :: "int \<Rightarrow> nat"
  ch_minute :: "int \<Rightarrow> nat"
  ch_second :: "int \<Rightarrow> nat"

definition seconds :: "int \<Rightarrow> int" where
  "seconds n = n * 1000000000"

definition set_time_packet :: "chrono_lib \<Rightarrow> config_inverter \<Rightarrow> int \<Rightarrow> packet outcome" where
  "set_time_packet T inverter now =
     td_request inverter DevWriteMulti 12
       [word_of_int (ch_year T now - 2000), word_of_nat (ch_month T now), word_of_nat (ch_day T now),
        word_of_nat (ch_hour T now), word_of_nat (ch_minute T now), word_of_nat (ch_second T now)]"

text \<open>When the clock of the inverter is written: off by more than 30 and at most 600 seconds.\<close>

definition needs_update :: "int \<Rightarrow> bool" where
  "needs_update time_diff =
     (let max_limit = seconds 600; min_limit = seconds 30
      in (time_diff > min_limit \<and> time_diff \<le> max_limit) \<or>
         (time_diff < - min_limit \<and> time_diff \<ge> - max_limit))"

text \<open>The clock of the inverter, from the six bytes of its reply.\<close>

definition inverter_clock :: "chrono_lib \<Rightarrow> u8 list \<Rightarrow> int outcome" where
  "inverter_clock T values =
     obind (index values 0) (\<lambda>year. obind (index values 1) (\<lambda>month.
     obind (index values 2) (\<lambda>day. obind (index values 3) (\<lambda>hour.
     obind (index values 4) (\<lambda>minute. obind (index values 5) (\<lambda>second.
       oexpect (ch_make T (2000 + uint year) (unat month) (unat day) (unat hour) (unat minute)
                  (unat second))))))))"

definition adjust_clock :: "chrono_lib \<Rightarrow> config_inverter \<Rightarrow> int \<Rightarrow> int \<Rightarrow> world \<Rightarrow> unit run" where
  "adjust_clock T inverter now dt w =
     (let time_diff = dt - now
      in if cfg_read_only inverter then Finished (Ok ()) w
         else if needs_update time_diff then
           rbind (lift (set_time_packet T inverter now) w) (\<lambda>p w.
           rbind (request_coordinator p w) (\<lambda>_ w. Finished (Ok ()) w))
         else Finished (Ok ()) w)"

text \<open>\<open>utc\<close> and \<open>offset\<close> are the system time and the local offset when the reply has come.\<close>

definition timesync_run :: "chrono_lib \<Rightarrow> int \<Rightarrow> int \<Rightarrow> config_inverter \<Rightarrow> world \<Rightarrow> unit run" where
  "timesync_run T utc offset inverter w =
     rbind (lift (td_request inverter DevReadHold 12 [3, 0]) w) (\<lambda>p w.
     rbind (request_coordinator p w) (\<lambda>reply w.
       case reply of
         PTranslatedData td \<Rightarrow>
           rbind (lift (inverter_clock T (td_values td)) w) (adjust_clock T inverter (utc + seconds offset))
       | _ \<Rightarrow> Finished (Ok ()) w))"

section \<open>Block boundaries\<close>

definition BLOCK_SIZE :: u16 where
  "BLOCK_SIZE = 40"

definition validate_register_block_boundary :: "bool \<Rightarrow> u16 \<Rightarrow> u16 \<Rightarrow> unit outcome" where
  "validate_register_block_boundary oc register count =
     (let start_block = register div BLOCK_SIZE
      in obind (add_oc oc register count) (\<lambda>s.
         obind (sub_oc oc s 1) (\<lambda>end_register.
         let end_block = end_register div BLOCK_SIZE
         in if start_block \<noteq> end_block
            then Err ''Invalid read operation: Cannot read across block boundary''
            else let remaining_in_block = BLOCK_SIZE - register mod BLOCK_SIZE
                 in if count > remaining_in_block
                    then Err ''Invalid read operation: Count {} exceeds remaining registers in block''
                    else Ok ())))"

section \<open>Guarded writes\<close>

text \<open>\<^verbatim>\<open>WriteInverter\<close>: every setter checks both read-only flags before anything else.\<close>

definition check_read_only :: "bool \<Rightarrow> config_inverter \<Rightarrow> unit outcome" where
  "check_read_only global_read_only inverter =
     (if global_read_only \<or> unwrap_or (inv_read_only inverter) False
      then Err ''Write operations are disabled in read-only mode'' else Ok ())"

definition wi_set_hold :: "bool \<Rightarrow> config_inverter \<Rightarrow> u16 \<Rightarrow> u16 \<Rightarrow> world \<Rightarrow> unit run" where
  "wi_set_hold ro inverter register value w =
     rbind (lift (check_read_only ro inverter) w) (\<lambda>_ w.
     rbind (set_hold_run inverter register value w) (\<lambda>_ w. Finished (Ok ()) w))"

definition wi_set_param :: "bool \<Rightarrow> config_inverter \<Rightarrow> u16 \<Rightarrow> u16 \<Rightarrow> world \<Rightarrow> unit run" where
  "wi_set_param ro inverter register value w =
     rbind (lift (check_read_only ro inverter) w) (\<lambda>_ w.
     rbind (write_param_run inverter register value w) (\<lambda>_ w. Finished (Ok ()) w))"

definition wi_set_time_register ::
    "json_lib \<Rightarrow> bool \<Rightarrow> bool \<Rightarrow> config_inverter \<Rightarrow> time_action \<Rightarrow> time_values \<Rightarrow> world \<Rightarrow> unit run" where
  "wi_set_time_register J mqtt_enabled ro inverter action values w =
     rbind (lift (check_read_only ro inverter) w) (\<lambda>_ w.
     rbind (set_time_register_run J mqtt_enabled inverter action values w) (\<lambda>_ w. Finished (Ok ()) w))"

definition wi_guarded_hold :: "u16 \<Rightarrow> bool \<Rightarrow> config_inverter \<Rightarrow> u16 \<Rightarrow> world \<Rightarrow> unit run" where
  "wi_guarded_hold register ro inverter value w =
     rbind (lift (check_read_only ro inverter) w) (\<lambda>_. wi_set_hold ro inverter register value)"

definition set_charge_rate :: "bool \<Rightarrow> config_inverter \<Rightarrow> u16 \<Rightarrow> world \<Rightarrow> unit run" where
  "set_charge_rate = wi_guarded_hold 0x0100"

definition set_discharge_rate :: "bool \<Rightarrow> config_inverter \<Rightarrow> u16 \<Rightarrow> world \<Rightarrow> unit run" where
  "set_discharge_rate = wi_guarded_hold 0x0101"

definition set_ac_charge_rate :: "bool \<Rightarrow> config_inverter \<Rightarrow> u16 \<Rightarrow> world \<Rightarrow> unit run" where
  "set_ac_charge_rate = wi_guarded_hold 0x0102"

definition set_ac_charge_soc_limit :: "bool \<Rightarrow> config_inverter \<Rightarrow> u16 \<Rightarrow> world \<Rightarrow> unit run" where
  "set_ac_charge_soc_limit = wi_guarded_hold 0x0103"

definition set_discharge_cutoff_soc_limit :: "bool \<Rightarrow> config_inverter \<Rightarrow> u16 \<Rightarrow> world \<Rightarrow> unit run" where
  "set_discharge_cutoff_soc_limit = wi_guarded_hold 0x0104"

definition wi_guarded_time ::
    "time_action \<Rightarrow> json_lib \<Rightarrow> bool \<Rightarrow> bool \<Rightarrow> config_inverter \<Rightarrow> time_values \<Rightarrow> world \<Rightarrow> unit run" where
  "wi_guarded_time action J mqtt_enabled ro inverter values w =
     rbind (lift (check_read_only ro inverter) w) (\<lambda>_. wi_set_time_register J mqtt_enabled ro inverter action values)"

definition set_ac_charge_time :: "json_lib \<Rightarrow> bool \<Rightarrow> bool \<Rightarrow> config_inverter \<Rightarrow> time_values \<Rightarrow> world \<Rightarrow> unit run" where
  "set_ac_charge_time = wi_guarded_time (AcCharge 0)"

definition set_ac_first_time :: "json_lib \<Rightarrow> bool \<Rightarrow> bool \<Rightarrow> config_inverter \<Rightarrow> time_values \<Rightarrow> world \<Rightarrow> unit run" where
  "set_ac_first_time = wi_guarded_time (AcFirst 0)"

definition set_charge_priority_time :: "json_lib \<Rightarrow> bool \<Rightarrow> bool \<Rightarrow> config_inverter \<Rightarrow> time_values \<Rightarrow> world \<Rightarrow> unit run" where
  "set_charge_priority_time = wi_guarded_time (ChargePriority 0)"

definition set_forced_discharge_time :: "json_lib \<Rightarrow> bool \<Rightarrow> bool \<Rightarrow> config_inverter \<Rightarrow> time_values \<Rightarrow> world \<Rightarrow> unit run" where
  "set_forced_discharge_time = wi_guarded_time (ForcedDischarge 0)"

section \<open>Commands without a body\<close>

text \<open>
  Four more structs for the same four times, with their channels, inverter and values; their \<^verbatim>\<open>run\<close> is
  still to be written and does nothing. Nothing constructs them.
\<close>

record empty_time_command =
  etc_inverter :: config_inverter
  etc_values :: time_values

definition set_ac_charge_time_run :: "empty_time_command \<Rightarrow> world \<Rightarrow> unit run" where
  "set_ac_charge_time_run c w = Finished (Ok ()) w"

definition set_ac_first_time_run :: "empty_time_command \<Rightarrow> world \<Rightarrow> unit run" where
  "set_ac_first_time_run c w = Finished (Ok ()) w"

definition set_charge_priority_time_run :: "empty_time_command \<Rightarrow> world \<Rightarrow> unit run" where
  "set_charge_priority_time_run c w = Finished (Ok ()) w"

definition set_forced_discharge_time_run :: "empty_time_command \<Rightarrow> world \<Rightarrow> unit run" where
  "set_forced_discharge_time_run c w = Finished (Ok ()) w"

end
