(* ===== verification/Command_Facts.thy ===== *)
theory Command_Facts
  imports Commands
begin

text \<open>
  What the commands guarantee. The commands rely on one interface, a request that sends one message
  and waits: the locale \<open>transport\<close> states its laws, the two ways of sending (through the
  coordinator and directly to the inverter's channel) satisfy them, and the properties of the
  commands follow.
\<close>

section \<open>The transport\<close>

fun run_world :: "'a run \<Rightarrow> world" where
  "run_world (Finished x w) = w"
| "run_world (Waiting w) = w"

locale transport =
  fixes request :: "packet \<Rightarrow> world \<Rightarrow> packet run"
    and msg :: "packet \<Rightarrow> sent"
  assumes request_ok: "request p w = Finished (Ok q) w' \<Longrightarrow>
      answers p q \<and> w_sent w' = w_sent w @ [msg p] \<and>
      (\<exists>t. (t, RecvMsg (ChPacket q)) \<in> set (w_inbox w)) \<and> set (w_inbox w') \<subseteq> set (w_inbox w)"
    and request_sent: "w_sent (run_world (request p w)) = w_sent w \<or>
      w_sent (run_world (request p w)) = w_sent w @ [msg p]"
begin

lemma request_then:
  assumes "rbind (request p w) k = Finished (Ok b) w''"
  obtains q w' where "request p w = Finished (Ok q) w'" "answers p q" "w_sent w' = w_sent w @ [msg p]"
    "\<exists>t. (t, RecvMsg (ChPacket q)) \<in> set (w_inbox w)" "set (w_inbox w') \<subseteq> set (w_inbox w)"
    "k q w' = Finished (Ok b) w''"
  using assms request_ok by (auto simp: rbind_eq_Ok)

text \<open>A request followed by a check that sends nothing sends at most the request.\<close>

lemma request_check_sent:
  assumes "\<And>q w'. w_sent (run_world (k q w')) = w_sent w'"
  shows "w_sent (run_world (rbind (request p w) k)) \<in> {w_sent w, w_sent w @ [msg p]}"
proof (cases "request p w")
  case (Finished x w')
  then show ?thesis using request_sent[of p w] assms by (cases x) auto
next
  case (Waiting w')
  then show ?thesis using request_sent[of p w] by auto
qed

text \<open>
  In a sequence of two requests the second is sent only after the first was answered: the messages
  sent are none, the first, or both in order.
\<close>

lemma two_requests_sent:
  assumes "\<And>q w'. \<exists>p2. w_sent (run_world (k q w')) \<in> {w_sent w', w_sent w' @ [msg p2]}"
  shows "\<exists>p2. w_sent (run_world (rbind (request p w) k)) \<in>
     {w_sent w, w_sent w @ [msg p], w_sent w @ [msg p, msg p2]}"
proof (cases "\<exists>q w'. request p w = Finished (Ok q) w'")
  case True
  then obtain q w' where r: "request p w = Finished (Ok q) w'" by blast
  with request_ok have "w_sent w' = w_sent w @ [msg p]" by blast
  with assms[of q w'] r show ?thesis by auto
next
  case False
  then have "run_world (rbind (request p w) k) = run_world (request p w)"
    by (cases "request p w") (auto simp: rbind_def split: outcome.splits)
  with request_sent[of p w] show ?thesis by auto
qed

end

lemma wait_sent: "w_sent (run_world (wait_for_reply p w)) = w_sent w"
  by (auto simp: wait_for_reply_def split: prod.split option.split)

lemma wait_Ok:
  assumes "wait_for_reply p w = Finished (Ok q) w'"
  shows "answers p q" "w_sent w' = w_sent w" "\<exists>t. (t, RecvMsg (ChPacket q)) \<in> set (w_inbox w)"
    "set (w_inbox w') \<subseteq> set (w_inbox w)"
proof -
  have l: "wait_loop p (w_now w) (w_now w) (w_inbox w) = (Some (Ok q), w_now w', w_inbox w')"
    and s: "w_sent w' = w_sent w"
    using assms by (auto simp: wait_for_reply_def split: prod.splits option.splits)
  then show "w_sent w' = w_sent w" by simp
  from wait_loop_Ok[OF l] show "answers p q" "\<exists>t. (t, RecvMsg (ChPacket q)) \<in> set (w_inbox w)"
    "set (w_inbox w') \<subseteq> set (w_inbox w)" by auto
qed

lemma send_then_wait_Ok:
  assumes "rbind (send s e w) (\<lambda>_. wait_for_reply p) = Finished (Ok q) w'"
  shows "answers p q \<and> w_sent w' = w_sent w @ [s] \<and>
    (\<exists>t. (t, RecvMsg (ChPacket q)) \<in> set (w_inbox w)) \<and> set (w_inbox w') \<subseteq> set (w_inbox w)"
proof -
  have "wait_for_reply p (w\<lparr> w_sent := w_sent w @ [s] \<rparr>) = Finished (Ok q) w'"
    using assms by (auto simp: send_def split: if_splits)
  from wait_Ok[OF this] show ?thesis by simp
qed

lemma send_then_wait_sent:
  "w_sent (run_world (rbind (send s e w) (\<lambda>_. wait_for_reply p))) = w_sent w \<or>
   w_sent (run_world (rbind (send s e w) (\<lambda>_. wait_for_reply p))) = w_sent w @ [s]"
  by (simp add: send_def wait_sent)

interpretation coord: transport request_coordinator "\<lambda>p. ToCoordinator (CoSendPacket p)"
  by unfold_locales
    (unfold request_coordinator_def, (rule send_then_wait_Ok, assumption), rule send_then_wait_sent)

interpretation direct: transport "request_inverter e" "\<lambda>p. ToInverter (ChPacket p)" for e
  by unfold_locales
    (unfold request_inverter_def, (rule send_then_wait_Ok, assumption), rule send_then_wait_sent)

section \<open>Building requests\<close>

lemma td_request_Ok:
  "td_request inverter f register values = Ok p \<longleftrightarrow>
     (\<exists>d s. inv_datalog inverter = Some d \<and> inv_serial inverter = Some s \<and>
        p = PTranslatedData \<lparr> td_datalog = d, td_device_function = f, td_inverter = s,
              td_register = register, td_values = values \<rparr>)"
  by (cases "inv_datalog inverter"; cases "inv_serial inverter") (auto simp: td_request_def)

lemma lift_rbind_Ok: "rbind (lift x w) k = Finished (Ok b) w' \<longleftrightarrow> (\<exists>a. x = Ok a \<and> k a w = Finished (Ok b) w')"
  by (cases x) (auto simp: lift_def)

lemma answers_td:
  "answers (PTranslatedData td) q \<Longrightarrow> \<exists>r. q = PTranslatedData r \<and> td_datalog r = td_datalog td \<and>
     td_register r = td_register td \<and> td_device_function r = td_device_function td"
  by (cases q) auto

lemma td_value_Ok:
  "td_value r = Ok v \<longleftrightarrow> 2 \<le> length (td_values r) \<and> take 2 (td_values r) = to_le_bytes v"
proof (cases "2 \<le> length (td_values r)")
  case True
  then obtain a b t where "td_values r = a # b # t"
    by (metis One_nat_def Suc_1 Suc_le_length_iff)
  then show ?thesis by (auto simp: td_value_def u16ify_def index_def to_le_bytes_def)
next
  case False
  then show ?thesis by (simp add: td_value_def u16ify_Panic)
qed

section \<open>Writing a holding register\<close>

definition td_packet :: "serial \<Rightarrow> device_function \<Rightarrow> serial \<Rightarrow> u16 \<Rightarrow> bytes \<Rightarrow> packet" where
  "td_packet d f s register values = PTranslatedData \<lparr> td_datalog = d, td_device_function = f,
     td_inverter = s, td_register = register, td_values = values \<rparr>"

text \<open>
  C15: a successful \<^verbatim>\<open>SetHold\<close> means that the inverter is not read-only, that exactly one message was
  sent, the single write of the value to the register, and that the reply is a single-write reply of
  the same data logger and register whose first two bytes echo the value.
\<close>

theorem set_hold_confirmed:
  assumes "set_hold_run inverter register value w = Finished (Ok q) w'"
  shows "\<exists>d s r. inv_datalog inverter = Some d \<and> inv_serial inverter = Some s \<and> \<not> cfg_read_only inverter \<and>
    w_sent w' = w_sent w @ [ToCoordinator (CoSendPacket (td_packet d DevWriteSingle s register (to_le_bytes value)))] \<and>
    q = PTranslatedData r \<and> td_datalog r = d \<and> td_register r = register \<and>
    td_device_function r = DevWriteSingle \<and> take 2 (td_values r) = to_le_bytes value"
proof -
  from assms have ro: "\<not> cfg_read_only inverter" by (auto simp: set_hold_run_def split: if_splits)
  with assms obtain p where p: "td_request inverter DevWriteSingle register (to_le_bytes value) = Ok p"
    and run: "rbind (request_coordinator p w) (\<lambda>reply w. rbind (lift (packet_value reply) w) (\<lambda>v w.
       if v \<noteq> value then Finished (Err ''failed to set register {}, got back value {} (wanted {})'') w
       else Finished (Ok reply) w)) = Finished (Ok q) w'"
    by (auto simp: set_hold_run_def lift_rbind_Ok)
  from p obtain d s where ds: "inv_datalog inverter = Some d" "inv_serial inverter = Some s"
    "p = td_packet d DevWriteSingle s register (to_le_bytes value)"
    by (auto simp: td_request_Ok td_packet_def)
  from run obtain q1 w1 where q: "answers p q1" "w_sent w1 = w_sent w @ [ToCoordinator (CoSendPacket p)]"
    and v: "packet_value q1 = Ok value" "q = q1" "w' = w1"
    by (rule coord.request_then) (auto simp: lift_rbind_Ok split: if_splits)
  then show ?thesis
    using answers_td[OF q(1)[unfolded ds(3) td_packet_def]] ds ro by (auto simp: td_value_Ok)
qed

definition example_inverter :: config_inverter where
  "example_inverter = \<lparr> inv_enabled = True, inv_host = ''h'', inv_port = 8000,
     inv_serial = Some serial_default, inv_datalog = Some serial_default, inv_heartbeats = None,
     inv_publish_holdings_on_connect = None, inv_read_timeout = None, inv_use_tcp_nodelay = None,
     inv_register_block_size = None, inv_delay_ms = None, inv_read_only = None,
     inv_register_read_interval = None \<rparr>"

definition example_config :: "config_inverter list \<Rightarrow> config" where
  "example_config is = \<lparr> cfg_inverters = is,
     cfg_mqtt = \<lparr> mq_enabled = True, mq_host = ''h'', mq_port = 1883, mq_username = None, mq_password = None,
        mq_namespace = ''lxp'', mq_homeassistant = \<lparr> ha_enabled = False, ha_prefix = ''homeassistant'' \<rparr>,
        mq_publish_individual_input = Some True \<rparr>,
     cfg_influx = \<lparr> ifx_enabled = False, ifx_url = [], ifx_username = None, ifx_password = None, ifx_database = [] \<rparr>,
     cfg_databases = [\<lparr> db_enabled = True, db_url = ''sqlite://t.db'' \<rparr>], cfg_scheduler = None,
     cfg_loglevel = ''info'', cfg_global_read_only = False, cfg_homeassistant_enabled = False,
     cfg_strict_data_check = False, cfg_datalog_file = None, cfg_register_file = None,
     cfg_register_read_interval = 60, cfg_verbose = False, cfg_human_timestamps = False,
     cfg_show_unknown = False, cfg_inverter_timeout = 300 \<rparr>"

lemmas run_example = example_inverter_def example_world_def example_td_def td_request_def lift_def send_def
  cfg_read_only_def request_coordinator_def request_inverter_def wait_for_reply_def TIMEOUT_def td_value_def

theorem set_hold_confirmed_witness:
  "\<exists>w' r. set_hold_run example_inverter 64 50 (example_world [ChPacket (example_td DevWriteSingle 64 [50, 0])]) =
      Finished (Ok (PTranslatedData r)) w' \<and> td_register r = 64 \<and> take 2 (td_values r) = [50, 0] \<and>
      length (w_sent w') = 1"
proof -
  have "\<exists>q w'. set_hold_run example_inverter 64 50
      (example_world [ChPacket (example_td DevWriteSingle 64 [50, 0])]) = Finished (Ok q) w'"
    by (simp add: set_hold_run_def run_example u16ify_def u16_from_le_def to_le_bytes_def lo8_def hi8_def)
  then obtain q w' where run: "set_hold_run example_inverter 64 50
      (example_world [ChPacket (example_td DevWriteSingle 64 [50, 0])]) = Finished (Ok q) w'" by blast
  from set_hold_confirmed[OF this] run show ?thesis
    by (auto simp: to_le_bytes_def lo8_def hi8_def) (auto simp: example_world_def)
qed

section \<open>Changing one bit of a register\<close>

definition bit_position :: "register_bit \<Rightarrow> nat" where
  "bit_position b = (case b of BitAcChargeEnable \<Rightarrow> 7 | BitForcedDischargeEnable \<Rightarrow> 10 | BitChargePriorityEnable \<Rightarrow> 11)"

lemma register_bit_exp: "register_bit_u16 b = push_bit (bit_position b) 1"
  by (cases b) (simp_all add: bit_position_def)

lemma bit_position_small: "bit_position b < 16"
  by (cases b) (simp_all add: bit_position_def)

lemma bit_update_hold_value:
  "k < 16 \<Longrightarrow> bit (update_hold_value enable b current) k = (if k = bit_position b then enable else bit current k)"
  using bit_position_small[of b] unfolding update_hold_value_def register_bit_exp
  by (auto simp: bit_simps simp del: push_bit_of_1)

lemma update_hold_write_Ok:
  assumes "update_hold_write inverter register new w = Finished (Ok u) w'"
    and "inv_datalog inverter = Some d" and "inv_serial inverter = Some s"
  shows "w_sent w' = w_sent w @ [ToInverter (ChPacket (td_packet d DevWriteSingle s register (to_le_bytes new)))]"
proof -
  have "rbind (request_inverter ''send(to_inverter) failed: {}''
      (td_packet d DevWriteSingle s register (to_le_bytes new)) w) (\<lambda>reply w.
      rbind (lift (packet_value reply) w) (\<lambda>v w.
       if v \<noteq> new then Finished (Err ''failed to update register {:?}, got back value {} (wanted {})'') w
       else Finished (Ok ()) w)) = Finished (Ok u) w'"
    using assms by (auto simp: update_hold_write_def lift_rbind_Ok td_request_Ok td_packet_def)
  then show ?thesis by (rule direct.request_then) (auto simp: lift_rbind_Ok split: if_splits)
qed

text \<open>
  C16: a successful \<^verbatim>\<open>UpdateHold\<close> read the register from the inverter and wrote back the value it got
  with exactly the one bit set or cleared: of the sixteen bits only the one of the command can
  change. The two messages, the read and the write, are all that was sent.
\<close>

theorem update_hold_changes_one_bit:
  assumes "update_hold_run inverter register b enable w = Finished (Ok u) w'"
  shows "\<exists>d s current r new. inv_datalog inverter = Some d \<and> inv_serial inverter = Some s \<and>
    (\<exists>t. (t, RecvMsg (ChPacket (PTranslatedData r))) \<in> set (w_inbox w)) \<and> take 2 (td_values r) = to_le_bytes current \<and>
    td_datalog r = d \<and> td_register r = register \<and> td_device_function r = DevReadHold \<and>
    w_sent w' = w_sent w @ [ToInverter (ChPacket (td_packet d DevReadHold s register [1, 0])),
                            ToInverter (ChPacket (td_packet d DevWriteSingle s register (to_le_bytes new)))] \<and>
    (\<forall>k < 16. bit new k = (if k = bit_position b then enable else bit current k))"
proof -
  from assms obtain p where p: "td_request inverter DevReadHold register [1, 0] = Ok p"
    and run: "rbind (request_inverter ''send(to_inverter) failed: {}'' p w) (\<lambda>reply w.
     rbind (lift (packet_value reply) w) (\<lambda>current_value.
       update_hold_write inverter register (update_hold_value enable b current_value))) = Finished (Ok u) w'"
    by (auto simp: update_hold_run_def lift_rbind_Ok)
  from p obtain d s where ds: "inv_datalog inverter = Some d" "inv_serial inverter = Some s"
    "p = td_packet d DevReadHold s register [1, 0]"
    by (auto simp: td_request_Ok td_packet_def)
  from run obtain q w1 where q: "answers p q" "w_sent w1 = w_sent w @ [ToInverter (ChPacket p)]"
      "\<exists>t. (t, RecvMsg (ChPacket q)) \<in> set (w_inbox w)"
    and rest: "rbind (lift (packet_value q) w1) (\<lambda>current_value.
       update_hold_write inverter register (update_hold_value enable b current_value)) = Finished (Ok u) w'"
    by (rule direct.request_then) blast
  from rest obtain current where c: "packet_value q = Ok current"
    and run2: "update_hold_write inverter register (update_hold_value enable b current) w1 = Finished (Ok u) w'"
    by (auto simp: lift_rbind_Ok)
  obtain r where r: "q = PTranslatedData r" "td_datalog r = d" "td_register r = register"
    "td_device_function r = DevReadHold"
    using answers_td[OF q(1)[unfolded ds(3) td_packet_def]] by auto
  have "take 2 (td_values r) = to_le_bytes current" using c r(1) by (simp add: td_value_Ok)
  then show ?thesis
    using update_hold_write_Ok[OF run2 ds(1,2)] q(2,3) ds r bit_update_hold_value
    by (intro exI[of _ d] exI[of _ s] exI[of _ current] exI[of _ r]
        exI[of _ "update_hold_value enable b current"]) simp
qed

theorem update_hold_changes_one_bit_witness:
  "\<exists>w' d s. update_hold_run example_inverter 21 BitAcChargeEnable True
      (example_world [ChPacket (example_td DevReadHold 21 [4, 1]), ChPacket (example_td DevWriteSingle 21 [0x84, 1])])
      = Finished (Ok ()) w' \<and>
    length (w_sent w') = 2"
proof -
  have "\<exists>u w'. update_hold_run example_inverter 21 BitAcChargeEnable True
      (example_world [ChPacket (example_td DevReadHold 21 [4, 1]), ChPacket (example_td DevWriteSingle 21 [0x84, 1])])
      = Finished (Ok u) w'"
    by (simp add: update_hold_run_def update_hold_write_def run_example u16ify_def u16_from_le_def to_le_bytes_def lo8_def hi8_def
        update_hold_value_def Let_def)
  then obtain u w' where run: "update_hold_run example_inverter 21 BitAcChargeEnable True
      (example_world [ChPacket (example_td DevReadHold 21 [4, 1]), ChPacket (example_td DevWriteSingle 21 [0x84, 1])])
      = Finished (Ok u) w'" by blast
  from update_hold_changes_one_bit[OF this] run show ?thesis by (auto simp: example_world_def)
qed

section \<open>Read-only mode\<close>

text \<open>
  In read-only mode, global or of the inverter, every guarded write fails at once: nothing is
  sent and no time passes.
\<close>

theorem read_only_blocks_writes:
  assumes "ro \<or> cfg_read_only inverter"
  shows "let blocked = Finished (Err ''Write operations are disabled in read-only mode'') w in
    set_charge_rate ro inverter value w = blocked \<and> set_discharge_rate ro inverter value w = blocked \<and>
    set_ac_charge_rate ro inverter value w = blocked \<and> set_ac_charge_soc_limit ro inverter value w = blocked \<and>
    set_discharge_cutoff_soc_limit ro inverter value w = blocked \<and>
    wi_set_hold ro inverter register value w = blocked \<and> wi_set_param ro inverter register value w = blocked \<and>
    wi_set_time_register J m ro inverter action values w = blocked \<and>
    set_ac_charge_time J m ro inverter values w = blocked \<and> set_ac_first_time J m ro inverter values w = blocked \<and>
    set_charge_priority_time J m ro inverter values w = blocked \<and>
    set_forced_discharge_time J m ro inverter values w = blocked"
proof -
  have "check_read_only ro inverter = Err ''Write operations are disabled in read-only mode''"
    using assms by (simp add: check_read_only_def cfg_read_only_def)
  then show ?thesis
    by (simp add: Let_def lift_def set_charge_rate_def set_discharge_rate_def set_ac_charge_rate_def
        set_ac_charge_soc_limit_def set_discharge_cutoff_soc_limit_def wi_guarded_hold_def wi_set_hold_def
        wi_set_param_def wi_set_time_register_def set_ac_charge_time_def set_ac_first_time_def
        set_charge_priority_time_def set_forced_discharge_time_def wi_guarded_time_def)
qed

theorem read_only_blocks_writes_witness:
  "set_charge_rate False (example_inverter\<lparr> inv_read_only := Some True \<rparr>) 50 (example_world []) =
     Finished (Err ''Write operations are disabled in read-only mode'') (example_world [])"
  using read_only_blocks_writes[of False "example_inverter\<lparr> inv_read_only := Some True \<rparr>"]
  by (simp add: cfg_read_only_def Let_def)

text \<open>
  The bit update has no such guard. Whatever the read-only flag of the inverter, it runs the same
  steps and sends the same messages, the write included.
\<close>

theorem update_hold_ignores_read_only:
  "update_hold_run (inverter\<lparr> inv_read_only := flag \<rparr>) register b enable w =
   update_hold_run inverter register b enable w"
proof -
  have "td_request (inverter\<lparr> inv_read_only := flag \<rparr>) f r v = td_request inverter f r v" for f r v
    by (simp add: td_request_def)
  then show ?thesis by (simp add: update_hold_run_def update_hold_write_def[abs_def])
qed

section \<open>Time registers\<close>

lemma guarded_time_fails:
  "\<exists>e. set_ac_charge_time J m ro inverter values w = Finished (Err e) w"
  "\<exists>e. set_ac_first_time J m ro inverter values w = Finished (Err e) w"
  "\<exists>e. set_charge_priority_time J m ro inverter values w = Finished (Err e) w"
  "\<exists>e. set_forced_discharge_time J m ro inverter values w = Finished (Err e) w"
  by (cases "values";
      simp add: set_ac_charge_time_def set_ac_first_time_def set_charge_priority_time_def
      set_forced_discharge_time_def wi_guarded_time_def wi_set_time_register_def set_time_register_run_def
      check_read_only_def lift_def)+

text \<open>
  The four guarded time commands pass slot 0 on, which no register table knows: they fail with
  "unsupported command" for every window, or are blocked by read-only mode, and never send anything.
\<close>

theorem set_time_commands_fail:
  "(\<exists>e. set_ac_charge_time J m ro inverter values w = Finished (Err e) w) \<and>
   (\<exists>e. set_ac_first_time J m ro inverter values w = Finished (Err e) w) \<and>
   (\<exists>e. set_charge_priority_time J m ro inverter values w = Finished (Err e) w) \<and>
   (\<exists>e. set_forced_discharge_time J m ro inverter values w = Finished (Err e) w)"
  by (intro conjI guarded_time_fails)

lemma set_register_Ok:
  assumes "set_register inverter register values w = Finished (Ok u) w'"
  obtains d s where "inv_datalog inverter = Some d" "inv_serial inverter = Some s" "\<not> cfg_read_only inverter"
    "w_sent w' = w_sent w @ [ToInverter (ChPacket (td_packet d DevWriteSingle s register values))]"
    "\<exists>t r. (t, RecvMsg (ChPacket (PTranslatedData r))) \<in> set (w_inbox w) \<and> td_register r = register \<and>
       td_values r = values"
    "set (w_inbox w') \<subseteq> set (w_inbox w)"
proof -
  from assms have ro: "\<not> cfg_read_only inverter" by (auto simp: set_register_def split: if_splits)
  with assms obtain p where p: "td_request inverter DevWriteSingle register values = Ok p"
    and run: "rbind (request_inverter ''send(to_inverter) failed - channel closed?'' p w) (\<lambda>reply w.
             case reply of
               PTranslatedData td \<Rightarrow>
                 if td_values td \<noteq> values
                 then Finished (Err ''failed to set register {}, got back value {:?} (wanted {:?})'') w
                 else Finished (Ok ()) w
             | _ \<Rightarrow> Finished (Err ''didn't get expected reply from inverter'') w) = Finished (Ok u) w'"
    by (auto simp: set_register_def lift_rbind_Ok)
  from p obtain d s where ds: "inv_datalog inverter = Some d" "inv_serial inverter = Some s"
    "p = td_packet d DevWriteSingle s register values"
    by (auto simp: td_request_Ok td_packet_def)
  from run obtain q w1 where q: "answers p q" "w_sent w1 = w_sent w @ [ToInverter (ChPacket p)]"
      "\<exists>t. (t, RecvMsg (ChPacket q)) \<in> set (w_inbox w)" "set (w_inbox w1) \<subseteq> set (w_inbox w)"
    and rest: "(case q of PTranslatedData td \<Rightarrow>
                 if td_values td \<noteq> values
                 then Finished (Err ''failed to set register {}, got back value {:?} (wanted {:?})'') w1
                 else Finished (Ok ()) w1
             | _ \<Rightarrow> Finished (Err ''didn't get expected reply from inverter'') w1) = Finished (Ok u) w'"
    by (rule direct.request_then) blast
  obtain r where r: "q = PTranslatedData r" "td_register r = register"
    using answers_td[OF q(1)[unfolded ds(3) td_packet_def]] by auto
  with rest have "td_values r = values" "w' = w1" by (auto split: if_splits)
  then show thesis using that[OF ds(1,2) ro] ds(3) q r by blast
qed

text \<open>
  A successful \<^verbatim>\<open>SetTimeRegister\<close> wrote the start to the register of the slot and then the end
  to the next register, in this order, each write confirmed by a reply with the same two bytes; with
  MQTT disabled nothing else was sent.
\<close>

theorem set_time_register_writes:
  assumes "set_time_register_run J False inverter action (a, b, c, d) w = Finished (Ok u) w'"
  shows "\<exists>l s r. inv_datalog inverter = Some l \<and> inv_serial inverter = Some s \<and> \<not> cfg_read_only inverter \<and>
    action_register action = Ok r \<and>
    w_sent w' = w_sent w @ [ToInverter (ChPacket (td_packet l DevWriteSingle s r [a, b])),
                            ToInverter (ChPacket (td_packet l DevWriteSingle s (r + 1) [c, d]))] \<and>
    (\<exists>t1 r1 t2 r2. (t1, RecvMsg (ChPacket (PTranslatedData r1))) \<in> set (w_inbox w) \<and>
       td_register r1 = r \<and> td_values r1 = [a, b] \<and>
       (t2, RecvMsg (ChPacket (PTranslatedData r2))) \<in> set (w_inbox w) \<and>
       td_register r2 = r + 1 \<and> td_values r2 = [c, d])"
proof -
  from assms obtain r w1 u1 where r: "action_register action = Ok r"
    and w1: "set_register inverter r [a, b] w = Finished (Ok u1) w1"
    and w2: "set_register inverter (r + 1) [c, d] w1 = Finished (Ok u) w'"
    by (auto simp: set_time_register_run_def lift_rbind_Ok rbind_eq_Ok lift_def)
  obtain l s where ls: "inv_datalog inverter = Some l" "inv_serial inverter = Some s" "\<not> cfg_read_only inverter"
    and s1: "w_sent w1 = w_sent w @ [ToInverter (ChPacket (td_packet l DevWriteSingle s r [a, b]))]"
    and r1: "\<exists>t q. (t, RecvMsg (ChPacket (PTranslatedData q))) \<in> set (w_inbox w) \<and> td_register q = r \<and>
      td_values q = [a, b]" and sub: "set (w_inbox w1) \<subseteq> set (w_inbox w)"
    by (rule set_register_Ok[OF w1])
  have s2: "w_sent w' = w_sent w1 @ [ToInverter (ChPacket (td_packet l DevWriteSingle s (r + 1) [c, d]))]"
    and r2: "\<exists>t q. (t, RecvMsg (ChPacket (PTranslatedData q))) \<in> set (w_inbox w) \<and> td_register q = r + 1 \<and>
      td_values q = [c, d]"
    by (rule set_register_Ok[OF w2]; use ls sub in auto)+
  from r1 r2 show ?thesis using ls s1 s2 r by simp
qed

theorem set_time_register_writes_witness:
  "\<forall>J. \<exists>w'. set_time_register_run J False example_inverter (AcCharge 2) (1, 30, 5, 0)
      (example_world [ChPacket (example_td DevWriteSingle 70 [1, 30]), ChPacket (example_td DevWriteSingle 71 [5, 0])])
      = Finished (Ok ()) w' \<and> length (w_sent w') = 2"
proof
  fix J
  have "\<exists>w'. set_time_register_run J False example_inverter (AcCharge 2) (1, 30, 5, 0)
      (example_world [ChPacket (example_td DevWriteSingle 70 [1, 30]), ChPacket (example_td DevWriteSingle 71 [5, 0])])
      = Finished (Ok ()) w'"
    by (simp add: set_time_register_run_def set_register_def run_example)
  then obtain w' where run: "set_time_register_run J False example_inverter (AcCharge 2) (1, 30, 5, 0)
      (example_world [ChPacket (example_td DevWriteSingle 70 [1, 30]), ChPacket (example_td DevWriteSingle 71 [5, 0])])
      = Finished (Ok ()) w'" by blast
  from set_time_register_writes[OF this] run
  show "\<exists>w'. set_time_register_run J False example_inverter (AcCharge 2) (1, 30, 5, 0)
      (example_world [ChPacket (example_td DevWriteSingle 70 [1, 30]), ChPacket (example_td DevWriteSingle 71 [5, 0])])
      = Finished (Ok ()) w' \<and> length (w_sent w') = 2" by (auto simp: example_world_def)
qed

section \<open>Block boundaries\<close>

lemma same_block:
  fixes r c :: nat
  assumes "0 < c" "r div 40 = (r + c - 1) div 40"
  shows "c \<le> 40 - r mod 40"
proof -
  have "r + c - 1 < 40 * ((r + c - 1) div 40) + 40"
    by (metis add.commute dividend_less_times_div mult.commute zero_less_numeral)
  with assms(2) have "r + c - 1 < 40 * (r div 40) + 40" by simp
  moreover have "r = 40 * (r div 40) + r mod 40" by simp
  ultimately show ?thesis using assms(1) by linarith
qed

text \<open>
  For a non-empty range of registers that stays below 65536, the check accepts exactly the
  ranges that lie in one block of forty, in either build; the second test of the code never adds a
  rejection.
\<close>

theorem block_boundary_exact:
  assumes "count \<noteq> 0" "unat register + unat count < 2 ^ 16"
  shows "validate_register_block_boundary oc register count =
    (if unat register div 40 = (unat register + unat count - 1) div 40 then Ok ()
     else Err ''Invalid read operation: Cannot read across block boundary'')"
proof -
  have c: "0 < unat count" using assms(1) by (simp add: unat_gt_0)
  have s: "unat (register + count) = unat register + unat count"
    using assms(2) by (simp add: unat_word_ariths)
  have e: "unat (register + count - 1) = unat register + unat count - 1"
    using c s by (subst unat_sub) (simp_all add: word_le_nat_alt)
  have b: "register div BLOCK_SIZE = (register + count - 1) div BLOCK_SIZE \<longleftrightarrow>
      unat register div 40 = (unat register + unat count - 1) div 40"
    unfolding BLOCK_SIZE_def word_unat_eq_iff unat_div e by simp
  have m: "unat (BLOCK_SIZE - register mod BLOCK_SIZE) = 40 - unat register mod 40"
    unfolding BLOCK_SIZE_def by (subst unat_sub) (simp_all add: word_le_nat_alt unat_mod less_imp_le)
  have "\<not> count > BLOCK_SIZE - register mod BLOCK_SIZE"
    if "unat register div 40 = (unat register + unat count - 1) div 40"
    using same_block[OF c that] m by (simp add: word_less_nat_alt)
  with b c s assms(2) show ?thesis
    by (auto simp: validate_register_block_boundary_def Let_def add_oc_def sub_oc_def)
qed

theorem block_boundary_exact_witness:
  "validate_register_block_boundary True 35 5 = Ok () \<and>
   validate_register_block_boundary True 35 11 =
     Err ''Invalid read operation: Cannot read across block boundary''"
  using block_boundary_exact[of 5 35 True] block_boundary_exact[of 11 35 True] by simp

section \<open>Time synchronisation\<close>

lemma needs_update_iff: "needs_update x \<longleftrightarrow> seconds 30 < \<bar>x\<bar> \<and> \<bar>x\<bar> \<le> seconds 600"
  by (auto simp: needs_update_def Let_def seconds_def)

lemma inverter_clock_Ok:
  "inverter_clock T vs = Ok dt \<longleftrightarrow> 6 \<le> length vs \<and>
     ch_make T (2000 + uint (vs ! 0)) (unat (vs ! 1)) (unat (vs ! 2)) (unat (vs ! 3)) (unat (vs ! 4))
       (unat (vs ! 5)) = Some dt"
  by (auto simp: inverter_clock_def obind_eq_Ok index_def oexpect_def split: if_splits option.splits)

lemma adjust_clock_Ok:
  assumes run: "adjust_clock T inverter now dt w = Finished (Ok u) w'"
    and ds: "inv_datalog inverter = Some d" "inv_serial inverter = Some s"
  shows "w_sent w' = w_sent w @
      (if \<not> cfg_read_only inverter \<and> seconds 30 < \<bar>dt - now\<bar> \<and> \<bar>dt - now\<bar> \<le> seconds 600
       then [ToCoordinator (CoSendPacket (td_packet d DevWriteMulti s 12
          [word_of_int (ch_year T now - 2000), word_of_nat (ch_month T now), word_of_nat (ch_day T now),
           word_of_nat (ch_hour T now), word_of_nat (ch_minute T now), word_of_nat (ch_second T now)]))]
       else [])"
proof (cases "\<not> cfg_read_only inverter \<and> needs_update (dt - now)")
  case True
  with run obtain p2 where p2: "set_time_packet T inverter now = Ok p2"
    and run2: "rbind (request_coordinator p2 w) (\<lambda>_ w. Finished (Ok ()) w) = Finished (Ok u) w'"
    by (auto simp: lift_rbind_Ok adjust_clock_def)
  have "w_sent w' = w_sent w @ [ToCoordinator (CoSendPacket p2)]"
    by (rule coord.request_then[OF run2]) auto
  with p2 True ds show ?thesis
    by (auto simp: set_time_packet_def td_request_Ok td_packet_def needs_update_iff)
next
  case False
  with run show ?thesis by (auto simp: adjust_clock_def needs_update_iff split: if_splits)
qed

text \<open>
  C17: a \<^verbatim>\<open>TimeSync\<close> that succeeds read the clock of the inverter and wrote it exactly when the
  inverter's own \<^verbatim>\<open>read_only\<close> flag is off and the clock was off by more than 30 seconds and at most ten
  minutes. The global \<^verbatim>\<open>read_only\<close> flag plays no role: the command has no access to it. The reply it
  acted on carries a valid date, its bytes taken as binary numbers, not as the BCD of the comments.
\<close>

theorem timesync_writes_when_needed:
  assumes "timesync_run T utc offset inverter w = Finished (Ok u) w'"
  shows "\<exists>d s r dt now. inv_datalog inverter = Some d \<and> inv_serial inverter = Some s \<and>
    (\<exists>t. (t, RecvMsg (ChPacket (PTranslatedData r))) \<in> set (w_inbox w)) \<and>
    td_datalog r = d \<and> td_register r = 12 \<and> 6 \<le> length (td_values r) \<and>
    ch_make T (2000 + uint (td_values r ! 0)) (unat (td_values r ! 1)) (unat (td_values r ! 2))
      (unat (td_values r ! 3)) (unat (td_values r ! 4)) (unat (td_values r ! 5)) = Some dt \<and>
    now = utc + seconds offset \<and>
    w_sent w' = w_sent w @ [ToCoordinator (CoSendPacket (td_packet d DevReadHold s 12 [3, 0]))] @
      (if \<not> cfg_read_only inverter \<and> seconds 30 < \<bar>dt - now\<bar> \<and> \<bar>dt - now\<bar> \<le> seconds 600
       then [ToCoordinator (CoSendPacket (td_packet d DevWriteMulti s 12
          [word_of_int (ch_year T now - 2000), word_of_nat (ch_month T now), word_of_nat (ch_day T now),
           word_of_nat (ch_hour T now), word_of_nat (ch_minute T now), word_of_nat (ch_second T now)]))]
       else [])"
proof -
  define now where "now = utc + seconds offset"
  from assms obtain p where p: "td_request inverter DevReadHold 12 [3, 0] = Ok p"
    and run: "rbind (request_coordinator p w) (\<lambda>reply w. case reply of
         PTranslatedData td \<Rightarrow>
           rbind (lift (inverter_clock T (td_values td)) w) (adjust_clock T inverter now)
       | _ \<Rightarrow> Finished (Ok ()) w) = Finished (Ok u) w'"
    unfolding timesync_run_def lift_rbind_Ok now_def by blast
  from p obtain d s where ds: "inv_datalog inverter = Some d" "inv_serial inverter = Some s"
    "p = td_packet d DevReadHold s 12 [3, 0]"
    by (auto simp: td_request_Ok td_packet_def)
  show ?thesis
  proof (rule coord.request_then[OF run])
    fix q w1
    assume ans: "answers p q" and inb: "\<exists>t. (t, RecvMsg (ChPacket q)) \<in> set (w_inbox w)"
      and sent: "w_sent w1 = w_sent w @ [ToCoordinator (CoSendPacket p)]"
      and rest: "(case q of
         PTranslatedData td \<Rightarrow>
           rbind (lift (inverter_clock T (td_values td)) w1) (adjust_clock T inverter now)
       | _ \<Rightarrow> Finished (Ok ()) w1) = Finished (Ok u) w'"
    obtain r where r: "q = PTranslatedData r" "td_datalog r = d" "td_register r = 12"
      using answers_td[OF ans[unfolded ds(3) td_packet_def]] by auto
    from rest r obtain dt where dt: "inverter_clock T (td_values r) = Ok dt"
      and act: "adjust_clock T inverter now dt w1 = Finished (Ok u) w'"
      by (auto simp: lift_rbind_Ok)
    note sent2 = adjust_clock_Ok[OF act ds(1,2), unfolded sent ds(3) append_assoc]
    show ?thesis using ds(1,2) inb[unfolded r(1)] r(2,3) dt[unfolded inverter_clock_Ok] now_def sent2 by blast
  qed
qed

text \<open>A calendar for evaluating the model: it knows one day, by its seconds.\<close>

definition example_calendar :: chrono_lib where
  "example_calendar =
     \<lparr> ch_make = (\<lambda>y mo d h mi s. if y = 2026 \<and> mo = 1 \<and> d = 1
          then Some (seconds (int (h * 3600 + mi * 60 + s))) else None),
       ch_year = (\<lambda>_. 2026), ch_month = (\<lambda>_. 1), ch_day = (\<lambda>_. 1),
       ch_hour = (\<lambda>t. nat (t div seconds 3600)), ch_minute = (\<lambda>t. nat (t div seconds 60) mod 60),
       ch_second = (\<lambda>t. nat (t div seconds 1) mod 60) \<rparr>"

theorem timesync_writes_when_needed_witness:
  "\<exists>w'. timesync_run example_calendar (seconds 100) 0 example_inverter
      (example_world [ChPacket (example_td DevReadHold 12 [26, 1, 1, 0, 0, 10]),
         ChPacket (example_td DevWriteMulti 12 [3, 0])]) = Finished (Ok ()) w' \<and> length (w_sent w') = 2"
proof -
  let ?w = "example_world [ChPacket (example_td DevReadHold 12 [26, 1, 1, 0, 0, 10]),
         ChPacket (example_td DevWriteMulti 12 [3, 0])]"
  have "\<exists>w'. timesync_run example_calendar (seconds 100) 0 example_inverter ?w = Finished (Ok ()) w'"
    by (simp add: timesync_run_def inverter_clock_def adjust_clock_def run_example example_calendar_def set_time_packet_def needs_update_def
        seconds_def Let_def)
  then obtain w' where run: "timesync_run example_calendar (seconds 100) 0 example_inverter ?w = Finished (Ok ()) w'"
    by blast
  from timesync_writes_when_needed[OF run] obtain d s r dt now where
    r: "\<exists>t. (t, RecvMsg (ChPacket (PTranslatedData r))) \<in> set (w_inbox ?w)" "6 \<le> length (td_values r)"
    "ch_make example_calendar (2000 + uint (td_values r ! 0)) (unat (td_values r ! 1)) (unat (td_values r ! 2))
      (unat (td_values r ! 3)) (unat (td_values r ! 4)) (unat (td_values r ! 5)) = Some dt"
    and now: "now = seconds 100 + seconds 0"
    and sent: "w_sent w' = w_sent ?w @ [ToCoordinator (CoSendPacket (td_packet d DevReadHold s 12 [3, 0]))] @
      (if \<not> cfg_read_only example_inverter \<and> seconds 30 < \<bar>dt - now\<bar> \<and> \<bar>dt - now\<bar> \<le> seconds 600
       then [ToCoordinator (CoSendPacket (td_packet d DevWriteMulti s 12
          [word_of_int (ch_year example_calendar now - 2000), word_of_nat (ch_month example_calendar now),
           word_of_nat (ch_day example_calendar now), word_of_nat (ch_hour example_calendar now),
           word_of_nat (ch_minute example_calendar now), word_of_nat (ch_second example_calendar now)]))]
       else [])" by blast
  from r(1,2) have "td_values r = [26, 1, 1, 0, 0, 10]"
    by (auto simp: example_world_def example_td_def)
  with r(3) have "dt = seconds 10" by (simp add: example_calendar_def)
  moreover have "w_sent ?w = []" "cfg_read_only example_inverter = False"
    by (simp_all add: example_world_def cfg_read_only_def example_inverter_def)
  ultimately have "length (w_sent w') = 2" using sent now by (simp add: seconds_def)
  with run show ?thesis by blast
qed

end
