(* ===== verification/Register_Cache.thy ===== *)
theory Register_Cache
  imports Task_Loop
begin

text \<open>
  The register cache of \<^verbatim>\<open>register_cache.rs\<close>: an array of 512 registers that two loops of one task
  share, one answering reads and one storing values. The order in which the two loops get the lock
  is the order of the events of a run.
\<close>

section \<open>State and operations\<close>

definition REGISTER_COUNT :: nat where
  "REGISTER_COUNT = 512"

datatype cache_msg = ReadRegister u16 | RegisterData u16 u16 | CacheShutdown

text \<open>The array, whether each loop still runs, and the values sent back so far.\<close>

record register_cache =
  rc_data :: "u16 list"
  rc_getter :: bool
  rc_setter :: bool
  rc_replies :: "(u16 \<times> u16) list"

definition register_cache_new :: register_cache where
  "register_cache_new =
     \<lparr> rc_data = replicate REGISTER_COUNT 0, rc_getter = True, rc_setter = True, rc_replies = [] \<rparr>"

fun cache_getter :: "cache_msg \<Rightarrow> register_cache \<Rightarrow> register_cache outcome" where
  "cache_getter (ReadRegister register) s =
     obind (index (rc_data s) (unat register)) (\<lambda>value.
     Ok (s\<lparr> rc_replies := rc_replies s @ [(register, value)] \<rparr>))"
| "cache_getter CacheShutdown s = Ok (s\<lparr> rc_getter := False \<rparr>)"
| "cache_getter (RegisterData _ _) s = Ok s"

fun cache_setter :: "cache_msg \<Rightarrow> register_cache \<Rightarrow> register_cache outcome" where
  "cache_setter (RegisterData register value) s =
     (if unat register < length (rc_data s)
      then Ok (s\<lparr> rc_data := (rc_data s)[unat register := value] \<rparr>) else Panic)"
| "cache_setter CacheShutdown s = Ok (s\<lparr> rc_setter := False \<rparr>)"
| "cache_setter (ReadRegister _) s = Ok s"

text \<open>A message on either channel; a loop that has ended receives nothing.\<close>

datatype cache_event = OnRead cache_msg | OnWrite cache_msg

fun cache_step :: "cache_event \<Rightarrow> register_cache \<Rightarrow> register_cache outcome" where
  "cache_step (OnRead m) s = (if rc_getter s then cache_getter m s else Ok s)"
| "cache_step (OnWrite m) s = (if rc_setter s then cache_setter m s else Ok s)"

text \<open>A panic in one loop ends the task that runs both.\<close>

fun cache_run :: "cache_event list \<Rightarrow> register_cache \<Rightarrow> register_cache outcome" where
  "cache_run [] s = Ok s"
| "cache_run (ev # evs) s = obind (cache_step ev s) (cache_run evs)"

interpretation cache_task: task_loop cache_step cache_run Ok
  by unfold_locales (auto simp: obind_def split: outcome.split)

text \<open>\<^verbatim>\<open>RegisterCache::get\<close>: without an answer the \<^verbatim>\<open>expect\<close> fails.\<close>

definition cache_get :: "register_cache outcome \<Rightarrow> u16 \<Rightarrow> u16 outcome" where
  "cache_get r register =
     obind r (\<lambda>s. if rc_getter s then index (rc_data s) (unat register) else Panic)"

section \<open>A store of values by key\<close>

locale key_value =
  fixes valid :: "'s \<Rightarrow> bool"
    and key_ok :: "'k \<Rightarrow> bool"
    and get :: "'s \<Rightarrow> 'k \<Rightarrow> 'v"
    and put :: "'k \<Rightarrow> 'v \<Rightarrow> 's \<Rightarrow> 's"
  assumes valid_put: "valid s \<Longrightarrow> key_ok k \<Longrightarrow> valid (put k v s)"
    and get_put: "valid s \<Longrightarrow> key_ok k \<Longrightarrow> key_ok k' \<Longrightarrow> get (put k v s) k' = (if k' = k then v else get s k')"
begin

fun put_all :: "('k \<times> 'v) list \<Rightarrow> 's \<Rightarrow> 's" where
  "put_all [] s = s"
| "put_all ((k, v) # kvs) s = put_all kvs (put k v s)"

lemma valid_put_all: "valid s \<Longrightarrow> \<forall>k \<in> fst ` set kvs. key_ok k \<Longrightarrow> valid (put_all kvs s)"
  by (induction kvs s rule: put_all.induct) (auto simp: valid_put)

text \<open>The last value put under a key is the one that is found.\<close>

lemma get_put_all:
  "valid s \<Longrightarrow> \<forall>k \<in> fst ` set kvs. key_ok k \<Longrightarrow> key_ok k' \<Longrightarrow>
   get (put_all kvs s) k' = (case map_of (rev kvs) k' of Some v \<Rightarrow> v | None \<Rightarrow> get s k')"
proof (induction kvs s rule: put_all.induct)
  case (2 k v kvs s)
  then have "get (put_all kvs (put k v s)) k' =
      (case map_of (rev kvs) k' of Some v \<Rightarrow> v | None \<Rightarrow> get (put k v s) k')"
    by (simp add: valid_put)
  with 2 show ?case by (simp add: get_put map_add_def split: option.split)
qed simp

lemma put_all_append: "put_all (xs @ ys) s = put_all ys (put_all xs s)"
  by (induction xs s rule: put_all.induct) auto

end

definition cache_put :: "u16 \<Rightarrow> u16 \<Rightarrow> u16 list \<Rightarrow> u16 list" where
  "cache_put register value xs = xs[unat register := value]"

definition cache_nth :: "u16 list \<Rightarrow> u16 \<Rightarrow> u16" where
  "cache_nth xs register = xs ! unat register"

definition in_cache :: "u16 \<Rightarrow> bool" where
  "in_cache register \<longleftrightarrow> unat register < REGISTER_COUNT"

interpretation cache: key_value "\<lambda>xs. length xs = REGISTER_COUNT" in_cache cache_nth cache_put
  by unfold_locales (auto simp: cache_put_def cache_nth_def in_cache_def nth_list_update word_unat_eq_iff)

section \<open>Runs of the cache\<close>

fun event_register :: "cache_event \<Rightarrow> u16 option" where
  "event_register (OnRead (ReadRegister r)) = Some r"
| "event_register (OnWrite (RegisterData r _)) = Some r"
| "event_register _ = None"

text \<open>The writes of a run, up to the shutdown of the setter, and whether either loop is shut down.\<close>

fun writes :: "cache_event list \<Rightarrow> (u16 \<times> u16) list" where
  "writes [] = []"
| "writes (OnWrite (RegisterData r v) # evs) = (r, v) # writes evs"
| "writes (ev # evs) = writes evs"

definition no_shutdown :: "cache_event list \<Rightarrow> bool" where
  "no_shutdown evs \<longleftrightarrow> OnRead CacheShutdown \<notin> set evs \<and> OnWrite CacheShutdown \<notin> set evs"

definition cache_live :: "register_cache \<Rightarrow> bool" where
  "cache_live s \<longleftrightarrow> length (rc_data s) = REGISTER_COUNT \<and> rc_getter s \<and> rc_setter s"

lemma cache_step_live:
  assumes "cache_live s" "ev \<noteq> OnRead CacheShutdown" "ev \<noteq> OnWrite CacheShutdown"
  shows "cache_step ev s =
     (case event_register ev of
        Some r \<Rightarrow> if in_cache r
          then Ok (s\<lparr> rc_data := cache.put_all (writes [ev]) (rc_data s),
                      rc_replies := rc_replies s @ (case ev of OnRead _ \<Rightarrow> [(r, cache_nth (rc_data s) r)] | _ \<Rightarrow> []) \<rparr>)
          else Panic
      | None \<Rightarrow> Ok s)"
proof (cases ev)
  case (OnRead m)
  with assms show ?thesis
    by (cases m) (auto simp: cache_live_def index_def in_cache_def cache_nth_def)
next
  case (OnWrite m)
  with assms show ?thesis
    by (cases m) (auto simp: cache_live_def in_cache_def cache_put_def)
qed

definition all_in_cache :: "cache_event list \<Rightarrow> bool" where
  "all_in_cache evs \<longleftrightarrow> (\<forall>ev \<in> set evs. \<forall>r. event_register ev = Some r \<longrightarrow> in_cache r)"

lemma writes_Cons: "writes (ev # evs) = writes [ev] @ writes evs"
  by (cases ev rule: event_register.cases) auto

lemma cache_step_on:
  assumes "cache_live s" "no_shutdown (ev # evs)" "all_in_cache (ev # evs)"
  shows "\<exists>s1. cache_step ev s = Ok s1 \<and> cache_live s1 \<and> rc_data s1 = cache.put_all (writes [ev]) (rc_data s)"
proof -
  have ok: "\<forall>k \<in> fst ` set (writes [ev]). in_cache k"
    using assms(3) by (cases ev rule: event_register.cases) (auto simp: all_in_cache_def)
  have none: "event_register ev = None \<Longrightarrow> writes [ev] = []"
    by (cases ev rule: event_register.cases) auto
  have "length (rc_data s) = REGISTER_COUNT" using assms(1) by (simp add: cache_live_def)
  then have "length (cache.put_all (writes [ev]) (rc_data s)) = REGISTER_COUNT"
    by (rule cache.valid_put_all[OF _ ok])
  then show ?thesis
    using cache_step_live[OF assms(1), of ev] assms none
    by (auto simp: no_shutdown_def all_in_cache_def cache_live_def split: option.splits)
qed

lemma cache_run_on:
  assumes "cache_live s" "no_shutdown evs" "all_in_cache evs"
  shows "\<exists>s'. cache_run evs s = Ok s' \<and> cache_live s' \<and> rc_data s' = cache.put_all (writes evs) (rc_data s)"
proof -
  let ?G = "\<lambda>es s1. cache_live s1 \<and> no_shutdown es \<and> all_in_cache es \<and>
    cache.put_all (writes es) (rc_data s1) = cache.put_all (writes evs) (rc_data s)"
  have "\<exists>s'. cache_run evs s = Ok s' \<and> ?G [] s'"
  proof (rule cache_task.goes_on)
    fix e es s1
    assume G: "?G (e # es) s1"
    with cache_step_on[of s1 e es] obtain s2 where s2: "cache_step e s1 = Ok s2" "cache_live s2"
      "rc_data s2 = cache.put_all (writes [e]) (rc_data s1)" by blast
    have "cache.put_all (writes es) (rc_data s2) = cache.put_all (writes evs) (rc_data s)"
      unfolding s2(3) using G by (simp add: writes_Cons[of e es] cache.put_all_append)
    with G s2 show "\<exists>s2. cache_step e s1 = Ok s2 \<and> ?G es s2" by (simp add: no_shutdown_def all_in_cache_def)
  qed (use assms in simp)
  then show ?thesis by (auto simp: cache.put_all.simps)
qed

lemma cache_run_live:
  assumes "cache_live s" "no_shutdown evs"
  shows "if all_in_cache evs
     then \<exists>s'. cache_run evs s = Ok s' \<and> cache_live s' \<and> rc_data s' = cache.put_all (writes evs) (rc_data s)
     else cache_run evs s = Panic"
proof (cases "all_in_cache evs")
  case False
  then have "\<exists>ev \<in> set evs. \<exists>r. event_register ev = Some r \<and> \<not> in_cache r" by (auto simp: all_in_cache_def)
  then obtain pre ev post r where evs: "evs = pre @ ev # post" and r: "event_register ev = Some r" "\<not> in_cache r"
      and pre: "\<forall>e \<in> set pre. \<not> (\<exists>r. event_register e = Some r \<and> \<not> in_cache r)"
    using split_list_first_prop[of evs "\<lambda>ev. \<exists>r. event_register ev = Some r \<and> \<not> in_cache r"] by blast
  obtain s1 where s1: "cache_run pre s = Ok s1" "cache_live s1"
    using cache_run_on[OF assms(1), of pre] pre assms(2) by (auto simp: evs no_shutdown_def all_in_cache_def)
  have "cache_step ev s1 = Panic"
    using cache_step_live[OF s1(2), of ev] r assms(2) by (auto simp: evs no_shutdown_def)
  then show ?thesis using cache_task.loop_append[OF s1(1), of "ev # post"] False by (simp add: evs)
qed (use cache_run_on[OF assms] in simp)

lemma register_cache_new_live [simp]: "cache_live register_cache_new"
  by (simp add: cache_live_def register_cache_new_def)

lemma cache_get_after:
  assumes "no_shutdown evs" "\<forall>ev \<in> set evs. \<forall>r. event_register ev = Some r \<longrightarrow> in_cache r" "in_cache register"
  shows "cache_get (cache_run evs register_cache_new) register =
    Ok (case map_of (rev (writes evs)) register of Some v \<Rightarrow> v | None \<Rightarrow> 0)"
proof -
  obtain s' where s': "cache_run evs register_cache_new = Ok s'" "cache_live s'"
    "rc_data s' = cache.put_all (writes evs) (rc_data register_cache_new)"
    using cache_run_live[OF register_cache_new_live assms(1)] assms(2) by (auto simp: all_in_cache_def)
  have keys: "\<forall>k \<in> fst ` set (writes evs). in_cache k"
    using assms(2) by (induction evs rule: writes.induct) auto
  have "cache_get (Ok s') register = Ok (cache_nth (rc_data s') register)"
    using s'(2) assms(3) by (simp add: cache_get_def cache_live_def in_cache_def cache_nth_def)
  also have "cache_nth (rc_data s') register =
      (case map_of (rev (writes evs)) register of Some v \<Rightarrow> v | None \<Rightarrow> cache_nth (rc_data register_cache_new) register)"
    unfolding s'(3) by (rule cache.get_put_all[OF _ keys assms(3)]) (simp add: register_cache_new_def)
  also have "cache_nth (rc_data register_cache_new) register = 0"
    using assms(3) by (simp add: register_cache_new_def cache_nth_def in_cache_def)
  finally show ?thesis using s'(1) by simp
qed

text \<open>
  As long as it is not shut down and every register is below 512, the cache gives for a register
  the last value that was stored for it, 0 when there is none, however the reads and writes of
  the two loops interleave.
\<close>

theorem cache_last_write:
  assumes "no_shutdown evs" "\<forall>ev \<in> set evs. \<forall>r. event_register ev = Some r \<longrightarrow> unat r < 512"
    "unat register < 512"
  shows "cache_get (cache_run evs register_cache_new) register =
    Ok (case map_of (rev (writes evs)) register of Some v \<Rightarrow> v | None \<Rightarrow> 0)"
  using cache_get_after[OF assms(1)] assms(2,3) by (simp add: in_cache_def REGISTER_COUNT_def)

theorem cache_last_write_witness:
  "cache_get (cache_run [OnWrite (RegisterData 21 7), OnRead (ReadRegister 20), OnWrite (RegisterData 21 9),
     OnWrite (RegisterData 511 1)] register_cache_new) 21 = Ok 9"
  by (subst cache_last_write) (auto simp: no_shutdown_def)

text \<open>
  C18: the task of the cache dies exactly when a message names a register of 512 or more, on either
  channel; after that every read panics.
\<close>

theorem cache_panics_iff:
  assumes "no_shutdown evs"
  shows "(cache_run evs register_cache_new = Panic \<longleftrightarrow>
      (\<exists>ev \<in> set evs. \<exists>r. event_register ev = Some r \<and> 512 \<le> unat r)) \<and>
    cache_get Panic register = Panic \<and> (\<forall>e. cache_run evs register_cache_new \<noteq> Err e)"
  using cache_run_live[OF register_cache_new_live assms]
  by (auto simp: cache_get_def all_in_cache_def in_cache_def REGISTER_COUNT_def not_less split: if_splits)

theorem cache_panics_iff_witness:
  "cache_run [OnWrite (RegisterData 3 7), OnWrite (RegisterData 512 1)] register_cache_new = Panic"
  using cache_panics_iff[of "[OnWrite (RegisterData 3 7), OnWrite (RegisterData 512 1)]"]
  by (auto simp: no_shutdown_def)

end
