(* ===== verification/Mqtt.thy ===== *)
theory Mqtt
  imports Channels
begin

text \<open>
  MQTT as the bridge speaks it: the messages it publishes for a reply of the inverter, the commands
  it reads from a topic and a payload (\<^verbatim>\<open>mqtt.rs\<close>), the commands themselves and their result topics
  (\<^verbatim>\<open>command.rs\<close>), and the inverters a message is meant for (\<^verbatim>\<open>config.rs\<close>). The broker connection
  is not modelled.
\<close>

section \<open>Commands\<close>

datatype command =
    CmdReadInputs config_inverter u16
  | CmdReadInput config_inverter u16 u16
  | CmdReadHold config_inverter u16 u16
  | CmdReadParam config_inverter u16
  | CmdReadAcChargeTime config_inverter u16
  | CmdReadAcFirstTime config_inverter u16
  | CmdReadChargePriorityTime config_inverter u16
  | CmdReadForcedDischargeTime config_inverter u16
  | CmdSetHold config_inverter u16 u16
  | CmdWriteParam config_inverter u16 u16
  | CmdSetAcChargeTime config_inverter u16 "u8 \<times> u8 \<times> u8 \<times> u8"
  | CmdSetAcFirstTime config_inverter u16 "u8 \<times> u8 \<times> u8 \<times> u8"
  | CmdSetChargePriorityTime config_inverter u16 "u8 \<times> u8 \<times> u8 \<times> u8"
  | CmdSetForcedDischargeTime config_inverter u16 "u8 \<times> u8 \<times> u8 \<times> u8"
  | CmdChargeRate config_inverter u16
  | CmdDischargeRate config_inverter u16
  | CmdAcCharge config_inverter bool
  | CmdChargePriority config_inverter bool
  | CmdForcedDischarge config_inverter bool
  | CmdAcChargeRate config_inverter u16
  | CmdAcChargeSocLimit config_inverter u16
  | CmdDischargeCutoffSocLimit config_inverter u16

definition datalog_or_default :: "config_inverter \<Rightarrow> string" where
  "datalog_or_default i = (case inv_datalog i of Some s \<Rightarrow> serial_display s | None \<Rightarrow> [])"

definition show_u16 :: "u16 \<Rightarrow> string" where
  "show_u16 n = show_nat (unat n)"

text \<open>The match of \<^verbatim>\<open>to_result_topic\<close>: the topic without \<^verbatim>\<open>result/\<close>.\<close>

fun result_rest :: "command \<Rightarrow> string" where
  "result_rest (CmdReadInputs i c) = datalog_or_default i @ ''/read/inputs/'' @ show_u16 c"
| "result_rest (CmdReadInput i register _) = datalog_or_default i @ ''/read/input/'' @ show_u16 register"
| "result_rest (CmdReadHold i register _) = datalog_or_default i @ ''/read/hold/'' @ show_u16 register"
| "result_rest (CmdReadParam i register) = datalog_or_default i @ ''/read/param/'' @ show_u16 register"
| "result_rest (CmdReadAcChargeTime i num) = datalog_or_default i @ ''/read/ac_charge/'' @ show_u16 num"
| "result_rest (CmdReadAcFirstTime i num) = datalog_or_default i @ ''/read/ac_first/'' @ show_u16 num"
| "result_rest (CmdReadChargePriorityTime i num) = datalog_or_default i @ ''/read/charge_priority/'' @ show_u16 num"
| "result_rest (CmdReadForcedDischargeTime i num) = datalog_or_default i @ ''/read/forced_discharge/'' @ show_u16 num"
| "result_rest (CmdSetHold i register _) = datalog_or_default i @ ''/set/hold/'' @ show_u16 register"
| "result_rest (CmdWriteParam i register _) = datalog_or_default i @ ''/set/param/'' @ show_u16 register"
| "result_rest (CmdSetAcChargeTime i num _) = datalog_or_default i @ ''/set/ac_charge/'' @ show_u16 num"
| "result_rest (CmdSetAcFirstTime i num _) = datalog_or_default i @ ''/set/ac_first/'' @ show_u16 num"
| "result_rest (CmdSetChargePriorityTime i num _) = datalog_or_default i @ ''/set/charge_priority/'' @ show_u16 num"
| "result_rest (CmdSetForcedDischargeTime i num _) = datalog_or_default i @ ''/set/forced_discharge/'' @ show_u16 num"
| "result_rest (CmdAcCharge i _) = datalog_or_default i @ ''/set/ac_charge''"
| "result_rest (CmdChargePriority i _) = datalog_or_default i @ ''/set/charge_priority''"
| "result_rest (CmdForcedDischarge i _) = datalog_or_default i @ ''/set/forced_discharge''"
| "result_rest (CmdChargeRate i _) = datalog_or_default i @ ''/set/charge_rate_pct''"
| "result_rest (CmdDischargeRate i _) = datalog_or_default i @ ''/set/discharge_rate_pct''"
| "result_rest (CmdAcChargeRate i _) = datalog_or_default i @ ''/set/ac_charge_rate_pct''"
| "result_rest (CmdAcChargeSocLimit i _) = datalog_or_default i @ ''/set/ac_charge_soc_limit_pct''"
| "result_rest (CmdDischargeCutoffSocLimit i _) = datalog_or_default i @ ''/set/discharge_cutoff_soc_limit_pct''"

definition to_result_topic :: "command \<Rightarrow> string" where
  "to_result_topic c = ''result/'' @ result_rest c"

section \<open>Messages for parameters and holding registers\<close>

definition mqtt_msg :: "string \<Rightarrow> bool \<Rightarrow> string \<Rightarrow> mqtt_message" where
  "mqtt_msg topic retain payload = \<lparr> msg_topic = topic, msg_retain = retain, msg_payload = payload \<rparr>"

definition for_param :: "json_lib \<Rightarrow> bool \<Rightarrow> read_param \<Rightarrow> mqtt_message list outcome" where
  "for_param J oc rp =
     obind (rp_pairs oc rp) (omap (\<lambda>(register, value).
       obind (js_u16 J value) (\<lambda>payload.
       Ok (mqtt_msg (serial_display (rp_datalog rp) @ ''/param/'' @ show_u16 register) True payload))))"

text \<open>The messages of one register: its value, and its bits for registers 21 and 110.\<close>

definition hold_messages :: "json_lib \<Rightarrow> serial \<Rightarrow> u16 \<Rightarrow> u16 \<Rightarrow> mqtt_message list outcome" where
  "hold_messages J datalog register value =
     (let topic = serial_display datalog @ ''/hold/'' @ show_u16 register
      in obind (js_u16 J value) (\<lambda>payload.
         obind (if register = 21
                then obind (js_bits21 J (register21_bits_new value)) (\<lambda>bits. Ok [mqtt_msg (topic @ ''/bits'') True bits])
                else Ok []) (\<lambda>m21.
         obind (if register = 110
                then obind (js_bits110 J (register110_bits_new value)) (\<lambda>bits. Ok [mqtt_msg (topic @ ''/bits'') True bits])
                else Ok []) (\<lambda>m110.
         Ok (mqtt_msg topic True payload # m21 @ m110)))))"

definition for_hold :: "json_lib \<Rightarrow> bool \<Rightarrow> translated_data \<Rightarrow> mqtt_message list outcome" where
  "for_hold J oc td =
     obind (td_pairs oc td) (\<lambda>pairs.
     obind (omap (\<lambda>(register, value). hold_messages J (td_datalog td) register value) pairs) (\<lambda>r.
     Ok (concat r)))"

definition for_input_all :: "json_lib \<Rightarrow> read_input_all \<Rightarrow> serial \<Rightarrow> mqtt_message outcome" where
  "for_input_all J inputs datalog =
     obind (js_input_all J inputs) (\<lambda>payload.
     Ok (mqtt_msg (serial_display datalog @ ''/inputs/all'') False payload))"

section \<open>Messages for input registers\<close>

text \<open>The variables of the loop over the registers.\<close>

record input_loop =
  il_messages :: "mqtt_message list"
  il_fault_code_registers_seen :: bool
  il_fault_code :: u32
  il_warning_code_registers_seen :: bool
  il_warning_code :: u32

definition input_loop_init :: input_loop where
  "input_loop_init = \<lparr> il_messages = [], il_fault_code_registers_seen = False, il_fault_code = 0,
     il_warning_code_registers_seen = False, il_warning_code = 0 \<rparr>"

definition code_update :: "u16 \<Rightarrow> u16 \<Rightarrow> input_loop \<Rightarrow> input_loop" where
  "code_update register value s =
     (if register = 60 then s\<lparr> il_fault_code := il_fault_code s OR ucast value, il_fault_code_registers_seen := True \<rparr>
      else if register = 61 then s\<lparr> il_fault_code := il_fault_code s OR push_bit 16 (ucast value),
                                   il_fault_code_registers_seen := True \<rparr>
      else if register = 62 then s\<lparr> il_warning_code := il_warning_code s OR ucast value,
                                   il_warning_code_registers_seen := True \<rparr>
      else if register = 63 then s\<lparr> il_warning_code := il_warning_code s OR push_bit 16 (ucast value),
                                   il_warning_code_registers_seen := True \<rparr>
      else s)"

fun input_loop_run :: "json_lib \<Rightarrow> serial \<Rightarrow> (u16 \<times> u16) list \<Rightarrow> input_loop \<Rightarrow> input_loop outcome" where
  "input_loop_run J datalog [] s = Ok s"
| "input_loop_run J datalog ((register, value) # pairs) s =
     (let topic = serial_display datalog @ ''/input/'' @ show_u16 register
      in obind (js_u16 J value) (\<lambda>payload.
         input_loop_run J datalog pairs
           (code_update register value
             (s\<lparr> il_messages := il_messages s @ mqtt_msg topic False payload #
                   (if register = 0 then [mqtt_msg (topic @ ''/parsed'') False (status_string value)] else []) \<rparr>))))"

definition individual_messages :: "json_lib \<Rightarrow> bool \<Rightarrow> translated_data \<Rightarrow> mqtt_message list outcome" where
  "individual_messages J oc td =
     obind (td_pairs oc td) (\<lambda>pairs.
     obind (input_loop_run J (td_datalog td) pairs input_loop_init) (\<lambda>s.
     obind (if il_warning_code_registers_seen s
            then obind (warning_code_string (il_warning_code s)) (\<lambda>t.
              Ok [mqtt_msg (serial_display (td_datalog td) @ ''/input/warning_code/parsed'') False t])
            else Ok []) (\<lambda>warning.
     obind (if il_fault_code_registers_seen s
            then obind (fault_code_string (il_fault_code s)) (\<lambda>t.
              Ok [mqtt_msg (serial_display (td_datalog td) @ ''/input/fault_code/parsed'') False t])
            else Ok []) (\<lambda>fault.
     Ok (il_messages s @ warning @ fault)))))"

definition bat_brand_str :: "u8 \<Rightarrow> string" where
  "bat_brand_str b =
     (if b = 0 then ''Unknown/Not configured'' else if b = 1 then ''Pylon'' else if b = 2 then ''Dyness'' else ''Unknown'')"

definition bat_com_type_str :: "u8 \<Rightarrow> string" where
  "bat_com_type_str b =
     (if b = 0 then ''Unknown/Not configured'' else if b = 1 then ''RS485'' else if b = 2 then ''CAN'' else ''Unknown'')"

text \<open>The topic of a block, and the messages that follow its JSON.\<close>

fun block_topic :: "read_input \<Rightarrow> string" where
  "block_topic (ReadInputAll _) = ''/inputs/all''"
| "block_topic (ReadInput1 _) = ''/inputs/1''"
| "block_topic (ReadInput2 _) = ''/inputs/2''"
| "block_topic (ReadInput3 _) = ''/inputs/3''"
| "block_topic (ReadInput4 _) = ''/inputs/4''"
| "block_topic (ReadInput5 _) = ''/inputs/5''"
| "block_topic (ReadInput6 _) = ''/inputs/6''"

fun block_extras :: "string \<Rightarrow> read_input \<Rightarrow> mqtt_message list" where
  "block_extras d (ReadInput2 r2) =
     [mqtt_msg (d @ ''/inputs/2/bat_brand_decoded'') False (bat_brand_str (r2_bat_brand r2)),
      mqtt_msg (d @ ''/inputs/2/bat_com_type_decoded'') False (bat_com_type_str (r2_bat_com_type r2))]"
| "block_extras d (ReadInput3 r3) =
     [mqtt_msg (d @ ''/inputs/3/bat_status_9_decoded'') False (join '', '' (decode_status_9 (r3_bat_status_9 r3))),
      mqtt_msg (d @ ''/inputs/3/bat_status_inv_decoded'') False (join '', '' (decode_status_inv (r3_bat_status_inv r3)))]"
| "block_extras d _ = []"

definition for_input_with_parsed ::
    "json_lib \<Rightarrow> bool \<Rightarrow> translated_data \<Rightarrow> bool \<Rightarrow> read_input option \<Rightarrow> mqtt_message list outcome" where
  "for_input_with_parsed J oc td publish_individual parsed_input =
     obind (if publish_individual then individual_messages J oc td else Ok []) (\<lambda>r.
     case parsed_input of
       None \<Rightarrow> Ok r
     | Some i \<Rightarrow>
         obind (js_input J i) (\<lambda>payload.
         Ok (r @ mqtt_msg (serial_display (td_datalog td) @ block_topic i) False payload #
               block_extras (serial_display (td_datalog td)) i)))"

definition for_input ::
    "json_lib \<Rightarrow> nom_lib \<Rightarrow> bool \<Rightarrow> unix_time \<Rightarrow> translated_data \<Rightarrow> bool \<Rightarrow> mqtt_message list outcome" where
  "for_input J N oc now td publish_individual =
     (case td_read_input N oc now td of
        Ok parsed \<Rightarrow> for_input_with_parsed J oc td publish_individual (Some parsed)
      | Err e \<Rightarrow> for_input_with_parsed J oc td publish_individual None
      | Panic \<Rightarrow> Panic)"

section \<open>Reading a command\<close>

datatype target_inverter = TargetSerial serial | TargetAll

text \<open>\<^verbatim>\<open>cmd/AB12345678/set/ac_charge\<close> is the target \<open>AB12345678\<close> and the parts \<open>set\<close>, \<open>ac_charge\<close>.\<close>

definition split_cmd_topic :: "mqtt_message \<Rightarrow> (target_inverter \<times> string list) outcome" where
  "split_cmd_topic m =
     (let parts = split_on (CHR ''/'') (msg_topic m)
      in if length parts < 2 then Err ''ignoring badly formed MQTT topic: {}''
         else let datalog = parts ! 1; rest = drop 2 parts
              in if datalog = ''all'' then Ok (TargetAll, rest)
                 else obind (serial_from_str datalog) (\<lambda>s. Ok (TargetSerial s, rest)))"

definition payload_start_end_time :: "json_lib \<Rightarrow> mqtt_message \<Rightarrow> (u8 \<times> u8 \<times> u8 \<times> u8) outcome" where
  "payload_start_end_time J m =
     obind (js_read_times J (msg_payload m)) (\<lambda>(start, stop).
     let s = split_on (CHR '':'') start; e = split_on (CHR '':'') stop
     in if length s \<noteq> 2 \<or> length e \<noteq> 2 then Err ''badly formatted time, use HH:MM''
        else obind (parse_uint (s ! 0)) (\<lambda>a. obind (parse_uint (s ! 1)) (\<lambda>b.
             obind (parse_uint (e ! 0)) (\<lambda>c. obind (parse_uint (e ! 1)) (\<lambda>d. Ok (a, b, c, d))))))"

definition payload_int :: "mqtt_message \<Rightarrow> u16 outcome" where
  "payload_int m =
     (case parse_uint (msg_payload m) of Err _ \<Rightarrow> Err ''payload_int: {}'' | x \<Rightarrow> x)"

definition payload_int_or_1 :: "mqtt_message \<Rightarrow> u16 outcome" where
  "payload_int_or_1 m = (case payload_int m of Err _ \<Rightarrow> Ok 1 | x \<Rightarrow> x)"

definition payload_bool :: "mqtt_message \<Rightarrow> bool" where
  "payload_bool m =
     (to_ascii_lowercase (msg_payload m) \<in> {''1'', ''t'', ''true'', ''on'', ''y'', ''yes''})"

text \<open>The arms of \<^verbatim>\<open>to_command\<close>: three parts of a read, two parts and three parts of a set.\<close>

definition read_command :: "config_inverter \<Rightarrow> mqtt_message \<Rightarrow> string \<Rightarrow> string \<Rightarrow> command outcome" where
  "read_command i m what arg =
     (if what = ''inputs'' then
        (if arg = ''1'' then Ok (CmdReadInputs i 1) else if arg = ''2'' then Ok (CmdReadInputs i 2)
         else if arg = ''3'' then Ok (CmdReadInputs i 3) else if arg = ''4'' then Ok (CmdReadInputs i 4)
         else if arg = ''5'' then Ok (CmdReadInputs i 5) else if arg = ''6'' then Ok (CmdReadInputs i 6)
         else Err ''unhandled: {:?}'')
      else if what = ''input'' then
        obind (parse_uint arg) (\<lambda>r. obind (payload_int_or_1 m) (\<lambda>c. Ok (CmdReadInput i r c)))
      else if what = ''hold'' then
        obind (parse_uint arg) (\<lambda>r. obind (payload_int_or_1 m) (\<lambda>c. Ok (CmdReadHold i r c)))
      else if what = ''param'' then obind (parse_uint arg) (\<lambda>r. Ok (CmdReadParam i r))
      else if what = ''ac_charge'' then obind (parse_uint arg) (\<lambda>n. Ok (CmdReadAcChargeTime i n))
      else if what = ''ac_first'' then obind (parse_uint arg) (\<lambda>n. Ok (CmdReadAcFirstTime i n))
      else if what = ''charge_priority'' then obind (parse_uint arg) (\<lambda>n. Ok (CmdReadChargePriorityTime i n))
      else if what = ''forced_discharge'' then obind (parse_uint arg) (\<lambda>n. Ok (CmdReadForcedDischargeTime i n))
      else Err ''unhandled: {:?}'')"

definition set_command :: "config_inverter \<Rightarrow> mqtt_message \<Rightarrow> string \<Rightarrow> command outcome" where
  "set_command i m what =
     (if what = ''ac_charge'' then Ok (CmdAcCharge i (payload_bool m))
      else if what = ''charge_priority'' then Ok (CmdChargePriority i (payload_bool m))
      else if what = ''forced_discharge'' then Ok (CmdForcedDischarge i (payload_bool m))
      else if what = ''charge_rate_pct'' then obind (payload_int m) (\<lambda>v. Ok (CmdChargeRate i v))
      else if what = ''discharge_rate_pct'' then obind (payload_int m) (\<lambda>v. Ok (CmdDischargeRate i v))
      else if what = ''ac_charge_rate_pct'' then obind (payload_int m) (\<lambda>v. Ok (CmdAcChargeRate i v))
      else if what = ''ac_charge_soc_limit_pct'' then obind (payload_int m) (\<lambda>v. Ok (CmdAcChargeSocLimit i v))
      else if what = ''discharge_cutoff_soc_limit_pct'' then
        obind (payload_int m) (\<lambda>v. Ok (CmdDischargeCutoffSocLimit i v))
      else Err ''unhandled: {:?}'')"

definition set_command_arg ::
    "json_lib \<Rightarrow> config_inverter \<Rightarrow> mqtt_message \<Rightarrow> string \<Rightarrow> string \<Rightarrow> command outcome" where
  "set_command_arg J i m what arg =
     (if what = ''hold'' then obind (parse_uint arg) (\<lambda>r. obind (payload_int m) (\<lambda>v. Ok (CmdSetHold i r v)))
      else if what = ''param'' then obind (parse_uint arg) (\<lambda>r. obind (payload_int m) (\<lambda>v. Ok (CmdWriteParam i r v)))
      else if what = ''ac_charge'' then
        obind (parse_uint arg) (\<lambda>n. obind (payload_start_end_time J m) (\<lambda>v. Ok (CmdSetAcChargeTime i n v)))
      else if what = ''ac_first'' then
        obind (parse_uint arg) (\<lambda>n. obind (payload_start_end_time J m) (\<lambda>v. Ok (CmdSetAcFirstTime i n v)))
      else if what = ''charge_priority'' then
        obind (parse_uint arg) (\<lambda>n. obind (payload_start_end_time J m) (\<lambda>v. Ok (CmdSetChargePriorityTime i n v)))
      else if what = ''forced_discharge'' then
        obind (parse_uint arg) (\<lambda>n. obind (payload_start_end_time J m) (\<lambda>v. Ok (CmdSetForcedDischargeTime i n v)))
      else Err ''unhandled: {:?}'')"

definition to_command :: "json_lib \<Rightarrow> mqtt_message \<Rightarrow> config_inverter \<Rightarrow> command outcome" where
  "to_command J m i =
     obind (split_cmd_topic m) (\<lambda>(_, parts).
     case parts of
       [verb, what] \<Rightarrow> if verb = ''set'' then set_command i m what else Err ''unhandled: {:?}''
     | [verb, what, arg] \<Rightarrow>
         if verb = ''read'' then read_command i m what arg
         else if verb = ''set'' then set_command_arg J i m what arg
         else Err ''unhandled: {:?}''
     | _ \<Rightarrow> Err ''unhandled: {:?}'')"

definition inverters_for_message :: "config \<Rightarrow> mqtt_message \<Rightarrow> config_inverter list outcome" where
  "inverters_for_message c m =
     obind (split_cmd_topic m) (\<lambda>(target, _).
     let inverters = enabled_inverters c
     in case target of
          TargetAll \<Rightarrow> Ok inverters
        | TargetSerial datalog \<Rightarrow> Ok (filter (\<lambda>i. inv_datalog i = Some datalog) inverters))"

section \<open>Between the broker and the coordinator\<close>

text \<open>
  \<^verbatim>\<open>&topic[n..]\<close> panics past the end and inside a character; \<^verbatim>\<open>String::from_utf8\<close> accepts the
  bytes that the lossy conversion leaves as they are.
\<close>

definition str_slice_from :: "string \<Rightarrow> nat \<Rightarrow> string outcome" where
  "str_slice_from s n =
     (if n < length s \<and> cont (word_of_nat (of_char (s ! n))) then Panic
      else if n \<le> length s then Ok (drop n s) else Panic)"

definition from_utf8 :: "bytes \<Rightarrow> string outcome" where
  "from_utf8 bs = (if utf8_lossy bs = bs then Ok (str_of_bytes bs) else Err ''FromUtf8Error'')"

definition handle_message :: "config \<Rightarrow> string \<Rightarrow> bool \<Rightarrow> bytes \<Rightarrow> world \<Rightarrow> unit run" where
  "handle_message c topic retain payload w =
     rbind (lift (str_slice_from topic (length (mq_namespace (cfg_mqtt c)) + 1)) w) (\<lambda>t w.
     rbind (lift (from_utf8 payload) w) (\<lambda>p.
       send (FromMqtt (mqtt_msg t retain p)) ''send(from_mqtt) failed - channel closed?''))"

text \<open>The topic under which the sender publishes, and that of the last will.\<close>

definition published_topic :: "config \<Rightarrow> mqtt_message \<Rightarrow> string" where
  "published_topic c m = mq_namespace (cfg_mqtt c) @ ''/'' @ msg_topic m"

definition lwt_topic :: "config \<Rightarrow> string" where
  "lwt_topic c = mq_namespace (cfg_mqtt c) @ ''/LWT''"

end
