(* ===== verification/Mqtt_Facts.thy ===== *)
theory Mqtt_Facts
  imports Mqtt Packet_Facts
begin

text \<open>
  What the MQTT side guarantees: every command can be sent as a message and its result topic is the
  topic of that message with \<^verbatim>\<open>result\<close> for \<^verbatim>\<open>cmd\<close>; a read topic never makes a write command; the
  messages of a reply list its registers; a published topic comes back as it was.
\<close>

section \<open>Commands and topics\<close>

fun command_inverter :: "command \<Rightarrow> config_inverter" where
  "command_inverter (CmdReadInputs i _) = i"
| "command_inverter (CmdReadInput i _ _) = i"
| "command_inverter (CmdReadHold i _ _) = i"
| "command_inverter (CmdReadParam i _) = i"
| "command_inverter (CmdReadAcChargeTime i _) = i"
| "command_inverter (CmdReadAcFirstTime i _) = i"
| "command_inverter (CmdReadChargePriorityTime i _) = i"
| "command_inverter (CmdReadForcedDischargeTime i _) = i"
| "command_inverter (CmdSetHold i _ _) = i"
| "command_inverter (CmdWriteParam i _ _) = i"
| "command_inverter (CmdSetAcChargeTime i _ _) = i"
| "command_inverter (CmdSetAcFirstTime i _ _) = i"
| "command_inverter (CmdSetChargePriorityTime i _ _) = i"
| "command_inverter (CmdSetForcedDischargeTime i _ _) = i"
| "command_inverter (CmdChargeRate i _) = i"
| "command_inverter (CmdDischargeRate i _) = i"
| "command_inverter (CmdAcCharge i _) = i"
| "command_inverter (CmdChargePriority i _) = i"
| "command_inverter (CmdForcedDischarge i _) = i"
| "command_inverter (CmdAcChargeRate i _) = i"
| "command_inverter (CmdAcChargeSocLimit i _) = i"
| "command_inverter (CmdDischargeCutoffSocLimit i _) = i"

fun is_read_command :: "command \<Rightarrow> bool" where
  "is_read_command (CmdReadInputs _ _) = True"
| "is_read_command (CmdReadInput _ _ _) = True"
| "is_read_command (CmdReadHold _ _ _) = True"
| "is_read_command (CmdReadParam _ _) = True"
| "is_read_command (CmdReadAcChargeTime _ _) = True"
| "is_read_command (CmdReadAcFirstTime _ _) = True"
| "is_read_command (CmdReadChargePriorityTime _ _) = True"
| "is_read_command (CmdReadForcedDischargeTime _ _) = True"
| "is_read_command _ = False"

text \<open>
  The payload a client sends with a command. \<open>times\<close> prints the JSON object of a start and an end
  time.
\<close>

definition window_times :: "u8 \<times> u8 \<times> u8 \<times> u8 \<Rightarrow> string \<times> string" where
  "window_times v = (case v of (a, b, c, d) \<Rightarrow>
     (show_nat (unat a) @ '':'' @ show_nat (unat b), show_nat (unat c) @ '':'' @ show_nat (unat d)))"

fun client_payload :: "(string \<times> string \<Rightarrow> string) \<Rightarrow> command \<Rightarrow> string" where
  "client_payload print (CmdReadInput _ _ n) = show_u16 n"
| "client_payload print (CmdReadHold _ _ n) = show_u16 n"
| "client_payload print (CmdSetHold _ _ v) = show_u16 v"
| "client_payload print (CmdWriteParam _ _ v) = show_u16 v"
| "client_payload print (CmdSetAcChargeTime _ _ v) = print (window_times v)"
| "client_payload print (CmdSetAcFirstTime _ _ v) = print (window_times v)"
| "client_payload print (CmdSetChargePriorityTime _ _ v) = print (window_times v)"
| "client_payload print (CmdSetForcedDischargeTime _ _ v) = print (window_times v)"
| "client_payload print (CmdChargeRate _ v) = show_u16 v"
| "client_payload print (CmdDischargeRate _ v) = show_u16 v"
| "client_payload print (CmdAcChargeRate _ v) = show_u16 v"
| "client_payload print (CmdAcChargeSocLimit _ v) = show_u16 v"
| "client_payload print (CmdDischargeCutoffSocLimit _ v) = show_u16 v"
| "client_payload print (CmdAcCharge _ b) = (if b then ''ON'' else ''OFF'')"
| "client_payload print (CmdChargePriority _ b) = (if b then ''ON'' else ''OFF'')"
| "client_payload print (CmdForcedDischarge _ b) = (if b then ''ON'' else ''OFF'')"
| "client_payload print _ = []"

text \<open>The blocks that \<^verbatim>\<open>read/inputs\<close> knows.\<close>

fun issuable :: "command \<Rightarrow> bool" where
  "issuable (CmdReadInputs _ n) = (1 \<le> n \<and> n \<le> 6)"
| "issuable _ = True"

text \<open>A serial number of printable ASCII without a slash.\<close>

definition topic_serial :: "serial \<Rightarrow> bool" where
  "topic_serial s \<longleftrightarrow> serial_wf s \<and> (\<forall>b \<in> set (serial_data s). b < 0x80 \<and> b \<noteq> 0x2F)"

lemma topic_serial_display:
  assumes "topic_serial s"
  shows "length (serial_display s) = 10" "CHR ''/'' \<notin> set (serial_display s)"
    "serial_from_str (serial_display s) = Ok s"
proof -
  have u: "utf8_lossy (serial_data s) = serial_data s"
    using assms by (intro utf8_lossy_ascii) (auto simp: topic_serial_def)
  then show len: "length (serial_display s) = 10"
    using assms by (simp add: serial_display_def topic_serial_def)
  show "serial_from_str (serial_display s) = Ok s"
    using len u by (cases s) (simp add: serial_from_str_def serial_display_def)
  have "char_of (unat b) \<noteq> CHR ''/''" if "b \<in> set (serial_data s)" for b
  proof
    assume "char_of (unat b) = CHR ''/''"
    then have "(of_char (char_of (unat b)) :: nat) = of_char (CHR ''/'')" by (rule arg_cong)
    then have "unat b = 47" using unsigned_less[of b, where ?'a = nat] by simp
    then have "b = 0x2F" by (simp add: word_unat_eq_iff)
    with that assms show False by (auto simp: topic_serial_def)
  qed
  then show "CHR ''/'' \<notin> set (serial_display s)"
    unfolding serial_display_def u str_of_bytes_def set_map by (metis imageE)
qed

text \<open>The parts of a command topic after the data logger.\<close>

fun command_parts :: "command \<Rightarrow> string list" where
  "command_parts (CmdReadInputs i c) = [''read'', ''inputs'', show_u16 c]"
| "command_parts (CmdReadInput i r _) = [''read'', ''input'', show_u16 r]"
| "command_parts (CmdReadHold i r _) = [''read'', ''hold'', show_u16 r]"
| "command_parts (CmdReadParam i r) = [''read'', ''param'', show_u16 r]"
| "command_parts (CmdReadAcChargeTime i n) = [''read'', ''ac_charge'', show_u16 n]"
| "command_parts (CmdReadAcFirstTime i n) = [''read'', ''ac_first'', show_u16 n]"
| "command_parts (CmdReadChargePriorityTime i n) = [''read'', ''charge_priority'', show_u16 n]"
| "command_parts (CmdReadForcedDischargeTime i n) = [''read'', ''forced_discharge'', show_u16 n]"
| "command_parts (CmdSetHold i r _) = [''set'', ''hold'', show_u16 r]"
| "command_parts (CmdWriteParam i r _) = [''set'', ''param'', show_u16 r]"
| "command_parts (CmdSetAcChargeTime i n _) = [''set'', ''ac_charge'', show_u16 n]"
| "command_parts (CmdSetAcFirstTime i n _) = [''set'', ''ac_first'', show_u16 n]"
| "command_parts (CmdSetChargePriorityTime i n _) = [''set'', ''charge_priority'', show_u16 n]"
| "command_parts (CmdSetForcedDischargeTime i n _) = [''set'', ''forced_discharge'', show_u16 n]"
| "command_parts (CmdAcCharge i _) = [''set'', ''ac_charge'']"
| "command_parts (CmdChargePriority i _) = [''set'', ''charge_priority'']"
| "command_parts (CmdForcedDischarge i _) = [''set'', ''forced_discharge'']"
| "command_parts (CmdChargeRate i _) = [''set'', ''charge_rate_pct'']"
| "command_parts (CmdDischargeRate i _) = [''set'', ''discharge_rate_pct'']"
| "command_parts (CmdAcChargeRate i _) = [''set'', ''ac_charge_rate_pct'']"
| "command_parts (CmdAcChargeSocLimit i _) = [''set'', ''ac_charge_soc_limit_pct'']"
| "command_parts (CmdDischargeCutoffSocLimit i _) = [''set'', ''discharge_cutoff_soc_limit_pct'']"

lemma slash_notin_show_u16 [simp]: "CHR ''/'' \<notin> set (show_u16 n)"
  by (simp add: show_u16_def)

lemma command_parts_topic:
  "result_rest c = datalog_or_default (command_inverter c) @ CHR ''/'' # join ''/'' (command_parts c)"
  by (cases c) simp_all

lemma command_parts_no_slash: "x \<in> set (command_parts c) \<Longrightarrow> CHR ''/'' \<notin> set x" "command_parts c \<noteq> []"
  by (cases c; auto)+

lemma split_cmd_parts:
  assumes "topic_serial d" "msg_topic m = ''cmd/'' @ serial_display d @ rest"
    "split_on (CHR ''/'') (msg_topic m) = ''cmd'' # serial_display d # parts"
  shows "split_cmd_topic m = Ok (TargetSerial d, parts)"
proof -
  have "serial_display d \<noteq> ''all''" using topic_serial_display(1)[OF assms(1)] by auto
  then show ?thesis
    using assms topic_serial_display(3)[OF assms(1)] by (simp add: split_cmd_topic_def Let_def)
qed

lemma parse_show_u16 [simp]: "parse_uint (show_u16 n) = Ok n"
  by (simp add: show_u16_def parse_uint_show_nat)

lemma payload_int_show [simp]: "msg_payload m = show_u16 n \<Longrightarrow> payload_int m = Ok n"
  by (simp add: payload_int_def)

lemma payload_int_or_1_show [simp]: "msg_payload m = show_u16 n \<Longrightarrow> payload_int_or_1 m = Ok n"
  by (simp add: payload_int_or_1_def)

lemma payload_bool_show [simp]: "msg_payload m = (if b then ''ON'' else ''OFF'') \<Longrightarrow> payload_bool m = b"
  by (auto simp: payload_bool_def to_ascii_lowercase_def ascii_lower_def Let_def char_of_def bit_0)

lemma colon_notin_show_nat: "CHR '':'' \<notin> set (show_nat n)"
  by (rule show_nat_no_char) (simp add: char_digit_def)

lemma split_time: "split_on (CHR '':'') (show_nat a @ '':'' @ show_nat b) = [show_nat a, show_nat b]"
  using split_on_append[OF colon_notin_show_nat, of a "show_nat b"] split_on_no_sep[OF colon_notin_show_nat, of b]
  by simp

lemma payload_times:
  assumes "\<And>t. js_read_times J (print t) = Ok t" "msg_payload m = print (window_times v)"
  shows "payload_start_end_time J m = Ok v"
  using assms by (cases v)
    (simp add: payload_start_end_time_def window_times_def split_time[simplified] parse_uint_show_nat Let_def)

lemma show_u16_small: "show_u16 1 = ''1''" "show_u16 2 = ''2''" "show_u16 3 = ''3''" "show_u16 4 = ''4''"
  "show_u16 5 = ''5''" "show_u16 6 = ''6''"
  by (simp_all add: show_u16_def show_nat_def show_radix.simps digit_char_def char_of_def bit_0)

lemma u16_up_to_6: "1 \<le> (n::u16) \<Longrightarrow> n \<le> 6 \<Longrightarrow> n \<in> {1, 2, 3, 4, 5, 6}"
proof -
  assume "1 \<le> n" "n \<le> 6"
  then have "1 \<le> unat n" "unat n \<le> 6" by (simp_all add: word_le_nat_alt)
  then have "unat n \<in> {1, 2, 3, 4, 5, 6}" by auto
  then show ?thesis by (auto simp: word_unat_eq_iff)
qed

text \<open>
  C19: every command can be issued over MQTT. Its result topic, with \<^verbatim>\<open>cmd\<close> for \<^verbatim>\<open>result\<close>, is a command
  topic that is read back as the same command for the same inverter, and only the enabled inverters
  with that data logger are addressed.
\<close>

theorem command_round_trip:
  assumes "inv_datalog (command_inverter c) = Some d" "topic_serial d" "issuable c"
    "\<forall>t. js_read_times J (print t) = Ok t"
    "m = mqtt_msg (''cmd/'' @ drop 7 (to_result_topic c)) retain (client_payload print c)"
  shows "to_command J m (command_inverter c) = Ok c \<and>
    inverters_for_message cfg m = Ok (filter (\<lambda>i. inv_datalog i = Some d) (enabled_inverters cfg))"
proof -
  have t: "topic_serial d" by fact
  have dd: "datalog_or_default (command_inverter c) = serial_display d" using assms(1) by (simp add: datalog_or_default_def)
  have topic: "msg_topic m = ''cmd/'' @ result_rest c" and payload: "msg_payload m = client_payload print c"
    using assms(5) by (simp_all add: mqtt_msg_def to_result_topic_def)
  have ns: "CHR ''/'' \<notin> set (serial_display d)" using topic_serial_display(2)[OF t] .
  have times: "msg_payload m = print (window_times v) \<Longrightarrow> payload_start_end_time J m = Ok v" for v
    using payload_times[of J "print"] assms(4) by blast
  have "msg_topic m = join [CHR ''/''] (''cmd'' # serial_display d # command_parts c)"
    unfolding topic command_parts_topic dd using command_parts_no_slash(2)[of c] by (cases "command_parts c") simp_all
  then have "split_on (CHR ''/'') (msg_topic m) = ''cmd'' # serial_display d # command_parts c"
    by (simp only:) (rule split_on_join, auto simp: ns dest: command_parts_no_slash(1))
  from split_cmd_parts[OF t _ this] topic dd
  have split: "split_cmd_topic m = Ok (TargetSerial d, command_parts c)"
    by (auto simp: command_parts_topic)
  have "to_command J m (command_inverter c) = Ok c"
  proof (cases c)
    case (CmdReadInputs i n)
    then have "n \<in> {1, 2, 3, 4, 5, 6}" using assms(3) u16_up_to_6 by simp
    with CmdReadInputs split show ?thesis
      by (auto simp: to_command_def read_command_def show_u16_small)
  qed (use split payload times in
      \<open>simp_all add: to_command_def read_command_def set_command_def set_command_arg_def\<close>)
  with split show ?thesis by (simp add: inverters_for_message_def Let_def)
qed

text \<open>
  A serialiser for evaluating the model. Two texts are written one after the other, after the length
  of the first in unary.
\<close>

definition print_two :: "string \<times> string \<Rightarrow> string" where
  "print_two t = replicate (length (fst t)) (CHR ''a'') @ CHR ''b'' # fst t @ snd t"

definition read_two :: "string \<Rightarrow> string \<times> string" where
  "read_two s = (let n = length (takeWhile (\<lambda>c. c = CHR ''a'') s); r = drop (Suc n) s in (take n r, drop n r))"

lemma read_print_two: "read_two (print_two t) = t"
proof -
  have "takeWhile (\<lambda>c. c = CHR ''a'') (replicate n (CHR ''a'') @ CHR ''b'' # r) = replicate n (CHR ''a'')" for n r
    by (induction n) auto
  then show ?thesis by (cases t) (simp add: read_two_def print_two_def Let_def)
qed

definition example_json :: json_lib where
  "example_json = \<lparr> js_u16 = (\<lambda>v. Ok (show_u16 v)), js_bits21 = (\<lambda>_. Ok ''bits21''),
     js_bits110 = (\<lambda>_. Ok ''bits110''), js_time = (\<lambda>t. Ok (print_two t)), js_input = (\<lambda>_. Ok ''block''),
     js_input_all = (\<lambda>_. Ok ''all''), js_read_times = (\<lambda>s. Ok (read_two s)) \<rparr>"

definition ascii_inverter :: config_inverter where
  "ascii_inverter = \<lparr> inv_enabled = True, inv_host = ''h'', inv_port = 8000,
     inv_serial = Some serial_default, inv_datalog = Some (Serial (replicate 10 65)), inv_heartbeats = None,
     inv_publish_holdings_on_connect = None, inv_read_timeout = None, inv_use_tcp_nodelay = None,
     inv_register_block_size = None, inv_delay_ms = None, inv_read_only = None,
     inv_register_read_interval = None \<rparr>"

theorem command_round_trip_witness:
  "let m = mqtt_msg (''cmd/'' @ drop 7 (to_result_topic (CmdSetAcChargeTime ascii_inverter 2 (1, 30, 5, 0)))) False
         (print_two (window_times (1, 30, 5, 0)))
   in to_command example_json m ascii_inverter = Ok (CmdSetAcChargeTime ascii_inverter 2 (1, 30, 5, 0))"
  using command_round_trip[of "CmdSetAcChargeTime ascii_inverter 2 (1, 30, 5, 0)" "Serial (replicate 10 65)"
      example_json print_two _ False]
  by (simp add: Let_def ascii_inverter_def topic_serial_def example_json_def read_print_two)

text \<open>
  A command that is read from a message is for the inverter it was read for, and a message under
  \<^verbatim>\<open>read\<close> never becomes a command that writes, nor one under \<^verbatim>\<open>set\<close> a command that reads.
\<close>

theorem topics_separate_reads_and_writes:
  assumes "to_command J m i = Ok c"
  shows "command_inverter c = i \<and>
    (\<exists>target verb rest. split_cmd_topic m = Ok (target, verb # rest) \<and>
       verb = (if is_read_command c then ''read'' else ''set''))"
proof -
  from assms obtain target parts where split: "split_cmd_topic m = Ok (target, parts)"
    by (auto simp: to_command_def obind_eq_Ok)
  consider verb what where "parts = [verb, what]" | verb what arg where "parts = [verb, what, arg]"
    using assms split by (auto simp: to_command_def split: list.splits)
  then show ?thesis
  proof cases
    case 1
    with assms split show ?thesis
      by (auto simp: to_command_def set_command_def obind_eq_Ok split: if_splits)
  next
    case 2
    with assms split show ?thesis
      by (auto simp: to_command_def read_command_def set_command_arg_def obind_eq_Ok split: if_splits)
  qed
qed

theorem topics_separate_reads_and_writes_witness:
  "\<exists>c. to_command example_json (mqtt_msg ''cmd/all/read/param/9'' False []) ascii_inverter = Ok c \<and>
     is_read_command c"
proof -
  have "to_command example_json (mqtt_msg ''cmd/all/read/param/9'' False []) ascii_inverter
      = Ok (CmdReadParam ascii_inverter 9)"
    by (simp add: to_command_def split_cmd_topic_def mqtt_msg_def read_command_def parse_uint_def parse_radix_def
        char_digit_def Let_def)
  from topics_separate_reads_and_writes[OF this] this show ?thesis by auto
qed

section \<open>The messages of a reply\<close>

text \<open>
  The messages for a holding-register reply are, register by register, the retained value and,
  for registers 21 and 110, the retained bits.
\<close>

theorem for_hold_messages:
  assumes "even (length (td_values td))" "unat (td_register td) + length (td_values td) div 2 \<le> 2 ^ 16"
    "\<forall>v. js_u16 J v = Ok (jv v)" "\<forall>b. js_bits21 J b = Ok (j21 b)" "\<forall>b. js_bits110 J b = Ok (j110 b)"
  shows "for_hold J oc td = Ok (concat (map (\<lambda>i.
     let r = td_register td + word_of_nat i; v = word_at (td_values td) (2 * i);
         topic = serial_display (td_datalog td) @ ''/hold/'' @ show_u16 r
     in mqtt_msg topic True (jv v) #
        (if r = 21 then [mqtt_msg (topic @ ''/bits'') True (j21 (register21_bits_new v))]
         else if r = 110 then [mqtt_msg (topic @ ''/bits'') True (j110 (register110_bits_new v))] else []))
     [0..<length (td_values td) div 2]))"
proof -
  have "td_pairs oc td = Ok (register_pairs (td_register td) (td_values td))"
    using assms(1,2) by (simp add: td_pairs_def value_pairs_even)
  moreover have "omap (\<lambda>(r, v). hold_messages J (td_datalog td) r v) ps = Ok (map (\<lambda>(r, v).
       let topic = serial_display (td_datalog td) @ ''/hold/'' @ show_u16 r
       in mqtt_msg topic True (jv v) #
        (if r = 21 then [mqtt_msg (topic @ ''/bits'') True (j21 (register21_bits_new v))]
         else if r = 110 then [mqtt_msg (topic @ ''/bits'') True (j110 (register110_bits_new v))] else [])) ps)" for ps
    by (rule omap_Ok) (auto simp: hold_messages_def assms(3-5) Let_def)
  ultimately show ?thesis
    by (simp add: for_hold_def register_pairs_def comp_def Let_def)
qed

theorem for_hold_messages_witness:
  "for_hold example_json True \<lparr> td_datalog = Serial (replicate 10 65), td_device_function = DevReadHold,
       td_inverter = serial_default, td_register = 20, td_values = [1, 0, 0x80, 0] \<rparr> =
     Ok [mqtt_msg ''AAAAAAAAAA/hold/20'' True ''1'', mqtt_msg ''AAAAAAAAAA/hold/21'' True ''128'',
         mqtt_msg ''AAAAAAAAAA/hold/21/bits'' True ''bits21'']"
proof -
  let ?td = "\<lparr> td_datalog = Serial (replicate 10 65), td_device_function = DevReadHold,
       td_inverter = serial_default, td_register = 20, td_values = [1, 0, 0x80, 0] \<rparr>"
  have *: "[0..<4 div 2] = [0, 1::nat]" by code_simp
  have "serial_display (Serial (replicate 10 65)) = ''AAAAAAAAAA''" by code_simp
  moreover have "show_u16 20 = ''20''" "show_u16 21 = ''21''" "show_u16 1 = ''1''" "show_u16 128 = ''128''" by code_simp+
  moreover have "word_at [1, 0, 0x80, 0] 0 = 1" "word_at [1, 0, 0x80, 0] 2 = 128" by code_simp+
  ultimately show ?thesis
    by (subst for_hold_messages[where jv = show_u16 and ?j21.0 = "\<lambda>_. ''bits21''" and ?j110.0 = "\<lambda>_. ''bits110''"])
      (simp_all add: example_json_def * Let_def)
qed

end
