(* ===== verification/Coordinator.thy ===== *)
theory Coordinator
  imports Mqtt Commands
begin

text \<open>
  The coordinator (\<^verbatim>\<open>coordinator/mod.rs\<close>): its statistics, what it does with a packet of an inverter
  (\<^verbatim>\<open>process_packet\<close>: learn the serial number, hand the data to InfluxDB, the database, the register
  cache and MQTT), what it does with a command message (\<^verbatim>\<open>process_message\<close>, \<^verbatim>\<open>process_command\<close>), and
  one turn of its main loop. Logging is not modelled.
\<close>

section \<open>State\<close>

type_synonym u64 = "64 word"

record packet_stats =
  st_packets_received :: u64
  st_packets_sent :: u64
  st_heartbeat_packets_received :: u64
  st_translated_data_packets_received :: u64
  st_read_param_packets_received :: u64
  st_write_param_packets_received :: u64
  st_heartbeat_packets_sent :: u64
  st_translated_data_packets_sent :: u64
  st_read_param_packets_sent :: u64
  st_write_param_packets_sent :: u64
  st_modbus_errors :: u64
  st_mqtt_errors :: u64
  st_influx_errors :: u64
  st_database_errors :: u64
  st_register_cache_errors :: u64
  st_mqtt_messages_sent :: u64
  st_influx_writes :: u64
  st_database_writes :: u64
  st_register_cache_writes :: u64
  st_inverter_disconnections :: "serial \<rightharpoonup> u64"
  st_serial_mismatches :: u64
  st_last_messages :: "serial \<rightharpoonup> string"

definition packet_stats_default :: packet_stats where
  "packet_stats_default =
     \<lparr> st_packets_received = 0, st_packets_sent = 0, st_heartbeat_packets_received = 0,
       st_translated_data_packets_received = 0, st_read_param_packets_received = 0,
       st_write_param_packets_received = 0, st_heartbeat_packets_sent = 0,
       st_translated_data_packets_sent = 0, st_read_param_packets_sent = 0,
       st_write_param_packets_sent = 0, st_modbus_errors = 0, st_mqtt_errors = 0,
       st_influx_errors = 0, st_database_errors = 0, st_register_cache_errors = 0,
       st_mqtt_messages_sent = 0, st_influx_writes = 0, st_database_writes = 0,
       st_register_cache_writes = 0, st_inverter_disconnections = Map.empty, st_serial_mismatches = 0,
       st_last_messages = Map.empty \<rparr>"

definition increment_serial_mismatches :: "packet_stats \<Rightarrow> packet_stats" where
  "increment_serial_mismatches s = s\<lparr> st_serial_mismatches := st_serial_mismatches s + 1 \<rparr>"

definition increment_mqtt_errors :: "packet_stats \<Rightarrow> packet_stats" where
  "increment_mqtt_errors s = s\<lparr> st_mqtt_errors := st_mqtt_errors s + 1 \<rparr>"

definition increment_cache_errors :: "packet_stats \<Rightarrow> packet_stats" where
  "increment_cache_errors s = s\<lparr> st_register_cache_errors := st_register_cache_errors s + 1 \<rparr>"

text \<open>\<^verbatim>\<open>copy_from\<close>, one assignment per field.\<close>

definition stats_copy_from :: "packet_stats \<Rightarrow> packet_stats \<Rightarrow> packet_stats" where
  "stats_copy_from s other =
     s\<lparr> st_packets_received := st_packets_received other,
        st_packets_sent := st_packets_sent other,
        st_heartbeat_packets_received := st_heartbeat_packets_received other,
        st_translated_data_packets_received := st_translated_data_packets_received other,
        st_read_param_packets_received := st_read_param_packets_received other,
        st_write_param_packets_received := st_write_param_packets_received other,
        st_heartbeat_packets_sent := st_heartbeat_packets_sent other,
        st_translated_data_packets_sent := st_translated_data_packets_sent other,
        st_read_param_packets_sent := st_read_param_packets_sent other,
        st_write_param_packets_sent := st_write_param_packets_sent other,
        st_modbus_errors := st_modbus_errors other,
        st_mqtt_errors := st_mqtt_errors other,
        st_influx_errors := st_influx_errors other,
        st_database_errors := st_database_errors other,
        st_register_cache_errors := st_register_cache_errors other,
        st_mqtt_messages_sent := st_mqtt_messages_sent other,
        st_influx_writes := st_influx_writes other,
        st_database_writes := st_database_writes other,
        st_register_cache_writes := st_register_cache_writes other,
        st_inverter_disconnections := st_inverter_disconnections other,
        st_serial_mismatches := st_serial_mismatches other,
        st_last_messages := st_last_messages other \<rparr>"

text \<open>
  The coordinator, with the configuration it shares, whether it has an InfluxDB client, and the
  channels it sends on (the \<open>world\<close>).
\<close>

record coordinator =
  co_config :: config
  co_stats :: packet_stats
  co_inputs_store :: "serial \<rightharpoonup> read_inputs"
  co_influx :: bool
  co_databases :: "database_config list"
  co_world :: world

definition coordinator_new :: "config \<Rightarrow> world \<Rightarrow> coordinator" where
  "coordinator_new c w =
     \<lparr> co_config = c, co_stats = packet_stats_default, co_inputs_store = Map.empty, co_influx = False,
       co_databases = [], co_world = w \<rparr>"

text \<open>
  What a handler uses of its surroundings: the libraries, whether arithmetic is checked, and the
  clocks.
\<close>

record bridge_env =
  en_json :: json_lib
  en_nom :: nom_lib
  en_oc :: bool
  en_now :: unix_time
  en_utc :: int

text \<open>
  Starting up: the InfluxDB client, whose own start may fail (\<open>influx_start\<close>), and the enabled
  databases.
\<close>

definition start_influx :: "unit outcome \<Rightarrow> coordinator \<Rightarrow> coordinator outcome" where
  "start_influx influx_start s =
     (if ifx_enabled (cfg_influx (co_config s)) then
        (case influx_start of
           Ok _ \<Rightarrow> Ok (s\<lparr> co_influx := True \<rparr>)
         | Err e \<Rightarrow> Err ''Failed to start InfluxDB client: {}''
         | Panic \<Rightarrow> Panic)
      else Ok s)"

definition start_databases :: "coordinator \<Rightarrow> coordinator" where
  "start_databases s = s\<lparr> co_databases := filter db_enabled (cfg_databases (co_config s)) \<rparr>"

section \<open>Handlers\<close>

text \<open>
  A handler changes the coordinator and ends with a result: \<open>co_then\<close> is \<^verbatim>\<open>?\<close>, \<open>co_log\<close> is
  \<^verbatim>\<open>if let Err(e) = .. { error!(..) }\<close>, after which the handler goes on.
\<close>

type_synonym 'a handled = "'a outcome \<times> coordinator"

definition co_then :: "'a handled \<Rightarrow> ('a \<Rightarrow> coordinator \<Rightarrow> 'b handled) \<Rightarrow> 'b handled" where
  "co_then m f = (case m of (Ok a, s) \<Rightarrow> f a s | (Err e, s) \<Rightarrow> (Err e, s) | (Panic, s) \<Rightarrow> (Panic, s))"

definition co_log :: "unit handled \<Rightarrow> (coordinator \<Rightarrow> 'b handled) \<Rightarrow> 'b handled" where
  "co_log m f = (case m of (Panic, s) \<Rightarrow> (Panic, s) | (_, s) \<Rightarrow> f s)"

lemma co_then_simps [simp]:
  "co_then (Ok a, s) f = f a s" "co_then (Err e, s) f = (Err e, s)" "co_then (Panic, s) f = (Panic, s)"
  by (simp_all add: co_then_def)

lemma co_log_simps [simp]:
  "co_log (Ok u, s) f = f s" "co_log (Err e, s) f = f s" "co_log (Panic, s) f = (Panic, s)"
  by (simp_all add: co_log_def)

definition co_send :: "sent \<Rightarrow> string \<Rightarrow> coordinator \<Rightarrow> unit handled" where
  "co_send m e s =
     (if channel_of m \<in> set (w_closed (co_world s)) then (Err e, s)
      else (Ok (), s\<lparr> co_world := (co_world s)\<lparr> w_sent := w_sent (co_world s) @ [m] \<rparr> \<rparr>))"

text \<open>Several messages in order, stopping at the first failure.\<close>

fun co_send_all :: "sent list \<Rightarrow> string \<Rightarrow> coordinator \<Rightarrow> unit handled" where
  "co_send_all [] e s = (Ok (), s)"
| "co_send_all (m # ms) e s = co_then (co_send m e s) (\<lambda>_. co_send_all ms e)"

definition coordinator_stop :: "coordinator \<Rightarrow> unit handled" where
  "coordinator_stop s =
     co_log (co_send (SendShutdown ChanToInverter) ''SendError'' s) (\<lambda>s.
     co_log (co_send (SendShutdown ChanMqtt) ''SendError'' s) (\<lambda>s.
     co_log (co_send (SendShutdown ChanInflux) ''SendError'' s) (\<lambda>s.
     co_log (co_send (SendShutdown ChanDatabase) ''SendError'' s) (\<lambda>s.
     co_log (co_send (SendShutdown ChanCache) ''SendError'' s) (\<lambda>s. (Ok (), s))))))"

section \<open>InfluxDB, the database, the register cache and MQTT\<close>

text \<open>The object of register values, one entry per byte.\<close>

fun raw_data :: "bool \<Rightarrow> u16 \<Rightarrow> (nat \<times> u8) list \<Rightarrow> (string \<rightharpoonup> string) \<Rightarrow> (string \<rightharpoonup> string) outcome" where
  "raw_data oc register [] m = Ok m"
| "raw_data oc register ((i, value) # rest) m =
     obind (add_oc oc register (word_of_nat i)) (\<lambda>reg.
     raw_data oc register rest (m(show_u16 reg \<mapsto> show_04x (unat value))))"

definition send_to_influx :: "bridge_env \<Rightarrow> translated_data \<Rightarrow> coordinator \<Rightarrow> unit handled" where
  "send_to_influx E td s =
     (if \<not> co_influx s then (Ok (), s)
      else case raw_data (en_oc E) (td_register td) (enumerate (td_values td)) Map.empty of
             Ok raw \<Rightarrow> co_send (ToInflux \<lparr> ifd_packet = td, ifd_serial = serial_display (td_inverter td),
                          ifd_time = en_utc E, ifd_raw_data = raw \<rparr>)
                        ''Failed to send data to InfluxDB channel: {}'' s
           | Err e \<Rightarrow> (Err e, s)
           | Panic \<Rightarrow> (Panic, s))"

text \<open>The chunks of two bytes as registers; a last single byte is a register of its own.\<close>

definition chunk_value :: "bytes \<Rightarrow> u16 outcome" where
  "chunk_value chunk =
     (if length chunk = 2 then u16ify chunk 0 else obind (index chunk 0) (\<lambda>b. Ok (ucast b)))"

fun cache_loop :: "bool \<Rightarrow> u16 \<Rightarrow> (nat \<times> u16) list \<Rightarrow> coordinator \<Rightarrow> unit handled" where
  "cache_loop oc register [] s = (Ok (), s)"
| "cache_loop oc register ((i, value) # rest) s =
     co_then (add_oc oc register (word_of_nat i), s) (\<lambda>reg s.
     co_then (co_send (ToRegisterCache reg value) ''SendError'' s) (\<lambda>_. cache_loop oc register rest))"

definition cache_register :: "bool \<Rightarrow> u16 \<Rightarrow> bytes \<Rightarrow> coordinator \<Rightarrow> unit handled" where
  "cache_register oc register values s =
     co_then (omap chunk_value (chunks2 values), s) (\<lambda>values_u16.
     cache_loop oc register (enumerate values_u16))"

definition send_to_mqtt :: "bridge_env \<Rightarrow> translated_data \<Rightarrow> read_input option \<Rightarrow> coordinator \<Rightarrow> unit handled" where
  "send_to_mqtt E td parsed_input s =
     (let mqtt = cfg_mqtt (co_config s)
      in if \<not> mq_enabled mqtt then (Ok (), s)
         else co_then
           (if td_device_function td = DevReadHold \<or> td_device_function td = DevReadHoldError
            then for_hold (en_json E) (en_oc E) td
            else for_input_with_parsed (en_json E) (en_oc E) td (cfg_publish_individual_input mqtt) parsed_input, s)
           (\<lambda>messages. co_send_all (map ToMqtt messages) ''SendError''))"

definition update_inputs_store ::
    "serial \<Rightarrow> (read_inputs \<Rightarrow> read_inputs) \<Rightarrow> coordinator \<Rightarrow> read_input_all option \<times> coordinator" where
  "update_inputs_store datalog updater s =
     (let entry = updater (case co_inputs_store s datalog of Some e \<Rightarrow> e | None \<Rightarrow> read_inputs_default)
      in (to_input_all entry, s\<lparr> co_inputs_store := (co_inputs_store s)(datalog \<mapsto> entry) \<rparr>))"

fun store_input :: "serial \<Rightarrow> read_input \<Rightarrow> coordinator \<Rightarrow> read_input_all option \<times> coordinator" where
  "store_input d (ReadInputAll input_all) s = (Some input_all, s)"
| "store_input d (ReadInput1 r1) s = update_inputs_store d (set_read_input_1 r1) s"
| "store_input d (ReadInput2 r2) s = update_inputs_store d (set_read_input_2 r2) s"
| "store_input d (ReadInput3 r3) s = update_inputs_store d (set_read_input_3 r3) s"
| "store_input d (ReadInput4 r4) s = update_inputs_store d (set_read_input_4 r4) s"
| "store_input d (ReadInput5 r5) s = update_inputs_store d (set_read_input_5 r5) s"
| "store_input d (ReadInput6 r6) s = update_inputs_store d (set_read_input_6 r6) s"

definition send_to_database :: "translated_data \<Rightarrow> read_input option \<Rightarrow> coordinator \<Rightarrow> unit handled" where
  "send_to_database td parsed_input s =
     (if co_databases s = [] then (Ok (), s)
      else if td_device_function td \<noteq> DevReadInput then (Ok (), s)
      else case parsed_input of
             None \<Rightarrow> (Ok (), s)
           | Some parsed \<Rightarrow>
               (case store_input (td_datalog td) parsed s of
                  (None, s) \<Rightarrow> (Ok (), s)
                | (Some input_all, s) \<Rightarrow>
                    co_send (ToDatabase input_all) ''Failed to send data to database channel: {}''
                      (s\<lparr> co_inputs_store := (co_inputs_store s)(td_datalog td := None) \<rparr>)))"

section \<open>Packets\<close>

fun count_packet :: "packet \<Rightarrow> packet_stats \<Rightarrow> packet_stats" where
  "count_packet (PTranslatedData _) s =
     s\<lparr> st_packets_received := st_packets_received s + 1,
        st_translated_data_packets_received := st_translated_data_packets_received s + 1 \<rparr>"
| "count_packet (PReadParam _) s =
     s\<lparr> st_packets_received := st_packets_received s + 1,
        st_read_param_packets_received := st_read_param_packets_received s + 1 \<rparr>"
| "count_packet (PWriteParam _) s =
     s\<lparr> st_packets_received := st_packets_received s + 1,
        st_write_param_packets_received := st_write_param_packets_received s + 1 \<rparr>"
| "count_packet (PHeartbeat _) s =
     s\<lparr> st_packets_received := st_packets_received s + 1,
        st_heartbeat_packets_received := st_heartbeat_packets_received s + 1 \<rparr>"

text \<open>The configuration learns the serial number of a known data logger. Failures are logged.\<close>

definition learn :: "packet \<Rightarrow> config \<Rightarrow> config" where
  "learn packet c =
     (case enabled_inverter_with_datalog c (packet_datalog packet) of
        Some inverter \<Rightarrow>
          (case packet of
             PTranslatedData td \<Rightarrow>
               (case inv_serial inverter of
                  Some current_serial \<Rightarrow>
                    if current_serial \<noteq> td_inverter td
                    then (case update_inverter_serial current_serial (td_inverter td) c of Ok c' \<Rightarrow> c' | _ \<Rightarrow> c)
                    else c
                | None \<Rightarrow> c)
           | _ \<Rightarrow> c)
      | None \<Rightarrow>
          (case update_inverter_datalog (packet_datalog packet) (packet_datalog packet) c of Ok c' \<Rightarrow> c' | _ \<Rightarrow> c))"

definition is_shutting_down :: "coordinator \<Rightarrow> bool" where
  "is_shutting_down s =
     (\<exists>c \<in> {ChanInflux, ChanMqtt, ChanDatabase, ChanReadCache}. c \<in> set (w_dropped (co_world s)))"

definition parse_input :: "bridge_env \<Rightarrow> translated_data \<Rightarrow> read_input option outcome" where
  "parse_input E td =
     (if td_device_function td = DevReadInput then
        (case td_read_input (en_nom E) (en_oc E) (en_now E) td of
           Ok parsed \<Rightarrow> Ok (Some parsed) | Err _ \<Rightarrow> Ok None | Panic \<Rightarrow> Panic)
      else Ok None)"

definition process_translated_data :: "bridge_env \<Rightarrow> translated_data \<Rightarrow> coordinator \<Rightarrow> unit handled" where
  "process_translated_data E td s =
     co_then (parse_input E td, s) (\<lambda>parsed_input s.
     co_log (if td_device_function td = DevWriteSingle \<or> td_device_function td = DevWriteMulti
             then (Ok (), s) else send_to_influx E td s) (\<lambda>s.
     co_log (send_to_database td parsed_input s) (\<lambda>s.
     co_log (cache_register (en_oc E) (td_register td) (td_values td) s) (\<lambda>s.
     co_log (send_to_mqtt E td parsed_input s) (\<lambda>s. (Ok (), s))))))"

definition process_write_param :: "bridge_env \<Rightarrow> write_param \<Rightarrow> coordinator \<Rightarrow> unit handled" where
  "process_write_param E wp s =
     (if (case enabled_inverter_with_datalog (co_config s) (wp_datalog wp) of
            Some inverter \<Rightarrow> cfg_global_read_only (co_config s) \<or> cfg_read_only inverter
          | None \<Rightarrow> False)
      then (Ok (), s)
      else co_log (cache_register (en_oc E) (wp_register wp) (wp_values wp) s) (\<lambda>s. (Ok (), s)))"

definition process_packet :: "bridge_env \<Rightarrow> packet \<Rightarrow> coordinator \<Rightarrow> unit handled" where
  "process_packet E packet s =
     (let s = s\<lparr> co_stats := count_packet packet (co_stats s) \<rparr>;
          s = s\<lparr> co_config := learn packet (co_config s) \<rparr>
      in if is_shutting_down s then (Ok (), s)
         else case packet of
                PTranslatedData td \<Rightarrow> process_translated_data E td s
              | PReadParam rp \<Rightarrow>
                  co_log (cache_register (en_oc E) (rp_register rp) (rp_values rp) s) (\<lambda>s. (Ok (), s))
              | PWriteParam wp \<Rightarrow> process_write_param E wp s
              | PHeartbeat _ \<Rightarrow> (Ok (), s))"

section \<open>Commands\<close>

text \<open>The delay after a read, when one is configured: polls that were due meanwhile are not made.\<close>

definition pause :: "config_inverter \<Rightarrow> world \<Rightarrow> unit run" where
  "pause inverter w =
     (let d = unwrap_or (inv_delay_ms inverter) 0
      in if d > 0
         then Finished (Ok ()) (w\<lparr> w_now := w_now w + d,
                w_inbox := dropWhile (\<lambda>(t, _). t < w_now w + d) (w_inbox w) \<rparr>)
         else Finished (Ok ()) w)"

definition read_input_registers :: "config_inverter \<Rightarrow> u16 \<Rightarrow> u16 \<Rightarrow> world \<Rightarrow> unit run" where
  "read_input_registers inverter register count w =
     rbind (read_inputs_run inverter register count w) (\<lambda>_. pause inverter)"

definition read_input_block :: "config_inverter \<Rightarrow> u16 \<Rightarrow> u16 \<Rightarrow> world \<Rightarrow> unit run" where
  "read_input_block inverter register count w =
     rbind (read_inputs_run inverter register count w) (\<lambda>_. pause inverter)"

definition read_hold_registers :: "config_inverter \<Rightarrow> u16 \<Rightarrow> u16 \<Rightarrow> world \<Rightarrow> unit run" where
  "read_hold_registers inverter register count w =
     rbind (read_hold_run inverter register count w) (\<lambda>_. pause inverter)"

definition read_param_register :: "config_inverter \<Rightarrow> u16 \<Rightarrow> world \<Rightarrow> unit run" where
  "read_param_register inverter register w =
     rbind (read_param_run inverter register w) (\<lambda>_. pause inverter)"

definition update_hold :: "config_inverter \<Rightarrow> register \<Rightarrow> register_bit \<Rightarrow> bool \<Rightarrow> world \<Rightarrow> unit run" where
  "update_hold inverter register b enable w = update_hold_run inverter (register_u16 register) b enable w"

definition read_time_register :: "json_lib \<Rightarrow> config \<Rightarrow> config_inverter \<Rightarrow> time_action \<Rightarrow> world \<Rightarrow> unit run" where
  "read_time_register J c inverter action w =
     read_time_register_run J (mq_enabled (cfg_mqtt c)) inverter action w"

fun process_command :: "json_lib \<Rightarrow> bool \<Rightarrow> config \<Rightarrow> command \<Rightarrow> world \<Rightarrow> unit run" where
  "process_command J oc c (CmdChargeRate i value) w = set_charge_rate (cfg_global_read_only c) i value w"
| "process_command J oc c (CmdDischargeRate i value) w = set_discharge_rate (cfg_global_read_only c) i value w"
| "process_command J oc c (CmdAcChargeRate i value) w = set_ac_charge_rate (cfg_global_read_only c) i value w"
| "process_command J oc c (CmdAcChargeSocLimit i value) w = set_ac_charge_soc_limit (cfg_global_read_only c) i value w"
| "process_command J oc c (CmdDischargeCutoffSocLimit i value) w =
     set_discharge_cutoff_soc_limit (cfg_global_read_only c) i value w"
| "process_command J oc c (CmdSetHold i register value) w = wi_set_hold (cfg_global_read_only c) i register value w"
| "process_command J oc c (CmdWriteParam i register value) w = wi_set_param (cfg_global_read_only c) i register value w"
| "process_command J oc c (CmdSetAcChargeTime i _ values) w =
     set_ac_charge_time J (mq_enabled (cfg_mqtt c)) (cfg_global_read_only c) i values w"
| "process_command J oc c (CmdSetAcFirstTime i _ values) w =
     set_ac_first_time J (mq_enabled (cfg_mqtt c)) (cfg_global_read_only c) i values w"
| "process_command J oc c (CmdSetChargePriorityTime i _ values) w =
     set_charge_priority_time J (mq_enabled (cfg_mqtt c)) (cfg_global_read_only c) i values w"
| "process_command J oc c (CmdSetForcedDischargeTime i _ values) w =
     set_forced_discharge_time J (mq_enabled (cfg_mqtt c)) (cfg_global_read_only c) i values w"
| "process_command J oc c (CmdReadInputs i block) w =
     rbind (lift (mul_oc oc block 40) w) (\<lambda>register. read_input_block i register (cfg_register_block_size i))"
| "process_command J oc c (CmdReadInput i register count) w = read_input_registers i register count w"
| "process_command J oc c (CmdReadHold i register count) w = read_hold_registers i register count w"
| "process_command J oc c (CmdReadParam i register) w = read_param_register i register w"
| "process_command J oc c (CmdReadAcChargeTime i num) w = read_time_register J c i (AcCharge num) w"
| "process_command J oc c (CmdReadAcFirstTime i num) w = read_time_register J c i (AcFirst num) w"
| "process_command J oc c (CmdReadChargePriorityTime i num) w = read_time_register J c i (ChargePriority num) w"
| "process_command J oc c (CmdReadForcedDischargeTime i num) w = read_time_register J c i (ForcedDischarge num) w"
| "process_command J oc c (CmdAcCharge i enable) w = update_hold i RegRegister21 BitAcChargeEnable enable w"
| "process_command J oc c (CmdChargePriority i enable) w = update_hold i RegRegister21 BitChargePriorityEnable enable w"
| "process_command J oc c (CmdForcedDischarge i enable) w = update_hold i RegRegister21 BitForcedDischargeEnable enable w"

definition fail_message :: "command \<Rightarrow> mqtt_message" where
  "fail_message c = mqtt_msg (to_result_topic c) False ''FAIL''"

text \<open>A command that fails is answered with \<^verbatim>\<open>FAIL\<close>; a message that is no command is logged.\<close>

fun message_loop :: "json_lib \<Rightarrow> bool \<Rightarrow> config \<Rightarrow> mqtt_message \<Rightarrow> config_inverter list \<Rightarrow> world \<Rightarrow> unit run" where
  "message_loop J oc c m [] w = Finished (Ok ()) w"
| "message_loop J oc c m (i # is) w =
     (case to_command J m i of
        Ok command \<Rightarrow>
          (case process_command J oc c command w of
             Finished (Ok _) w \<Rightarrow> message_loop J oc c m is w
           | Finished (Err _) w \<Rightarrow>
               rbind (send (ToMqtt (fail_message command)) ''send(to_mqtt) failed - channel closed?'' w)
                 (\<lambda>_. message_loop J oc c m is)
           | Finished Panic w \<Rightarrow> Finished Panic w
           | Waiting w \<Rightarrow> Waiting w)
      | Err _ \<Rightarrow> message_loop J oc c m is w
      | Panic \<Rightarrow> Finished Panic w)"

definition process_message :: "json_lib \<Rightarrow> bool \<Rightarrow> config \<Rightarrow> mqtt_message \<Rightarrow> world \<Rightarrow> unit run" where
  "process_message J oc c m w =
     (if \<not> mq_enabled (cfg_mqtt c) then Finished (Ok ()) w
      else rbind (lift (inverters_for_message c m) w) (message_loop J oc c m))"

section \<open>The main loop\<close>

text \<open>What \<^verbatim>\<open>select!\<close> can deliver; \<open>None\<close> is a receive error.\<close>

datatype loop_event =
    FromInverterRecv "inverter_msg option"
  | ToCoordinatorRecv "coordinator_msg option"
  | FromMqttRecv mqtt_message
  | FromMqttShutdown
  | FromMqttError

text \<open>A turn goes on, leaves the loop, crashes the task, or still waits inside a command.\<close>

datatype loop_result = Continue coordinator | Leave coordinator | Crash coordinator | Stuck coordinator

definition after_handler :: "unit handled \<Rightarrow> loop_result" where
  "after_handler m = (case m of (Panic, s) \<Rightarrow> Crash s | (_, s) \<Rightarrow> Continue s)"

fun loop_step :: "bridge_env \<Rightarrow> loop_event \<Rightarrow> coordinator \<Rightarrow> loop_result" where
  "loop_step E (FromInverterRecv (Some (ChPacket packet))) s = after_handler (process_packet E packet s)"
| "loop_step E (FromInverterRecv (Some (ChConnected _))) s = Continue s"
| "loop_step E (FromInverterRecv (Some (ChDisconnect _))) s = Continue s"
| "loop_step E (FromInverterRecv (Some ChShutdown)) s = Leave s"
| "loop_step E (FromInverterRecv (Some (ChHeartbeat _))) s = Continue s"
| "loop_step E (FromInverterRecv (Some (ChModbusError _ _ _))) s = Continue s"
| "loop_step E (FromInverterRecv (Some (ChSerialMismatch _ _ _))) s = Continue s"
| "loop_step E (FromInverterRecv None) s = Leave s"
| "loop_step E (ToCoordinatorRecv (Some (CoSendPacket packet))) s =
     after_handler (co_log (co_send (ToInverter (ChPacket packet)) ''SendError'' s) (\<lambda>s. (Ok (), s)))"
| "loop_step E (ToCoordinatorRecv (Some (CoPacket packet))) s = after_handler (process_packet E packet s)"
| "loop_step E (ToCoordinatorRecv (Some CoShutdown)) s = Leave s"
| "loop_step E (ToCoordinatorRecv None) s = Leave s"
| "loop_step E (FromMqttRecv m) s =
     (case process_message (en_json E) (en_oc E) (co_config s) m (co_world s) of
        Finished Panic w \<Rightarrow> Crash (s\<lparr> co_world := w \<rparr>)
      | Finished _ w \<Rightarrow> Continue (s\<lparr> co_world := w \<rparr>)
      | Waiting w \<Rightarrow> Stuck (s\<lparr> co_world := w \<rparr>))"
| "loop_step E FromMqttShutdown s = Continue s"
| "loop_step E FromMqttError s = Continue s"

fun main_loop :: "(bridge_env \<times> loop_event) list \<Rightarrow> coordinator \<Rightarrow> loop_result" where
  "main_loop [] s = Continue s"
| "main_loop ((E, ev) # evs) s =
     (case loop_step E ev s of Continue s \<Rightarrow> main_loop evs s | r \<Rightarrow> r)"

interpretation main_task: task_loop "\<lambda>(E, ev). loop_step E ev" main_loop Continue
  by unfold_locales (auto split: loop_result.split)

end
