(* ===== verification/Coordinator_Facts.thy ===== *)
theory Coordinator_Facts
  imports Coordinator Command_Facts Mqtt_Facts Register_Cache
begin

text \<open>
  What the coordinator guarantees for the packets of an inverter: when handling one panics, what
  happens to the statistics, the configuration and the store of input blocks, and what it sends.
\<close>

section \<open>Reading an input block\<close>

lemma read_input_not_Panic:
  assumes "nom_ok N"
  shows "read_input1_of N now p \<noteq> Panic" "read_input2_of N now p \<noteq> Panic" "read_input3_of N now p \<noteq> Panic"
    "read_input4_of N now p \<noteq> Panic" "read_input5_of N now p \<noteq> Panic" "read_input_all_of N now p \<noteq> Panic"
proof -
  have ok: "ok_or x e \<noteq> Panic" for x :: "'a option" and e by (cases x) simp_all
  show "read_input1_of N now p \<noteq> Panic"
    unfolding read_input1_cases[OF assms] by (simp add: Let_def)
  show "read_input2_of N now p \<noteq> Panic" "read_input3_of N now p \<noteq> Panic" "read_input4_of N now p \<noteq> Panic"
    "read_input5_of N now p \<noteq> Panic"
    by (auto simp: read_input2_of_def read_input3_of_def read_input4_of_def read_input5_of_def obind_def
        split: option.splits outcome.splits)
  show "read_input_all_of N now p \<noteq> Panic"
    by (auto simp: read_input_all_of_def obind_eq_Panic ok_or_def split: option.splits)
qed

lemma td_read_input_Panic:
  assumes "nom_ok N"
  shows "td_read_input N oc now td = Panic \<longleftrightarrow>
    td_register td = 200 \<and> 2 \<le> length (td_values td) \<and> length (td_values td) \<le> 80 \<and> odd (length (td_values td))"
proof -
  have "td_register td = 200 \<Longrightarrow> length (td_values td) \<le> 80 \<Longrightarrow>
      read_input6_of oc now td = Panic \<longleftrightarrow> odd (length (td_values td))"
    by (cases "even (length (td_values td))")
      (simp_all add: read_input6_of_def td_pairs_def value_pairs_even value_pairs_odd)
  then show ?thesis
    using read_input_not_Panic[OF assms]
    by (auto simp: td_read_input_def Let_def obind_eq_Panic MIN_INPUT_BLOCK_SIZE_def MAX_INPUT_BLOCK_SIZE_def
        MIN_INPUT_ALL_SIZE_def)
qed

text \<open>The blocks that a reply on the wire can become.\<close>

fun wire_block :: "read_input \<Rightarrow> bool" where
  "wire_block (ReadInput1 _) = True"
| "wire_block (ReadInput4 _) = True"
| "wire_block (ReadInput5 _) = True"
| "wire_block (ReadInput6 _) = True"
| "wire_block _ = False"

lemma td_read_input_wire_block:
  assumes "nom_ok N" "td_read_input N oc now td = Ok i"
  shows "wire_block i"
proof -
  have "length (td_values td) \<le> 80 \<Longrightarrow> \<forall>r. read_input2_of N now td \<noteq> Ok r"
    "length (td_values td) \<le> 80 \<Longrightarrow> \<forall>r. read_input3_of N now td \<noteq> Ok r"
    "length (td_values td) = 254 \<Longrightarrow> \<forall>r. read_input_all_of N now td \<noteq> Ok r"
    using read_input2_of_short[OF assms(1), of td now] read_input3_of_short[OF assms(1), of td now]
      read_input_all_of_short[OF assms(1), of td now]
    by (auto simp: is_ok_iff)
  with assms(2) show ?thesis
    by (auto simp: td_read_input_def Let_def obind_eq_Ok MAX_INPUT_BLOCK_SIZE_def MIN_INPUT_ALL_SIZE_def
        split: if_splits)
qed

section \<open>Handlers\<close>

text \<open>
  A handler only sends: it may change the channels' log and the store of input blocks, and what it
  sends satisfies \<open>P\<close>.
\<close>

definition sends :: "(sent \<Rightarrow> bool) \<Rightarrow> coordinator \<Rightarrow> coordinator \<Rightarrow> bool" where
  "sends P s s' \<longleftrightarrow> (\<exists>ms st. (\<forall>m \<in> set ms. P m) \<and>
     s' = s\<lparr> co_inputs_store := st, co_world := (co_world s)\<lparr> w_sent := w_sent (co_world s) @ ms \<rparr> \<rparr>)"

lemma sends_refl [simp]: "sends P s s"
  unfolding sends_def by (rule exI[of _ "[]"], rule exI[of _ "co_inputs_store s"]) simp

lemma sends_trans: "sends P s s' \<Longrightarrow> sends P s' s'' \<Longrightarrow> sends P s s''"
  unfolding sends_def by (elim exE) (rule exI, rule exI, rule conjI[rotated], simp, auto)

lemma sends_co_send: "P m \<Longrightarrow> sends P s (snd (co_send m e s))"
proof (cases "channel_of m \<in> set (w_closed (co_world s))")
  case False
  assume "P m"
  then have "\<forall>x \<in> set [m]. P x" by simp
  with False show ?thesis
    unfolding sends_def co_send_def
    by (intro exI[of _ "[m]"] exI[of _ "co_inputs_store s"]) simp
qed (simp add: co_send_def)

lemma sends_then:
  assumes "sends P s (snd m)" "\<And>a s'. sends P s' (snd (f a s'))"
  shows "sends P s (snd (co_then m f))"
  using assms by (cases m; cases "fst m") (auto simp: co_then_def intro: sends_trans)

lemma sends_log:
  assumes "sends P s (snd m)" "\<And>s'. sends P s' (snd (f s'))"
  shows "sends P s (snd (co_log m f))"
  using assms by (cases m; cases "fst m") (auto simp: co_log_def intro: sends_trans)

lemma sends_send_all: "(\<And>m. m \<in> set ms \<Longrightarrow> P m) \<Longrightarrow> sends P s (snd (co_send_all ms e s))"
proof (induction ms arbitrary: s)
  case (Cons m ms)
  then show ?case
    by (auto intro!: sends_then sends_co_send)
qed simp

lemma sends_store: "sends P s (s\<lparr> co_inputs_store := st \<rparr>)"
  unfolding sends_def by (rule exI[of _ "[]"], rule exI[of _ st]) simp

lemma sends_fields:
  assumes "sends P s s'"
  shows "co_config s' = co_config s" "co_stats s' = co_stats s" "co_influx s' = co_influx s"
    "co_databases s' = co_databases s" "w_closed (co_world s') = w_closed (co_world s)"
    "w_dropped (co_world s') = w_dropped (co_world s)"
    "\<exists>ms. w_sent (co_world s') = w_sent (co_world s) @ ms \<and> (\<forall>m \<in> set ms. P m)"
  using assms by (auto simp: sends_def)

lemma sends_influx: "(\<And>d. P (ToInflux d)) \<Longrightarrow> sends P s (snd (send_to_influx E td s))"
  by (auto simp: send_to_influx_def intro!: sends_co_send split: outcome.split)

lemma sends_cache_loop: "(\<And>r v. P (ToRegisterCache r v)) \<Longrightarrow> sends P s (snd (cache_loop oc register xs s))"
proof (induction oc register xs s rule: cache_loop.induct)
  case (2 oc register i v rest s)
  show ?case
    unfolding cache_loop.simps
    by (intro sends_then sends_co_send 2) (use 2(2) in simp_all)
qed simp

lemma sends_cache: "(\<And>r v. P (ToRegisterCache r v)) \<Longrightarrow> sends P s (snd (cache_register oc register values s))"
  unfolding cache_register_def by (rule sends_then) (simp_all add: sends_cache_loop)

lemma sends_mqtt: "(\<And>m. P (ToMqtt m)) \<Longrightarrow> sends P s (snd (send_to_mqtt E td i s))"
  unfolding send_to_mqtt_def Let_def
  by (auto intro!: sends_then sends_send_all)

lemma store_input_fields: "\<exists>st. snd (store_input d i s) = s\<lparr> co_inputs_store := st \<rparr>"
  by (cases i) (auto simp: update_inputs_store_def Let_def intro: exI[of _ "co_inputs_store s"])

lemma sends_database:
  assumes "\<And>r. P (ToDatabase r)"
  shows "sends P s (snd (send_to_database td i s))"
proof (cases i)
  case (Some parsed)
  obtain st where st: "snd (store_input (td_datalog td) parsed s) = s\<lparr> co_inputs_store := st \<rparr>"
    using store_input_fields by blast
  show ?thesis
  proof (cases "store_input (td_datalog td) parsed s")
    case (Pair o' s')
    with st have s': "s' = s\<lparr> co_inputs_store := st \<rparr>" by simp
    have "sends P s (snd (co_send m e (s'\<lparr> co_inputs_store := st' \<rparr>)))" if "P m" for m e st'
      unfolding s' by (rule sends_trans[OF _ sends_co_send]) (simp_all add: sends_store that)
    then show ?thesis
      using Some Pair s' assms by (auto simp: send_to_database_def sends_store split: option.split)
  qed
qed (auto simp: send_to_database_def)

text \<open>What handling a packet can send: data, cache entries and messages, never a packet.\<close>

fun fan_out :: "sent \<Rightarrow> bool" where
  "fan_out (ToInflux _) = True"
| "fan_out (ToDatabase _) = True"
| "fan_out (ToRegisterCache _ _) = True"
| "fan_out (ToMqtt _) = True"
| "fan_out _ = False"

lemma sends_translated_data: "sends fan_out s (snd (process_translated_data E td s))"
  unfolding process_translated_data_def
  by (intro sends_then sends_log) (auto intro: sends_influx sends_database sends_cache sends_mqtt)

lemma sends_packet:
  "sends fan_out (s\<lparr> co_stats := count_packet p (co_stats s), co_config := learn p (co_config s) \<rparr>)
     (snd (process_packet E p s))"
  by (cases p) (auto simp: process_packet_def Let_def process_write_param_def sends_translated_data
      intro!: sends_log sends_cache)

section \<open>What a command sends\<close>

definition emits :: "(sent \<Rightarrow> bool) \<Rightarrow> world \<Rightarrow> 'a run \<Rightarrow> bool" where
  "emits P w r \<longleftrightarrow> (\<exists>ms. (\<forall>m \<in> set ms. P m) \<and> w_sent (run_world r) = w_sent w @ ms)"

named_theorems emit_rules \<open>what a run sends, by its structure\<close>

lemma emits_finished [emit_rules, simp]: "emits P w (Finished x w)"
  by (simp add: emits_def)

lemma emits_lift [emit_rules, simp]: "emits P w (lift x w)"
  by (simp add: lift_def)

lemma emits_trans:
  "w_sent w' = w_sent w @ ms \<Longrightarrow> \<forall>m \<in> set ms. P m \<Longrightarrow> emits P w' r \<Longrightarrow> emits P w r"
  unfolding emits_def by (elim exE) (rule_tac x = "ms @ msa" in exI, auto)

lemma emits_rbind [emit_rules]:
  assumes "emits P w r" "\<And>a w'. emits P w' (f a w')"
  shows "emits P w (rbind r f)"
proof (cases "\<exists>a w'. r = Finished (Ok a) w'")
  case True
  then obtain a w' where r: "r = Finished (Ok a) w'" by blast
  with assms(1) obtain ms where "\<forall>m \<in> set ms. P m" "w_sent w' = w_sent w @ ms" by (auto simp: emits_def)
  with emits_trans[OF this(2,1) assms(2)] r show ?thesis by simp
next
  case False
  then have "run_world (rbind r f) = run_world r"
    by (cases r) (auto simp: rbind_def split: outcome.splits)
  with assms(1) show ?thesis by (simp add: emits_def)
qed

lemma emits_same_sent: "w_sent w' = w_sent w \<Longrightarrow> emits P w (Finished x w')"
  by (simp add: emits_def)

lemma emits_send [emit_rules]: "P m \<Longrightarrow> emits P w (send m e w)"
  unfolding emits_def send_def
  by (cases "channel_of m \<in> set (w_closed w)") (rule exI[of _ "[]"], simp, rule exI[of _ "[m]"], simp)

lemma emits_wait [emit_rules]: "emits P w (wait_for_reply p w)"
  unfolding emits_def wait_sent by (rule exI[of _ "[]"]) simp

lemma emits_request [emit_rules]: "P (ToCoordinator (CoSendPacket p)) \<Longrightarrow> emits P w (request_coordinator p w)"
  unfolding request_coordinator_def by (intro emit_rules)

lemma emits_direct [emit_rules]: "P (ToInverter (ChPacket p)) \<Longrightarrow> emits P w (request_inverter e p w)"
  unfolding request_inverter_def by (intro emit_rules)

lemma emits_pause [emit_rules]: "emits P w (pause i w)"
  by (simp add: pause_def Let_def emits_same_sent)

lemma emits_if [emit_rules]: "emits P w a \<Longrightarrow> emits P w b \<Longrightarrow> emits P w (if c then a else b)"
  by simp

lemma emits_times [emit_rules]:
  assumes "\<And>m. P (ToMqtt m)"
  shows "emits P w (send_times J b topic window w)"
  unfolding send_times_def by (intro emit_rules assms)

text \<open>A packet that only asks: a read request.\<close>

fun read_request :: "packet \<Rightarrow> bool" where
  "read_request (PTranslatedData td) = (td_device_function td = DevReadHold \<or> td_device_function td = DevReadInput)"
| "read_request (PReadParam _) = True"
| "read_request _ = False"

fun asks :: "sent \<Rightarrow> bool" where
  "asks (ToCoordinator (CoSendPacket p)) = read_request p"
| "asks (ToMqtt _) = True"
| "asks _ = False"

lemma emits_td_request:
  assumes "\<And>d s w. emits P w (f (td_packet d g s r v) w)"
  shows "emits P w (rbind (lift (td_request i g r v) w) f)"
proof (cases "td_request i g r v")
  case (Ok p)
  then obtain d s where "p = td_packet d g s r v" by (auto simp: td_request_Ok td_packet_def)
  with Ok assms show ?thesis by (simp add: lift_def)
qed (simp_all add: lift_def)

lemma emits_read_hold: "emits asks w (read_hold_run i r n w)"
  unfolding read_hold_run_def by (rule emits_td_request) (simp add: emit_rules td_packet_def)

lemma emits_read_inputs: "emits asks w (read_inputs_run i r n w)"
  unfolding read_inputs_run_def by (rule emits_td_request) (simp add: emit_rules td_packet_def)

lemma emits_read_param: "emits asks w (read_param_run i r w)"
  unfolding read_param_run_def by (intro emit_rules) simp

lemma emits_read_time: "emits asks w (read_time_register_run J b i a w)"
  unfolding read_time_register_run_def
  by (intro emit_rules emits_td_request)
    (auto simp: td_packet_def intro!: emit_rules split: packet.split)

text \<open>
  A command other than the bit switches and the time registers talks to the inverter through the
  coordinator only.
\<close>

fun bit_switch :: "command \<Rightarrow> bool" where
  "bit_switch (CmdAcCharge _ _) = True"
| "bit_switch (CmdChargePriority _ _) = True"
| "bit_switch (CmdForcedDischarge _ _) = True"
| "bit_switch _ = False"

fun via_coordinator :: "sent \<Rightarrow> bool" where
  "via_coordinator (ToCoordinator (CoSendPacket _)) = True"
| "via_coordinator (ToMqtt _) = True"
| "via_coordinator _ = False"

fun command_traffic :: "sent \<Rightarrow> bool" where
  "command_traffic (ToInverter (ChPacket _)) = True"
| "command_traffic m = via_coordinator m"

lemma emits_weaken: "emits P w r \<Longrightarrow> (\<And>m. P m \<Longrightarrow> Q m) \<Longrightarrow> emits Q w r"
  unfolding emits_def by blast

lemma asks_via_coordinator: "asks m \<Longrightarrow> via_coordinator m"
  by (cases m rule: asks.cases) auto

lemma via_coordinator_traffic: "via_coordinator m \<Longrightarrow> command_traffic m"
  by (cases m rule: via_coordinator.cases) auto

lemma emits_set_hold: "emits via_coordinator w (set_hold_run i r v w)"
  unfolding set_hold_run_def by (intro emit_rules) (simp_all add: emit_rules)

lemma emits_write_param: "emits via_coordinator w (write_param_run i r v w)"
  unfolding write_param_run_def by (intro emit_rules) (simp_all add: emit_rules)

lemma emits_update_hold: "emits command_traffic w (update_hold_run i r b e w)"
  unfolding update_hold_run_def update_hold_write_def Let_def by (intro emit_rules) simp_all

lemmas setter_defs = set_charge_rate_def set_discharge_rate_def set_ac_charge_rate_def set_ac_charge_soc_limit_def
  set_discharge_cutoff_soc_limit_def wi_guarded_hold_def wi_set_hold_def wi_set_param_def

lemma emits_failing: "\<exists>e. r = Finished (Err e) w \<Longrightarrow> emits P w r"
  by auto

lemma emits_set_time:
  "emits P w (set_ac_charge_time J m ro i v w)" "emits P w (set_ac_first_time J m ro i v w)"
  "emits P w (set_charge_priority_time J m ro i v w)" "emits P w (set_forced_discharge_time J m ro i v w)"
  using guarded_time_fails[of J m ro i v w] by (auto intro: emits_failing)

lemma emits_command:
  "\<not> bit_switch c \<Longrightarrow> emits via_coordinator w (process_command J oc cfg c w)"
  "emits command_traffic w (process_command J oc cfg c w)"
proof -
  note reads = emits_read_hold emits_read_inputs emits_read_param emits_read_time
  show *: "emits via_coordinator w (process_command J oc cfg c w)" if "\<not> bit_switch c"
    using that
    by (cases c)
      (auto simp: setter_defs read_input_block_def read_input_registers_def read_hold_registers_def
        read_param_register_def read_time_register_def emits_set_time
        intro!: emit_rules emits_set_hold emits_write_param
        intro: emits_weaken[OF emits_read_hold asks_via_coordinator] emits_weaken[OF emits_read_inputs asks_via_coordinator]
          emits_weaken[OF emits_read_param asks_via_coordinator] emits_weaken[OF emits_read_time asks_via_coordinator])
  show "emits command_traffic w (process_command J oc cfg c w)"
  proof (cases "bit_switch c")
    case True
    then show ?thesis by (cases c) (auto simp: update_hold_def emits_update_hold)
  next
    case False
    then show ?thesis by (rule emits_weaken[OF * via_coordinator_traffic])
  qed
qed

lemma emits_command_read_only:
  assumes "\<not> bit_switch c" "cfg_global_read_only cfg \<or> cfg_read_only (command_inverter c)"
  shows "emits asks w (process_command J oc cfg c w)"
proof -
  have blocked: "check_read_only (cfg_global_read_only cfg) (command_inverter c) =
      Err ''Write operations are disabled in read-only mode''"
    using assms(2) by (simp add: check_read_only_def cfg_read_only_def)
  show ?thesis
    using assms(1) blocked
    by (cases c)
      (auto simp: setter_defs read_input_block_def read_input_registers_def read_hold_registers_def
        read_param_register_def read_time_register_def emits_set_time lift_def
        intro!: emit_rules emits_read_hold emits_read_inputs emits_read_param emits_read_time
        intro: emits_lift[unfolded lift_def])
qed

lemma emits_messages:
  assumes "\<And>i c w. i \<in> set is \<Longrightarrow> to_command J m i = Ok c \<Longrightarrow> emits P w (process_command J oc cfg c w)"
    and "\<And>x. P (ToMqtt x)"
  shows "emits P w (message_loop J oc cfg m is w)"
  using assms(1)
proof (induction "is" arbitrary: w)
  case (Cons i "is")
  have IH: "emits P w (message_loop J oc cfg m is w)" for w by (rule Cons.IH) (rule Cons.prems, simp_all)
  show ?case
  proof (cases "to_command J m i")
    case (Ok c)
    obtain ms where ms: "\<forall>m \<in> set ms. P m"
      "w_sent (run_world (process_command J oc cfg c w)) = w_sent w @ ms"
      using Cons.prems[OF _ Ok, of w] unfolding emits_def by auto
    show ?thesis
    proof (cases "process_command J oc cfg c w")
      case (Finished x w')
      with ms have w': "w_sent w' = w_sent w @ ms" by simp
      have fail: "emits P w' (rbind (send (ToMqtt (fail_message c)) e w') (\<lambda>_. message_loop J oc cfg m is))" for e
        by (intro emit_rules IH assms(2))
      show ?thesis
        using emits_trans[OF w' ms(1) fail] emits_trans[OF w' ms(1) IH] emits_trans[OF w' ms(1) emits_finished]
        by (cases x) (simp_all add: Ok Finished)
    next
      case (Waiting w')
      with ms show ?thesis by (auto simp: Ok emits_def)
    qed
  qed (simp_all add: IH)
qed simp

text \<open>The commands of a message are for enabled inverters of the configuration.\<close>

lemma emits_process_message_if:
  assumes "\<And>i c w. i \<in> set (cfg_inverters cfg) \<Longrightarrow> to_command J m i = Ok c \<Longrightarrow> emits P w (process_command J oc cfg c w)"
    and "\<And>x. P (ToMqtt x)"
  shows "emits P w (process_message J oc cfg m w)"
proof (cases "inverters_for_message cfg m")
  case (Ok xs)
  then obtain t where "(case t of TargetAll \<Rightarrow> Ok (enabled_inverters cfg)
      | TargetSerial d \<Rightarrow> Ok (filter (\<lambda>i. inv_datalog i = Some d) (enabled_inverters cfg))) = Ok xs"
    by (auto simp: inverters_for_message_def obind_eq_Ok Let_def)
  then have "set xs \<subseteq> set (cfg_inverters cfg)" by (cases t) (auto simp: enabled_inverters_def)
  then have "emits P w (message_loop J oc cfg m xs w)" by (intro emits_messages assms) auto
  then show ?thesis by (simp add: process_message_def Ok lift_def)
qed (simp_all add: process_message_def lift_def)

lemma emits_process_message: "emits command_traffic w (process_message J oc cfg m w)"
  by (rule emits_process_message_if) (auto intro: emits_command)

end
