(* ===== verification/Coordinator_Properties.thy ===== *)
theory Coordinator_Properties
  imports Coordinator_Facts
begin

text \<open>
  The properties of the coordinator: read-only mode and routing of commands, the reply to a failed
  command, the packets that stop it, the invariants of its main loop, and the agreement of the
  register cache with the replies of the inverter.
\<close>

section \<open>Commands\<close>

text \<open>
  Commands over MQTT in read-only mode, global or of the inverter. Every command but the three bit
  switches then puts nothing on the channels except read requests and MQTT messages.
\<close>

theorem read_only_commands_only_read:
  assumes "\<not> bit_switch c" "cfg_global_read_only cfg \<or> cfg_read_only (command_inverter c)"
  shows "\<exists>ms. w_sent (run_world (process_command J oc cfg c w)) = w_sent w @ ms \<and>
    (\<forall>m \<in> set ms. case m of
       ToCoordinator (CoSendPacket p) \<Rightarrow> read_request p
     | ToMqtt _ \<Rightarrow> True
     | _ \<Rightarrow> False)"
proof -
  obtain ms where ms: "w_sent (run_world (process_command J oc cfg c w)) = w_sent w @ ms" "\<forall>m \<in> set ms. asks m"
    using emits_command_read_only[OF assms, of w J oc] by (auto simp: emits_def)
  have "asks m \<Longrightarrow> (case m of ToCoordinator (CoSendPacket p) \<Rightarrow> read_request p | ToMqtt _ \<Rightarrow> True | _ \<Rightarrow> False)" for m
    by (cases m rule: asks.cases) auto
  with ms show ?thesis by blast
qed

theorem read_only_commands_only_read_witness:
  "let c = CmdSetHold (example_inverter\<lparr> inv_read_only := Some True \<rparr>) 64 50; w = example_world [] in
   \<forall>m \<in> set (w_sent (run_world (process_command example_json True (example_config []) c w))).
     m \<noteq> ToCoordinator (CoSendPacket (td_packet serial_default DevWriteSingle serial_default 64 [50, 0]))"
proof -
  have "\<not> bit_switch (CmdSetHold (example_inverter\<lparr> inv_read_only := Some True \<rparr>) 64 50)"
    "cfg_global_read_only (example_config []) \<or>
     cfg_read_only (command_inverter (CmdSetHold (example_inverter\<lparr> inv_read_only := Some True \<rparr>) 64 50))"
    by (simp_all add: cfg_read_only_def)
  from read_only_commands_only_read[OF this, of example_json True "example_world []"] show ?thesis
    by (fastforce simp: Let_def example_world_def td_packet_def)
qed

text \<open>
  C20: a command that is issued over MQTT and asks through the coordinator puts nothing on the channel
  to the inverter while it runs: its packet waits on the coordinator's own channel, which the main
  loop only reads in a later turn, after the command has ended. Only the three bit switches write to
  the inverter's channel.
\<close>

theorem commands_wait_for_the_loop:
  "\<exists>ms. w_sent (run_world (process_command J oc cfg c w)) = w_sent w @ ms \<and>
    (\<forall>m \<in> set ms. case m of
       ToCoordinator (CoSendPacket _) \<Rightarrow> True
     | ToMqtt _ \<Rightarrow> True
     | ToInverter (ChPacket _) \<Rightarrow> bit_switch c
     | _ \<Rightarrow> False)"
proof -
  obtain ms where ms: "w_sent (run_world (process_command J oc cfg c w)) = w_sent w @ ms"
    "\<forall>m \<in> set ms. command_traffic m" "\<forall>m \<in> set ms. bit_switch c \<or> via_coordinator m"
    using emits_command(1)[of c w J oc cfg] emits_command(2)[of w J oc cfg c]
    by (cases "bit_switch c") (auto simp: emits_def)
  have "command_traffic m \<Longrightarrow> b \<or> via_coordinator m \<Longrightarrow>
     (case m of ToCoordinator (CoSendPacket _) \<Rightarrow> True | ToMqtt _ \<Rightarrow> True | ToInverter (ChPacket _) \<Rightarrow> b | _ \<Rightarrow> False)" for m b
    by (cases m rule: command_traffic.cases; cases m rule: via_coordinator.cases) auto
  with ms show ?thesis by blast
qed

theorem commands_wait_for_the_loop_witness:
  "ToInverter (ChPacket (example_td DevReadHold 21 [1, 0])) \<notin> set (w_sent (run_world
     (process_command example_json True (example_config []) (CmdReadHold example_inverter 21 1) (example_world []))))"
proof
  let ?r = "process_command example_json True (example_config []) (CmdReadHold example_inverter 21 1) (example_world [])"
  let ?m = "ToInverter (ChPacket (example_td DevReadHold 21 [1, 0]))"
  assume "?m \<in> set (w_sent (run_world ?r))"
  moreover obtain ms where "w_sent (run_world ?r) = w_sent (example_world []) @ ms"
    "\<forall>m \<in> set ms. case m of ToCoordinator (CoSendPacket _) \<Rightarrow> True | ToMqtt _ \<Rightarrow> True
       | ToInverter (ChPacket _) \<Rightarrow> bit_switch (CmdReadHold example_inverter 21 1) | _ \<Rightarrow> False"
    using commands_wait_for_the_loop by blast
  moreover have "w_sent (example_world []) = []" by (simp add: example_world_def)
  ultimately have "case ?m of ToCoordinator (CoSendPacket _) \<Rightarrow> True | ToMqtt _ \<Rightarrow> True
       | ToInverter (ChPacket _) \<Rightarrow> bit_switch (CmdReadHold example_inverter 21 1) | _ \<Rightarrow> False"
    by (metis append_Nil)
  then show False by simp
qed

text \<open>
  A message that is a command for one inverter and fails is answered once, with a message that is
  not retained, under the result topic of the command, that says \<^verbatim>\<open>FAIL\<close>; the loop goes on.
\<close>

theorem failed_command_is_answered:
  assumes "mq_enabled (cfg_mqtt cfg)" "inverters_for_message cfg m = Ok [i]" "to_command J m i = Ok c"
    "process_command J oc cfg c w = Finished (Err e) w'" "ChanMqtt \<notin> set (w_closed w')"
  shows "process_message J oc cfg m w = Finished (Ok ())
     (w'\<lparr> w_sent := w_sent w' @ [ToMqtt \<lparr> msg_topic = to_result_topic c, msg_retain = False, msg_payload = ''FAIL'' \<rparr>] \<rparr>)"
  using assms by (simp add: process_message_def lift_def send_def fail_message_def mqtt_msg_def)

theorem failed_command_is_answered_witness:
  "\<exists>w'. process_message example_json True (example_config [ascii_inverter]) (mqtt_msg ''cmd/all/set/param/64'' False ''5'')
     (example_world []\<lparr> w_closed := [ChanCoordinator] \<rparr>) = Finished (Ok ()) w' \<and>
   w_sent w' = [ToMqtt \<lparr> msg_topic = ''result/AAAAAAAAAA/set/param/64'', msg_retain = False, msg_payload = ''FAIL'' \<rparr>]"
proof -
  let ?m = "mqtt_msg ''cmd/all/set/param/64'' False ''5''"
  let ?w = "example_world []\<lparr> w_closed := [ChanCoordinator] \<rparr>"
  let ?c = "CmdWriteParam ascii_inverter 64 5"
  have split: "split_cmd_topic ?m = Ok (TargetAll, [''set'', ''param'', ''64''])"
    by (simp add: split_cmd_topic_def mqtt_msg_def Let_def)
  have "parse_uint ''64'' = Ok (64 :: u16)" "parse_uint ''5'' = Ok (5 :: u16)"
    by (simp_all add: parse_uint_def parse_radix_def char_digit_def Let_def)
  then have cmd: "to_command example_json ?m ascii_inverter = Ok ?c"
    by (simp add: to_command_def split set_command_arg_def payload_int_def) (simp add: mqtt_msg_def)
  have run: "process_command example_json True (example_config [ascii_inverter]) ?c ?w =
      Finished (Err ''Failed to send packet to coordinator: {}'') ?w"
    by (simp add: wi_set_param_def check_read_only_def lift_def write_param_run_def ascii_inverter_def
        request_coordinator_def send_def example_config_def)
  have topic: "to_result_topic ?c = ''result/AAAAAAAAAA/set/param/64''" by code_simp
  have "inverters_for_message (example_config [ascii_inverter]) ?m = Ok [ascii_inverter]"
    by (simp add: inverters_for_message_def split enabled_inverters_def example_config_def ascii_inverter_def)
  from failed_command_is_answered[OF _ this cmd run] show ?thesis
    unfolding topic by (simp add: example_config_def example_world_def)
qed

section \<open>Packets that stop the coordinator\<close>

definition json_no_panic :: "json_lib \<Rightarrow> bool" where
  "json_no_panic J \<longleftrightarrow> (\<forall>v. js_u16 J v \<noteq> Panic) \<and> (\<forall>b. js_bits21 J b \<noteq> Panic) \<and> (\<forall>b. js_bits110 J b \<noteq> Panic) \<and>
     (\<forall>i. js_input J i \<noteq> Panic)"

lemma omap_not_Panic: "(\<And>x. x \<in> set xs \<Longrightarrow> f x \<noteq> Panic) \<Longrightarrow> omap f xs \<noteq> Panic"
  by (induction xs) (auto simp: obind_eq_Panic)

lemma add_oc_index: "unat register + i < 2 ^ 16 \<Longrightarrow> add_oc oc (register :: u16) (word_of_nat i) = Ok (register + word_of_nat i)"
  by (rule add_oc_small) (simp add: unsigned_of_nat take_bit_nat_eq_self)

lemma raw_data_Ok: "\<forall>(i, _) \<in> set xs. unat register + i < 2 ^ 16 \<Longrightarrow> \<exists>r. raw_data oc register xs m = Ok r"
  by (induction xs arbitrary: m) (auto simp: add_oc_index)

lemma enumerate_index: "(i, x) \<in> set (enumerate xs) \<Longrightarrow> i < length xs"
  by (auto simp: enumerate_map_upt)

lemma co_send_not_Panic [simp]: "fst (co_send m e s) \<noteq> Panic"
  by (simp add: co_send_def)

lemma co_send_all_not_Panic [simp]: "fst (co_send_all ms e s) \<noteq> Panic"
proof (induction ms arbitrary: s)
  case (Cons m ms)
  then show ?case by (cases "co_send m e s"; cases "fst (co_send m e s)") (auto simp: co_send_def split: if_splits)
qed simp

lemma send_to_influx_not_Panic:
  assumes "unat (td_register td) + length (td_values td) \<le> 2 ^ 16"
  shows "fst (send_to_influx E td s) \<noteq> Panic"
proof -
  have "\<forall>(i, _) \<in> set (enumerate (td_values td)). unat (td_register td) + i < 2 ^ 16"
    using assms by (auto dest!: enumerate_index)
  from raw_data_Ok[OF this, of "en_oc E" Map.empty] show ?thesis by (auto simp: send_to_influx_def)
qed

lemma cache_loop_not_Panic:
  "\<forall>(i, _) \<in> set xs. unat register + i < 2 ^ 16 \<Longrightarrow> fst (cache_loop oc register xs s) \<noteq> Panic"
proof (induction xs arbitrary: s)
  case (Cons x xs)
  obtain i v where x: "x = (i, v)" by (cases x)
  have "fst (cache_loop oc register xs s') \<noteq> Panic" for s' using Cons by auto
  then show ?case
    using Cons.prems by (auto simp: x add_oc_index co_send_def)
qed simp

lemma chunk_value_Ok: "c \<in> set (chunks2 xs) \<Longrightarrow> \<exists>v. chunk_value c = Ok v"
  by (induction xs rule: chunks2.induct) (auto simp: chunk_value_def)

lemma cache_register_not_Panic:
  assumes "unat register + length xs \<le> 2 ^ 16"
  shows "fst (cache_register oc register xs s) \<noteq> Panic"
proof (cases "omap chunk_value (chunks2 xs)")
  case (Ok ys)
  then have "length ys = (length xs + 1) div 2" by (auto dest!: length_omap simp: length_chunks2)
  then have "\<forall>(i, _) \<in> set (enumerate ys). unat register + i < 2 ^ 16"
    using assms by (auto dest!: enumerate_index)
  then show ?thesis by (simp add: cache_register_def Ok cache_loop_not_Panic)
next
  case Panic
  moreover have "omap chunk_value (chunks2 xs) \<noteq> Panic"
    by (rule omap_not_Panic) (auto dest: chunk_value_Ok)
  ultimately show ?thesis by simp
qed (simp add: cache_register_def)

lemma for_hold_Panic:
  assumes "json_no_panic J" "unat (td_register td) + length (td_values td) \<le> 2 ^ 16"
  shows "for_hold J oc td = Panic \<longleftrightarrow> odd (length (td_values td))"
proof (cases "even (length (td_values td))")
  case True
  then have "td_pairs oc td = Ok (register_pairs (td_register td) (td_values td))"
    using assms(2) by (simp add: td_pairs_def value_pairs_even)
  moreover have "omap (\<lambda>(r, v). hold_messages J (td_datalog td) r v) ps \<noteq> Panic" for ps
    by (rule omap_not_Panic) (use assms(1) in \<open>auto simp: hold_messages_def Let_def obind_eq_Panic json_no_panic_def split: if_splits\<close>)
  ultimately show ?thesis using True by (auto simp: for_hold_def obind_eq_Panic)
qed (simp add: for_hold_def td_pairs_def value_pairs_odd)

lemma code_strings_not_Panic: "warning_code_string v \<noteq> Panic" "fault_code_string v \<noteq> Panic"
proof -
  have "is_ok (warning_code_string v) \<and> is_ok (fault_code_string v)"
  proof (cases "v = 0")
    case False
    then obtain i where "i < 32" "find (\<lambda>i. v AND push_bit i 1 > 0) [0..<32] = Some i"
      by (rule find_lowest_bit)
    then show ?thesis
      using False from_bit_ok[of i] unfolding warning_code_string_def fault_code_string_def by simp
  qed (simp add: warning_code_string_def fault_code_string_def)
  then show "warning_code_string v \<noteq> Panic" "fault_code_string v \<noteq> Panic" by auto
qed

lemma input_loop_not_Panic: "json_no_panic J \<Longrightarrow> input_loop_run J d ps s \<noteq> Panic"
  by (induction J d ps s rule: input_loop_run.induct) (auto simp: Let_def obind_eq_Panic json_no_panic_def)

lemma individual_messages_Panic:
  assumes "json_no_panic J" "unat (td_register td) + length (td_values td) \<le> 2 ^ 16"
  shows "individual_messages J oc td = Panic \<longleftrightarrow> odd (length (td_values td))"
proof (cases "even (length (td_values td))")
  case True
  then have "td_pairs oc td = Ok (register_pairs (td_register td) (td_values td))"
    using assms(2) by (simp add: td_pairs_def value_pairs_even)
  then show ?thesis
    using True input_loop_not_Panic[OF assms(1)] code_strings_not_Panic
    by (auto simp: individual_messages_def obind_eq_Panic)
qed (simp add: individual_messages_def td_pairs_def value_pairs_odd)

lemma send_to_mqtt_Panic:
  assumes "json_no_panic (en_json E)" "unat (td_register td) + length (td_values td) \<le> 2 ^ 16"
  shows "fst (send_to_mqtt E td i s) = Panic \<longleftrightarrow>
    mq_enabled (cfg_mqtt (co_config s)) \<and> odd (length (td_values td)) \<and>
    (td_device_function td = DevReadHold \<or> td_device_function td = DevReadHoldError \<or>
     cfg_publish_individual_input (cfg_mqtt (co_config s)))"
proof -
  have js: "js_input (en_json E) x \<noteq> Panic" for x using assms(1) by (simp add: json_no_panic_def)
  have fst_then: "(\<And>a. fst (f a s) \<noteq> Panic) \<Longrightarrow> fst (co_then (r, s) f) = Panic \<longleftrightarrow> r = Panic" for r and f :: "'x \<Rightarrow> coordinator \<Rightarrow> unit handled"
    by (cases r) auto
  have "for_input_with_parsed (en_json E) (en_oc E) td b i = Panic \<longleftrightarrow> b \<and> odd (length (td_values td))" for b
    using individual_messages_Panic[OF assms] js
    by (auto simp: for_input_with_parsed_def obind_eq_Panic split: option.splits)
  then show ?thesis
    using for_hold_Panic[OF assms] by (auto simp: send_to_mqtt_def Let_def fst_then)
qed

lemma co_log_Panic: "fst (co_log m f) = Panic \<longleftrightarrow> fst m = Panic \<or> fst (f (snd m)) = Panic"
  by (cases m; cases "fst m") auto

lemma send_to_database_not_Panic: "fst (send_to_database td i s) \<noteq> Panic"
  by (auto simp: send_to_database_def co_send_def split: option.split prod.split)

lemma co_log_result: "(\<And>s. fst (f s) \<in> {Ok (), Panic}) \<Longrightarrow> fst (co_log m f) \<in> {Ok (), Panic}"
  by (cases m; cases "fst m") auto

lemma process_translated_data_no_Err: "fst (process_translated_data E td s) \<in> {Ok (), Panic}"
proof -
  have "parse_input E td \<noteq> Err e" for e by (auto simp: parse_input_def split: outcome.splits)
  then show ?thesis
    unfolding process_translated_data_def
    by (cases "parse_input E td") (simp_all only: co_then_simps fst_conv insert_iff, auto intro!: co_log_result[simplified])
qed

lemma update_datalog_same: "update_datalog_loop d d is = Some is' \<Longrightarrow> is' = is"
proof (induction "is" arbitrary: is')
  case (Cons i "is")
  have "i\<lparr> inv_datalog := Some d \<rparr> = i" if "inv_datalog i = Some d"
    using that by (cases i) simp
  with Cons show ?case by (auto split: if_splits)
qed simp

lemma learn_unknown: "enabled_inverter_with_datalog c (packet_datalog p) = None \<Longrightarrow> learn p c = c"
  by (auto simp: learn_def update_inverter_datalog_def split: outcome.splits option.splits dest: update_datalog_same)

lemma learn_cases:
  obtains "learn p c = c"
  | td i old "is" where "p = PTranslatedData td" "enabled_inverter_with_datalog c (td_datalog td) = Some i"
      "inv_serial i = Some old" "old \<noteq> td_inverter td"
      "update_serial_loop old (td_inverter td) (cfg_inverters c) = Some is" "learn p c = c\<lparr> cfg_inverters := is \<rparr>"
proof (cases "enabled_inverter_with_datalog c (packet_datalog p)")
  case None
  then show ?thesis using that(1) learn_unknown by blast
next
  case (Some i)
  show ?thesis
  proof (cases "\<exists>td old is. p = PTranslatedData td \<and> inv_serial i = Some old \<and> old \<noteq> td_inverter td \<and>
      update_serial_loop old (td_inverter td) (cfg_inverters c) = Some is")
    case True
    then obtain td old "is" where *: "p = PTranslatedData td" "inv_serial i = Some old" "old \<noteq> td_inverter td"
      "update_serial_loop old (td_inverter td) (cfg_inverters c) = Some is" by blast
    then have "learn p c = c\<lparr> cfg_inverters := is \<rparr>"
      using Some by (simp add: learn_def update_inverter_serial_def)
    with * Some that(2) show ?thesis by simp
  next
    case False
    then have "learn p c = c"
      using Some by (auto simp: learn_def update_inverter_serial_def split: packet.splits option.splits outcome.splits)
    then show ?thesis by (rule that(1))
  qed
qed

lemma learn_mqtt: "cfg_mqtt (learn p c) = cfg_mqtt c"
  by (cases p c rule: learn_cases) simp_all

lemma process_translated_data_Panic:
  assumes "nom_ok (en_nom E)" "json_no_panic (en_json E)" "unat (td_register td) + length (td_values td) \<le> 2 ^ 16"
  shows "fst (process_translated_data E td s) = Panic \<longleftrightarrow> odd (length (td_values td)) \<and>
     ((td_device_function td = DevReadInput \<and> td_register td = 200 \<and> 2 \<le> length (td_values td) \<and> length (td_values td) \<le> 80) \<or>
      (mq_enabled (cfg_mqtt (co_config s)) \<and>
        (td_device_function td = DevReadHold \<or> td_device_function td = DevReadHoldError \<or>
         cfg_publish_individual_input (cfg_mqtt (co_config s)))))"
proof (cases "parse_input E td")
  case (Ok i)
  let ?f1 = "if td_device_function td = DevWriteSingle \<or> td_device_function td = DevWriteMulti
       then (Ok (), s) else send_to_influx E td s"
  let ?s1 = "snd ?f1"
  let ?s2 = "snd (send_to_database td i ?s1)"
  let ?s3 = "snd (cache_register (en_oc E) (td_register td) (td_values td) ?s2)"
  have "sends fan_out s ?s1" "sends fan_out ?s1 ?s2" "sends fan_out ?s2 ?s3"
    by (auto intro: sends_influx sends_database sends_cache)
  then have cfg: "co_config ?s3 = co_config s"
    by (simp only: sends_fields(1))
  have "fst ?f1 \<noteq> Panic" using send_to_influx_not_Panic[OF assms(3)] by simp
  then have "fst (process_translated_data E td s) = Panic \<longleftrightarrow> fst (send_to_mqtt E td i ?s3) = Panic"
    using cache_register_not_Panic[OF assms(3)] send_to_database_not_Panic
    by (cases "send_to_mqtt E td i ?s3"; cases "fst (send_to_mqtt E td i ?s3)")
      (simp_all add: process_translated_data_def Ok co_log_Panic)
  moreover have "td_device_function td = DevReadInput \<Longrightarrow> td_read_input (en_nom E) (en_oc E) (en_now E) td \<noteq> Panic"
    using Ok by (auto simp: parse_input_def)
  ultimately show ?thesis
    using send_to_mqtt_Panic[OF assms(2,3), of i ?s3] td_read_input_Panic[OF assms(1), of "en_oc E" "en_now E" td]
    unfolding cfg by blast
next
  case (Err e)
  then show ?thesis by (auto simp: parse_input_def split: if_splits outcome.splits)
next
  case Panic
  then show ?thesis using td_read_input_Panic[OF assms(1), of "en_oc E" "en_now E" td]
    by (auto simp: process_translated_data_def parse_input_def split: if_splits outcome.splits)
qed

text \<open>
  C21: handling a reply never ends in an error, and it panics, which ends the coordinator's task, exactly
  when the reply has an odd number of value bytes and is an input block at register 200, or MQTT is on
  and its registers are published. Replies with an odd number of bytes come out of the decoder.
\<close>

theorem packet_panics_iff:
  assumes "nom_ok (en_nom E)" "json_no_panic (en_json E)" "unat (td_register td) + length (td_values td) \<le> 2 ^ 16"
    "\<not> is_shutting_down s"
  shows "fst (process_packet E (PTranslatedData td) s) =
    (if odd (length (td_values td)) \<and>
        ((td_device_function td = DevReadInput \<and> td_register td = 200 \<and> 2 \<le> length (td_values td) \<and> length (td_values td) \<le> 80) \<or>
         (mq_enabled (cfg_mqtt (co_config s)) \<and>
           (td_device_function td = DevReadHold \<or> td_device_function td = DevReadHoldError \<or>
            cfg_publish_individual_input (cfg_mqtt (co_config s)))))
     then Panic else Ok ())"
proof -
  let ?s = "s\<lparr> co_stats := count_packet (PTranslatedData td) (co_stats s), co_config := learn (PTranslatedData td) (co_config s) \<rparr>"
  have run: "process_packet E (PTranslatedData td) s = process_translated_data E td ?s"
    using assms(4) by (simp add: process_packet_def is_shutting_down_def)
  have mq: "cfg_mqtt (co_config ?s) = cfg_mqtt (co_config s)" by (simp add: learn_mqtt)
  have "fst (process_translated_data E td ?s) \<in> {Ok (), Panic}"
    by (rule process_translated_data_no_Err)
  with process_translated_data_Panic[OF assms(1-3), of ?s] show ?thesis
    unfolding run mq by (metis (no_types, lifting) insertE singletonD)
qed

definition example_env :: bridge_env where
  "example_env = \<lparr> en_json = example_json, en_nom = nom_ref, en_oc = True, en_now = 7, en_utc = 1700000000 \<rparr>"

lemma example_json_no_panic: "json_no_panic example_json"
  by (simp add: json_no_panic_def example_json_def)

theorem packet_panics_iff_witness:
  "fst (process_packet example_env (example_td DevReadHold 21 [1, 2, 3])
     (coordinator_new (example_config []) (example_world []))) = Panic \<and>
   fst (process_packet example_env (example_td DevReadHold 21 [1, 2])
     (coordinator_new (example_config []) (example_world []))) = Ok ()"
proof -
  have E: "nom_ok (en_nom example_env)" "json_no_panic (en_json example_env)"
    by (simp_all add: example_env_def nom_ok_ref example_json_no_panic)
  have s: "\<not> is_shutting_down (coordinator_new (example_config []) (example_world []))"
    by (simp add: is_shutting_down_def coordinator_new_def example_world_def)
  show ?thesis
    unfolding example_td_def
    by (subst (1 2) packet_panics_iff[OF E _ s]) (simp_all add: coordinator_new_def example_config_def)
qed

section \<open>What a packet changes\<close>

lemma learn_exact:
  "if \<exists>td i old. p = PTranslatedData td \<and> enabled_inverter_with_datalog c (td_datalog td) = Some i \<and>
       inv_serial i = Some old \<and> old \<noteq> td_inverter td
   then \<exists>td i old pre j post. p = PTranslatedData td \<and> enabled_inverter_with_datalog c (td_datalog td) = Some i \<and>
       inv_serial i = Some old \<and> old \<noteq> td_inverter td \<and>
       cfg_inverters c = pre @ j # post \<and> (\<forall>k \<in> set pre. inv_serial k \<noteq> Some old) \<and> inv_serial j = Some old \<and>
       learn p c = c\<lparr> cfg_inverters := pre @ j\<lparr> inv_serial := Some (td_inverter td) \<rparr> # post \<rparr>
   else learn p c = c"
proof (cases "\<exists>td i old. p = PTranslatedData td \<and> enabled_inverter_with_datalog c (td_datalog td) = Some i \<and>
       inv_serial i = Some old \<and> old \<noteq> td_inverter td")
  case True
  then obtain td i old where t: "p = PTranslatedData td" "enabled_inverter_with_datalog c (td_datalog td) = Some i"
      "inv_serial i = Some old" "old \<noteq> td_inverter td" by blast
  have "i \<in> set (cfg_inverters c)"
    using t(2) by (auto simp: enabled_inverter_with_datalog_def enabled_inverters_def find_Some_iff)
       (metis filter_is_subset nth_mem subsetD)
  then obtain pre j post where j: "cfg_inverters c = pre @ j # post" "inv_serial j = Some old"
      "\<forall>k \<in> set pre. inv_serial k \<noteq> Some old"
    using split_list_first_prop[of "cfg_inverters c" "\<lambda>k. inv_serial k = Some old"] t(3) by blast
  have "update_serial_loop old (td_inverter td) (cfg_inverters c) =
      Some (pre @ j\<lparr> inv_serial := Some (td_inverter td) \<rparr> # post)"
    using j by (auto simp: update_serial_loop_first)
  then have "learn p c = c\<lparr> cfg_inverters := pre @ j\<lparr> inv_serial := Some (td_inverter td) \<rparr> # post \<rparr>"
    using t by (simp add: learn_def update_inverter_serial_def)
  with t j True show ?thesis by auto
next
  case False
  then show ?thesis by (cases p c rule: learn_cases) auto
qed

text \<open>
  C22: a packet changes the configuration in one case only, and then it does: it is translated data of an
  enabled inverter's data logger and carries another serial number than the configuration. Then the first
  inverter of the whole list with the old serial number, enabled or not, gets the new one. Every other
  packet, also one of an unknown data logger, changes nothing.
\<close>

theorem packet_learns_serial:
  "let c = co_config s; c' = co_config (snd (process_packet E p s)) in
     if \<exists>td i old. p = PTranslatedData td \<and> enabled_inverter_with_datalog c (td_datalog td) = Some i \<and>
          inv_serial i = Some old \<and> old \<noteq> td_inverter td
     then \<exists>td i old pre j post. p = PTranslatedData td \<and> enabled_inverter_with_datalog c (td_datalog td) = Some i \<and>
          inv_serial i = Some old \<and> old \<noteq> td_inverter td \<and>
          cfg_inverters c = pre @ j # post \<and> (\<forall>k \<in> set pre. inv_serial k \<noteq> Some old) \<and> inv_serial j = Some old \<and>
          c' = c\<lparr> cfg_inverters := pre @ j\<lparr> inv_serial := Some (td_inverter td) \<rparr> # post \<rparr>
     else c' = c"
proof -
  have "co_config (snd (process_packet E p s)) = learn p (co_config s)"
    using sends_fields(1)[OF sends_packet[of p s E]] by simp
  then show ?thesis unfolding Let_def by (simp only:) (rule learn_exact)
qed

theorem packet_learns_serial_witness:
  "let s = coordinator_new (example_config [example_inverter]) (example_world []);
       td = \<lparr> td_datalog = serial_default, td_device_function = DevWriteMulti, td_inverter = Serial (replicate 10 65),
              td_register = 12, td_values = [] \<rparr>;
       c' = co_config (snd (process_packet example_env (PTranslatedData td) s))
   in map inv_serial (cfg_inverters c') = [Some (Serial (replicate 10 65))]"
  using packet_learns_serial[of "coordinator_new (example_config [example_inverter]) (example_world [])" example_env
    "PTranslatedData \<lparr> td_datalog = serial_default, td_device_function = DevWriteMulti, td_inverter = Serial (replicate 10 65),
              td_register = 12, td_values = [] \<rparr>"]
  by (auto simp: Let_def coordinator_new_def example_config_def example_inverter_def Cons_eq_append_conv
      enabled_inverter_with_datalog_def enabled_inverters_def serial_default_def split: if_splits)

section \<open>Invariants of the main loop\<close>

fun result_state :: "loop_result \<Rightarrow> coordinator" where
  "result_state (Continue s) = s"
| "result_state (Leave s) = s"
| "result_state (Crash s) = s"
| "result_state (Stuck s) = s"

text \<open>A property that every turn keeps holds after every run.\<close>

lemma main_loop_induct:
  assumes "I s" "\<And>E ev s. (E, ev) \<in> set evs \<Longrightarrow> I s \<Longrightarrow> I (result_state (loop_step E ev s))"
  shows "I (result_state (main_loop evs s))"
  using main_task.result_induct[of "\<lambda>r. I (result_state r)" s evs] assms by auto

text \<open>The cases of a turn: a packet was handled, a command ran, or one message was forwarded.\<close>

lemma loop_step_cases:
  obtains "result_state (loop_step E ev s) = s"
  | p where "result_state (loop_step E ev s) = snd (process_packet E p s)"
  | m where "ev = FromMqttRecv m"
      "result_state (loop_step E ev s) = s\<lparr> co_world := run_world (process_message (en_json E) (en_oc E) (co_config s) m (co_world s)) \<rparr>"
  | p where "result_state (loop_step E ev s) = snd (co_send (ToInverter (ChPacket p)) ''SendError'' s)"
proof -
  have after: "result_state (after_handler m) = snd m" for m
    by (cases m; cases "fst m") (auto simp: after_handler_def)
  have fwd: "snd (co_log m (\<lambda>s. (Ok (), s))) = snd m" for m
    by (cases m; cases "fst m") auto
  show ?thesis
  proof (cases "(E, ev, s)" rule: loop_step.cases)
    case (13 E' m s')
    then have "result_state (loop_step E ev s) =
        s\<lparr> co_world := run_world (process_message (en_json E) (en_oc E) (co_config s) m (co_world s)) \<rparr>"
      by (auto split: run.split outcome.split)
    with 13 that(3) show ?thesis by simp
  qed (use that after fwd in auto)
qed

text \<open>
  C23: the statistics and the configuration of a running coordinator, after any sequence of events. The
  number of packets received is the sum of the four counts by kind (as 64-bit counters), and the
  inverters of the configuration differ from the initial ones in their serial numbers only.
\<close>

theorem main_loop_invariant:
  "let s = result_state (main_loop evs (coordinator_new c w)); st = co_stats s;
       no_serial = inv_serial_update (\<lambda>_. None) in
     st_packets_received st = st_heartbeat_packets_received st + st_translated_data_packets_received st +
        st_read_param_packets_received st + st_write_param_packets_received st \<and>
     map no_serial (cfg_inverters (co_config s)) = map no_serial (cfg_inverters c) \<and>
     co_config s\<lparr> cfg_inverters := [] \<rparr> = c\<lparr> cfg_inverters := [] \<rparr>"
proof -
  let ?N = "\<lambda>c. map (inv_serial_update (\<lambda>_. None)) (cfg_inverters c)"
  define I :: "coordinator \<Rightarrow> bool" where "I s \<longleftrightarrow> (let st = co_stats s in
     st_packets_received st = st_heartbeat_packets_received st + st_translated_data_packets_received st +
        st_read_param_packets_received st + st_write_param_packets_received st) \<and>
     ?N (co_config s) = ?N c \<and> co_config s\<lparr> cfg_inverters := [] \<rparr> = c\<lparr> cfg_inverters := [] \<rparr>" for s
  have loop: "update_serial_loop a b is = Some is' \<Longrightarrow>
      map (inv_serial_update (\<lambda>_. None)) is' = map (inv_serial_update (\<lambda>_. None)) is" for a b "is" is'
    by (auto simp: update_serial_loop_first)
  have learn: "?N (learn p c') = ?N c' \<and> learn p c'\<lparr> cfg_inverters := [] \<rparr> = c'\<lparr> cfg_inverters := [] \<rparr>" for p c'
    by (cases p c' rule: learn_cases) (simp_all add: loop)
  have count: "(let st = count_packet p st in
     st_packets_received st = st_heartbeat_packets_received st + st_translated_data_packets_received st +
        st_read_param_packets_received st + st_write_param_packets_received st)"
    if "st_packets_received st = st_heartbeat_packets_received st + st_translated_data_packets_received st +
        st_read_param_packets_received st + st_write_param_packets_received st" for p st
    using that by (cases p) (simp_all add: Let_def)
  have "I (result_state (main_loop evs (coordinator_new c w)))"
  proof (rule main_loop_induct)
    show "I (coordinator_new c w)" by (simp add: I_def coordinator_new_def packet_stats_default_def)
    fix E ev s
    assume "I s"
    show "I (result_state (loop_step E ev s))"
    proof (cases E ev s rule: loop_step_cases)
      case (2 p)
      have "co_stats (snd (process_packet E p s)) = count_packet p (co_stats s)"
        "co_config (snd (process_packet E p s)) = learn p (co_config s)"
        using sends_fields(1,2)[OF sends_packet[of p s E]] by simp_all
      with 2 \<open>I s\<close> count[of "co_stats s" p] learn[of p "co_config s"] show ?thesis by (simp add: I_def Let_def)
    qed (use \<open>I s\<close> in \<open>auto simp: I_def co_send_def\<close>)
  qed
  then show ?thesis by (simp add: I_def Let_def)
qed

section \<open>The database\<close>

definition no_row :: "sent \<Rightarrow> bool" where
  "no_row m \<longleftrightarrow> (case m of ToDatabase _ \<Rightarrow> False | _ \<Rightarrow> True)"

text \<open>No data logger has a second or third block in the store, and no row was sent.\<close>

definition no_rows :: "coordinator \<Rightarrow> bool" where
  "no_rows s \<longleftrightarrow> (\<forall>d e. co_inputs_store s d = Some e \<longrightarrow> ris_2 e = None) \<and> (\<forall>m \<in> set (w_sent (co_world s)). no_row m)"

lemma store_unchanged [simp]:
  "co_inputs_store (snd (co_send m e s)) = co_inputs_store s"
  "co_inputs_store (snd (send_to_influx E td s)) = co_inputs_store s"
  by (auto simp: co_send_def send_to_influx_def split: outcome.split)

lemma store_cache_loop [simp]: "co_inputs_store (snd (cache_loop oc register xs s)) = co_inputs_store s"
proof (induction oc register xs s rule: cache_loop.induct)
  case (2 oc register i v rest s)
  then show ?case
    by (cases "add_oc oc register (word_of_nat i)") (auto simp: co_send_def)
qed simp

lemma store_cache_register [simp]: "co_inputs_store (snd (cache_register oc register xs s)) = co_inputs_store s"
  by (cases "omap chunk_value (chunks2 xs)") (simp_all add: cache_register_def)

lemma store_send_all [simp]: "co_inputs_store (snd (co_send_all ms e s)) = co_inputs_store s"
  by (induction ms e s rule: co_send_all.induct) (auto simp: co_send_def)

lemma store_send_to_mqtt [simp]: "co_inputs_store (snd (send_to_mqtt E td i s)) = co_inputs_store s"
  by (auto simp: send_to_mqtt_def Let_def co_then_def split: outcome.split)

lemma no_rows_sends: "no_rows s \<Longrightarrow> sends no_row s s' \<Longrightarrow> co_inputs_store s' = co_inputs_store s \<Longrightarrow> no_rows s'"
  by (auto simp: no_rows_def sends_def)

lemma no_rows_handlers:
  assumes "no_rows s"
  shows "no_rows (snd (send_to_influx E td s))" "no_rows (snd (cache_register oc register xs s))"
    "no_rows (snd (send_to_mqtt E td i s))"
  using assms by (auto intro!: no_rows_sends[of s] sends_influx sends_cache sends_mqtt simp: no_row_def)

lemma no_rows_database:
  assumes "no_rows s" "\<forall>b. i = Some b \<longrightarrow> wire_block b"
  shows "no_rows (snd (send_to_database td i s))"
proof (cases i)
  case (Some b)
  then have b: "wire_block b" using assms(2) by simp
  have "\<exists>e. store_input (td_datalog td) b s = (None, s\<lparr> co_inputs_store := (co_inputs_store s)(td_datalog td \<mapsto> e) \<rparr>) \<and>
      ris_2 e = None"
    using b assms(1)
    by (cases b; cases "co_inputs_store s (td_datalog td)")
      (auto simp: update_inputs_store_def Let_def no_rows_def to_input_all_def read_inputs_default_def
        set_read_input_1_def set_read_input_4_def set_read_input_5_def set_read_input_6_def split: option.splits)
  then obtain e where "store_input (td_datalog td) b s =
      (None, s\<lparr> co_inputs_store := (co_inputs_store s)(td_datalog td \<mapsto> e) \<rparr>)" "ris_2 e = None" by blast
  with Some assms(1) show ?thesis by (auto simp: send_to_database_def no_rows_def)
qed (use assms(1) in \<open>simp add: send_to_database_def\<close>)

lemma no_rows_log: "no_rows (snd m) \<Longrightarrow> (\<And>s. no_rows s \<Longrightarrow> no_rows (snd (f s))) \<Longrightarrow> no_rows (snd (co_log m f))"
  by (cases m; cases "fst m") auto

lemma no_rows_translated_data:
  assumes "nom_ok (en_nom E)" "no_rows s"
  shows "no_rows (snd (process_translated_data E td s))"
proof (cases "parse_input E td")
  case (Ok i)
  then have "\<forall>b. i = Some b \<longrightarrow> wire_block b"
    using td_read_input_wire_block[OF assms(1)] by (auto simp: parse_input_def split: if_splits outcome.splits)
  then show ?thesis
    unfolding process_translated_data_def Ok co_then_simps
    by (intro no_rows_log) (auto intro: no_rows_handlers no_rows_database assms(2))
qed (use assms(2) in \<open>simp_all add: process_translated_data_def\<close>)

lemma no_rows_packet:
  assumes "nom_ok (en_nom E)" "no_rows s"
  shows "no_rows (snd (process_packet E p s))"
proof -
  let ?s = "s\<lparr> co_stats := count_packet p (co_stats s), co_config := learn p (co_config s) \<rparr>"
  have "no_rows ?s" using assms(2) by (simp add: no_rows_def)
  then show ?thesis
    by (cases p) (auto simp: process_packet_def process_write_param_def Let_def simp del: count_packet.simps
        intro!: no_rows_log no_rows_handlers no_rows_translated_data[OF assms(1)])
qed

text \<open>
  C26: the database gets nothing. Whatever the inverters send and whatever is commanded, the coordinator
  never sends a row to the database channel, because the second and third block of registers never
  decode and so no data logger ever has all six blocks.
\<close>

theorem database_never_written:
  assumes "\<forall>(E, ev) \<in> set evs. nom_ok (en_nom E)" "co_inputs_store s = Map.empty"
    "\<forall>r. ToDatabase r \<notin> set (w_sent (co_world s))"
  shows "ToDatabase r \<notin> set (w_sent (co_world (result_state (main_loop evs s))))"
proof -
  have "no_rows (result_state (main_loop evs s))"
  proof (rule main_loop_induct)
    show "no_rows s" using assms(2,3) by (auto simp: no_rows_def no_row_def split: sent.split)
    fix E ev s
    assume E: "(E, ev) \<in> set evs" and s: "no_rows s"
    show "no_rows (result_state (loop_step E ev s))"
    proof (cases E ev s rule: loop_step_cases)
      case (2 p)
      then show ?thesis using no_rows_packet[OF _ s, of E p] E assms(1) by auto
    next
      case (3 m)
      obtain ms where ms: "\<forall>m \<in> set ms. command_traffic m"
        "w_sent (run_world (process_message (en_json E) (en_oc E) (co_config s) m (co_world s))) = w_sent (co_world s) @ ms"
        using emits_process_message[of "co_world s" "en_json E" "en_oc E" "co_config s" m] by (auto simp: emits_def)
      have "\<forall>m \<in> set ms. no_row m" using ms(1) by (force simp: no_row_def split: sent.splits)
      with 3 ms(2) s show ?thesis by (auto simp: no_rows_def)
    next
      case (4 p)
      then show ?thesis using s by (auto simp: no_rows_def co_send_def no_row_def)
    qed (use s in simp)
  qed
  then show ?thesis by (auto simp: no_rows_def no_row_def)
qed

theorem database_never_written_witness:
  "\<forall>r. ToDatabase r \<notin> set (w_sent (co_world (result_state (main_loop
     (map (\<lambda>r. (example_env, FromInverterRecv (Some (ChPacket (example_td DevReadInput r (replicate 80 1))))))
        [0, 40, 80, 120, 160, 200])
     (start_databases (coordinator_new (example_config []) (example_world [])))))))"
proof -
  let ?s = "start_databases (coordinator_new (example_config []) (example_world []))"
  let ?evs = "map (\<lambda>r. (example_env, FromInverterRecv (Some (ChPacket (example_td DevReadInput r (replicate 80 1))))))
     [0, 40, 80, 120, 160, 200]"
  have "\<forall>(E, ev) \<in> set ?evs. nom_ok (en_nom E)" by (auto simp: example_env_def nom_ok_ref)
  moreover have "co_inputs_store ?s = Map.empty" "\<forall>r. ToDatabase r \<notin> set (w_sent (co_world ?s))"
    by (simp_all add: start_databases_def coordinator_new_def example_world_def)
  ultimately have "ToDatabase r \<notin> set (w_sent (co_world (result_state (main_loop ?evs ?s))))" for r
    by (rule database_never_written)
  then show ?thesis by blast
qed

section \<open>The register cache\<close>

text \<open>What the cache receives of the messages that were sent.\<close>

fun cache_events :: "sent list \<Rightarrow> cache_event list" where
  "cache_events [] = []"
| "cache_events (ToRegisterCache r v # ms) = OnWrite (RegisterData r v) # cache_events ms"
| "cache_events (m # ms) = cache_events ms"

lemma cache_events_append: "cache_events (xs @ ys) = cache_events xs @ cache_events ys"
  by (induction xs rule: cache_events.induct) auto

definition not_cached :: "sent \<Rightarrow> bool" where
  "not_cached m \<longleftrightarrow> (case m of ToRegisterCache _ _ \<Rightarrow> False | _ \<Rightarrow> True)"

lemma cache_events_none: "\<forall>m \<in> set ms. not_cached m \<Longrightarrow> cache_events ms = []"
  by (induction ms rule: cache_events.induct) (auto simp: not_cached_def)

lemma cache_events_pairs:
  "cache_events (map (\<lambda>(r, v). ToRegisterCache r v) ps) = map (\<lambda>(r, v). OnWrite (RegisterData r v)) ps"
  by (induction ps) auto

lemma chunk_values:
  assumes "even (length xs)"
  shows "omap chunk_value (chunks2 xs) = Ok (map (\<lambda>i. word_at xs (2 * i)) [0..<length xs div 2])"
proof -
  have "chunks2 xs = map (\<lambda>i. [xs ! (2 * i), xs ! (2 * i + 1)]) [0..<length xs div 2]"
    using assms by (intro nth_equalityI) (auto simp: length_chunks2 chunks2_nth)
  then have "omap chunk_value (chunks2 xs) = omap (\<lambda>i. Ok (word_at xs (2 * i))) [0..<length xs div 2]"
    by (simp only: omap_map) (rule arg_cong2[where f = omap], auto simp: chunk_value_def word_at_def)
  then show ?thesis by (simp add: omap_cong_Ok)
qed

lemma cache_loop_open:
  assumes "ChanCache \<notin> set (w_closed (co_world s))" "\<forall>(i, _) \<in> set xs. unat register + i < 2 ^ 16"
  shows "cache_loop oc register xs s = (Ok (), s\<lparr> co_world := (co_world s)\<lparr> w_sent :=
    w_sent (co_world s) @ map (\<lambda>(i, v). ToRegisterCache (register + word_of_nat i) v) xs \<rparr> \<rparr>)"
  using assms
proof (induction xs arbitrary: s)
  case (Cons x xs)
  obtain i v where x: "x = (i, v)" by (cases x)
  show ?case using Cons by (simp add: x add_oc_index co_send_def)
qed simp

lemma cache_register_open:
  assumes "ChanCache \<notin> set (w_closed (co_world s))" "even (length xs)" "unat register + length xs div 2 \<le> 2 ^ 16"
  shows "cache_register oc register xs s = (Ok (), s\<lparr> co_world := (co_world s)\<lparr> w_sent :=
    w_sent (co_world s) @ map (\<lambda>(r, v). ToRegisterCache r v) (register_pairs register xs) \<rparr> \<rparr>)"
proof -
  have e: "enumerate (map (\<lambda>i. word_at xs (2 * i)) [0..<length xs div 2]) =
      map (\<lambda>i. (i, word_at xs (2 * i))) [0..<length xs div 2]"
    unfolding enumerate_map_upt by (rule nth_equalityI) simp_all
  show ?thesis
    unfolding cache_register_def chunk_values[OF assms(2)] co_then_simps e
    by (subst cache_loop_open) (use assms in \<open>auto simp: register_pairs_def comp_def\<close>)
qed

lemma packet_cache_events:
  assumes "process_packet E (PTranslatedData td) s = (Ok (), s')" "\<not> is_shutting_down s"
    "ChanCache \<notin> set (w_closed (co_world s))" "even (length (td_values td))"
    "unat (td_register td) + length (td_values td) div 2 \<le> 2 ^ 16"
  shows "\<exists>ms. w_sent (co_world s') = w_sent (co_world s) @ ms \<and>
    cache_events ms = map (\<lambda>(r, v). OnWrite (RegisterData r v)) (register_pairs (td_register td) (td_values td))"
proof -
  let ?s = "s\<lparr> co_stats := count_packet (PTranslatedData td) (co_stats s), co_config := learn (PTranslatedData td) (co_config s) \<rparr>"
  have run: "process_translated_data E td ?s = (Ok (), s')"
    using assms(1,2) by (simp add: process_packet_def is_shutting_down_def)
  then obtain i where i: "parse_input E td = Ok i"
    by (cases "parse_input E td") (auto simp: process_translated_data_def)
  let ?f1 = "if td_device_function td = DevWriteSingle \<or> td_device_function td = DevWriteMulti
       then (Ok (), ?s) else send_to_influx E td ?s"
  define s1 where "s1 = snd ?f1"
  define s2 where "s2 = snd (send_to_database td i s1)"
  have log: "fst r = Ok () \<Longrightarrow> co_log m f = r \<Longrightarrow> f (snd m) = r" for m and f :: "coordinator \<Rightarrow> unit handled" and r
    by (cases m; cases "fst m") auto
  note r1 = run[unfolded process_translated_data_def i co_then_simps]
  have "co_log (cache_register (en_oc E) (td_register td) (td_values td) s2)
      (\<lambda>s. co_log (send_to_mqtt E td i s) (\<lambda>s. (Ok (), s))) = (Ok (), s')"
    unfolding s2_def s1_def using log[OF _ log[OF _ r1]] by simp
  moreover have not_cached: "sends not_cached ?s s1" "sends not_cached s1 s2"
    unfolding s1_def s2_def by (auto intro!: sends_influx sends_database simp: not_cached_def)
  moreover have "ChanCache \<notin> set (w_closed (co_world s2))"
    using assms(3) sends_fields(5)[OF not_cached(1)] sends_fields(5)[OF not_cached(2)] by simp
  ultimately obtain s3 where s3: "s3 = s2\<lparr> co_world := (co_world s2)\<lparr> w_sent :=
      w_sent (co_world s2) @ map (\<lambda>(r, v). ToRegisterCache r v) (register_pairs (td_register td) (td_values td)) \<rparr> \<rparr>"
    "co_log (send_to_mqtt E td i s3) (\<lambda>s. (Ok (), s)) = (Ok (), s')"
    by (simp add: cache_register_open[OF _ assms(4,5)])
  have "s' = snd (send_to_mqtt E td i s3)" using log[OF _ s3(2)] by simp
  then have "sends not_cached s3 s'" by (simp add: sends_mqtt not_cached_def)
  from sends_fields(7)[OF this] obtain c where c: "w_sent (co_world s') = w_sent (co_world s3) @ c" "\<forall>m \<in> set c. not_cached m"
    by blast
  from sends_fields(7)[OF not_cached(1)] obtain a where a: "w_sent (co_world s1) = w_sent (co_world s) @ a" "\<forall>m \<in> set a. not_cached m"
    by auto
  from sends_fields(7)[OF not_cached(2)] obtain b where b: "w_sent (co_world s2) = w_sent (co_world s1) @ b" "\<forall>m \<in> set b. not_cached m"
    by blast
  have "w_sent (co_world s3) = w_sent (co_world s) @ (a @ b) @
      map (\<lambda>(r, v). ToRegisterCache r v) (register_pairs (td_register td) (td_values td))"
    using a b by (auto simp: s3(1))
  with a(2) b(2) c show ?thesis
    by (intro exI[of _ "(a @ b) @ map (\<lambda>(r, v). ToRegisterCache r v) (register_pairs (td_register td) (td_values td)) @ c"])
      (simp only: cache_events_append cache_events_none cache_events_pairs append_assoc append_Nil append_Nil2 simp_thms)
qed

text \<open>
  The cache agrees with the inverter. After a reply with an even number of value bytes for registers
  below 512 was handled, the register cache, fed with what was sent to it, returns for each register
  of the reply its value in the reply.
\<close>

theorem reply_reaches_cache:
  assumes "process_packet E (PTranslatedData td) s = (Ok (), s')" "\<not> is_shutting_down s"
    "ChanCache \<notin> set (w_closed (co_world s))" "even (length (td_values td))"
    "unat (td_register td) + length (td_values td) div 2 \<le> 512" "i < length (td_values td) div 2"
  shows "\<exists>ms. w_sent (co_world s') = w_sent (co_world s) @ ms \<and>
    cache_get (cache_run (cache_events ms) register_cache_new) (td_register td + word_of_nat i) =
      Ok (word_at (td_values td) (2 * i))"
proof -
  let ?ps = "register_pairs (td_register td) (td_values td)"
  let ?n = "length (td_values td) div 2"
  obtain ms where ms: "w_sent (co_world s') = w_sent (co_world s) @ ms"
    "cache_events ms = map (\<lambda>(r, v). OnWrite (RegisterData r v)) ?ps"
    using packet_cache_events[OF assms(1-4)] assms(5) by auto
  have reg: "unat (td_register td + word_of_nat k) = unat (td_register td) + k" if "k < ?n" for k
    using that assms(5) by (simp add: unat_word_ariths unsigned_of_nat take_bit_nat_eq_self)
  have writes: "writes (map (\<lambda>(r, v). OnWrite (RegisterData r v)) ps) = ps" for ps
    by (induction ps) auto
  have "inj_on (\<lambda>k. td_register td + word_of_nat k) {0..<?n}"
    by (rule inj_onI) (metis reg add_left_cancel atLeastLessThan_iff)
  then have dist: "distinct (map fst (rev ?ps))"
    by (simp add: register_pairs_def rev_map[symmetric] comp_def distinct_map)
  have "(td_register td + word_of_nat i, word_at (td_values td) (2 * i)) \<in> set (rev ?ps)"
    using assms(6) by (auto simp: register_pairs_def)
  then have found: "map_of (rev ?ps) (td_register td + word_of_nat i) = Some (word_at (td_values td) (2 * i))"
    by (rule map_of_is_SomeI[OF dist])
  have "cache_get (cache_run (cache_events ms) register_cache_new) (td_register td + word_of_nat i) =
      Ok (word_at (td_values td) (2 * i))"
  proof (subst cache_get_after)
    show "no_shutdown (cache_events ms)" unfolding ms(2) by (auto simp: no_shutdown_def)
    show "\<forall>ev \<in> set (cache_events ms). \<forall>r. event_register ev = Some r \<longrightarrow> in_cache r"
      unfolding ms(2) using reg assms(5) by (auto simp: register_pairs_def in_cache_def REGISTER_COUNT_def)
    show "in_cache (td_register td + word_of_nat i)"
      using reg[OF assms(6)] assms(5,6) by (simp add: in_cache_def REGISTER_COUNT_def)
  qed (simp add: ms(2) writes found)
  with ms(1) show ?thesis by blast
qed

theorem reply_reaches_cache_witness:
  "\<exists>s' ms. process_packet example_env (example_td DevReadHold 64 [50, 0, 100, 0])
       (coordinator_new (example_config []) (example_world [])) = (Ok (), s') \<and>
     w_sent (co_world s') = ms \<and> cache_get (cache_run (cache_events ms) register_cache_new) 65 = Ok 100"
proof -
  let ?td = "\<lparr> td_datalog = serial_default, td_device_function = DevReadHold, td_inverter = serial_default,
     td_register = 64, td_values = [50, 0, 100, 0] \<rparr>"
  let ?s = "coordinator_new (example_config []) (example_world [])"
  have E: "nom_ok (en_nom example_env)" "json_no_panic (en_json example_env)"
    by (simp_all add: example_env_def nom_ok_ref example_json_no_panic)
  have s: "\<not> is_shutting_down ?s" "ChanCache \<notin> set (w_closed (co_world ?s))" "w_sent (co_world ?s) = []"
    by (simp_all add: is_shutting_down_def coordinator_new_def example_world_def)
  have "fst (process_packet example_env (PTranslatedData ?td) ?s) \<in> {Ok (), Panic}"
    using process_translated_data_no_Err s(1) by (simp add: process_packet_def Let_def is_shutting_down_def)
  moreover have "fst (process_packet example_env (PTranslatedData ?td) ?s) \<noteq> Panic"
    using process_translated_data_Panic[OF E, of ?td] s(1)
    by (simp add: process_packet_def Let_def is_shutting_down_def)
  ultimately obtain s' where run: "process_packet example_env (PTranslatedData ?td) ?s = (Ok (), s')"
    by (cases "process_packet example_env (PTranslatedData ?td) ?s") auto
  have "word_at [50, 0, 100, 0] 2 = 100" by code_simp
  with reply_reaches_cache[OF run s(1,2), of 1] s(3) run show ?thesis by (auto simp: example_td_def)
qed

end
