(* ===== verification/Inverter.thy ===== *)
theory Inverter
  imports Coordinator Framing
begin

text \<open>
  The connection to one inverter (\<^verbatim>\<open>eg4/inverter.rs\<close>): the timestamps of the last messages and the
  keep-alive timer, the sender, the receiver with its configuration updates, and the direct writes of
  parameters. The socket, the clock and \<^verbatim>\<open>tokio\<close> are the events of the tasks.
\<close>

section \<open>State\<close>

text \<open>Seconds since the inverter object was made.\<close>

record message_timestamps =
  ts_last_sent :: nat
  ts_last_received :: nat

definition message_timestamps_new :: message_timestamps where
  "message_timestamps_new = \<lparr> ts_last_sent = 0, ts_last_received = 0 \<rparr>"

definition update_sent :: "nat \<Rightarrow> message_timestamps \<Rightarrow> message_timestamps" where
  "update_sent elapsed m = m\<lparr> ts_last_sent := elapsed \<rparr>"

definition update_received :: "nat \<Rightarrow> message_timestamps \<Rightarrow> message_timestamps" where
  "update_received elapsed m = m\<lparr> ts_last_received := elapsed \<rparr>"

definition time_since_sent :: "nat \<Rightarrow> message_timestamps \<Rightarrow> nat" where
  "time_since_sent elapsed m = elapsed - ts_last_sent m"

definition time_since_received :: "nat \<Rightarrow> message_timestamps \<Rightarrow> nat" where
  "time_since_received elapsed m = elapsed - ts_last_received m"

record inverter =
  iv_config :: config
  iv_host :: string
  iv_stats :: packet_stats
  iv_times :: message_timestamps
  iv_world :: world

definition inverter_new :: "config \<Rightarrow> config_inverter \<Rightarrow> world \<Rightarrow> inverter" where
  "inverter_new c i w =
     \<lparr> iv_config = c, iv_host = inv_host i, iv_stats = packet_stats_default,
       iv_times = message_timestamps_new, iv_world = w \<rparr>"

definition inverter_new_with_stats :: "config \<Rightarrow> config_inverter \<Rightarrow> world \<Rightarrow> packet_stats \<Rightarrow> inverter" where
  "inverter_new_with_stats c i w stats =
     \<lparr> iv_config = c, iv_host = inv_host i, iv_stats = stats,
       iv_times = message_timestamps_new, iv_world = w \<rparr>"

text \<open>The entry of the inverter in the shared configuration is found by its host name each time.\<close>

definition iv_self :: "inverter \<Rightarrow> config_inverter outcome" where
  "iv_self s = oexpect (inverter_with_host (iv_config s) (iv_host s))"

type_synonym 'a iv_handled = "'a outcome \<times> inverter"

definition iv_then :: "'a iv_handled \<Rightarrow> ('a \<Rightarrow> inverter \<Rightarrow> 'b iv_handled) \<Rightarrow> 'b iv_handled" where
  "iv_then m f = (case m of (Ok a, s) \<Rightarrow> f a s | (Err e, s) \<Rightarrow> (Err e, s) | (Panic, s) \<Rightarrow> (Panic, s))"

lemma iv_then_simps [simp]:
  "iv_then (Ok a, s) f = f a s" "iv_then (Err e, s) f = (Err e, s)" "iv_then (Panic, s) f = (Panic, s)"
  by (simp_all add: iv_then_def)

definition iv_send :: "sent \<Rightarrow> string \<Rightarrow> inverter \<Rightarrow> unit iv_handled" where
  "iv_send m e s =
     (if channel_of m \<in> set (w_closed (iv_world s)) then (Err e, s)
      else (Ok (), s\<lparr> iv_world := (iv_world s)\<lparr> w_sent := w_sent (iv_world s) @ [m] \<rparr> \<rparr>))"

text \<open>A failure that is only logged.\<close>

definition iv_try :: "unit iv_handled \<Rightarrow> unit iv_handled" where
  "iv_try m = (case m of (Err _, s) \<Rightarrow> (Ok (), s) | r \<Rightarrow> r)"

section \<open>Starting and keeping alive\<close>

text \<open>
  One turn of the timer, every 30 seconds. \<open>datalog\<close> is the text of the data logger's serial number
  when the inverter was made; it is parsed back for the heartbeat.
\<close>

definition timer_turn :: "string \<Rightarrow> nat \<Rightarrow> inverter \<Rightarrow> unit iv_handled" where
  "timer_turn datalog elapsed s =
     (let sent = time_since_sent elapsed (iv_times s); received = time_since_received elapsed (iv_times s)
      in if sent > 60 \<or> received > 60 then
           if received \<ge> 120 then
             (case serial_from_str datalog of
                Ok d \<Rightarrow> iv_try (iv_send (ToInverter (ChPacket (PHeartbeat \<lparr> hb_datalog = d \<rparr>))) ''SendError'' s)
              | _ \<Rightarrow> (Panic, s))
           else (Ok (), s)
         else (Ok (), s))"

text \<open>
  The turns of the timer, each with its time and the shared timestamps as it finds them: the receiver and the
  sender update them between the turns.
\<close>

fun timer_run :: "string \<Rightarrow> (nat \<times> message_timestamps) list \<Rightarrow> inverter \<Rightarrow> unit iv_handled" where
  "timer_run datalog [] s = (Ok (), s)"
| "timer_run datalog ((elapsed, m) # ts) s =
     iv_then (timer_turn datalog elapsed (s\<lparr> iv_times := m \<rparr>)) (\<lambda>_. timer_run datalog ts)"

definition WRITE_TIMEOUT_SECS :: nat where "WRITE_TIMEOUT_SECS = 5"

definition RECONNECT_DELAY_SECS :: nat where "RECONNECT_DELAY_SECS = 5"

text \<open>
  How opening the socket goes: the connection (with the milliseconds it took) or the time-out, the two
  conversions of the socket (an error or \<open>None\<close>), and whether its options could be set.
\<close>

datatype tcp_result = TcpOpened nat | TcpFailed nat string | TcpTimedOut

datatype socket_option = Keepalive | Nodelay

record socket_results =
  sk_tcp :: tcp_result
  sk_into_std :: "string option"
  sk_keepalive :: bool
  sk_nodelay :: bool
  sk_from_std :: "string option"

text \<open>The result, the time that passed, and the options that are set; one that cannot be set is logged only.\<close>

definition open_socket :: "socket_results \<Rightarrow> config_inverter \<Rightarrow> unit outcome \<times> nat \<times> socket_option list" where
  "open_socket R i =
     (case sk_tcp R of
        TcpTimedOut \<Rightarrow> (Err ''Connection timeout after {} seconds'', 1000 * (WRITE_TIMEOUT_SECS * 2), [])
      | TcpFailed ms e \<Rightarrow> (Err ''Failed to connect to inverter: {}'', ms, [])
      | TcpOpened ms \<Rightarrow>
          (case sk_into_std R of
             Some e \<Rightarrow> (Err e, ms, [])
           | None \<Rightarrow>
               let options = (if sk_keepalive R then [Keepalive] else []) @
                             (if cfg_use_tcp_nodelay i \<and> sk_nodelay R then [Nodelay] else [])
               in case sk_from_std R of Some e \<Rightarrow> (Err e, ms, options) | None \<Rightarrow> (Ok (), ms, options)))"

text \<open>
  After both tasks were spawned: up to three attempts to say \<open>Connected\<close>. \<open>heard n\<close> says whether the
  channel has a receiver when \<open>n\<close> attempts are left.
\<close>

fun send_connected :: "(nat \<Rightarrow> bool) \<Rightarrow> nat \<Rightarrow> serial \<Rightarrow> world \<Rightarrow> world" where
  "send_connected heard 0 d w = w"
| "send_connected heard (Suc retries) d w =
     (if heard (Suc retries) then w\<lparr> w_sent := w_sent w @ [FromInverter (ChConnected d)] \<rparr>
      else send_connected heard retries d (if Suc retries > 1 then w\<lparr> w_now := w_now w + 1000 \<rparr> else w))"

definition connect :: "socket_results \<Rightarrow> (nat \<Rightarrow> bool) \<Rightarrow> inverter \<Rightarrow> unit iv_handled" where
  "connect R heard s =
     iv_then (iv_self s, s) (\<lambda>i s.
       case open_socket R i of (r, ms, options) \<Rightarrow>
         iv_then (r, s\<lparr> iv_world := (iv_world s)\<lparr> w_now := w_now (iv_world s) + ms \<rparr> \<rparr>) (\<lambda>_ s.
         iv_then (oexpect (inv_datalog i), s) (\<lambda>d s.
           (Ok (), s\<lparr> iv_world := send_connected heard 3 d (iv_world s) \<rparr>))))"

text \<open>
  \<^verbatim>\<open>start\<close> over the results of its attempts: it retries five seconds after an error, and returns with
  the first success.
\<close>

fun start_attempts :: "(socket_results \<times> (nat \<Rightarrow> bool)) list \<Rightarrow> inverter \<Rightarrow> (nat \<times> unit outcome) option \<times> inverter" where
  "start_attempts [] s = (None, s)"
| "start_attempts ((R, heard) # rest) s =
     (case connect R heard s of
        (Err _, s) \<Rightarrow>
          (case start_attempts rest (s\<lparr> iv_world := (iv_world s)\<lparr> w_now := w_now (iv_world s) + 1000 * RECONNECT_DELAY_SECS \<rparr> \<rparr>) of
             (Some (n, r), s) \<Rightarrow> (Some (Suc n, r), s)
           | (None, s) \<Rightarrow> (None, s))
      | (r, s) \<Rightarrow> (Some (1, r), s))"

section \<open>The sender\<close>

text \<open>How writing a frame to the socket ends.\<close>

datatype write_result = WriteOk | FlushFailed | WriteFailed | WriteTimeout

datatype sender_result = SenderOn | SenderEnd "unit outcome"

text \<open>
  A message from the channel to the inverters (\<open>None\<close>: an error of the channel, which is closed or has
  dropped messages that were not read in time). \<open>datalog\<close> is the
  serial number of the data logger when the sender started. The frames written are collected.
\<close>

fun sender_step :: "bool \<Rightarrow> crc16 \<Rightarrow> serial \<Rightarrow> nat \<Rightarrow> inverter_msg option \<Rightarrow> write_result \<Rightarrow>
    message_timestamps \<times> bytes list \<Rightarrow> sender_result \<times> message_timestamps \<times> bytes list" where
  "sender_step oc crc datalog elapsed (Some (ChPacket packet)) wr (m, frames) =
     (let m = update_sent elapsed m
      in case create_frame oc crc datalog packet of
           Ok bytes \<Rightarrow>
             (case wr of
                WriteOk \<Rightarrow> (SenderOn, m, frames @ [bytes])
              | FlushFailed \<Rightarrow> (SenderEnd (Err ''Failed to write to socket for {}''), m, frames @ [bytes])
              | WriteFailed \<Rightarrow> (SenderEnd (Err ''Failed to write packet for {}''), m, frames)
              | WriteTimeout \<Rightarrow> (SenderEnd (Err ''Write timeout after {} seconds for {}''), m, frames))
         | Err e \<Rightarrow> (SenderEnd (Err e), m, frames)
         | Panic \<Rightarrow> (SenderEnd Panic, m, frames))"
| "sender_step oc crc datalog elapsed (Some ChShutdown) wr st = (SenderEnd (Ok ()), st)"
| "sender_step oc crc datalog elapsed None wr st = (SenderEnd (Ok ()), st)"
| "sender_step oc crc datalog elapsed (Some _) wr st = (SenderOn, st)"

fun sender_run :: "bool \<Rightarrow> crc16 \<Rightarrow> serial \<Rightarrow> (nat \<times> inverter_msg option \<times> write_result) list \<Rightarrow>
    message_timestamps \<times> bytes list \<Rightarrow> sender_result \<times> message_timestamps \<times> bytes list" where
  "sender_run oc crc datalog [] st = (SenderOn, st)"
| "sender_run oc crc datalog ((elapsed, m, wr) # evs) st =
     (case sender_step oc crc datalog elapsed m wr st of
        (SenderOn, st) \<Rightarrow> sender_run oc crc datalog evs st
      | r \<Rightarrow> r)"

interpretation sender_task: task_loop "\<lambda>(elapsed, m, wr). sender_step oc crc datalog elapsed m wr"
    "sender_run oc crc datalog" "Pair SenderOn" for oc crc datalog
  by unfold_locales (auto split: prod.split sender_result.split)

text \<open>\<^verbatim>\<open>sender\<close> starts by looking up its data logger.\<close>

definition sender :: "bool \<Rightarrow> crc16 \<Rightarrow> (nat \<times> inverter_msg option \<times> write_result) list \<Rightarrow> inverter \<Rightarrow>
    sender_result \<times> message_timestamps \<times> bytes list" where
  "sender oc crc evs s =
     (case obind (iv_self s) (\<lambda>i. oexpect (inv_datalog i)) of
        Ok datalog \<Rightarrow> sender_run oc crc datalog evs (iv_times s, [])
      | Err e \<Rightarrow> (SenderEnd (Err e), iv_times s, [])
      | Panic \<Rightarrow> (SenderEnd Panic, iv_times s, []))"

section \<open>The receiver\<close>

text \<open>The two parameter requests that a task of the receiver sends every 45 seconds.\<close>

definition periodic_requests :: "serial \<Rightarrow> packet list" where
  "periodic_requests d =
     [PReadParam \<lparr> rp_datalog = d, rp_register = 0x0004, rp_values = [] \<rparr>,
      PReadParam \<lparr> rp_datalog = d, rp_register = 0x0003, rp_values = [] \<rparr>]"

definition periodic_turn :: "config_inverter \<Rightarrow> inverter \<Rightarrow> unit iv_handled" where
  "periodic_turn i s =
     (case oexpect (inv_datalog i) of
        Ok d \<Rightarrow> iv_then (iv_try (iv_send (ToInverter (ChPacket (periodic_requests d ! 0))) ''SendError'' s)) (\<lambda>_ s.
                iv_try (iv_send (ToInverter (ChPacket (periodic_requests d ! 1))) ''SendError'' s))
      | _ \<Rightarrow> (Panic, s))"

definition handle_incoming_packet :: "packet \<Rightarrow> inverter \<Rightarrow> unit iv_handled" where
  "handle_incoming_packet packet s =
     iv_then (iv_self s, s) (\<lambda>_ s. iv_try (iv_send (FromInverter (ChPacket packet)) ''SendError'' s))"

definition set_config :: "config \<Rightarrow> inverter \<Rightarrow> inverter" where
  "set_config c s = s\<lparr> iv_config := c \<rparr>"

text \<open>An update whose failure is logged.\<close>

definition log_update :: "config outcome \<Rightarrow> inverter \<Rightarrow> unit iv_handled" where
  "log_update r s = (case r of Ok c \<Rightarrow> (Ok (), set_config c s) | Err _ \<Rightarrow> (Ok (), s) | Panic \<Rightarrow> (Panic, s))"

definition compare_datalog :: "packet \<Rightarrow> inverter \<Rightarrow> unit iv_handled" where
  "compare_datalog packet s =
     iv_then (obind (iv_self s) (\<lambda>i. oexpect (inv_datalog i)), s) (\<lambda>d s.
       if packet_datalog packet \<noteq> d then
         (if \<not> cfg_strict_data_check (iv_config s)
          then log_update (update_inverter_datalog d (packet_datalog packet) (iv_config s)) s
          else (Ok (), s))
       else (Ok (), s))"

definition compare_inverter :: "packet \<Rightarrow> inverter \<Rightarrow> unit iv_handled" where
  "compare_inverter packet s =
     (case packet of
        PTranslatedData td \<Rightarrow>
          iv_then (obind (iv_self s) (\<lambda>i. oexpect (inv_serial i)), s) (\<lambda>r s.
            if td_inverter td \<noteq> r then
              (if \<not> cfg_strict_data_check (iv_config s)
               then log_update (update_inverter_serial r (td_inverter td) (iv_config s)) s
               else (Ok (), s))
            else (Ok (), s))
      | _ \<Rightarrow> (Ok (), s))"

text \<open>
  What is done with one packet. The updates are an \<^verbatim>\<open>async\<close> block, which runs where it is awaited,
  after the packet was forwarded and counted; both comparisons return \<^verbatim>\<open>Ok\<close> or panic, so no further
  update is collected.
\<close>

definition reader_packet :: "nat \<Rightarrow> packet \<Rightarrow> inverter \<Rightarrow> unit iv_handled" where
  "reader_packet elapsed packet s =
     iv_then (handle_incoming_packet packet (s\<lparr> iv_times := update_received elapsed (iv_times s) \<rparr>)) (\<lambda>_ s.
     iv_then (compare_datalog packet (s\<lparr> iv_stats := count_packet packet (iv_stats s) \<rparr>)) (\<lambda>_ s.
     compare_inverter packet s))"

text \<open>\<^verbatim>\<open>while let Some(packet) = decoder.decode(&mut buf)?\<close> with its body.\<close>

function reader_decode :: "bool \<Rightarrow> crc16 \<Rightarrow> nat \<Rightarrow> bytes \<Rightarrow> inverter \<Rightarrow> unit outcome \<times> bytes \<times> inverter" where
  "reader_decode oc crc elapsed buf s =
     (case decoder_decode oc crc buf of
        (Ok (Some packet), buf') \<Rightarrow>
          (case reader_packet elapsed packet s of
             (Ok _, s') \<Rightarrow> reader_decode oc crc elapsed buf' s'
           | (r, s') \<Rightarrow> (r, buf', s'))
      | (Ok None, buf') \<Rightarrow> (Ok (), buf', s)
      | (Err e, buf') \<Rightarrow> (Err e, buf', s)
      | (Panic, buf') \<Rightarrow> (Panic, buf', s))"
  by pat_completeness auto
termination
  by (relation "measure (\<lambda>(oc, crc, elapsed, buf, s). length buf)") (auto intro: decoder_decode_shorter[OF sym])

declare reader_decode.simps [simp del]

text \<open>
  The last packets before the receiver ends. \<open>eof\<close> stands for the repeated \<^verbatim>\<open>decode_eof\<close> of
  \<^verbatim>\<open>tokio_util\<close>: the packets it yields, how it ends and the bytes it leaves.
\<close>

fun handle_all :: "packet list \<Rightarrow> inverter \<Rightarrow> unit iv_handled" where
  "handle_all [] s = (Ok (), s)"
| "handle_all (p # ps) s = iv_then (iv_try (handle_incoming_packet p s)) (\<lambda>_. handle_all ps)"

text \<open>
  What a turn of the receiver gets: a message of the channel to the inverters (\<open>None\<close>: an error of the
  channel), the bytes of a read with the time when they came (none: the peer closed the connection), an
  error or a time-out.
\<close>

datatype reader_event =
    RdChannel "inverter_msg option"
  | RdData nat bytes
  | RdError
  | RdTimeout

datatype reader_result = ReaderOn bytes inverter | ReaderEnd "unit outcome" inverter

definition MAX_BUFFER_SIZE :: nat where
  "MAX_BUFFER_SIZE = 65536"

definition reader_flush :: "(bytes \<Rightarrow> packet list \<times> unit outcome) \<Rightarrow> unit outcome \<Rightarrow> bytes \<Rightarrow> inverter \<Rightarrow> reader_result" where
  "reader_flush eof r buf s =
     (case eof buf of (ps, e) \<Rightarrow>
       (case handle_all ps s of
          (Ok _, s') \<Rightarrow> (case e of Ok _ \<Rightarrow> ReaderEnd r s' | Err m \<Rightarrow> ReaderEnd (Err m) s' | Panic \<Rightarrow> ReaderEnd Panic s')
        | (x, s') \<Rightarrow> ReaderEnd x s'))"

text \<open>
  One turn: the silence limit at the time \<open>elapsed\<close> when the turn begins, the size of the buffer, then what
  \<^verbatim>\<open>select!\<close> delivers, which may take a while.
\<close>

definition reader_turn :: "bool \<Rightarrow> crc16 \<Rightarrow> (bytes \<Rightarrow> packet list \<times> unit outcome) \<Rightarrow> nat \<Rightarrow> reader_event \<Rightarrow>
    bytes \<Rightarrow> inverter \<Rightarrow> reader_result" where
  "reader_turn oc crc eof elapsed ev buf s =
     (if time_since_received elapsed (iv_times s) \<ge> cfg_inverter_timeout (iv_config s) then ReaderEnd (Ok ()) s
      else if length buf \<ge> MAX_BUFFER_SIZE
        then ReaderEnd (Err ''Buffer overflow: received data exceeds maximum size of {} bytes'') s
      else case ev of
             RdChannel m \<Rightarrow> (if m = Some ChShutdown then reader_flush eof (Ok ()) buf s else ReaderOn buf s)
           | RdData arrived bs \<Rightarrow>
               (if bs = [] then reader_flush eof (Err ''Connection closed by peer'') buf s
                else case reader_decode oc crc arrived (buf @ bs) s of
                       (Ok _, buf', s') \<Rightarrow> ReaderOn buf' s'
                     | (r, buf', s') \<Rightarrow> ReaderEnd r s')
           | RdError \<Rightarrow> ReaderEnd (Err ''Read error'') s
           | RdTimeout \<Rightarrow> ReaderEnd (Err ''No data received for {} seconds'') s)"

fun reader_run :: "bool \<Rightarrow> crc16 \<Rightarrow> (bytes \<Rightarrow> packet list \<times> unit outcome) \<Rightarrow> (nat \<times> reader_event) list \<Rightarrow>
    bytes \<Rightarrow> inverter \<Rightarrow> reader_result" where
  "reader_run oc crc eof [] buf s = ReaderOn buf s"
| "reader_run oc crc eof ((elapsed, ev) # evs) buf s =
     (case reader_turn oc crc eof elapsed ev buf s of
        ReaderOn buf' s' \<Rightarrow> reader_run oc crc eof evs buf' s'
      | r \<Rightarrow> r)"

interpretation receiver_task: task_loop "\<lambda>(t, ev) (buf, s). reader_turn oc crc eof t ev buf s"
    "\<lambda>evs (buf, s). reader_run oc crc eof evs buf s" "\<lambda>(buf, s). ReaderOn buf s" for oc crc eof
  by unfold_locales (auto split: reader_result.split)

section \<open>Serial numbers of a packet\<close>

definition extract_datalog_serial :: "packet \<Rightarrow> string option" where
  "extract_datalog_serial packet = Some (serial_display (packet_datalog packet))"

definition extract_inverter_serial :: "packet \<Rightarrow> string option" where
  "extract_inverter_serial packet =
     (case packet of PTranslatedData td \<Rightarrow> Some (serial_display (td_inverter td)) | _ \<Rightarrow> None)"

text \<open>\<^verbatim>\<open>new_serial.into()\<close> copies ten bytes and panics on a shorter text.\<close>

definition iv_update_datalog_serial :: "string \<Rightarrow> inverter \<Rightarrow> unit iv_handled" where
  "iv_update_datalog_serial new_serial s =
     iv_then (obind (iv_self s) (\<lambda>i. oexpect (inv_datalog i)), s) (\<lambda>d s.
     iv_then (serial_from_slice (bytes_of_str new_serial), s) (\<lambda>n s.
       log_update (update_inverter_datalog d n (iv_config s)) s))"

definition iv_update_inverter_serial :: "string \<Rightarrow> inverter \<Rightarrow> unit iv_handled" where
  "iv_update_inverter_serial new_serial s =
     iv_then (obind (iv_self s) (\<lambda>i. oexpect (inv_serial i)), s) (\<lambda>r s.
     iv_then (serial_from_slice (bytes_of_str new_serial), s) (\<lambda>n s.
       log_update (update_inverter_serial r n (iv_config s)) s))"

section \<open>Writing parameters\<close>

text \<open>The body that the setters share: one parameter write, the value in big-endian order.\<close>

definition write_register :: "u16 \<Rightarrow> u16 \<Rightarrow> inverter \<Rightarrow> unit iv_handled" where
  "write_register register value s =
     iv_then (obind (iv_self s) (\<lambda>i. oexpect (inv_datalog i)), s) (\<lambda>d s.
       iv_send (ToInverter (ChPacket (PWriteParam \<lparr> wp_datalog = d, wp_register = register,
         wp_values = [ucast (drop_bit 8 value), ucast value] \<rparr>))) ''SendError'' s)"

text \<open>An hour and a minute as one register.\<close>

definition time_word :: "u8 \<Rightarrow> u8 \<Rightarrow> u16" where
  "time_word hour minute = push_bit 8 (ucast hour) OR ucast minute"

definition iv_set_output_power_limit :: "u16 \<Rightarrow> inverter \<Rightarrow> unit iv_handled" where
  "iv_set_output_power_limit = write_register 0x0001"

definition iv_set_grid_tie_mode :: "u16 \<Rightarrow> inverter \<Rightarrow> unit iv_handled" where
  "iv_set_grid_tie_mode = write_register 0x0002"

definition iv_set_battery_charge_current :: "u16 \<Rightarrow> inverter \<Rightarrow> unit iv_handled" where
  "iv_set_battery_charge_current = write_register 0x0003"

definition iv_set_battery_discharge_current :: "u16 \<Rightarrow> inverter \<Rightarrow> unit iv_handled" where
  "iv_set_battery_discharge_current = write_register 0x0004"

definition iv_set_battery_charge_voltage :: "u16 \<Rightarrow> inverter \<Rightarrow> unit iv_handled" where
  "iv_set_battery_charge_voltage = write_register 0x0005"

definition iv_set_battery_discharge_cutoff_voltage :: "u16 \<Rightarrow> inverter \<Rightarrow> unit iv_handled" where
  "iv_set_battery_discharge_cutoff_voltage = write_register 0x0006"

definition iv_set_ac_charge_current :: "u16 \<Rightarrow> inverter \<Rightarrow> unit iv_handled" where
  "iv_set_ac_charge_current = write_register 0x0007"

definition iv_set_ac_charge_voltage :: "u16 \<Rightarrow> inverter \<Rightarrow> unit iv_handled" where
  "iv_set_ac_charge_voltage = write_register 0x0008"

definition iv_set_ac_charge_frequency :: "u16 \<Rightarrow> inverter \<Rightarrow> unit iv_handled" where
  "iv_set_ac_charge_frequency = write_register 0x0009"

definition iv_set_ac_charge_power_factor :: "u16 \<Rightarrow> inverter \<Rightarrow> unit iv_handled" where
  "iv_set_ac_charge_power_factor = write_register 0x000A"

definition iv_set_ac_charge_priority :: "u16 \<Rightarrow> inverter \<Rightarrow> unit iv_handled" where
  "iv_set_ac_charge_priority = write_register 0x000B"

definition iv_set_forced_discharge_power :: "u16 \<Rightarrow> inverter \<Rightarrow> unit iv_handled" where
  "iv_set_forced_discharge_power = write_register 0x0011"

definition iv_set_grid_tie_power_limit :: "u16 \<Rightarrow> inverter \<Rightarrow> unit iv_handled" where
  "iv_set_grid_tie_power_limit = write_register 0x0012"

definition iv_set_grid_tie_frequency :: "u16 \<Rightarrow> inverter \<Rightarrow> unit iv_handled" where
  "iv_set_grid_tie_frequency = write_register 0x0013"

definition iv_set_grid_tie_voltage :: "u16 \<Rightarrow> inverter \<Rightarrow> unit iv_handled" where
  "iv_set_grid_tie_voltage = write_register 0x0014"

definition iv_set_grid_tie_power_factor :: "u16 \<Rightarrow> inverter \<Rightarrow> unit iv_handled" where
  "iv_set_grid_tie_power_factor = write_register 0x0015"

definition iv_set_forced_discharge_mode :: "bool \<Rightarrow> inverter \<Rightarrow> unit iv_handled" where
  "iv_set_forced_discharge_mode enabled = write_register 0x000E (if enabled then 1 else 0)"

definition iv_set_ac_charge_time :: "u8 \<Rightarrow> u8 \<Rightarrow> u8 \<Rightarrow> u8 \<Rightarrow> inverter \<Rightarrow> unit iv_handled" where
  "iv_set_ac_charge_time start_hour start_minute end_hour end_minute s =
     iv_then (write_register 0x000C (time_word start_hour start_minute) s) (\<lambda>_.
       write_register 0x000D (time_word end_hour end_minute))"

definition iv_set_forced_discharge_time :: "u8 \<Rightarrow> u8 \<Rightarrow> u8 \<Rightarrow> u8 \<Rightarrow> inverter \<Rightarrow> unit iv_handled" where
  "iv_set_forced_discharge_time start_hour start_minute end_hour end_minute s =
     iv_then (write_register 0x000F (time_word start_hour start_minute) s) (\<lambda>_.
       write_register 0x0010 (time_word end_hour end_minute))"

definition inverter_stop :: "inverter \<Rightarrow> unit iv_handled" where
  "inverter_stop s = iv_then (iv_self s, s) (\<lambda>_ s. iv_try (iv_send (SendShutdown ChanToInverter) ''SendError'' s))"

end
