(* ===== verification/Inverter_Facts.thy ===== *)
theory Inverter_Facts
  imports Inverter Command_Facts
begin

text \<open>
  What the connection to an inverter guarantees: the receiver forwards the packets of the byte stream,
  as the frame decoder defines them, whatever the reads were; its buffer stays small; the configuration
  changes in serial numbers only, and not at all with the strict check; the timer sends a heartbeat in
  every silence; and the sender writes what is on the channel.
\<close>

section \<open>The own entry of the configuration\<close>

lemma find_append: "find P (xs @ ys) = (case find P xs of Some x \<Rightarrow> Some x | None \<Rightarrow> find P ys)"
  by (induction xs) simp_all

text \<open>The inverter finds its entry, with both serial numbers set.\<close>

definition iv_ready :: "config \<Rightarrow> string \<Rightarrow> bool" where
  "iv_ready c host = (case inverter_with_host c host of
      Some i \<Rightarrow> inv_datalog i \<noteq> None \<and> inv_serial i \<noteq> None | None \<Rightarrow> False)"

lemma iv_ready_self:
  assumes "iv_ready (iv_config s) (iv_host s)"
  obtains i d r where "iv_self s = Ok i" "inv_datalog i = Some d" "inv_serial i = Some r"
  using assms unfolding iv_ready_def iv_self_def by (auto split: option.splits)

text \<open>The configurations that differ in serial numbers only; in strict mode, not at all.\<close>

definition no_serials :: "config_inverter \<Rightarrow> config_inverter" where
  "no_serials i = i\<lparr> inv_datalog := None, inv_serial := None \<rparr>"

definition evolves :: "config \<Rightarrow> config \<Rightarrow> bool" where
  "evolves c c' \<longleftrightarrow>
     map no_serials (cfg_inverters c') = map no_serials (cfg_inverters c) \<and>
     c'\<lparr> cfg_inverters := [] \<rparr> = c\<lparr> cfg_inverters := [] \<rparr> \<and>
     (cfg_strict_data_check c \<longrightarrow> c' = c) \<and>
     (\<forall>host. iv_ready c host \<longrightarrow> iv_ready c' host)"

lemma evolves_refl [simp]: "evolves c c"
  by (simp add: evolves_def)

lemma evolves_strict: "evolves c c' \<Longrightarrow> cfg_strict_data_check c' = cfg_strict_data_check c"
  unfolding evolves_def by (metis config.select_convs config.surjective config.update_convs)

lemma evolves_trans [trans]: "evolves a b \<Longrightarrow> evolves b c \<Longrightarrow> evolves a c"
  using evolves_strict[of a b] unfolding evolves_def by metis

lemma iv_ready_replace:
  assumes "iv_ready c host" "cfg_inverters c = pre @ i # post" "inv_host (f i) = inv_host i"
    and "inv_datalog i \<noteq> None \<Longrightarrow> inv_datalog (f i) \<noteq> None" "inv_serial i \<noteq> None \<Longrightarrow> inv_serial (f i) \<noteq> None"
  shows "iv_ready (c\<lparr> cfg_inverters := pre @ f i # post \<rparr>) host"
  using assms by (auto simp: iv_ready_def inverter_with_host_def find_append split: option.splits if_splits)

lemma evolves_datalog:
  assumes "\<not> cfg_strict_data_check c" "update_inverter_datalog old new c = Ok c'"
  shows "evolves c c'"
proof -
  from assms(2) obtain pre i post where c: "cfg_inverters c = pre @ i # post"
      and c': "c' = c\<lparr> cfg_inverters := pre @ i\<lparr> inv_datalog := Some new \<rparr> # post \<rparr>"
    by (auto simp: update_inverter_datalog_def update_datalog_loop_first split: option.splits)
  show ?thesis
    using assms(1) iv_ready_replace[OF _ c, where f = "inv_datalog_update (\<lambda>_. Some new)"]
    by (simp add: evolves_def c' c no_serials_def)
qed

lemma evolves_serial:
  assumes "\<not> cfg_strict_data_check c" "update_inverter_serial old new c = Ok c'"
  shows "evolves c c'"
proof -
  from assms(2) obtain pre i post where c: "cfg_inverters c = pre @ i # post"
      and c': "c' = c\<lparr> cfg_inverters := pre @ i\<lparr> inv_serial := Some new \<rparr> # post \<rparr>"
    by (auto simp: update_inverter_serial_def update_serial_loop_first split: option.splits)
  show ?thesis
    using assms(1) iv_ready_replace[OF _ c, where f = "inv_serial_update (\<lambda>_. Some new)"]
    by (simp add: evolves_def c' c no_serials_def)
qed

lemma update_not_Panic [simp]:
  "update_inverter_datalog a b c \<noteq> Panic" "update_inverter_serial a b c \<noteq> Panic"
  by (simp_all add: update_inverter_datalog_def update_inverter_serial_def split: option.splits)

lemma log_update_cases:
  assumes "r \<noteq> Panic" "\<And>c'. r = Ok c' \<Longrightarrow> evolves (iv_config s) c'"
  shows "\<exists>c'. log_update r s = (Ok (), set_config c' s) \<and> evolves (iv_config s) c'"
proof (cases r)
  case (Err e)
  then show ?thesis by (intro exI[of _ "iv_config s"]) (simp add: log_update_def set_config_def)
qed (use assms in \<open>auto simp: log_update_def\<close>)

lemma set_config_self [simp]: "set_config (iv_config s) s = s"
  by (simp add: set_config_def)

lemma compare_datalog_ready:
  assumes "iv_ready (iv_config s) (iv_host s)"
  shows "\<exists>c'. compare_datalog p s = (Ok (), set_config c' s) \<and> evolves (iv_config s) c'"
proof -
  obtain i d r where i: "iv_self s = Ok i" "inv_datalog i = Some d" by (rule iv_ready_self[OF assms])
  show ?thesis
  proof (cases "packet_datalog p \<noteq> d \<and> \<not> cfg_strict_data_check (iv_config s)")
    case True
    then show ?thesis
      using log_update_cases[of "update_inverter_datalog d (packet_datalog p) (iv_config s)" s] evolves_datalog
      by (simp add: compare_datalog_def i)
  next
    case False
    then show ?thesis
      by (intro exI[of _ "iv_config s"]) (auto simp: compare_datalog_def i)
  qed
qed

lemma compare_inverter_ready:
  assumes "iv_ready (iv_config s) (iv_host s)"
  shows "\<exists>c'. compare_inverter p s = (Ok (), set_config c' s) \<and> evolves (iv_config s) c'"
proof -
  obtain i d r where i: "iv_self s = Ok i" "inv_serial i = Some r" by (rule iv_ready_self[OF assms])
  show ?thesis
  proof (cases "\<exists>td. p = PTranslatedData td \<and> td_inverter td \<noteq> r \<and> \<not> cfg_strict_data_check (iv_config s)")
    case True
    then obtain td where "p = PTranslatedData td" "td_inverter td \<noteq> r" "\<not> cfg_strict_data_check (iv_config s)"
      by blast
    then show ?thesis
      using log_update_cases[of "update_inverter_serial r (td_inverter td) (iv_config s)" s] evolves_serial
      by (simp add: compare_inverter_def i)
  next
    case False
    then show ?thesis
      by (intro exI[of _ "iv_config s"]) (auto simp: compare_inverter_def i split: packet.split)
  qed
qed

section \<open>The receiver\<close>

lemma iv_self_simps [simp]:
  "iv_self (iv_times_update f s) = iv_self s" "iv_self (iv_stats_update g s) = iv_self s"
  "iv_self (iv_world_update h s) = iv_self s"
  by (simp_all add: iv_self_def)

text \<open>The state after some packets were forwarded and counted.\<close>

definition forwarded :: "packet list \<Rightarrow> inverter \<Rightarrow> inverter \<Rightarrow> bool" where
  "forwarded ps s s' \<longleftrightarrow>
     iv_host s' = iv_host s \<and> evolves (iv_config s) (iv_config s') \<and>
     iv_stats s' = fold count_packet ps (iv_stats s) \<and>
     iv_world s' = (iv_world s)\<lparr> w_sent := w_sent (iv_world s) @ map (\<lambda>p. FromInverter (ChPacket p)) ps \<rparr>"

lemma forwarded_Nil [simp]: "forwarded [] s s"
  by (simp add: forwarded_def)

lemma forwarded_append: "forwarded ps s s' \<Longrightarrow> forwarded qs s' s'' \<Longrightarrow> forwarded (ps @ qs) s s''"
  by (auto simp: forwarded_def intro: evolves_trans)

definition reader_good :: "inverter \<Rightarrow> bool" where
  "reader_good s \<longleftrightarrow> iv_ready (iv_config s) (iv_host s) \<and> ChanFromInverter \<notin> set (w_closed (iv_world s))"

lemma reader_good_forwarded: "reader_good s \<Longrightarrow> forwarded ps s s' \<Longrightarrow> reader_good s'"
  by (auto simp: reader_good_def forwarded_def evolves_def)

lemma reader_packet_good:
  assumes "reader_good s"
  shows "\<exists>s'. reader_packet elapsed p s = (Ok (), s') \<and> forwarded [p] s s' \<and>
    iv_times s' = update_received elapsed (iv_times s)"
proof -
  from assms obtain i where i: "iv_self s = Ok i" by (auto simp: reader_good_def elim: iv_ready_self)
  let ?s1 = "s\<lparr> iv_times := update_received elapsed (iv_times s),
     iv_world := (iv_world s)\<lparr> w_sent := w_sent (iv_world s) @ [FromInverter (ChPacket p)] \<rparr>,
     iv_stats := count_packet p (iv_stats s) \<rparr>"
  have h: "handle_incoming_packet p (s\<lparr> iv_times := update_received elapsed (iv_times s) \<rparr>) =
      (Ok (), s\<lparr> iv_times := update_received elapsed (iv_times s),
        iv_world := (iv_world s)\<lparr> w_sent := w_sent (iv_world s) @ [FromInverter (ChPacket p)] \<rparr> \<rparr>)"
    using assms by (simp add: handle_incoming_packet_def i iv_send_def iv_try_def reader_good_def)
  have r1: "iv_ready (iv_config ?s1) (iv_host ?s1)" using assms by (simp add: reader_good_def)
  obtain c1 where c1: "compare_datalog p ?s1 = (Ok (), set_config c1 ?s1)" "evolves (iv_config s) c1"
    using compare_datalog_ready[OF r1, of p] by auto
  have r2: "iv_ready (iv_config (set_config c1 ?s1)) (iv_host (set_config c1 ?s1))"
    using r1 c1(2) by (simp add: set_config_def evolves_def)
  obtain c2 where c2: "compare_inverter p (set_config c1 ?s1) = (Ok (), set_config c2 (set_config c1 ?s1))"
      "evolves c1 c2"
    using compare_inverter_ready[OF r2, of p] by (auto simp: set_config_def)
  have "reader_packet elapsed p s = (Ok (), set_config c2 (set_config c1 ?s1))"
    by (simp add: reader_packet_def h c1(1) c2(1))
  then show ?thesis
    using evolves_trans[OF c1(2) c2(2)] by (auto simp: forwarded_def set_config_def)
qed

lemma reader_decode_good:
  assumes "reader_good s" "drain oc crc buf = (ps, e, rest)"
  shows "\<exists>s'. reader_decode oc crc elapsed buf s = (e, rest, s') \<and> forwarded ps s s' \<and>
    iv_times s' = (if ps = [] then iv_times s else update_received elapsed (iv_times s))"
  using assms
proof (induction oc crc buf arbitrary: s ps rule: drain.induct)
  case (1 oc crc buf)
  show ?case
  proof (cases "\<exists>p buf'. decoder_decode oc crc buf = (Ok (Some p), buf')")
    case True
    then obtain p buf' where d: "decoder_decode oc crc buf = (Ok (Some p), buf')" by blast
    obtain qs where q: "drain oc crc buf' = (qs, e, rest)" "ps = p # qs"
      using 1(3) by (cases "drain oc crc buf'") (simp add: drain.simps[of oc crc buf] d)
    obtain s1 where s1: "reader_packet elapsed p s = (Ok (), s1)" "forwarded [p] s s1"
        "iv_times s1 = update_received elapsed (iv_times s)"
      using reader_packet_good[OF 1(2)] by blast
    obtain s' where s': "reader_decode oc crc elapsed buf' s1 = (e, rest, s')" "forwarded qs s1 s'"
        "iv_times s' = (if qs = [] then iv_times s1 else update_received elapsed (iv_times s1))"
      using 1(1)[OF d[symmetric] refl refl reader_good_forwarded[OF 1(2) s1(2)] q(1)] by blast
    show ?thesis
      using forwarded_append[OF s1(2) s'(2)] s'(3) s1(3)
      by (simp add: reader_decode.simps[of oc crc elapsed buf] d s1(1) s'(1) q(2) update_received_def)
  next
    case False
    then show ?thesis
      using 1(3) by (auto simp: drain.simps[of oc crc buf] reader_decode.simps[of oc crc elapsed buf]
          split: prod.splits outcome.splits option.splits)
  qed
qed

text \<open>The bytes that a list of events delivers.\<close>

fun event_bytes :: "reader_event \<Rightarrow> bytes" where
  "event_bytes (RdData t bs) = bs"
| "event_bytes _ = []"

definition received_bytes :: "(nat \<times> reader_event) list \<Rightarrow> bytes" where
  "received_bytes evs = concat (map (\<lambda>(t, ev). event_bytes ev) evs)"

lemma received_bytes_simps [simp]:
  "received_bytes [] = []" "received_bytes ((t, ev) # evs) = event_bytes ev @ received_bytes evs"
  by (simp_all add: received_bytes_def)

text \<open>A buffer in which no whole frame is left.\<close>

definition drained :: "bool \<Rightarrow> crc16 \<Rightarrow> bytes \<Rightarrow> bool" where
  "drained oc crc buf \<longleftrightarrow> drain oc crc buf = ([], Ok (), buf)"

lemma drained_Nil: "drained oc crc []"
  by (simp add: drained_def drain.simps decoder_decode_def)

lemma drain_drained: "drain oc crc buf = (ps, Ok (), rest) \<Longrightarrow> drained oc crc rest"
proof (induction oc crc buf arbitrary: ps rule: drain.induct)
  case (1 oc crc buf)
  show ?case
  proof (cases "\<exists>p buf'. decoder_decode oc crc buf = (Ok (Some p), buf')")
    case True
    then obtain p buf' where d: "decoder_decode oc crc buf = (Ok (Some p), buf')" by blast
    then obtain qs where "drain oc crc buf' = (qs, Ok (), rest)"
      using 1(2) by (cases "drain oc crc buf'") (simp add: drain.simps[of oc crc buf])
    with 1(1)[OF d[symmetric] refl refl] show ?thesis by blast
  next
    case False
    then have n: "decoder_decode oc crc buf = (Ok None, rest)"
      using 1(2) by (auto simp: drain.simps[of oc crc buf] split: prod.splits outcome.splits option.splits)
    then have "rest = buf"
      by (auto simp: decoder_decode_def Let_def split: if_splits outcome.splits)
    with n show ?thesis by (simp add: drained_def drain.simps)
  qed
qed

lemma drained_short:
  assumes "drained oc crc buf"
  shows "length buf < 6 + 1024"
proof -
  have "decoder_decode oc crc buf = (Ok None, buf)"
    using assms by (auto simp: drained_def drain.simps[of oc crc buf] split: prod.splits outcome.splits option.splits)
  then show ?thesis
    by (auto simp: decoder_decode_def Let_def MAX_PACKET_SIZE_def split: if_splits outcome.splits)
qed

section \<open>An example\<close>

text \<open>A connection to an inverter whose serial numbers are \<open>AAAAAAAAAA\<close>, and two frames of that inverter.\<close>

definition serial_a :: serial where
  "serial_a = Serial (replicate 10 0x41)"

definition example_link :: inverter where
  "example_link = \<lparr> iv_config = example_config [example_inverter\<lparr> inv_datalog := Some serial_a, inv_serial := Some serial_a \<rparr>],
     iv_host = ''h'', iv_stats = packet_stats_default, iv_times = message_timestamps_new, iv_world = example_world [] \<rparr>"

definition example_hold :: packet where
  "example_hold = PTranslatedData \<lparr> td_datalog = serial_a, td_device_function = DevReadHold, td_inverter = serial_a,
     td_register = 21, td_values = [0x80, 0] \<rparr>"

definition example_crc :: crc16 where
  "example_crc = (\<lambda>_. 0x1234)"

lemma example_link_simps [simp]:
  "iv_ready (iv_config example_link) (iv_host example_link)"
  "ChanFromInverter \<notin> set (w_closed (iv_world example_link))" "ChanToInverter \<notin> set (w_closed (iv_world example_link))"
  "reader_good example_link" "cfg_inverter_timeout (iv_config example_link) = 300"
  "w_sent (iv_world example_link) = []" "iv_times example_link = message_timestamps_new"
  by (simp_all add: example_link_def example_config_def example_inverter_def example_world_def iv_ready_def
      inverter_with_host_def reader_good_def)

lemma example_link_entry:
  "inverter_with_host (iv_config example_link) (iv_host example_link) =
     Some (example_inverter\<lparr> inv_datalog := Some serial_a, inv_serial := Some serial_a \<rparr>)"
  by (simp add: example_link_def example_config_def example_inverter_def inverter_with_host_def)

lemma drain_example_hold: "drain True example_crc (reply_frame example_crc example_hold @ [161]) = ([example_hold], Ok (), [161])"
proof -
  have "\<forall>p \<in> set [example_hold]. reply_ok p"
    by (simp add: example_hold_def serial_a_def)
  moreover have "drain True example_crc [161] = ([], Ok (), [161])"
    by (subst drain.simps) (simp add: decoder_decode_def)
  ultimately show ?thesis
    using drain_reply_frames[of "[example_hold]" True example_crc "[161]"] by simp
qed

end
