(* ===== verification/Inverter_Properties.thy ===== *)
theory Inverter_Properties
  imports Inverter_Facts
begin

text \<open>
  The properties of the connection to an inverter, with their witnesses: the receiver, the timer, the
  start of a connection, the sender and the direct writes.
\<close>

section \<open>The receiver refines the byte stream\<close>

lemma reader_flush_not_On [simp]: "reader_flush eof r buf s \<noteq> ReaderOn buf' s'"
  by (auto simp: reader_flush_def split: prod.splits outcome.splits)

text \<open>What a turn that goes on did.\<close>

lemma reader_turn_On:
  assumes "reader_turn oc crc eof t ev buf s = ReaderOn buf1 s1"
  shows "(\<exists>m. ev = RdChannel m \<and> m \<noteq> Some ChShutdown \<and> buf1 = buf \<and> s1 = s) \<or>
    (\<exists>t' bs. ev = RdData t' bs \<and> reader_decode oc crc t' (buf @ bs) s = (Ok (), buf1, s1))"
  using assms by (auto simp: reader_turn_def split: if_splits reader_event.splits prod.splits outcome.splits)

text \<open>A run of the receiver that still goes on, event by event.\<close>

lemma reader_run_induct [consumes 1, case_names start channel data]:
  assumes "reader_run oc crc eof evs buf s = ReaderOn rest s'"
    and "P [] rest s'"
    and "\<And>t m evs buf s. m \<noteq> Some ChShutdown \<Longrightarrow> P evs buf s \<Longrightarrow> P ((t, RdChannel m) # evs) buf s"
    and "\<And>t t' bs evs buf s buf1 s1. reader_decode oc crc t' (buf @ bs) s = (Ok (), buf1, s1) \<Longrightarrow> P evs buf1 s1 \<Longrightarrow>
      P ((t, RdData t' bs) # evs) buf s"
  shows "P evs buf s"
proof -
  define x where "x = (rest, s')"
  then have "(case (buf, s) of (buf, s) \<Rightarrow> reader_run oc crc eof evs buf s) = (case x of (rest, s') \<Rightarrow> ReaderOn rest s')"
    using assms(1) by simp
  then have "x = (rest, s') \<longrightarrow> (case (buf, s) of (buf, s) \<Rightarrow> P evs buf s)"
  proof (induction rule: receiver_task.on_induct)
    case (turn e es x x1)
    then show ?case
      using assms(3,4) by (auto dest!: reader_turn_On split: prod.splits)
  qed (use assms(2) in auto)
  then show ?thesis by (simp add: x_def)
qed

lemma reader_run_On:
  assumes "reader_run oc crc eof evs buf s = ReaderOn rest s'" "reader_good s" "drained oc crc buf"
  shows "\<exists>ps. drain oc crc (buf @ received_bytes evs) = (ps, Ok (), rest) \<and> forwarded ps s s'"
  using assms
proof (induction rule: reader_run_induct)
  case start
  then show ?case by (auto simp: drained_def intro!: exI[of _ "[]"])
next
  case (data t t' bs evs buf s buf1 s1)
  obtain ps e b where d: "drain oc crc (buf @ bs) = (ps, e, b)" by (cases "drain oc crc (buf @ bs)")
  with reader_decode_good[OF data.prems(1) d, of t'] data.hyps
  have d': "drain oc crc (buf @ bs) = (ps, Ok (), buf1)" and f: "forwarded ps s s1" by auto
  obtain qs where q: "drain oc crc (buf1 @ received_bytes evs) = (qs, Ok (), rest)" "forwarded qs s1 s'"
    using data.IH[OF reader_good_forwarded[OF data.prems(1) f] drain_drained[OF d']] by blast
  have "drain oc crc ((buf @ bs) @ received_bytes evs) = (ps @ qs, Ok (), rest)"
    by (subst drain_split) (simp add: d' q(1))
  with forwarded_append[OF f q(2)] show ?case by auto
qed simp

text \<open>
  C27: the receiver implements the byte stream. However the bytes from the inverter were cut into reads
  and mixed with messages of the channel, a receiver that is still running has sent to the
  coordinator exactly the packets of all bytes received, in order and each once, has counted them,
  and holds the bytes of an incomplete frame.
\<close>

theorem reader_forwards_stream:
  assumes "iv_ready (iv_config s) (iv_host s)" "ChanFromInverter \<notin> set (w_closed (iv_world s))"
    and "reader_run oc crc eof evs [] s = ReaderOn rest s'"
  shows "\<exists>ps. drain oc crc (received_bytes evs) = (ps, Ok (), rest) \<and>
    iv_world s' = (iv_world s)\<lparr> w_sent := w_sent (iv_world s) @ map (\<lambda>p. FromInverter (ChPacket p)) ps \<rparr> \<and>
    iv_stats s' = fold count_packet ps (iv_stats s)"
  using reader_run_On[OF assms(3) _ drained_Nil] assms(1,2) by (auto simp: reader_good_def forwarded_def)

lemma evolves_timeout: "evolves c c' \<Longrightarrow> cfg_inverter_timeout c' = cfg_inverter_timeout c"
  unfolding evolves_def by (metis config.select_convs config.surjective config.update_convs)

lemma drain_split_Ok:
  assumes "drain oc crc (a @ b) = (ps, Ok (), rest)"
  obtains qs c rs where "drain oc crc a = (qs, Ok (), c)" "drain oc crc (c @ b) = (rs, Ok (), rest)"
  using assms by (subst (asm) drain_split) (auto split: prod.splits outcome.splits)

text \<open>An event that does not end the receiver by itself: no shutdown, and a read that brings bytes.\<close>

fun keeps_open :: "reader_event \<Rightarrow> bool" where
  "keeps_open (RdChannel m) = (m \<noteq> Some ChShutdown)"
| "keeps_open (RdData t bs) = (bs \<noteq> [])"
| "keeps_open _ = False"

text \<open>
  No turn begins \<open>limit\<close> seconds or more after the last packet was heard: a packet is heard when the bytes
  come that complete it. \<open>got\<close> are the bytes so far and \<open>heard\<close> is the time of the last packet.
\<close>

fun in_time :: "bool \<Rightarrow> crc16 \<Rightarrow> nat \<Rightarrow> bytes \<Rightarrow> nat \<Rightarrow> (nat \<times> reader_event) list \<Rightarrow> bool" where
  "in_time oc crc limit got heard [] = True"
| "in_time oc crc limit got heard ((t, RdData arrived bs) # evs) =
     (t - heard < limit \<and>
      in_time oc crc limit (got @ bs)
        (if fst (drain oc crc (got @ bs)) = fst (drain oc crc got) then heard else arrived) evs)"
| "in_time oc crc limit got heard ((t, ev) # evs) = (t - heard < limit \<and> in_time oc crc limit got heard evs)"

lemma reader_run_goes_on_iff:
  assumes "reader_good s" "drain oc crc got = (ps, Ok (), buf)" "\<exists>qs. drain oc crc (got @ received_bytes evs) = (qs, Ok (), rest)"
    and "list_all (keeps_open \<circ> snd) evs" "limit = cfg_inverter_timeout (iv_config s)"
  shows "(\<exists>s'. reader_run oc crc eof evs buf s = ReaderOn rest s') \<longleftrightarrow>
    in_time oc crc limit got (ts_last_received (iv_times s)) evs"
  using assms
proof (induction evs arbitrary: got ps buf s)
  case Nil
  then show ?case by simp
next
  case (Cons x evs)
  obtain t ev where x: "x = (t, ev)" by (cases x)
  have buf: "\<not> MAX_BUFFER_SIZE \<le> length buf"
    using drained_short[OF drain_drained[OF Cons.prems(2)]] by (simp add: MAX_BUFFER_SIZE_def)
  show ?case
  proof (cases "t - ts_last_received (iv_times s) < limit")
    case False
    then show ?thesis
      using Cons.prems(5) by (cases ev) (simp_all add: x reader_turn_def time_since_received_def)
  next
    case True
    then have on: "\<not> cfg_inverter_timeout (iv_config s) \<le> time_since_received t (iv_times s)"
      using Cons.prems(5) by (simp add: time_since_received_def)
    show ?thesis
    proof (cases ev)
      case (RdChannel m)
      then show ?thesis
        using Cons.IH[OF Cons.prems(1,2)] Cons.prems(3-5) on buf True by (simp add: x reader_turn_def)
    next
      case (RdData arrived bs)
      obtain qs where "drain oc crc ((got @ bs) @ received_bytes evs) = (qs, Ok (), rest)"
        using Cons.prems(3) by (auto simp: x RdData)
      then obtain ps1 c rs where c: "drain oc crc (got @ bs) = (ps1, Ok (), c)"
        by (rule drain_split_Ok)
      then obtain new where new: "drain oc crc (buf @ bs) = (new, Ok (), c)" "ps1 = ps @ new"
        by (subst (asm) drain_split) (auto simp: Cons.prems(2) split: prod.splits)
      obtain s1 where s1: "reader_decode oc crc arrived (buf @ bs) s = (Ok (), c, s1)" "forwarded new s s1"
          "iv_times s1 = (if new = [] then iv_times s else update_received arrived (iv_times s))"
        using reader_decode_good[OF Cons.prems(1) new(1), of arrived] by blast
      have "limit = cfg_inverter_timeout (iv_config s1)"
        using s1(2) Cons.prems(5) evolves_timeout[of "iv_config s" "iv_config s1"] by (simp add: forwarded_def)
      from Cons.IH[OF reader_good_forwarded[OF Cons.prems(1) s1(2)] c _ _ this]
      have "(\<exists>s'. reader_run oc crc eof evs c s1 = ReaderOn rest s') \<longleftrightarrow>
          in_time oc crc limit (got @ bs) (ts_last_received (iv_times s1)) evs"
        using Cons.prems(3,4) by (simp add: x RdData)
      then show ?thesis
        using on buf True Cons.prems(4) s1(3)
        by (simp add: x RdData reader_turn_def s1(1) c Cons.prems(2) new(2) update_received_def)
    qed (use Cons.prems(4) in \<open>simp_all add: x\<close>)
  qed
qed

text \<open>
  C28: while no event ends it and no frame is in error, the receiver keeps running exactly as long as the
  inverter is not silent for the configured time: every turn begins less than \<^verbatim>\<open>inverter_timeout\<close>
  seconds after the last packet. Bytes that complete no packet count as silence, a packet starts the
  interval anew, and no sequence of reads fills the receive buffer.
\<close>

theorem reader_keeps_running:
  assumes "iv_ready (iv_config s) (iv_host s)" "ChanFromInverter \<notin> set (w_closed (iv_world s))"
    and "drain oc crc (received_bytes evs) = (ps, Ok (), rest)" "list_all (keeps_open \<circ> snd) evs"
  shows "(\<exists>s'. reader_run oc crc eof evs [] s = ReaderOn rest s') \<longleftrightarrow>
    in_time oc crc (cfg_inverter_timeout (iv_config s)) [] (ts_last_received (iv_times s)) evs"
  using assms drained_Nil by (intro reader_run_goes_on_iff) (auto simp: reader_good_def drained_def)

text \<open>The example frame in two reads, with a message of the channel between them.\<close>

definition example_events :: "(nat \<times> reader_event) list" where
  "example_events = (let f = reply_frame example_crc example_hold
     in [(1, RdData 1 (take 7 f)), (2, RdChannel None), (3, RdData 3 (drop 7 f @ [161]))])"

lemma example_events_bytes: "received_bytes example_events = reply_frame example_crc example_hold @ [161]"
  by (simp add: example_events_def Let_def flip: append_assoc)

lemma example_events_ok:
  "list_all (keeps_open \<circ> snd) example_events"
  "in_time oc crc 300 [] 0 example_events"
  by (simp_all add: example_events_def Let_def reply_frame_def lxp_frame_def HEADER_BYTES_def)

theorem reader_forwards_stream_witness:
  "\<exists>s'. reader_run True example_crc (\<lambda>_. ([], Ok ())) example_events [] example_link = ReaderOn [161] s' \<and>
     w_sent (iv_world s') = [FromInverter (ChPacket example_hold)]"
proof -
  obtain s' where run: "reader_run True example_crc (\<lambda>_. ([], Ok ())) example_events [] example_link = ReaderOn [161] s'"
    using reader_run_goes_on_iff[of example_link True example_crc "[]" "[]" "[]" example_events "[161]" 300 "\<lambda>_. ([], Ok ())"]
      drained_Nil example_events_ok example_link_simps(1,2)
    by (auto simp: example_events_bytes drain_example_hold drained_def reader_good_def message_timestamps_new_def)
  show ?thesis
    using reader_forwards_stream[OF example_link_simps(1,2) run] run
    by (auto simp: example_events_bytes drain_example_hold)
qed

text \<open>A packet after 299 seconds starts the interval anew; a single byte does not, and the receiver ends.\<close>

theorem reader_keeps_running_witness:
  "(\<exists>s'. reader_run True example_crc (\<lambda>_. ([], Ok ())) [(0, RdData 299 (reply_frame example_crc example_hold @ [161])),
      (400, RdChannel None)] [] example_link = ReaderOn [161] s') \<and>
   \<not> (\<exists>s'. reader_run True example_crc (\<lambda>_. ([], Ok ())) [(0, RdData 299 [161]), (400, RdChannel None)] [] example_link =
      ReaderOn [161] s')"
proof
  have empty: "drain True example_crc [] = ([], Ok (), [])" using drained_Nil by (simp add: drained_def)
  have one: "drain True example_crc [161] = ([], Ok (), [161])"
    by (subst drain.simps) (simp add: decoder_decode_def)
  show "\<exists>s'. reader_run True example_crc (\<lambda>_. ([], Ok ())) [(0, RdData 299 (reply_frame example_crc example_hold @ [161])),
      (400, RdChannel None)] [] example_link = ReaderOn [161] s'"
    by (subst reader_keeps_running[OF example_link_simps(1,2), where ps = "[example_hold]"])
      (simp_all add: drain_example_hold empty message_timestamps_new_def)
  show "\<not> (\<exists>s'. reader_run True example_crc (\<lambda>_. ([], Ok ())) [(0, RdData 299 [161]), (400, RdChannel None)] [] example_link =
      ReaderOn [161] s')"
    by (subst reader_keeps_running[OF example_link_simps(1,2), where ps = "[]"])
      (simp_all add: one empty message_timestamps_new_def)
qed

section \<open>The buffer\<close>

lemma reader_decode_short:
  "reader_decode oc crc t buf s = (Ok u, buf', s') \<Longrightarrow> length buf' < 6 + 1024"
proof (induction oc crc t buf s rule: reader_decode.induct)
  case (1 oc crc t buf s)
  have none: "decoder_decode oc crc buf = (Ok None, buf') \<Longrightarrow> ?case"
    by (auto simp: decoder_decode_def Let_def MAX_PACKET_SIZE_def split: if_splits outcome.splits)
  show ?case
  proof (cases "\<exists>p b. decoder_decode oc crc buf = (Ok (Some p), b)")
    case True
    then obtain p b where d: "decoder_decode oc crc buf = (Ok (Some p), b)" by blast
    obtain s1 where "reader_packet t p s = (Ok (), s1)" "reader_decode oc crc t b s1 = (Ok u, buf', s')"
      using 1(2) by (subst (asm) reader_decode.simps) (auto simp: d split: prod.splits outcome.splits)
    with 1(1)[OF d[symmetric] refl refl] show ?thesis by metis
  next
    case False
    then show ?thesis
      using 1(2) none by (subst (asm) reader_decode.simps) (auto split: prod.splits outcome.splits option.splits)
  qed
qed

text \<open>
  C29: the receive buffer never holds 1030 bytes between two turns, whatever the peer sends, so the limit
  of 65536 bytes is never reached.
\<close>

theorem reader_buffer_bounded:
  assumes "reader_run oc crc eof evs [] s = ReaderOn buf s'"
  shows "length buf < 1030 \<and> length buf < MAX_BUFFER_SIZE"
proof -
  have "length b < 1030 \<longrightarrow> length buf < 1030" if "reader_run oc crc eof evs b s = ReaderOn buf s'" for b
    using that by (induction rule: reader_run_induct) (auto dest: reader_decode_short)
  from this[OF assms] show ?thesis by (simp add: MAX_BUFFER_SIZE_def)
qed

theorem reader_buffer_bounded_witness:
  "\<exists>buf s'. reader_run True example_crc (\<lambda>_. ([], Ok ())) [(2, RdData 2 [161, 26, 1]), (3, RdChannel None)] [] example_link =
      ReaderOn buf s' \<and> length buf < 1030 \<and> length buf < MAX_BUFFER_SIZE"
proof -
  have d: "reader_decode True example_crc 2 [161, 26, 1] example_link = (Ok (), [161, 26, 1], example_link)"
    by (subst reader_decode.simps) (simp add: decoder_decode_def)
  have "reader_run True example_crc (\<lambda>_. ([], Ok ())) [(2, RdData 2 [161, 26, 1]), (3, RdChannel None)] [] example_link =
      ReaderOn [161, 26, 1] example_link"
    by (simp add: reader_turn_def time_since_received_def message_timestamps_new_def MAX_BUFFER_SIZE_def d)
  from reader_buffer_bounded[OF this] this show ?thesis by blast
qed

section \<open>What the packets do to the configuration\<close>

lemma log_update_config:
  assumes "\<And>c'. r = Ok c' \<Longrightarrow> evolves (iv_config s) c'"
  shows "evolves (iv_config s) (iv_config (snd (log_update r s)))"
  using assms by (auto simp: log_update_def set_config_def split: outcome.split)

lemma compare_datalog_config: "evolves (iv_config s) (iv_config (snd (compare_datalog p s)))"
  by (auto simp: compare_datalog_def iv_then_def intro!: log_update_config evolves_datalog split: outcome.split)

lemma compare_inverter_config: "evolves (iv_config s) (iv_config (snd (compare_inverter p s)))"
  by (auto simp: compare_inverter_def iv_then_def intro!: log_update_config evolves_serial split: outcome.split packet.split)

lemma handle_incoming_config: "iv_config (snd (handle_incoming_packet p s)) = iv_config s"
  by (auto simp: handle_incoming_packet_def iv_then_def iv_try_def iv_send_def split: outcome.split)

lemma reader_packet_config: "evolves (iv_config s) (iv_config (snd (reader_packet t p s)))"
proof -
  let ?s = "s\<lparr> iv_times := update_received t (iv_times s) \<rparr>"
  show ?thesis
  proof (cases "handle_incoming_packet p ?s")
    case (Pair r s1)
    then have s1: "iv_config s1 = iv_config s" using handle_incoming_config[of p ?s] by simp
    let ?s2 = "s1\<lparr> iv_stats := count_packet p (iv_stats s1) \<rparr>"
    obtain r2 s3 where d: "compare_datalog p ?s2 = (r2, s3)" by (cases "compare_datalog p ?s2")
    then have "evolves (iv_config s) (iv_config s3)" using compare_datalog_config[of ?s2 p] s1 by simp
    then show ?thesis
      using compare_inverter_config[of s3 p] s1 by (auto simp: reader_packet_def Pair iv_then_def d split: outcome.split intro: evolves_trans)
  qed
qed

lemma reader_decode_config: "evolves (iv_config s) (iv_config (snd (snd (reader_decode oc crc t buf s))))"
proof (induction oc crc t buf s rule: reader_decode.induct)
  case (1 oc crc t buf s)
  show ?case
  proof (cases "\<exists>p b. decoder_decode oc crc buf = (Ok (Some p), b)")
    case True
    then obtain p b where d: "decoder_decode oc crc buf = (Ok (Some p), b)" by blast
    obtain r s1 where p: "reader_packet t p s = (r, s1)" by (cases "reader_packet t p s")
    then have e: "evolves (iv_config s) (iv_config s1)" using reader_packet_config[of s t p] by simp
    have "r = Ok u \<Longrightarrow> evolves (iv_config s1) (iv_config (snd (snd (reader_decode oc crc t b s1))))" for u
      using 1[OF d[symmetric] refl refl] p by simp
    with e show ?thesis
      by (subst reader_decode.simps) (auto simp: d p split: outcome.split intro: evolves_trans)
  next
    case False
    then show ?thesis by (subst reader_decode.simps) (auto split: prod.split outcome.split option.split)
  qed
qed

lemma handle_all_config: "iv_config (snd (handle_all ps s)) = iv_config s"
proof (induction ps arbitrary: s)
  case (Cons p ps)
  have "iv_config (snd (iv_try (handle_incoming_packet p s))) = iv_config s"
    using handle_incoming_config[of p s] by (cases "handle_incoming_packet p s") (auto simp: iv_try_def split: outcome.split)
  with Cons show ?case by (auto simp: iv_then_def split: prod.split outcome.split)
qed simp

text \<open>The state in which a run ends or waits.\<close>

fun reader_state :: "reader_result \<Rightarrow> inverter" where
  "reader_state (ReaderOn _ s) = s"
| "reader_state (ReaderEnd _ s) = s"

lemma reader_flush_config: "iv_config (reader_state (reader_flush eof r buf s)) = iv_config s"
  using handle_all_config[of "fst (eof buf)" s]
  by (auto simp: reader_flush_def split: prod.splits outcome.splits)

lemma reader_turn_config: "evolves (iv_config s) (iv_config (reader_state (reader_turn oc crc eof t ev buf s)))"
proof -
  have "evolves (iv_config s) (iv_config (snd (snd (reader_decode oc crc t' (buf @ bs) s))))" for t' bs
    by (rule reader_decode_config)
  then show ?thesis
    by (auto simp: reader_turn_def reader_flush_config split: reader_event.split prod.split outcome.split) (metis snd_conv)+
qed

lemma reader_run_config: "evolves (iv_config s) (iv_config (reader_state (reader_run oc crc eof evs buf s)))"
  using receiver_task.result_induct[of "\<lambda>r. evolves (iv_config s) (iv_config (reader_state r))" "(buf, s)" evs oc crc eof]
    reader_turn_config by (fastforce intro: evolves_trans)

text \<open>
  Whatever the inverter sends, a receiver changes nothing in the configuration but serial numbers of
  inverters and data loggers, and with \<^verbatim>\<open>strict_data_check\<close> it changes nothing at all.
\<close>

theorem reader_changes_serials_only:
  "let c = iv_config s; c' = iv_config (reader_state (reader_run oc crc eof evs buf s));
       no_serials = (\<lambda>i. i\<lparr> inv_datalog := None, inv_serial := None \<rparr>)
   in if cfg_strict_data_check c then c' = c
      else map no_serials (cfg_inverters c') = map no_serials (cfg_inverters c) \<and>
           c'\<lparr> cfg_inverters := [] \<rparr> = c\<lparr> cfg_inverters := [] \<rparr>"
  using reader_run_config[of s oc crc eof evs buf]
  by (simp add: evolves_def no_serials_def[abs_def])

text \<open>Which packets make the receiver panic.\<close>

lemma update_datalog_keeps_serial:
  assumes "update_inverter_datalog old new c = Ok c'"
  shows "map_option inv_serial (inverter_with_host c' h) = map_option inv_serial (inverter_with_host c h)"
proof -
  from assms obtain pre i post where "cfg_inverters c = pre @ i # post"
      "c' = c\<lparr> cfg_inverters := pre @ i\<lparr> inv_datalog := Some new \<rparr> # post \<rparr>"
    by (auto simp: update_inverter_datalog_def update_datalog_loop_first split: option.splits)
  then show ?thesis by (simp add: inverter_with_host_def find_append split: option.split)
qed

lemma log_update_not_Panic: "r \<noteq> Panic \<Longrightarrow> fst (log_update r s) = Ok ()"
  by (auto simp: log_update_def split: outcome.split)

lemma compare_datalog_result:
  assumes "iv_self s = Ok i"
  shows "fst (compare_datalog p s) = (if inv_datalog i = None then Panic else Ok ())"
  using assms by (cases "inv_datalog i") (auto simp: compare_datalog_def log_update_not_Panic)

lemma compare_inverter_result:
  assumes "iv_self s = Ok i"
  shows "fst (compare_inverter p s) =
    (if (\<exists>td. p = PTranslatedData td) \<and> inv_serial i = None then Panic else Ok ())"
  using assms by (cases "inv_serial i") (auto simp: compare_inverter_def log_update_not_Panic split: packet.split)

lemma compare_datalog_keeps_serial:
  "map_option inv_serial (inverter_with_host (iv_config (snd (compare_datalog p s))) h) =
   map_option inv_serial (inverter_with_host (iv_config s) h)"
  "iv_host (snd (compare_datalog p s)) = iv_host s"
  by (auto simp: compare_datalog_def iv_then_def log_update_def set_config_def update_datalog_keeps_serial
      split: outcome.split)

text \<open>
  C30: handling a packet never fails, and panics exactly when the inverter has no entry any more, when its
  entry has no data logger, or when the packet carries register data and the entry has no serial
  number: then the receiver dies with the first such packet.
\<close>

theorem reader_packet_panics_iff:
  "fst (reader_packet t p s) =
    (case inverter_with_host (iv_config s) (iv_host s) of
       None \<Rightarrow> Panic
     | Some i \<Rightarrow> if inv_datalog i = None \<or> (\<exists>td. p = PTranslatedData td) \<and> inv_serial i = None then Panic else Ok ())"
proof (cases "inverter_with_host (iv_config s) (iv_host s)")
  case None
  then show ?thesis by (simp add: reader_packet_def handle_incoming_packet_def iv_self_def)
next
  case (Some i)
  let ?s = "s\<lparr> iv_times := update_received t (iv_times s) \<rparr>"
  have i: "iv_self s = Ok i" using Some by (simp add: iv_self_def)
  obtain s1 where s1: "handle_incoming_packet p ?s = (Ok (), s1)" "iv_config s1 = iv_config s" "iv_host s1 = iv_host s"
    by (cases "ChanFromInverter \<in> set (w_closed (iv_world s))")
      (auto simp: handle_incoming_packet_def i iv_try_def iv_send_def)
  let ?s2 = "s1\<lparr> iv_stats := count_packet p (iv_stats s1) \<rparr>"
  have i2: "iv_self ?s2 = Ok i" using Some s1 by (simp add: iv_self_def)
  obtain r s3 where d: "compare_datalog p ?s2 = (r, s3)" by (cases "compare_datalog p ?s2")
  have r: "r = (if inv_datalog i = None then Panic else Ok ())"
    using compare_datalog_result[OF i2, of p] d by simp
  have "map_option inv_serial (inverter_with_host (iv_config s3) (iv_host s3)) = Some (inv_serial i)"
    using compare_datalog_keeps_serial[of p ?s2] d s1 Some by simp
  then obtain j where j: "iv_self s3 = Ok j" "inv_serial j = inv_serial i" by (auto simp: iv_self_def)
  show ?thesis
    using compare_inverter_result[OF j(1), of p] by (auto simp: reader_packet_def s1(1) d r j Some)
qed

section \<open>The life of a connection\<close>

text \<open>
  The clock of the silence limit starts when the inverter object is made, not when the connection is.
  When the first connection succeeds \<^verbatim>\<open>inverter_timeout\<close> seconds later or more, the receiver ends in
  its first turn, whatever the inverter has sent.
\<close>

theorem late_connection_is_closed:
  assumes "cfg_inverter_timeout c \<le> elapsed"
  shows "reader_run oc crc eof ((elapsed, ev) # evs) [] (inverter_new c i w) = ReaderEnd (Ok ()) (inverter_new c i w)"
  using assms by (simp add: reader_turn_def inverter_new_def message_timestamps_new_def time_since_received_def)

theorem late_connection_is_closed_witness:
  "reader_run True example_crc (\<lambda>_. ([], Ok ())) [(301, RdData 301 (reply_frame example_crc example_hold))] []
     (inverter_new (example_config [example_inverter]) example_inverter (example_world [])) =
   ReaderEnd (Ok ()) (inverter_new (example_config [example_inverter]) example_inverter (example_world []))"
  by (rule late_connection_is_closed) (simp add: example_config_def)

lemma timer_turn_sends:
  assumes "serial_from_str datalog = Ok d"
  shows "timer_turn datalog t s = (Ok (), s\<lparr> iv_world := (iv_world s)\<lparr> w_sent := w_sent (iv_world s) @
     (if t - ts_last_received (iv_times s) \<ge> 120 \<and> ChanToInverter \<notin> set (w_closed (iv_world s))
      then [ToInverter (ChPacket (PHeartbeat \<lparr> hb_datalog = d \<rparr>))] else []) \<rparr> \<rparr>)"
  using assms by (simp add: timer_turn_def Let_def time_since_received_def iv_try_def iv_send_def)

text \<open>
  C31: in silence the timer of an inverter sends heartbeats, whether or not the inverter's \<^verbatim>\<open>heartbeats\<close>
  flag is set, which is documented to enable them: nothing looks at the flag. The timer puts one heartbeat
  for the data logger on the channel to the inverter in each turn that comes 120 seconds or more after the
  last packet, none in the others, whatever is received and sent between the turns, and goes on also when
  the channel takes none.
\<close>

theorem timer_sends_heartbeats:
  assumes "serial_from_str (datalog_or_default i) = Ok d"
  shows "\<exists>s'. timer_run (datalog_or_default i) turns (inverter_new c i w) = (Ok (), s') \<and>
    w_sent (iv_world s') = w_sent w @ (if ChanToInverter \<in> set (w_closed w) then []
      else map (\<lambda>_. ToInverter (ChPacket (PHeartbeat \<lparr> hb_datalog = d \<rparr>)))
             (filter (\<lambda>(elapsed, m). elapsed - ts_last_received m \<ge> 120) turns))"
proof -
  have "\<exists>s'. timer_run (datalog_or_default i) turns s = (Ok (), s') \<and>
    w_sent (iv_world s') = w_sent (iv_world s) @ (if ChanToInverter \<in> set (w_closed (iv_world s)) then []
      else map (\<lambda>_. ToInverter (ChPacket (PHeartbeat \<lparr> hb_datalog = d \<rparr>)))
             (filter (\<lambda>(elapsed, m). elapsed - ts_last_received m \<ge> 120) turns))" for s
  proof (induction turns arbitrary: s)
    case (Cons x turns)
    obtain t m where x: "x = (t, m)" by (cases x)
    obtain s1 where s1: "timer_turn (datalog_or_default i) t (s\<lparr> iv_times := m \<rparr>) = (Ok (), s1)"
        "w_closed (iv_world s1) = w_closed (iv_world s)"
        "w_sent (iv_world s1) = w_sent (iv_world s) @ (if t - ts_last_received m \<ge> 120 \<and> ChanToInverter \<notin> set (w_closed (iv_world s))
           then [ToInverter (ChPacket (PHeartbeat \<lparr> hb_datalog = d \<rparr>))] else [])"
      by (simp add: timer_turn_sends[OF assms])
    then show ?case using Cons.IH[of s1] by (auto simp: x)
  qed simp
  from this[of "inverter_new c i w"] show ?thesis by (simp add: inverter_new_def)
qed

theorem timer_sends_heartbeats_witness:
  "let i = example_inverter\<lparr> inv_datalog := Some serial_a, inv_heartbeats := Some False \<rparr>;
       m = (\<lambda>t. \<lparr> ts_last_sent = 0, ts_last_received = t \<rparr>)
   in \<exists>s'. timer_run (datalog_or_default i) [(30, m 0), (120, m 0), (150, m 140), (270, m 140)]
        (inverter_new (example_config [i]) i (example_world [])) = (Ok (), s') \<and>
      w_sent (iv_world s') = replicate 2 (ToInverter (ChPacket (PHeartbeat \<lparr> hb_datalog = serial_a \<rparr>)))"
proof -
  let ?i = "example_inverter\<lparr> inv_datalog := Some serial_a, inv_heartbeats := Some False \<rparr>"
  let ?m = "\<lambda>t. \<lparr> ts_last_sent = 0, ts_last_received = t \<rparr>"
  have "utf8_lossy (replicate 10 0x41) = replicate 10 (0x41 :: u8)" by (rule utf8_lossy_ascii) simp
  moreover have "str_of_bytes (replicate 10 (0x41 :: u8)) = ''AAAAAAAAAA''" by code_simp
  ultimately have "datalog_or_default ?i = ''AAAAAAAAAA''"
    by (simp add: datalog_or_default_def serial_a_def serial_display_def)
  then have "serial_from_str (datalog_or_default ?i) = Ok serial_a"
    by (simp add: serial_from_str_def serial_a_def numeral_eq_Suc bytes_of_str_def)
  from timer_sends_heartbeats[OF this, of "[(30, ?m 0), (120, ?m 0), (150, ?m 140), (270, ?m 140)]" "example_config [?i]" "example_world []"]
  show ?thesis by (simp add: Let_def example_world_def numeral_2_eq_2)
qed

lemma send_connected_first: "heard 3 \<Longrightarrow> send_connected heard 3 d w = w\<lparr> w_sent := w_sent w @ [FromInverter (ChConnected d)] \<rparr>"
  by (simp add: numeral_3_eq_3)

text \<open>The socket was opened; how long that took, or how long it took to fail.\<close>

definition opened :: "socket_results \<Rightarrow> bool" where
  "opened R \<longleftrightarrow> (case sk_tcp R of TcpOpened _ \<Rightarrow> sk_into_std R = None \<and> sk_from_std R = None | _ \<Rightarrow> False)"

definition socket_ms :: "socket_results \<Rightarrow> nat" where
  "socket_ms R = (case sk_tcp R of TcpOpened ms \<Rightarrow> ms | TcpFailed ms _ \<Rightarrow> ms | TcpTimedOut \<Rightarrow> 10000)"

lemma open_socket_cases:
  obtains e options where "\<not> opened R" "open_socket R i = (Err e, socket_ms R, options)"
  | options where "opened R" "open_socket R i = (Ok (), socket_ms R, options)"
  by (cases "sk_tcp R"; cases "sk_into_std R"; cases "sk_from_std R")
    (auto simp: opened_def socket_ms_def open_socket_def WRITE_TIMEOUT_SECS_def Let_def)

lemma connect_cases:
  "fst (connect R heard s) = Ok () \<Longrightarrow> opened R"
  "fst (connect R heard s) = Err e \<Longrightarrow> \<not> opened R"
proof -
  have "(fst (connect R heard s) = Ok () \<longrightarrow> opened R) \<and> (fst (connect R heard s) = Err e \<longrightarrow> \<not> opened R)"
  proof (cases "iv_self s")
    case (Ok i)
    show ?thesis
      by (cases rule: open_socket_cases[of R i]; cases "inv_datalog i") (simp_all add: connect_def Ok)
  next
    case (Err e)
    then show ?thesis by (simp add: iv_self_def oexpect_def split: option.splits)
  qed (simp add: connect_def)
  then show "fst (connect R heard s) = Ok () \<Longrightarrow> opened R" "fst (connect R heard s) = Err e \<Longrightarrow> \<not> opened R"
    by auto
qed

text \<open>
  \<^verbatim>\<open>start\<close> retries until the inverter can be reached. When the first attempt that opens the socket
  comes after some failures, \<^verbatim>\<open>start\<close> returns \<^verbatim>\<open>Ok\<close> after that many attempts; it has waited
  five seconds after each failure and said \<^verbatim>\<open>Connected\<close> to the coordinator.
\<close>

theorem start_connects:
  assumes "inverter_with_host (iv_config s) (iv_host s) = Some i" "inv_datalog i = Some d"
    and "list_all (\<lambda>(R, _). \<not> opened R) failures" "opened R" "heard 3"
  shows "start_attempts (failures @ (R, heard) # rest) s =
    (Some (length failures + 1, Ok ()),
     s\<lparr> iv_world := (iv_world s)
         \<lparr> w_now := w_now (iv_world s) + (\<Sum>(R, _)\<leftarrow>failures. socket_ms R + 5000) + socket_ms R,
           w_sent := w_sent (iv_world s) @ [FromInverter (ChConnected d)] \<rparr> \<rparr>)"
  using assms(1,3)
proof (induction failures arbitrary: s)
  case Nil
  obtain options where "open_socket R i = (Ok (), socket_ms R, options)"
    using assms(4) by (cases rule: open_socket_cases[of R i]) auto
  then show ?case
    using Nil assms(2,5) by (simp add: connect_def iv_self_def send_connected_first)
next
  case (Cons x failures)
  obtain R' h where x: "x = (R', h)" by (cases x)
  obtain e options where "open_socket R' i = (Err e, socket_ms R', options)"
    using Cons.prems(2) by (cases rule: open_socket_cases[of R' i]) (auto simp: x)
  then show ?case
    using Cons by (simp add: x connect_def iv_self_def RECONNECT_DELAY_SECS_def add.assoc)
qed

definition example_socket :: "tcp_result \<Rightarrow> socket_results" where
  "example_socket r =
     \<lparr> sk_tcp = r, sk_into_std = None, sk_keepalive = True, sk_nodelay = True, sk_from_std = None \<rparr>"

theorem start_connects_witness:
  "\<exists>s'. start_attempts [(example_socket TcpTimedOut, \<lambda>_. True), (example_socket (TcpOpened 20), \<lambda>_. True)]
       example_link = (Some (2, Ok ()), s') \<and> w_sent (iv_world s') = [FromInverter (ChConnected serial_a)]"
proof -
  have "list_all (\<lambda>(R, _). \<not> opened R) [(example_socket TcpTimedOut, \<lambda>_. True)]" "opened (example_socket (TcpOpened 20))"
    by (simp_all add: opened_def example_socket_def)
  from start_connects[OF example_link_entry _ this, of serial_a "\<lambda>_. True" "[]"] show ?thesis by simp
qed

section \<open>Sending\<close>

text \<open>The packets of a list of channel messages.\<close>

definition sent_packets :: "(nat \<times> inverter_msg option \<times> write_result) list \<Rightarrow> packet list" where
  "sent_packets evs = concat (map (\<lambda>(t, m, wr). case m of Some (ChPacket p) \<Rightarrow> [p] | _ \<Rightarrow> []) evs)"

lemma sent_packets_simps [simp]:
  "sent_packets [] = []"
  "sent_packets ((t, m, wr) # evs) = (case m of Some (ChPacket p) \<Rightarrow> [p] | _ \<Rightarrow> []) @ sent_packets evs"
  by (simp_all add: sent_packets_def)

lemma sender_step_On:
  assumes "sender_step oc crc d t m wr (ts, frames) = (SenderOn, ts', frames')"
  shows "(\<exists>p f. m = Some (ChPacket p) \<and> create_frame oc crc d p = Ok f \<and> frames' = frames @ [f]) \<or>
    (\<forall>p. m \<noteq> Some (ChPacket p)) \<and> frames' = frames"
  using assms
  by (cases "(oc, crc, d, t, m, wr, (ts, frames))" rule: sender_step.cases)
    (auto simp: Let_def split: outcome.splits write_result.splits)

lemma sender_run_On:
  assumes "sender_run oc crc d evs (ts, frames) = (SenderOn, ts', frames')"
  shows "map Ok frames' = map Ok frames @ map (create_frame oc crc d) (sent_packets evs)"
proof -
  have "map Ok (snd (ts', frames')) = map Ok (snd (ts, frames)) @ map (create_frame oc crc d) (sent_packets evs)"
    using assms
  proof (induction rule: sender_task.on_induct)
    case (turn e es x x1 x')
    then show ?case
      by (cases e; cases x; cases x1) (auto dest!: sender_step_On split: option.split inverter_msg.split)
  qed simp
  then show ?thesis by simp
qed

text \<open>
  A sender that is still running has written one frame for each packet of the channel, in order, each
  under the serial number of its own data logger. The channel is shared by all inverters: a packet
  for another data logger is written as well.
\<close>

theorem sender_writes_all_packets:
  assumes "inverter_with_host (iv_config s) (iv_host s) = Some i" "inv_datalog i = Some d"
    and "sender oc crc evs s = (SenderOn, ts, frames)"
  shows "map Ok frames = map (create_frame oc crc d) (sent_packets evs)"
  using sender_run_On[of oc crc d evs "iv_times s" "[]" ts frames] assms by (simp add: sender_def iv_self_def)

theorem sender_writes_all_packets_witness:
  "\<exists>ts frames. sender True example_crc [(1, Some (ChPacket (PHeartbeat \<lparr> hb_datalog = serial_default \<rparr>)), WriteOk)] example_link =
     (SenderOn, ts, frames) \<and>
   map Ok frames = [create_frame True example_crc serial_a (PHeartbeat \<lparr> hb_datalog = serial_default \<rparr>)]"
proof -
  let ?evs = "[(1, Some (ChPacket (PHeartbeat \<lparr> hb_datalog = serial_default \<rparr>)), WriteOk)]"
  have "\<exists>ts frames. sender True example_crc ?evs example_link = (SenderOn, ts, frames)"
    by (simp add: sender_def iv_self_def example_link_entry create_frame_def heartbeat_bytes_def)
  then show ?thesis
    using sender_writes_all_packets[OF example_link_entry, of serial_a True example_crc ?evs] by fastforce
qed

definition simple_setters :: "((u16 \<Rightarrow> inverter \<Rightarrow> unit iv_handled) \<times> u16) list" where
  "simple_setters =
     [(iv_set_output_power_limit, 1), (iv_set_grid_tie_mode, 2), (iv_set_battery_charge_current, 3),
      (iv_set_battery_discharge_current, 4), (iv_set_battery_charge_voltage, 5),
      (iv_set_battery_discharge_cutoff_voltage, 6), (iv_set_ac_charge_current, 7), (iv_set_ac_charge_voltage, 8),
      (iv_set_ac_charge_frequency, 9), (iv_set_ac_charge_power_factor, 10), (iv_set_ac_charge_priority, 11),
      (iv_set_forced_discharge_power, 17), (iv_set_grid_tie_power_limit, 18), (iv_set_grid_tie_frequency, 19),
      (iv_set_grid_tie_voltage, 20), (iv_set_grid_tie_power_factor, 21)]"

lemma simple_setters_write: "(f, r) \<in> set simple_setters \<Longrightarrow> f = write_register r"
  unfolding simple_setters_def
  by (auto simp: iv_set_output_power_limit_def iv_set_grid_tie_mode_def iv_set_battery_charge_current_def
      iv_set_battery_discharge_current_def iv_set_battery_charge_voltage_def
      iv_set_battery_discharge_cutoff_voltage_def iv_set_ac_charge_current_def iv_set_ac_charge_voltage_def
      iv_set_ac_charge_frequency_def iv_set_ac_charge_power_factor_def iv_set_ac_charge_priority_def
      iv_set_forced_discharge_power_def iv_set_grid_tie_power_limit_def iv_set_grid_tie_frequency_def
      iv_set_grid_tie_voltage_def iv_set_grid_tie_power_factor_def)

text \<open>
  A direct write puts one packet on the channel that carries the value with its two bytes swapped:
  the bytes are in big-endian order, and \<^verbatim>\<open>WriteParam::value\<close>, like every other command, reads
  and writes them in little-endian order.
\<close>

theorem setters_swap_bytes:
  assumes "(f, r) \<in> set simple_setters"
    and "inverter_with_host (iv_config s) (iv_host s) = Some i" "inv_datalog i = Some d"
    and "ChanToInverter \<notin> set (w_closed (iv_world s))"
  shows "\<exists>wp. f v s = (Ok (), s\<lparr> iv_world := (iv_world s)\<lparr> w_sent := w_sent (iv_world s) @
      [ToInverter (ChPacket (PWriteParam wp))] \<rparr> \<rparr>) \<and> wp_register wp = r \<and> wp_datalog wp = d \<and>
    wp_value wp = Ok (push_bit 8 v OR drop_bit 8 v)"
proof -
  have "u16_from_le (ucast (drop_bit 8 v)) (ucast v) = push_bit 8 v OR drop_bit 8 v"
    by (rule bit_word_eqI) (auto simp: u16_from_le_def bit_simps dest: bit_imp_le_length)
  then show ?thesis
    using assms(2-4) unfolding simple_setters_write[OF assms(1)]
    by (intro exI[of _ "\<lparr> wp_datalog = d, wp_register = r, wp_values = [ucast (drop_bit 8 v), ucast v] \<rparr>"])
      (simp add: write_register_def iv_self_def iv_send_def wp_value_def u16ify_def)
qed

theorem setters_swap_bytes_witness:
  "\<exists>s' wp. iv_set_battery_charge_current 50 example_link = (Ok (), s') \<and>
    w_sent (iv_world s') = [ToInverter (ChPacket (PWriteParam wp))] \<and> wp_value wp = Ok 12800"
proof -
  have "(iv_set_battery_charge_current, 3) \<in> set simple_setters"
    by (simp add: simple_setters_def)
  from setters_swap_bytes[OF this example_link_entry, of serial_a 50] show ?thesis
    by fastforce
qed

end
