(* ===== verification/Datalog_Writer.thy ===== *)
theory Datalog_Writer
  imports Channels Texts Packet_Facts
begin

text \<open>
  The datalog file (\<^verbatim>\<open>datalog_writer.rs\<close>): the registers of a packet, the JSON object of one line, the
  opening of the file, the write to it and the loop over the packets of the inverters;
  the text of a JSON object is the argument \<open>js\<close>, the clock and the result of a write are part of each
  event, and the results of the file system are arguments.
\<close>

section \<open>Registers of a packet\<close>

text \<open>The loop over \<^verbatim>\<open>(0..len).step_by(2)\<close>: the high byte comes first, a last single byte is left out.\<close>

definition datalog_pairs :: "bool \<Rightarrow> translated_data \<Rightarrow> (u16 \<times> u16) list outcome" where
  "datalog_pairs oc td =
     (let values = td_values td
      in omap (\<lambda>i.
           let value = push_bit 8 (ucast (values ! i)) OR ucast (values ! (i + 1))
           in obind (add_oc oc (td_register td) (word_of_nat i div 2)) (\<lambda>register. Ok (register, value)))
         (filter (\<lambda>i. i + 1 < length values) (map (\<lambda>k. 2 * k) [0..<(length values + 1) div 2])))"

section \<open>Writing a line\<close>

text \<open>The object of a line; the fields of \<^verbatim>\<open>raw_data\<close> are keyed by the register number.\<close>

record datalog_entry =
  dle_utc_timestamp :: nat
  dle_serial :: string
  dle_datalog :: string
  dle_register_type :: string
  dle_raw_data :: "string \<rightharpoonup> string"

datatype file_result = FileOk | FileFlushFailed string | FileWriteFailed string

record datalog_writer =
  dw_lines :: "string list"
  dw_values_written :: "64 word"

text \<open>
  Opening the file: the results of making its directory, of opening it (with the lines that it has,
  since it is opened to append) and of setting its permissions.
\<close>

record file_ops =
  fo_create_parent :: "string \<Rightarrow> unit outcome"
  fo_open :: "string \<Rightarrow> string list outcome"
  fo_set_permissions :: "string \<Rightarrow> unit outcome"

definition datalog_new :: "file_ops \<Rightarrow> string \<Rightarrow> datalog_writer outcome" where
  "datalog_new F path =
     obind (fo_create_parent F path) (\<lambda>_.
     obind (fo_open F path) (\<lambda>lines.
     obind (fo_set_permissions F path) (\<lambda>_.
       Ok \<lparr> dw_lines = lines, dw_values_written = 0 \<rparr>)))"

type_synonym write_env = "nat outcome \<times> file_result"

definition hex_value :: "u16 \<Rightarrow> string" where
  "hex_value v = ''0x'' @ show_04X (unat v)"

definition write_data :: "(datalog_entry \<Rightarrow> string outcome) \<Rightarrow> write_env \<Rightarrow> serial \<Rightarrow> serial \<Rightarrow> string \<Rightarrow>
    (u16 \<times> u16) list \<Rightarrow> datalog_writer \<Rightarrow> unit outcome \<times> datalog_writer" where
  "write_data js env serial datalog register_type data w =
     (case obind (fst env) (\<lambda>timestamp.
        let raw_data = foldl (\<lambda>m (register, value). m(show_nat (unat register) \<mapsto> hex_value value)) Map.empty data
        in js \<lparr> dle_utc_timestamp = timestamp, dle_serial = serial_display serial,
                dle_datalog = serial_display datalog, dle_register_type = register_type,
                dle_raw_data = raw_data \<rparr>) of
        Ok json_string \<Rightarrow>
          (case snd env of
             FileOk \<Rightarrow> (Ok (), w\<lparr> dw_lines := dw_lines w @ [json_string],
                              dw_values_written := dw_values_written w + word_of_nat (length data) \<rparr>)
           | FileFlushFailed e \<Rightarrow> (Err e, w\<lparr> dw_lines := dw_lines w @ [json_string] \<rparr>)
           | FileWriteFailed e \<Rightarrow> (Err e, w))
      | Err e \<Rightarrow> (Err e, w)
      | Panic \<Rightarrow> (Panic, w))"

definition write_hold_data :: "(datalog_entry \<Rightarrow> string outcome) \<Rightarrow> write_env \<Rightarrow> serial \<Rightarrow> serial \<Rightarrow>
    (u16 \<times> u16) list \<Rightarrow> datalog_writer \<Rightarrow> unit outcome \<times> datalog_writer" where
  "write_hold_data js env serial datalog data = write_data js env serial datalog ''hold'' data"

definition write_input_data :: "(datalog_entry \<Rightarrow> string outcome) \<Rightarrow> write_env \<Rightarrow> serial \<Rightarrow> serial \<Rightarrow>
    (u16 \<times> u16) list \<Rightarrow> datalog_writer \<Rightarrow> unit outcome \<times> datalog_writer" where
  "write_input_data js env serial datalog data = write_data js env serial datalog ''input'' data"

section \<open>The loop\<close>

datatype writer_result = WriterOn datalog_writer | WriterEnd "unit outcome" datalog_writer

text \<open>A message of the channel from the inverters; \<open>None\<close>: an error of the channel.\<close>

fun writer_step :: "bool \<Rightarrow> (datalog_entry \<Rightarrow> string outcome) \<Rightarrow> write_env \<Rightarrow> inverter_msg option \<Rightarrow> datalog_writer \<Rightarrow> writer_result" where
  "writer_step oc js env (Some (ChPacket (PTranslatedData td))) w =
     (case datalog_pairs oc td of
        Ok pairs \<Rightarrow>
          (if pairs \<noteq> [] then
             (case write_input_data js env (td_inverter td) (td_datalog td) pairs w of
                (Ok _, w) \<Rightarrow> WriterOn w
              | (r, w) \<Rightarrow> WriterEnd r w)
           else WriterOn w)
      | Err e \<Rightarrow> WriterEnd (Err e) w
      | Panic \<Rightarrow> WriterEnd Panic w)"
| "writer_step oc js env (Some ChShutdown) w = WriterEnd (Ok ()) w"
| "writer_step oc js env None w = WriterEnd (Ok ()) w"
| "writer_step oc js env (Some _) w = WriterOn w"

fun writer_run :: "bool \<Rightarrow> (datalog_entry \<Rightarrow> string outcome) \<Rightarrow> (write_env \<times> inverter_msg option) list \<Rightarrow>
    datalog_writer \<Rightarrow> writer_result" where
  "writer_run oc js [] w = WriterOn w"
| "writer_run oc js ((env, m) # evs) w =
     (case writer_step oc js env m w of
        WriterOn w \<Rightarrow> writer_run oc js evs w
      | r \<Rightarrow> r)"

interpretation datalog_task: task_loop "\<lambda>(env, m). writer_step oc js env m" "writer_run oc js" WriterOn for oc js
  by unfold_locales (auto split: writer_result.split)

section \<open>Properties\<close>

definition swap_bytes :: "u16 \<Rightarrow> u16" where
  "swap_bytes v = push_bit 8 v OR drop_bit 8 v"

lemma swap_bytes_le: "push_bit 8 (ucast b) OR ucast a = swap_bytes (u16_from_le b a)"
  by (rule bit_word_eqI) (auto simp: swap_bytes_def u16_from_le_def bit_simps dest: bit_imp_le_length)

lemma filter_step2: "filter (\<lambda>i. i + 1 < n) (map (\<lambda>k. 2 * k) [0..<(n + 1) div 2]) = map (\<lambda>k. 2 * k) [0..<n div 2]"
proof -
  have "(n + 1) div 2 = n div 2 \<or> (n + 1) div 2 = Suc (n div 2) \<and> \<not> 2 * (n div 2) + 1 < n" by presburger
  moreover have "filter (\<lambda>i. i + 1 < n) (map (\<lambda>k. 2 * k) [0..<n div 2]) = map (\<lambda>k. 2 * k) [0..<n div 2]"
    by (rule filter_True) auto
  ultimately show ?thesis by auto
qed

lemma datalog_pairs_eq:
  assumes "length (td_values p) \<le> 255" "unat (td_register p) + length (td_values p) div 2 \<le> 2 ^ 16"
  shows "datalog_pairs oc p = Ok (map (\<lambda>(r, v). (r, swap_bytes v)) (register_pairs (td_register p) (td_values p)))"
proof -
  let ?vs = "td_values p"
  have step: "(let value = push_bit 8 (ucast (?vs ! (2 * k))) OR ucast (?vs ! (2 * k + 1))
      in obind (add_oc oc (td_register p) (word_of_nat (2 * k) div 2)) (\<lambda>register. Ok (register, value))) =
    Ok (td_register p + word_of_nat k, swap_bytes (word_at ?vs (2 * k)))" if "k < length ?vs div 2" for k
  proof -
    have k: "unat (word_of_nat k :: u16) = k" "unat (word_of_nat (2 * k) :: u16) = 2 * k"
      using that assms(1) by (simp_all add: unat_of_nat del: of_nat_mult)
    have "(word_of_nat (2 * k) :: u16) div 2 = word_of_nat k"
      unfolding word_unat_eq_iff unat_div k by simp
    moreover have "add_oc oc (td_register p) (word_of_nat k) = Ok (td_register p + word_of_nat k)"
      using that assms(2) k by (intro add_oc_small) simp
    ultimately show ?thesis by (simp add: swap_bytes_le word_at_def Let_def)
  qed
  show ?thesis
    unfolding datalog_pairs_def Let_def[of ?vs] filter_step2 omap_map register_pairs_def map_map
    by (rule omap_Ok) (use step in \<open>simp add: o_def\<close>)
qed

text \<open>
  C1: the datalog file holds the registers of a packet with the two bytes of each value swapped against
  what \<^verbatim>\<open>pairs\<close> reads from the same packet; a last single byte, on which \<^verbatim>\<open>pairs\<close>
  panics, is left out.
\<close>

theorem datalog_swaps_values:
  assumes "length (td_values p) \<le> 255" "unat (td_register p) + length (td_values p) div 2 \<le> 2 ^ 16"
  shows "datalog_pairs oc p = (case td_pairs oc p of
      Ok ps \<Rightarrow> Ok (map (\<lambda>(r, v). (r, push_bit 8 v OR drop_bit 8 v)) ps)
    | _ \<Rightarrow> datalog_pairs oc (p\<lparr> td_values := butlast (td_values p) \<rparr>))"
proof (cases "even (length (td_values p))")
  case True
  then have "td_pairs oc p = Ok (register_pairs (td_register p) (td_values p))"
    using assms(2) by (simp add: td_pairs_def value_pairs_even)
  then show ?thesis using datalog_pairs_eq[OF assms] by (simp add: swap_bytes_def)
next
  case False
  then have odd: "td_pairs oc p = Panic" by (simp add: td_pairs_def value_pairs_odd)
  let ?vs = "td_values p"
  have n: "length (butlast ?vs) div 2 = length ?vs div 2" using False by simp presburger
  have "map (\<lambda>i. (td_register p + word_of_nat i, word_at (butlast ?vs) (2 * i))) [0..<length ?vs div 2] =
      map (\<lambda>i. (td_register p + word_of_nat i, word_at ?vs (2 * i))) [0..<length ?vs div 2]"
  proof (intro map_cong refl)
    fix i assume "i \<in> set [0..<length ?vs div 2]"
    then have "2 * i + 1 < length ?vs - 1" using False by simp presburger
    then show "(td_register p + word_of_nat i, word_at (butlast ?vs) (2 * i)) =
        (td_register p + word_of_nat i, word_at ?vs (2 * i))"
      by (simp add: word_at_def nth_butlast)
  qed
  then have "register_pairs (td_register p) (butlast ?vs) = register_pairs (td_register p) ?vs"
    unfolding register_pairs_def n .
  moreover have "datalog_pairs oc (p\<lparr> td_values := butlast ?vs \<rparr>) =
      Ok (map (\<lambda>(r, v). (r, swap_bytes v)) (register_pairs (td_register p) (butlast ?vs)))"
    using datalog_pairs_eq[of "p\<lparr> td_values := butlast ?vs \<rparr>" oc] assms n by simp
  ultimately show ?thesis using odd datalog_pairs_eq[OF assms] by simp
qed

theorem datalog_swaps_values_witness:
  "datalog_pairs True \<lparr> td_datalog = serial_default, td_device_function = DevReadInput,
       td_inverter = serial_default, td_register = 12, td_values = [22, 3, 4, 5] \<rparr> = Ok [(12, 0x1603), (13, 0x0405)]"
proof -
  let ?p = "\<lparr> td_datalog = serial_default, td_device_function = DevReadInput,
       td_inverter = serial_default, td_register = 12, td_values = [22, 3, 4, 5] \<rparr>"
  have "register_pairs 12 [22, 3, 4, 5] = [(12, 0x0316), (13, 0x0504)]" by code_simp
  then have pairs: "td_pairs True ?p = Ok [(12, 0x0316), (13, 0x0504)]"
    by (simp add: td_pairs_def value_pairs_even)
  have "datalog_pairs True ?p = Ok (map (\<lambda>(r, v). (r, push_bit 8 v OR drop_bit 8 v)) [(12, 0x0316), (13, 0x0504)])"
    by (subst datalog_swaps_values) (simp_all add: pairs)
  also have "map (\<lambda>(r, v). (r, push_bit 8 v OR drop_bit 8 v)) [(12 :: u16, 0x0316 :: u16), (13, 0x0504)] =
      [(12, 0x1603), (13, 0x0405)]" by simp
  finally show ?thesis .
qed

text \<open>The number of registers that a message adds to the file.\<close>

fun logged_registers :: "inverter_msg option \<Rightarrow> nat" where
  "logged_registers (Some (ChPacket (PTranslatedData td))) = length (td_values td) div 2"
| "logged_registers _ = 0"

lemma length_datalog_pairs: "datalog_pairs oc p = Ok ps \<Longrightarrow> length ps = length (td_values p) div 2"
  unfolding datalog_pairs_def Let_def[of "td_values p"] filter_step2 by (drule length_omap) simp

lemma write_data_Ok:
  assumes "write_data js env serial datalog t ps w = (Ok (), w')"
  shows "length (dw_lines w') = Suc (length (dw_lines w))"
    "dw_values_written w' = dw_values_written w + word_of_nat (length ps)"
  using assms by (auto simp: write_data_def split: outcome.splits file_result.splits)

lemma writer_step_On:
  assumes "writer_step oc js env m w = WriterOn w'"
  shows "length (dw_lines w') = length (dw_lines w) + (if logged_registers m = 0 then 0 else 1)"
    "dw_values_written w' = dw_values_written w + word_of_nat (logged_registers m)"
proof -
  have "length (dw_lines w') = length (dw_lines w) + (if logged_registers m = 0 then 0 else 1) \<and>
    dw_values_written w' = dw_values_written w + word_of_nat (logged_registers m)"
  proof (cases "\<exists>td. m = Some (ChPacket (PTranslatedData td))")
    case True
    then obtain td where m: "m = Some (ChPacket (PTranslatedData td))" by blast
    then obtain ps where ps: "datalog_pairs oc td = Ok ps" using assms by (auto split: outcome.splits)
    note len = length_datalog_pairs[OF ps]
    show ?thesis
    proof (cases "ps = []")
      case True
      with assms len show ?thesis by (simp add: m ps)
    next
      case False
      then have "write_data js env (td_inverter td) (td_datalog td) ''input'' ps w = (Ok (), w')"
        using assms by (auto simp: m ps write_input_data_def split: prod.splits outcome.splits)
      moreover have "length (td_values td) div 2 \<noteq> 0" using False len by (cases ps) simp_all
      ultimately show ?thesis using write_data_Ok[of js env _ _ _ ps w w'] len by (simp add: m)
    qed
  next
    case False
    then show ?thesis
      using assms by (cases "(oc, js, env, m, w)" rule: writer_step.cases) auto
  qed
  then show "length (dw_lines w') = length (dw_lines w) + (if logged_registers m = 0 then 0 else 1)"
    "dw_values_written w' = dw_values_written w + word_of_nat (logged_registers m)" by blast+
qed

text \<open>
  While the writer runs, the file has one line for each packet of register data with at least one
  register, whatever its function, and the counter has grown by the number of their registers.
\<close>

theorem writer_logs_each_packet:
  assumes "writer_run oc js evs w = WriterOn w'"
  shows "length (dw_lines w') = length (dw_lines w) + length (filter (\<lambda>(env, m). logged_registers m \<noteq> 0) evs) \<and>
    dw_values_written w' = dw_values_written w + (\<Sum>(env, m) \<leftarrow> evs. word_of_nat (logged_registers m))"
  using assms
proof (induction rule: datalog_task.on_induct)
  case (turn e es w w1 w')
  then show ?case using writer_step_On[of oc js "fst e" "snd e" w w1] by (simp add: split_beta)
qed simp

theorem writer_logs_each_packet_witness:
  "\<exists>w'. writer_run True (\<lambda>e. Ok (dle_register_type e))
      [((Ok 7, FileOk), Some (ChPacket (PTranslatedData \<lparr> td_datalog = serial_default, td_device_function = DevReadHold,
         td_inverter = serial_default, td_register = 12, td_values = [22, 3, 4] \<rparr>))),
       ((Ok 8, FileOk), Some (ChConnected serial_default))] \<lparr> dw_lines = [], dw_values_written = 0 \<rparr> = WriterOn w' \<and>
    length (dw_lines w') = 1 \<and> dw_values_written w' = 1"
proof -
  let ?td = "\<lparr> td_datalog = serial_default, td_device_function = DevReadHold,
         td_inverter = serial_default, td_register = 12, td_values = [22, 3, 4] \<rparr>"
  have "\<exists>ps. datalog_pairs True ?td = Ok ps" by (subst datalog_pairs_eq) simp_all
  then have "\<exists>w'. writer_run True (\<lambda>e. Ok (dle_register_type e))
      [((Ok 7, FileOk), Some (ChPacket (PTranslatedData ?td))), ((Ok 8, FileOk), Some (ChConnected serial_default))]
      \<lparr> dw_lines = [], dw_values_written = 0 \<rparr> = WriterOn w'"
    by (auto simp: write_input_data_def write_data_def Let_def)
  then obtain w' where run: "writer_run True (\<lambda>e. Ok (dle_register_type e))
      [((Ok 7, FileOk), Some (ChPacket (PTranslatedData ?td))), ((Ok 8, FileOk), Some (ChConnected serial_default))]
      \<lparr> dw_lines = [], dw_values_written = 0 \<rparr> = WriterOn w'" by blast
  from writer_logs_each_packet[OF this] run show ?thesis by simp
qed

end
