(* ===== verification/Influx.thy ===== *)
theory Influx
  imports Coordinator "HOL-Library.AList"
begin

text \<open>
  The register file (\<^verbatim>\<open>register.rs\<close>) and the InfluxDB writer (\<^verbatim>\<open>influx.rs\<close>). Reading the file and its
  JSON, the line protocol and the HTTP request are not modelled: a parsed file, the points of a body
  and the result of each request stand for them.
\<close>

section \<open>The register file\<close>

record register_def =
  rd_register_number :: u16
  rd_name :: string
  rd_description :: string
  rd_data_type :: string
  rd_access :: string
  rd_scaling :: f64
  rd_unit :: string
  rd_shortname :: string
  rd_read_only :: bool

definition default_scaling :: f64 where
  "default_scaling = 1"

record register_type =
  rt_register_type :: string
  rt_register_map :: "register_def list"

type_synonym register_parser = "u16 \<rightharpoonup> register_def"

definition set_access :: "register_def \<Rightarrow> register_def" where
  "set_access r = (if rd_access r = []
     then r\<lparr> rd_access := (if rd_read_only r then ''read_only'' else ''read_write'') \<rparr> else r)"

definition field_name :: "register_def \<Rightarrow> string" where
  "field_name r = (if rd_shortname r \<noteq> [] then rd_shortname r else rd_name r)"

datatype duplicate = DupNumber u16 string | DupShortname string

text \<open>
  The loop over the registers of one type: the registers of the type, the short names of all types and
  the duplicates found. The line numbers of the messages are left out.
\<close>

fun type_loop :: "string \<Rightarrow> register_def list \<Rightarrow> register_parser \<times> string list \<times> duplicate list \<Rightarrow>
    register_parser \<times> string list \<times> duplicate list" where
  "type_loop t [] st = st"
| "type_loop t (r # rs) (type_registers, shortnames, duplicates) =
     (let n = rd_register_number r; shortname = field_name r;
          (type_registers, duplicates) =
            (case type_registers n of
               Some _ \<Rightarrow> (type_registers, duplicates @ [DupNumber n t])
             | None \<Rightarrow> (type_registers(n \<mapsto> r), duplicates));
          (shortnames, duplicates) =
            (if shortname \<in> set shortnames then (shortnames, duplicates @ [DupShortname shortname])
             else (shortnames @ [shortname], duplicates))
      in type_loop t rs (type_registers, shortnames, duplicates))"

fun types_loop :: "register_type list \<Rightarrow> register_parser \<times> string list \<times> duplicate list \<Rightarrow>
    register_parser \<times> string list \<times> duplicate list" where
  "types_loop [] st = st"
| "types_loop (t # ts) (registers, shortnames, duplicates) =
     (case type_loop (rt_register_type t) (rt_register_map t) (Map.empty, shortnames, duplicates) of
        (type_registers, shortnames, duplicates) \<Rightarrow>
          types_loop ts (registers ++ type_registers, shortnames, duplicates))"

definition register_parser_new :: "register_type list outcome \<Rightarrow> register_parser outcome" where
  "register_parser_new file =
     obind file (\<lambda>types.
       let types = map (\<lambda>t. t\<lparr> rt_register_map := map set_access (rt_register_map t) \<rparr>) types
       in case types_loop types (Map.empty, [], []) of
            (registers, _, duplicates) \<Rightarrow>
              (if duplicates \<noteq> [] then Err ''Found {} duplicate register definitions'' else Ok registers))"

definition get_register :: "register_parser \<Rightarrow> u16 \<Rightarrow> register_def option" where
  "get_register p register_number = p register_number"

text \<open>\<^verbatim>\<open>from_str_radix(hex, 16).unwrap_or(0) as f64\<close>.\<close>

definition hex_f64 :: "string \<Rightarrow> f64" where
  "hex_f64 hex = f64_of_word (case parse_radix 16 hex of Some v \<Rightarrow> (v :: u16) | None \<Rightarrow> 0)"

definition decode_value :: "register_def \<Rightarrow> string \<Rightarrow> f64" where
  "decode_value r hex =
     (let value = hex_f64 hex in if rd_data_type r = ''float'' then f64_mul value (rd_scaling r) else value)"

text \<open>
  The hash maps of strings are association lists with distinct keys, in the order in which they are
  iterated over, which the source leaves open.
\<close>

definition decode_registers :: "register_parser \<Rightarrow> (string \<times> string) list \<Rightarrow> bool \<Rightarrow> string \<Rightarrow> (string \<times> f64) list" where
  "decode_registers p data show_unknown register_type =
     foldl (\<lambda>decoded (reg_num_str, hex_value).
         case parse_uint reg_num_str of
           Ok reg_num \<Rightarrow>
             (case get_register p reg_num of
                Some register \<Rightarrow> AList.update (field_name register) (decode_value register hex_value) decoded
              | None \<Rightarrow>
                  if show_unknown
                  then AList.update (register_type @ ''_unknown_'' @ show_nat (unat reg_num)) (hex_f64 hex_value) decoded
                  else decoded)
         | _ \<Rightarrow> decoded)
       [] data"

section \<open>The sender\<close>

text \<open>
  A received object, as far as it is read: \<open>None\<close> is a field that is missing or has another type.
\<close>

record influx_object =
  ifo_serial :: "string option"
  ifo_datalog :: "string option"
  ifo_time :: "int option"
  ifo_raw_data :: "(string \<times> string option) list option"

text \<open>The object of the coordinator; \<open>entries\<close> lists its raw data.\<close>

definition influx_object_of :: "(string \<times> string) list \<Rightarrow> influx_data \<Rightarrow> influx_object" where
  "influx_object_of entries d =
     \<lparr> ifo_serial = Some (ifd_serial d), ifo_datalog = Some (serial_display (td_datalog (ifd_packet d))),
       ifo_time = Some (ifd_time d), ifo_raw_data = Some (map (\<lambda>(k, v). (k, Some v)) entries) \<rparr>"

datatype influx_msg = IfInputData influx_object | IfHoldData influx_object | IfShutdown

record influx_point =
  ifp_serial :: string
  ifp_datalog :: string
  ifp_field :: string
  ifp_value :: f64
  ifp_time :: int

text \<open>
  What the writer does: the bodies that were sent, in order, with the result of each request, its
  statistics and the seconds it slept.
\<close>

record influx_state =
  ifs_stats :: packet_stats
  ifs_posted :: "(influx_point list \<times> bool) list"
  ifs_slept :: nat

text \<open>
  Values without a register parser are the raw values of each entry. The points of a message are the
  entries of the decoded map, one line each.
\<close>

definition register_data :: "(string \<times> string option) list \<Rightarrow> (string \<times> string) list" where
  "register_data raw = concat (map (\<lambda>(k, v). case v of Some s \<Rightarrow> [(k, s)] | None \<Rightarrow> []) raw)"

definition decoded_values :: "register_parser option \<Rightarrow> bool \<Rightarrow> string \<Rightarrow> (string \<times> string) list \<Rightarrow> (string \<times> f64) list" where
  "decoded_values parser show_unknown datalog data =
     (case parser of
        Some p \<Rightarrow> decode_registers p data show_unknown datalog
      | None \<Rightarrow> map (\<lambda>(k, v). (k, hex_f64 v)) data)"

definition influx_points :: "register_parser option \<Rightarrow> bool \<Rightarrow> (int \<Rightarrow> bool) \<Rightarrow> influx_object \<Rightarrow> influx_point list outcome" where
  "influx_points parser show_unknown valid_time d =
     obind (ok_or (ifo_serial d) ''Missing serial in data'') (\<lambda>serial.
     obind (ok_or (ifo_datalog d) ''Missing datalog in data'') (\<lambda>datalog.
     obind (ok_or (ifo_time d) ''Missing time in data'') (\<lambda>timestamp.
     obind (ok_or (ifo_raw_data d) ''Missing raw_data in data'') (\<lambda>raw.
       let values = decoded_values parser show_unknown datalog (register_data raw)
       in if \<not> valid_time timestamp then Err ''Invalid timestamp: {}''
          else Ok (map (\<lambda>(name, value). \<lparr> ifp_serial = serial, ifp_datalog = datalog, ifp_field = name,
                                        ifp_value = value, ifp_time = timestamp \<rparr>) values)))))"

text \<open>The requests for one body: \<open>oks\<close> lists how each would end, and at most three are made.\<close>

fun influx_push :: "nat \<Rightarrow> bool list \<Rightarrow> influx_point list \<Rightarrow> influx_state \<Rightarrow> influx_state" where
  "influx_push retry_count [] points s = s"
| "influx_push retry_count (ok # oks) points s =
     (if retry_count < 3 then
        (if ok then s\<lparr> ifs_posted := ifs_posted s @ [(points, True)],
                       ifs_stats := (ifs_stats s)\<lparr> st_influx_writes := st_influx_writes (ifs_stats s) + 1 \<rparr> \<rparr>
         else influx_push (retry_count + 1) oks points
                (s\<lparr> ifs_posted := ifs_posted s @ [(points, False)],
                    ifs_stats := (ifs_stats s)\<lparr> st_influx_errors := st_influx_errors (ifs_stats s) + 1 \<rparr>,
                    ifs_slept := ifs_slept s + 10 \<rparr>))
      else s)"

datatype influx_recv = IfRecv influx_msg | IfClosed | IfLagged

datatype influx_result = InfluxOn influx_state | InfluxEnd "unit outcome" influx_state

definition influx_data_turn :: "register_parser option \<Rightarrow> bool \<Rightarrow> (int \<Rightarrow> bool) \<Rightarrow> bool list \<Rightarrow> influx_object \<Rightarrow>
    influx_state \<Rightarrow> influx_result" where
  "influx_data_turn parser show_unknown valid_time oks d s =
     (case influx_points parser show_unknown valid_time d of
        Ok points \<Rightarrow> if points = [] then InfluxOn s else InfluxOn (influx_push 0 oks points s)
      | Err e \<Rightarrow> InfluxEnd (Err e) s
      | Panic \<Rightarrow> InfluxEnd Panic s)"

fun influx_turn :: "register_parser option \<Rightarrow> bool \<Rightarrow> (int \<Rightarrow> bool) \<Rightarrow> bool list \<Rightarrow> influx_recv \<Rightarrow>
    influx_state \<Rightarrow> influx_result" where
  "influx_turn parser show_unknown valid_time oks (IfRecv IfShutdown) s = InfluxEnd (Ok ()) s"
| "influx_turn parser show_unknown valid_time oks (IfRecv (IfInputData d)) s =
     influx_data_turn parser show_unknown valid_time oks d s"
| "influx_turn parser show_unknown valid_time oks (IfRecv (IfHoldData d)) s =
     influx_data_turn parser show_unknown valid_time oks d s"
| "influx_turn parser show_unknown valid_time oks IfClosed s = InfluxEnd (Ok ()) s"
| "influx_turn parser show_unknown valid_time oks IfLagged s = InfluxOn s"

fun influx_sender :: "register_parser option \<Rightarrow> bool \<Rightarrow> (int \<Rightarrow> bool) \<Rightarrow> (bool list \<times> influx_recv) list \<Rightarrow>
    influx_state \<Rightarrow> influx_result" where
  "influx_sender parser show_unknown valid_time [] s = InfluxOn s"
| "influx_sender parser show_unknown valid_time ((oks, m) # evs) s =
     (case influx_turn parser show_unknown valid_time oks m s of
        InfluxOn s \<Rightarrow> influx_sender parser show_unknown valid_time evs s
      | r \<Rightarrow> r)"

interpretation influx_task: task_loop "\<lambda>(oks, m). influx_turn parser show_unknown valid_time oks m"
    "influx_sender parser show_unknown valid_time" InfluxOn for parser show_unknown valid_time
  by unfold_locales (auto split: influx_result.split)

text \<open>\<^verbatim>\<open>start\<close>: whether the sender is spawned. \<open>url\<close> is the parsed URL and \<open>test\<close> the result of the test point.\<close>

definition influx_start :: "config \<Rightarrow> unit outcome \<Rightarrow> unit outcome \<Rightarrow> bool outcome" where
  "influx_start c url test =
     (if \<not> ifx_enabled (cfg_influx c) then Ok False
      else obind url (\<lambda>_.
        case test of Ok _ \<Rightarrow> Ok True | Err _ \<Rightarrow> Err ''Failed to connect to InfluxDB: {}'' | Panic \<Rightarrow> Panic))"

definition influx_new :: "config \<Rightarrow> (string \<Rightarrow> register_type list outcome) \<Rightarrow> register_parser option" where
  "influx_new c read_file =
     (case cfg_register_file c of
        None \<Rightarrow> None
      | Some file \<Rightarrow> (case register_parser_new (read_file file) of Ok p \<Rightarrow> Some p | _ \<Rightarrow> None))"

section \<open>The schema and the register texts\<close>

text \<open>A file that cannot be used is replaced by the default file; without that the program panics.\<close>

definition register_schema :: "(string \<Rightarrow> register_type list outcome) \<Rightarrow> config \<Rightarrow> register_parser outcome" where
  "register_schema read_file c =
     (let default_schema = (case register_parser_new (read_file ''doc/eg4_registers.json'') of Ok p \<Rightarrow> Ok p | _ \<Rightarrow> Panic)
      in case cfg_register_file c of
           Some file \<Rightarrow> (case register_parser_new (read_file file) of Ok p \<Rightarrow> Ok p | Err _ \<Rightarrow> default_schema | Panic \<Rightarrow> Panic)
         | None \<Rightarrow> default_schema)"

text \<open>\<open>show\<close> is the text of a number with a fraction.\<close>

definition parse_register :: "string \<Rightarrow> (f64 \<Rightarrow> string) \<Rightarrow> u16 \<Rightarrow> u32 \<Rightarrow> register_parser \<Rightarrow> string" where
  "parse_register kind show register_number value schema =
     (case get_register schema register_number of
        Some register \<Rightarrow>
          kind @ '': '' @ show_u16 register_number @ '' - '' @ rd_name register @ '' ('' @ rd_description register @ ''): '' @
          show (decode_value register (show_04x (unat value))) @ '' '' @ rd_unit register
      | None \<Rightarrow> kind @ '': '' @ show_u16 register_number @ '' - Unknown register: '' @ show_nat (unat value))"

definition parse_hold_register :: "(f64 \<Rightarrow> string) \<Rightarrow> u16 \<Rightarrow> u32 \<Rightarrow> register_parser \<Rightarrow> string" where
  "parse_hold_register = parse_register ''Hold Register''"

definition parse_input_register :: "(f64 \<Rightarrow> string) \<Rightarrow> u16 \<Rightarrow> u32 \<Rightarrow> register_parser \<Rightarrow> string" where
  "parse_input_register = parse_register ''Input Register''"

end
