(* ===== verification/Influx_Properties.thy ===== *)
theory Influx_Properties
  imports Influx
begin

text \<open>
  Properties of the register file and of the InfluxDB writer, with their witnesses.
\<close>

section \<open>The register file\<close>

definition by_number :: "register_def list \<Rightarrow> register_parser" where
  "by_number rs = map_of (map (\<lambda>r. (rd_register_number r, r)) rs)"

lemma type_loop_result:
  assumes "type_loop t rs (M, ns, ds) = (M', ns', ds')"
  shows "M' = by_number rs ++ M \<and> set ns' = set ns \<union> set (map field_name rs) \<and>
    (ds' = [] \<longleftrightarrow> ds = [] \<and> distinct (map rd_register_number rs) \<and> (\<forall>r \<in> set rs. M (rd_register_number r) = None) \<and>
       distinct (map field_name rs) \<and> set ns \<inter> set (map field_name rs) = {})"
  using assms
proof (induction rs arbitrary: M ns ds)
  case Nil
  then show ?case by (simp add: by_number_def)
next
  case (Cons r rs)
  let ?n = "rd_register_number r"
  define M1 where "M1 = (case M ?n of Some _ \<Rightarrow> M | None \<Rightarrow> M(?n \<mapsto> r))"
  define ns1 where "ns1 = (if field_name r \<in> set ns then ns else ns @ [field_name r])"
  define ds1 where "ds1 = (case M ?n of Some _ \<Rightarrow> ds @ [DupNumber ?n t] | None \<Rightarrow> ds) @
     (if field_name r \<in> set ns then [DupShortname (field_name r)] else [])"
  have "type_loop t rs (M1, ns1, ds1) = (M', ns', ds')"
    using Cons.prems by (auto simp: M1_def ns1_def ds1_def Let_def split: option.splits if_splits)
  note IH = Cons.IH[OF this]
  have M: "by_number (r # rs) ++ M = by_number rs ++ M1"
    by (rule ext) (auto simp: by_number_def M1_def map_add_def split: option.split)
  have ns: "set ns1 = insert (field_name r) (set ns)" by (auto simp: ns1_def)
  have ds: "ds1 = [] \<longleftrightarrow> ds = [] \<and> M ?n = None \<and> field_name r \<notin> set ns"
    by (auto simp: ds1_def split: option.split)
  have dom: "M ?n = None \<Longrightarrow> (\<forall>r' \<in> set rs. M1 (rd_register_number r') = None) \<longleftrightarrow>
      ?n \<notin> set (map rd_register_number rs) \<and> (\<forall>r' \<in> set rs. M (rd_register_number r') = None)"
  proof -
    assume "M ?n = None"
    then have "M1 x = None \<longleftrightarrow> x \<noteq> ?n \<and> M x = None" for x by (simp add: M1_def)
    then show ?thesis by (auto simp: image_iff)
  qed
  have iff: "ds' = [] \<longleftrightarrow> ds = [] \<and> distinct (map rd_register_number (r # rs)) \<and>
      (\<forall>r' \<in> set (r # rs). M (rd_register_number r') = None) \<and> distinct (map field_name (r # rs)) \<and>
      set ns \<inter> set (map field_name (r # rs)) = {}"
  proof (cases "ds1 = []")
    case True
    then have "M ?n = None" "ds = []" "field_name r \<notin> set ns" using ds by blast+
    moreover have "ds' = [] \<longleftrightarrow> distinct (map rd_register_number rs) \<and> (\<forall>r' \<in> set rs. M1 (rd_register_number r') = None) \<and>
       distinct (map field_name rs) \<and> insert (field_name r) (set ns) \<inter> set (map field_name rs) = {}"
      using IH True ns by simp
    ultimately show ?thesis unfolding dom[OF \<open>M ?n = None\<close>] by auto
  next
    case False
    then have "ds' \<noteq> []" using IH by blast
    moreover have "\<not> (ds = [] \<and> M ?n = None \<and> field_name r \<notin> set ns)" using False ds by blast
    ultimately show ?thesis by auto
  qed
  show ?case
    using IH by (intro conjI iff) (simp_all add: M ns)
qed

text \<open>All types.\<close>

definition all_names :: "register_type list \<Rightarrow> string list" where
  "all_names types = concat (map (\<lambda>t. map field_name (rt_register_map t)) types)"

lemma types_loop_result:
  assumes "types_loop types (R, ns, ds) = (R', ns', ds')"
  shows "R' = foldl (\<lambda>R t. R ++ by_number (rt_register_map t)) R types \<and>
    (ds' = [] \<longleftrightarrow> ds = [] \<and> list_all (\<lambda>t. distinct (map rd_register_number (rt_register_map t))) types \<and>
       distinct (all_names types) \<and> set ns \<inter> set (all_names types) = {})"
  using assms
proof (induction types arbitrary: R ns ds)
  case Nil
  then show ?case by (simp add: all_names_def)
next
  case (Cons t types)
  obtain M ns1 ds1 where t: "type_loop (rt_register_type t) (rt_register_map t) (Map.empty, ns, ds) = (M, ns1, ds1)"
    by (cases "type_loop (rt_register_type t) (rt_register_map t) (Map.empty, ns, ds)") auto
  have rest: "types_loop types (R ++ M, ns1, ds1) = (R', ns', ds')"
    using Cons.prems t by simp
  note T = type_loop_result[OF t] and IH = Cons.IH[OF rest]
  have M: "M = by_number (rt_register_map t)" using T by simp
  have names: "all_names (t # types) = map field_name (rt_register_map t) @ all_names types"
    by (simp add: all_names_def)
  have "ds' = [] \<longleftrightarrow> ds1 = [] \<and> list_all (\<lambda>t. distinct (map rd_register_number (rt_register_map t))) types \<and>
       distinct (all_names types) \<and> set ns1 \<inter> set (all_names types) = {}"
    using IH by blast
  moreover have "ds1 = [] \<longleftrightarrow> ds = [] \<and> distinct (map rd_register_number (rt_register_map t)) \<and>
       distinct (map field_name (rt_register_map t)) \<and> set ns \<inter> set (map field_name (rt_register_map t)) = {}"
    using T by simp
  moreover have "set ns1 = set ns \<union> set (map field_name (rt_register_map t))" using T by blast
  moreover have "R' = foldl (\<lambda>R t. R ++ by_number (rt_register_map t)) R (t # types)"
    using IH M by simp
  ultimately show ?case
    unfolding names distinct_append set_append list.pred_inject by blast
qed

lemma set_access_simps [simp]:
  "rd_register_number (set_access r) = rd_register_number r" "field_name (set_access r) = field_name r"
  by (simp_all add: set_access_def field_name_def)

text \<open>
  C33: a register file is accepted exactly when no type defines a number twice and no short name is used
  twice; the same number in two types is not a duplicate, and the type that comes later hides the
  earlier one, for every reading.
\<close>

theorem register_file_last_type_wins:
  "register_parser_new (Ok types) =
    (if list_all (\<lambda>t. distinct (map rd_register_number (rt_register_map t))) types \<and>
        distinct (concat (map (\<lambda>t. map field_name (rt_register_map t)) types))
     then Ok (foldl (\<lambda>R t. R ++ map_of (map (\<lambda>r. (rd_register_number r, set_access r)) (rt_register_map t))) Map.empty types)
     else Err ''Found {} duplicate register definitions'')"
proof -
  let ?ts = "map (\<lambda>t. t\<lparr> rt_register_map := map set_access (rt_register_map t) \<rparr>) types"
  obtain R ns ds where l: "types_loop ?ts (Map.empty, [], []) = (R, ns, ds)"
    by (cases "types_loop ?ts (Map.empty, [], [])") auto
  have names: "all_names ?ts = concat (map (\<lambda>t. map field_name (rt_register_map t)) types)"
    by (simp add: all_names_def o_def)
  have "list_all (\<lambda>t. distinct (map rd_register_number (rt_register_map t))) ?ts =
      list_all (\<lambda>t. distinct (map rd_register_number (rt_register_map t))) types"
    by (simp add: list_all_iff o_def)
  moreover have "foldl (\<lambda>R t. R ++ by_number (rt_register_map t)) Map.empty ?ts =
      foldl (\<lambda>R t. R ++ map_of (map (\<lambda>r. (rd_register_number r, set_access r)) (rt_register_map t))) Map.empty types"
    by (simp add: foldl_map by_number_def o_def)
  ultimately show ?thesis
    using types_loop_result[OF l] by (simp add: register_parser_new_def l names)
qed

section \<open>What the coordinator sends\<close>





section \<open>Retries\<close>

definition pushed :: "nat \<Rightarrow> bool \<Rightarrow> influx_point list \<Rightarrow> influx_state \<Rightarrow> influx_state" where
  "pushed k ok points s =
     s\<lparr> ifs_posted := ifs_posted s @ replicate k (points, False) @ (if ok then [(points, True)] else []),
        ifs_stats := (ifs_stats s)\<lparr> st_influx_writes := st_influx_writes (ifs_stats s) + (if ok then 1 else 0),
                                   st_influx_errors := st_influx_errors (ifs_stats s) + word_of_nat k \<rparr>,
        ifs_slept := ifs_slept s + 10 * k \<rparr>"

lemma pushed_Suc:
  "pushed (Suc k) ok points s = pushed k ok points
     (s\<lparr> ifs_posted := ifs_posted s @ [(points, False)],
         ifs_stats := (ifs_stats s)\<lparr> st_influx_errors := st_influx_errors (ifs_stats s) + 1 \<rparr>,
         ifs_slept := ifs_slept s + 10 \<rparr>)"
  by (simp add: pushed_def add.assoc)

lemma pushed_0: "pushed 0 False points s = s"
  "pushed 0 True points s = s\<lparr> ifs_posted := ifs_posted s @ [(points, True)],
       ifs_stats := (ifs_stats s)\<lparr> st_influx_writes := st_influx_writes (ifs_stats s) + 1 \<rparr> \<rparr>"
  by (simp_all add: pushed_def)

lemma influx_push_from:
  "r \<le> 3 \<Longrightarrow> influx_push r oks points s =
    pushed (length (takeWhile Not (take (3 - r) oks)))
      (length (takeWhile Not (take (3 - r) oks)) < min (3 - r) (length oks)) points s"
proof (induction oks arbitrary: r s)
  case Nil
  then show ?case by (simp add: pushed_0)
next
  case (Cons b oks)
  show ?case
  proof (cases "r < 3")
    case True
    then obtain d where d: "3 - r = Suc d" "2 - r = d" "r + 1 \<le> 3" by (cases r; cases "r - 1") auto
    show ?thesis
    proof (cases b)
      case True
      with \<open>r < 3\<close> show ?thesis by (simp add: d(1) pushed_0)
    next
      case False
      with \<open>r < 3\<close> show ?thesis
        unfolding influx_push.simps if_P[OF \<open>r < 3\<close>] if_not_P[OF False] Cons.IH[OF d(3)]
        by (simp add: d(1,2) pushed_Suc)
    qed
  qed (use Cons.prems in \<open>simp add: pushed_0\<close>)
qed

text \<open>
  A body is sent at most three times, until the first success, with ten seconds after each failure.
  Failures and the success are counted; after three failures the points are dropped and the writer
  goes on.
\<close>

theorem influx_push_retries:
  "influx_push 0 oks points s =
    (let k = length (takeWhile Not (take 3 oks)); ok = k < min 3 (length oks); st = ifs_stats s
     in s\<lparr> ifs_posted := ifs_posted s @ replicate k (points, False) @ (if ok then [(points, True)] else []),
           ifs_stats := st\<lparr> st_influx_writes := st_influx_writes st + (if ok then 1 else 0),
                           st_influx_errors := st_influx_errors st + word_of_nat k \<rparr>,
           ifs_slept := ifs_slept s + 10 * k \<rparr>)"
  using influx_push_from[of 0 oks points s] by (simp add: pushed_def Let_def)

section \<open>Accounts\<close>

fun influx_result_state :: "influx_result \<Rightarrow> influx_state" where
  "influx_result_state (InfluxOn s) = s"
| "influx_result_state (InfluxEnd _ s) = s"

text \<open>What was posted between two states, with the counters and the pauses that belong to it.\<close>

definition accounted :: "influx_state \<Rightarrow> influx_state \<Rightarrow> bool" where
  "accounted s s' \<longleftrightarrow> (\<exists>ps. ifs_posted s' = ifs_posted s @ ps \<and>
     st_influx_writes (ifs_stats s') = st_influx_writes (ifs_stats s) + word_of_nat (length (filter snd ps)) \<and>
     st_influx_errors (ifs_stats s') = st_influx_errors (ifs_stats s) + word_of_nat (length (filter (Not \<circ> snd) ps)) \<and>
     ifs_slept s' = ifs_slept s + 10 * length (filter (Not \<circ> snd) ps))"

lemma accounted_refl: "accounted s s"
  by (simp add: accounted_def)

lemma accounted_trans: "accounted a b \<Longrightarrow> accounted b c \<Longrightarrow> accounted a c"
  unfolding accounted_def by (elim exE conjE) (rule exI, auto simp: add.assoc)

lemma accounted_pushed: "accounted s (pushed k ok points s)"
  by (auto simp: accounted_def pushed_def intro!: exI[of _ "replicate k (points, False) @ (if ok then [(points, True)] else [])"])

lemma influx_turn_accounted: "accounted s (influx_result_state (influx_turn parser show_unknown valid_time oks m s))"
proof (cases "(parser, show_unknown, valid_time, oks, m, s)" rule: influx_turn.cases)
qed (auto simp: influx_data_turn_def accounted_refl influx_push_from intro: accounted_pushed split: outcome.split)

text \<open>
  In every run of the writer, also one that has ended, the counters of writes and errors are the numbers of
  requests that succeeded and failed, and each failure was followed by a pause of ten seconds.
\<close>

theorem influx_sender_accounts:
  "accounted s (influx_result_state (influx_sender parser show_unknown valid_time evs s))"
  using influx_task.result_induct[of "\<lambda>r. accounted s (influx_result_state r)" s evs parser show_unknown valid_time]
    accounted_refl influx_turn_accounted by (fastforce intro: accounted_trans)

end
