(* ===== verification/Database.thy ===== *)
theory Database
  imports Coordinator
begin

text \<open>
  The database writer (\<^verbatim>\<open>database.rs\<close>): the choice of the database, the \<^verbatim>\<open>INSERT\<close> statement with its
  columns, placeholders and values, and the loop that inserts rows. The pool, the migrations and the
  execution of a statement are not modelled: their results are arguments.
\<close>

section \<open>The statement\<close>

datatype database_type = MySQL | Postgres | SQLite

definition database_type_of :: "database_config \<Rightarrow> database_type outcome" where
  "database_type_of c =
     (let prefix = hd (split_on (CHR '':'') (db_url c))
      in if prefix = ''sqlite'' then Ok SQLite
         else if prefix = ''mysql'' then Ok MySQL
         else if prefix = ''postgres'' then Ok Postgres
         else Err ''database.rs:unsupported database {}'')"

text \<open>\<^verbatim>\<open>as i64\<close> on a float rounds towards zero and saturates.\<close>

definition i64_of_f64 :: "f64 \<Rightarrow> 64 word" where
  "i64_of_f64 x = word_of_int (max (- (2 ^ 63)) (min (2 ^ 63 - 1) (if 0 \<le> x then \<lfloor>x\<rfloor> else \<lceil>x\<rceil>)))"

datatype sql_value = SqlInt "64 word" | SqlReal f64 | SqlText string

definition insert_values :: "read_input_all \<Rightarrow> sql_value list" where
  "insert_values d =
     [SqlInt (ucast (all_status d)), SqlInt (i64_of_f64 (unwrap_or (all_v_pv_1 d) 0)),
      SqlInt (i64_of_f64 (unwrap_or (all_v_pv_2 d) 0)),
      SqlInt (i64_of_f64 (unwrap_or (all_v_pv_3 d) 0)), SqlInt (i64_of_f64 (unwrap_or (all_v_bat d) 0)),
      SqlInt (scast (all_soc d)), SqlInt (scast (all_soh d)), SqlInt (ucast (all_internal_fault d)),
      SqlInt (ucast (all_p_pv d)), SqlInt (ucast (all_p_pv_1 d)), SqlInt (ucast (all_p_pv_2 d)),
      SqlInt (ucast (all_p_pv_3 d)), SqlReal (fl (of_int (sint (all_p_battery d)))),
      SqlInt (ucast (all_p_charge d)), SqlInt (ucast (all_p_discharge d)),
      SqlInt (i64_of_f64 (all_v_ac_r d)), SqlInt (i64_of_f64 (all_v_ac_s d)),
      SqlInt (i64_of_f64 (all_v_ac_t d)), SqlReal (all_f_ac d), SqlInt (ucast (all_p_inv d)),
      SqlInt (ucast (all_p_rec d)), SqlReal (all_pf d), SqlInt (i64_of_f64 (all_v_eps_r d)),
      SqlInt (i64_of_f64 (all_v_eps_s d)), SqlInt (i64_of_f64 (all_v_eps_t d)), SqlReal (all_f_eps d),
      SqlInt (ucast (all_p_eps d)), SqlInt (ucast (all_s_eps d)),
      SqlReal (fl (of_int (sint (all_p_grid d)))), SqlInt (ucast (all_p_to_grid d)),
      SqlInt (ucast (all_p_to_user d)), SqlReal (all_e_pv_day d), SqlReal (all_e_pv_day_1 d),
      SqlReal (all_e_pv_day_2 d), SqlReal (all_e_pv_day_3 d), SqlReal (all_e_inv_day d),
      SqlReal (all_e_rec_day d), SqlReal (all_e_chg_day d), SqlReal (all_e_dischg_day d),
      SqlReal (all_e_eps_day d), SqlReal (all_e_to_grid_day d), SqlReal (all_e_to_user_day d),
      SqlInt (i64_of_f64 (all_v_bus_1 d)), SqlInt (i64_of_f64 (all_v_bus_2 d)),
      SqlReal (all_e_pv_all d), SqlReal (all_e_pv_all_1 d), SqlReal (all_e_pv_all_2 d),
      SqlReal (all_e_pv_all_3 d), SqlReal (all_e_inv_all d), SqlReal (all_e_rec_all d),
      SqlReal (all_e_chg_all d), SqlReal (all_e_dischg_all d), SqlReal (all_e_eps_all d),
      SqlReal (all_e_to_grid_all d), SqlReal (all_e_to_user_all d), SqlInt (ucast (all_fault_code d)),
      SqlInt (ucast (all_warning_code d)), SqlReal (f64_of_word (all_t_inner d)),
      SqlReal (f64_of_word (all_t_rad_1 d)), SqlReal (f64_of_word (all_t_rad_2 d)),
      SqlReal (f64_of_word (all_t_bat d)), SqlInt (ucast (all_runtime d)),
      SqlInt (ucast (all_bms_event_1 d)), SqlInt (ucast (all_bms_event_2 d)),
      SqlInt (ucast (all_bms_fw_update_state d)), SqlInt (ucast (all_cycle_count d)),
      SqlReal (all_vbat_inv d), SqlText (serial_display (all_datalog d))]"

definition database_columns :: "string list" where
  "database_columns =
     [''status'', ''v_pv_1'', ''v_pv_2'', ''v_pv_3'', ''v_bat'', ''soc'', ''soh'', ''internal_fault'',
      ''p_pv'', ''p_pv_1'', ''p_pv_2'', ''p_pv_3'', ''p_battery'', ''p_charge'', ''p_discharge'',
      ''v_ac_r'', ''v_ac_s'', ''v_ac_t'', ''f_ac'', ''p_inv'', ''p_rec'', ''pf'', ''v_eps_r'',
      ''v_eps_s'', ''v_eps_t'', ''f_eps'', ''p_eps'', ''s_eps'', ''p_grid'', ''p_to_grid'',
      ''p_to_user'', ''e_pv_day'', ''e_pv_day_1'', ''e_pv_day_2'', ''e_pv_day_3'', ''e_inv_day'',
      ''e_rec_day'', ''e_chg_day'', ''e_dischg_day'', ''e_eps_day'', ''e_to_grid_day'',
      ''e_to_user_day'', ''v_bus_1'', ''v_bus_2'', ''e_pv_all'', ''e_pv_all_1'', ''e_pv_all_2'',
      ''e_pv_all_3'', ''e_inv_all'', ''e_rec_all'', ''e_chg_all'', ''e_dischg_all'', ''e_eps_all'',
      ''e_to_grid_all'', ''e_to_user_all'', ''fault_code'', ''warning_code'', ''t_inner'', ''t_rad_1'',
      ''t_rad_2'', ''t_bat'', ''runtime'', ''bms_event_1'', ''bms_event_2'', ''bms_fw_update_state'',
      ''cycle_count'', ''vbat_inv'', ''datalog'']"

definition values_for_mysql :: "string list" where
  "values_for_mysql = replicate 91 ''?''"

definition values_for_not_mysql :: "string list" where
  "values_for_not_mysql = map (\<lambda>i. CHR ''$'' # show_nat i) [1..<92]"

text \<open>The text of the statement, white space aside.\<close>

definition insert_query :: "database_type \<Rightarrow> string" where
  "insert_query t =
     ''INSERT INTO inputs ('' @ join '', '' database_columns @ '') VALUES ('' @
     join '', '' (if t = MySQL then values_for_mysql else values_for_not_mysql) @ '')''"

section \<open>The writer\<close>

record database =
  dbs_config :: database_config
  dbs_connected :: bool
  dbs_stats :: packet_stats
  dbs_slept :: nat

definition database_new :: "database_config \<Rightarrow> packet_stats \<Rightarrow> database" where
  "database_new c st = \<lparr> dbs_config = c, dbs_connected = False, dbs_stats = st, dbs_slept = 0 \<rparr>"

text \<open>\<open>pool\<close> is the result of opening the pool of a PostgreSQL database.\<close>

definition database_connect :: "unit outcome \<Rightarrow> database \<Rightarrow> unit outcome \<times> database" where
  "database_connect pool s =
     (case database_type_of (dbs_config s) of
        Ok Postgres \<Rightarrow>
          (case pool of Ok _ \<Rightarrow> (Ok (), s\<lparr> dbs_connected := True \<rparr>) | Err e \<Rightarrow> (Err e, s) | Panic \<Rightarrow> (Panic, s))
      | Ok _ \<Rightarrow> (Err ''Only PostgreSQL is currently supported'', s)
      | Err e \<Rightarrow> (Err e, s)
      | Panic \<Rightarrow> (Panic, s))"

definition database_connection :: "database \<Rightarrow> unit outcome" where
  "database_connection s = (if dbs_connected s then Ok () else Err ''database.rs:Database not connected'')"

text \<open>The execution of one statement with its values, acquiring a connection included.\<close>

type_synonym db_exec = "string \<Rightarrow> sql_value list \<Rightarrow> unit outcome"

definition database_insert :: "db_exec \<Rightarrow> string \<Rightarrow> read_input_all \<Rightarrow> database \<Rightarrow> unit outcome" where
  "database_insert exec query data s = obind (database_connection s) (\<lambda>_. exec query (insert_values data))"

text \<open>
  The attempts to insert one row: \<open>execs\<close> lists the executions that would be made, at most three are.
  The state says how often the row was stored.
\<close>

fun insert_attempts :: "nat \<Rightarrow> nat \<Rightarrow> db_exec list \<Rightarrow> string \<Rightarrow> read_input_all \<Rightarrow> database \<Rightarrow> unit outcome \<times> database" where
  "insert_attempts retry_count backoff [] query data s = (Ok (), s)"
| "insert_attempts retry_count backoff (exec # execs) query data s =
     (if retry_count < 3 then
        (case database_insert exec query data s of
           Ok _ \<Rightarrow> (Ok (), s\<lparr> dbs_stats := (dbs_stats s)\<lparr> st_database_writes := st_database_writes (dbs_stats s) + 1 \<rparr> \<rparr>)
         | Err e \<Rightarrow> insert_attempts (retry_count + 1) (backoff * 2) execs query data
             (s\<lparr> dbs_stats := (dbs_stats s)\<lparr> st_database_errors := st_database_errors (dbs_stats s) + 1 \<rparr>,
                 dbs_slept := dbs_slept s + backoff \<rparr>)
         | Panic \<Rightarrow> (Panic, s))
      else (Ok (), s))"

datatype database_recv = DbRow read_input_all "db_exec list" | DbShutdown | DbRecvError string

datatype database_result = DatabaseOn database | DatabaseEnd "unit outcome" database

fun inserter_turn :: "string \<Rightarrow> database_recv \<Rightarrow> database \<Rightarrow> database_result" where
  "inserter_turn query (DbRow data execs) s =
     (case insert_attempts 0 1 execs query data s of
        (Ok _, s) \<Rightarrow> DatabaseOn s
      | (r, s) \<Rightarrow> DatabaseEnd r s)"
| "inserter_turn query DbShutdown s = DatabaseEnd (Ok ()) s"
| "inserter_turn query (DbRecvError e) s = DatabaseEnd (Err e) s"

fun inserter_run :: "string \<Rightarrow> database_recv list \<Rightarrow> database \<Rightarrow> database_result" where
  "inserter_run query [] s = DatabaseOn s"
| "inserter_run query (ev # evs) s =
     (case inserter_turn query ev s of
        DatabaseOn s \<Rightarrow> inserter_run query evs s
      | r \<Rightarrow> r)"

interpretation inserter_task: task_loop "inserter_turn query" "inserter_run query" DatabaseOn for query
  by unfold_locales (auto split: database_result.split)

definition inserter :: "unit outcome \<Rightarrow> database_recv list \<Rightarrow> database \<Rightarrow> database_result" where
  "inserter pool evs s =
     (case database_connect pool s of
        (Ok _, s) \<Rightarrow>
          (case database_type_of (dbs_config s) of
             Ok t \<Rightarrow> inserter_run (insert_query t) evs s
           | Err e \<Rightarrow> DatabaseEnd (Err e) s
           | Panic \<Rightarrow> DatabaseEnd Panic s)
      | (r, s) \<Rightarrow> DatabaseEnd r s)"

definition database_migrate :: "unit outcome \<Rightarrow> database \<Rightarrow> unit outcome" where
  "database_migrate migrations s = obind (database_connection s) (\<lambda>_. migrations)"

definition database_start :: "unit outcome \<Rightarrow> unit outcome \<Rightarrow> unit outcome \<Rightarrow> database_recv list \<Rightarrow> database \<Rightarrow> database_result" where
  "database_start pool migrations pool' evs s =
     (case database_connect pool s of
        (Ok _, s) \<Rightarrow>
          (case database_migrate migrations s of
             Ok _ \<Rightarrow> inserter pool' evs s
           | Err e \<Rightarrow> DatabaseEnd (Err e) s
           | Panic \<Rightarrow> DatabaseEnd Panic s)
      | (r, s) \<Rightarrow> DatabaseEnd r s)"

section \<open>Rows are lost\<close>

lemma count_join:
  "length (filter P (join sep xs)) = (length xs - 1) * length (filter P sep) + (\<Sum>x \<leftarrow> xs. length (filter P x))"
  by (induction sep xs rule: join.induct) (auto simp: algebra_simps)

lemma no_dollar_show_nat: "filter ((=) (CHR ''$'')) (show_nat i) = []"
proof -
  have "CHR ''$'' \<notin> set (show_nat i)" by (rule show_nat_no_char) (simp add: char_digit_def)
  then show ?thesis by (auto simp: filter_empty_conv)
qed

lemma placeholders: "length (filter ((=) (CHR ''$'')) (insert_query Postgres)) = 91"
proof -
  have "length (filter ((=) (CHR ''$'')) (join '', '' values_for_not_mysql)) = 91"
    by (simp add: count_join values_for_not_mysql_def no_dollar_show_nat o_def sum_list_triv)
  moreover have "filter ((=) (CHR ''$'')) (join '', '' database_columns) = []"
    by (simp add: database_columns_def)
  ultimately show ?thesis by (simp add: insert_query_def)
qed

lemma insert_values_length: "length (insert_values d) = 68" "length database_columns = 68"
  by (simp_all add: insert_values_def database_columns_def)

text \<open>A server rejects a statement whose number of values is not that of its placeholders.\<close>

definition checks_values :: "db_exec \<Rightarrow> bool" where
  "checks_values exec \<longleftrightarrow> (\<forall>q vs. length (filter ((=) (CHR ''$'')) q) \<noteq> length vs \<longrightarrow> is_err (exec q vs))"

lemma insert_rejected:
  assumes "checks_values exec" "dbs_connected s"
  shows "is_err (database_insert exec (insert_query Postgres) data s)"
  using assms by (simp add: database_insert_def database_connection_def checks_values_def placeholders insert_values_length)

text \<open>Whatever the events, such a server stores nothing.\<close>

fun database_result_state :: "database_result \<Rightarrow> database" where
  "database_result_state (DatabaseOn s) = s"
| "database_result_state (DatabaseEnd _ s) = s"

definition same_writes :: "database \<Rightarrow> database \<Rightarrow> bool" where
  "same_writes s s' \<longleftrightarrow> dbs_connected s' = dbs_connected s \<and> st_database_writes (dbs_stats s') = st_database_writes (dbs_stats s)"

lemma insert_attempts_stores_nothing:
  assumes "list_all checks_values execs" "dbs_connected s"
  shows "same_writes s (snd (insert_attempts r b execs (insert_query Postgres) data s))"
  using assms
proof (induction r b execs "insert_query Postgres" data s rule: insert_attempts.induct)
  case (2 r b exec execs data s)
  obtain x where "database_insert exec (insert_query Postgres) data s = Err x"
    using insert_rejected[of exec s data] 2(2,3) by (auto simp: is_err_iff)
  with 2 show ?case by (auto simp: same_writes_def)
qed (simp add: same_writes_def)

lemma inserter_turn_stores_nothing:
  assumes "\<And>data execs. ev = DbRow data execs \<Longrightarrow> list_all checks_values execs" "dbs_connected s"
  shows "same_writes s (database_result_state (inserter_turn (insert_query Postgres) ev s))"
proof (cases ev)
  case (DbRow data execs)
  obtain r s1 where r: "insert_attempts 0 1 execs (insert_query Postgres) data s = (r, s1)"
    by (cases "insert_attempts 0 1 execs (insert_query Postgres) data s")
  then have "same_writes s s1"
    using insert_attempts_stores_nothing[of execs s 0 1 data] assms DbRow by simp
  then show ?thesis by (cases r) (simp_all add: DbRow r del: One_nat_def)
qed (simp_all add: same_writes_def)

lemma inserter_stores_nothing:
  assumes "\<And>data execs. DbRow data execs \<in> set evs \<Longrightarrow> list_all checks_values execs" "dbs_connected s"
  shows "same_writes s (database_result_state (inserter_run (insert_query Postgres) evs s))"
proof (rule inserter_task.result_induct)
  fix ev s1
  assume "ev \<in> set evs" and s1: "same_writes s (database_result_state (DatabaseOn s1))"
  then have "same_writes s1 (database_result_state (inserter_turn (insert_query Postgres) ev s1))"
    using assms by (intro inserter_turn_stores_nothing) (auto simp: same_writes_def)
  with s1 show "same_writes s (database_result_state (inserter_turn (insert_query Postgres) ev s1))"
    by (simp add: same_writes_def)
qed (simp add: same_writes_def)

text \<open>A row that the server rejects: each of the three attempts comes back with an error.\<close>

definition rejected_row :: "read_input_all \<times> db_exec list \<Rightarrow> bool" where
  "rejected_row x \<longleftrightarrow> 3 \<le> length (snd x) \<and> list_all checks_values (take 3 (snd x))"

definition row_dropped :: "nat \<Rightarrow> database \<Rightarrow> database" where
  "row_dropped n s = s\<lparr> dbs_stats := (dbs_stats s)\<lparr> st_database_errors := st_database_errors (dbs_stats s) + word_of_nat (3 * n) \<rparr>,
                        dbs_slept := dbs_slept s + 7 * n \<rparr>"

lemma insert_attempts_rejected:
  assumes "checks_values exec" "dbs_connected s" "r < 3"
  shows "insert_attempts r b (exec # es) (insert_query Postgres) data s =
    insert_attempts (r + 1) (b * 2) es (insert_query Postgres) data
      (s\<lparr> dbs_stats := (dbs_stats s)\<lparr> st_database_errors := st_database_errors (dbs_stats s) + 1 \<rparr>,
         dbs_slept := dbs_slept s + b \<rparr>)"
  using insert_rejected[OF assms(1,2), of data] assms(3) by (auto simp: is_err_iff)

lemma inserter_turn_rejected:
  assumes "dbs_connected s" "rejected_row (data, execs)"
  shows "inserter_turn (insert_query Postgres) (DbRow data execs) s = DatabaseOn (row_dropped 1 s)"
proof -
  obtain e1 e2 e3 es where "execs = e1 # e2 # e3 # es"
    using assms(2) by (auto simp: rejected_row_def numeral_3_eq_3 Suc_le_length_iff)
  moreover have "insert_attempts 3 b es q data s' = (Ok (), s')" for b es q s'
    by (cases es) simp_all
  ultimately show ?thesis
    using assms insert_attempts_rejected[of _ _ _ _ _ data]
    by (simp add: rejected_row_def row_dropped_def numeral_3_eq_3[symmetric])
qed

lemma inserter_run_rejected:
  assumes "dbs_connected s" "list_all rejected_row rows"
  shows "inserter_run (insert_query Postgres) (map (\<lambda>(data, execs). DbRow data execs) rows) s =
    DatabaseOn (row_dropped (length rows) s)"
  using assms
proof (induction rows arbitrary: s)
  case (Cons x rows)
  have "dbs_connected (row_dropped 1 s)" using Cons.prems by (simp add: row_dropped_def)
  then have "inserter_run (insert_query Postgres) (map (\<lambda>(data, execs). DbRow data execs) rows) (row_dropped 1 s) =
      DatabaseOn (row_dropped (length rows) (row_dropped 1 s))"
    using Cons.IH Cons.prems by simp
  then show ?case
    using Cons.prems by (cases x) (simp add: inserter_turn_rejected del: inserter_turn.simps,
      simp add: row_dropped_def algebra_simps)
qed (simp add: row_dropped_def)

text \<open>
  C35: the statement has 68 columns and 68 values but 91 placeholders, so that on a server which rejects
  such a statement no row is ever stored, in any run of the writer from its start: each row is tried
  three times, after one, two and four seconds, and dropped, and the writer goes on.
\<close>

theorem database_rows_are_lost:
  assumes "database_type_of (dbs_config s) = Ok Postgres" "list_all rejected_row rows"
  shows "\<exists>s'. database_start (Ok ()) (Ok ()) (Ok ()) (map (\<lambda>(data, execs). DbRow data execs) rows) s = DatabaseOn s' \<and>
    st_database_writes (dbs_stats s') = st_database_writes (dbs_stats s) \<and>
    st_database_errors (dbs_stats s') = st_database_errors (dbs_stats s) + word_of_nat (3 * length rows) \<and>
    dbs_slept s' = dbs_slept s + 7 * length rows"
proof -
  let ?s = "s\<lparr> dbs_connected := True \<rparr>"
  have "database_start (Ok ()) (Ok ()) (Ok ()) (map (\<lambda>(data, execs). DbRow data execs) rows) s =
      inserter_run (insert_query Postgres) (map (\<lambda>(data, execs). DbRow data execs) rows) ?s"
    using assms(1) by (simp add: database_start_def database_connect_def database_migrate_def database_connection_def inserter_def)
  also have "\<dots> = DatabaseOn (row_dropped (length rows) ?s)"
    by (rule inserter_run_rejected[OF _ assms(2)]) simp
  finally show ?thesis by (simp add: row_dropped_def)
qed

theorem database_rows_are_lost_witness:
  "let exec = (\<lambda>q vs. if length (filter ((=) (CHR ''$'')) q) = length vs then Ok () else Err ''08P01'');
       s = database_new \<lparr> db_enabled = True, db_url = ''postgres://h/d'' \<rparr> packet_stats_default
   in \<forall>data. \<exists>s'. database_start (Ok ()) (Ok ()) (Ok ()) [DbRow data [exec, exec, exec]] s = DatabaseOn s' \<and>
        st_database_writes (dbs_stats s') = 0 \<and> st_database_errors (dbs_stats s') = 3"
  unfolding Let_def
proof
  fix data
  let ?exec = "\<lambda>q vs. if length (filter ((=) (CHR ''$'')) q) = length vs then Ok () else Err ''08P01''"
  let ?s = "database_new \<lparr> db_enabled = True, db_url = ''postgres://h/d'' \<rparr> packet_stats_default"
  have "database_type_of (dbs_config ?s) = Ok Postgres"
    by (simp add: database_new_def database_type_of_def Let_def)
  moreover have "list_all rejected_row [(data, [?exec, ?exec, ?exec])]"
    by (simp add: rejected_row_def checks_values_def numeral_3_eq_3)
  moreover have "st_database_writes (dbs_stats ?s) = 0" "st_database_errors (dbs_stats ?s) = 0"
    by (simp_all add: database_new_def packet_stats_default_def)
  ultimately show "\<exists>s'. database_start (Ok ()) (Ok ()) (Ok ()) [DbRow data [?exec, ?exec, ?exec]] ?s = DatabaseOn s' \<and>
        st_database_writes (dbs_stats s') = 0 \<and> st_database_errors (dbs_stats s') = 3"
    using database_rows_are_lost[of ?s "[(data, [?exec, ?exec, ?exec])]"] by simp blast
qed

end
