(* ===== verification/Scheduler.thy ===== *)
theory Scheduler
  imports Coordinator_Facts
begin

text \<open>
  The scheduler (\<^verbatim>\<open>scheduler.rs\<close>): the reads of all input blocks of an inverter and the loop over the
  ticks of its two timers. Nothing in the repository creates a scheduler.
\<close>

section \<open>Operations\<close>

text \<open>\<^verbatim>\<open>(0..=200).step_by(40)\<close>.\<close>

definition scheduler_blocks :: "u16 list" where
  "scheduler_blocks = map (\<lambda>k. word_of_nat (40 * k)) [0..<6]"

text \<open>The delay between two reads, when one is configured.\<close>

definition scheduler_delay :: "config_inverter \<Rightarrow> world \<Rightarrow> unit run" where
  "scheduler_delay inverter w =
     (case inv_delay_ms inverter of Some _ \<Rightarrow> pause inverter w | None \<Rightarrow> Finished (Ok ()) w)"

fun scheduler_read_loop :: "config_inverter \<Rightarrow> u16 list \<Rightarrow> world \<Rightarrow> unit run" where
  "scheduler_read_loop inverter [] w = Finished (Ok ()) w"
| "scheduler_read_loop inverter (start_register # rest) w =
     rbind (read_inputs_run inverter start_register 40 w) (\<lambda>_ w.
     rbind (scheduler_delay inverter w) (\<lambda>_.
     scheduler_read_loop inverter rest))"

definition scheduler_read_input_registers :: "config_inverter \<Rightarrow> world \<Rightarrow> unit run" where
  "scheduler_read_input_registers inverter = scheduler_read_loop inverter scheduler_blocks"

text \<open>A run for each inverter, one after the other; an error is logged and the next inverter follows.\<close>

fun for_inverters :: "(config_inverter \<Rightarrow> world \<Rightarrow> unit run) \<Rightarrow> config_inverter list \<Rightarrow> world \<Rightarrow> unit run" where
  "for_inverters f [] w = Finished (Ok ()) w"
| "for_inverters f (i # is) w =
     (case f i w of
        Finished Panic w \<Rightarrow> Finished Panic w
      | Finished _ w \<Rightarrow> for_inverters f is w
      | Waiting w \<Rightarrow> Waiting w)"

text \<open>
  A tick, with the configuration that it finds; a tick of the clock has the system time and the local
  offset for each inverter.
\<close>

datatype scheduler_tick = TimesyncTick config "config_inverter \<Rightarrow> int \<times> int" | RegisterTick config

fun scheduler_turn :: "chrono_lib \<Rightarrow> scheduler_tick \<Rightarrow> world \<Rightarrow> unit run" where
  "scheduler_turn T (TimesyncTick c clock) w =
     for_inverters (\<lambda>i. timesync_run T (fst (clock i)) (snd (clock i)) i) (enabled_inverters c) w"
| "scheduler_turn T (RegisterTick c) w = for_inverters scheduler_read_input_registers (enabled_inverters c) w"

fun scheduler_run :: "chrono_lib \<Rightarrow> scheduler_tick list \<Rightarrow> world \<Rightarrow> unit run" where
  "scheduler_run T [] w = Finished (Ok ()) w"
| "scheduler_run T (tick # ticks) w = rbind (scheduler_turn T tick w) (\<lambda>_. scheduler_run T ticks)"

text \<open>\<^verbatim>\<open>tokio::time::interval\<close> panics on a period of zero.\<close>

definition scheduler_start :: "chrono_lib \<Rightarrow> config \<Rightarrow> scheduler_tick list \<Rightarrow> world \<Rightarrow> unit run" where
  "scheduler_start T c ticks w =
     (if cfg_register_read_interval c = 0 then Finished Panic w else scheduler_run T ticks w)"

section \<open>Properties\<close>

definition block_request :: "config_inverter \<Rightarrow> u16 \<Rightarrow> sent" where
  "block_request i r = ToCoordinator (CoSendPacket (PTranslatedData
     \<lparr> td_datalog = the (inv_datalog i), td_device_function = DevReadInput, td_inverter = the (inv_serial i),
       td_register = r, td_values = [40, 0] \<rparr>))"

lemma pause_Ok: "\<exists>w'. pause i w = Finished (Ok ()) w' \<and> w_sent w' = w_sent w"
  by (auto simp: pause_def Let_def)

lemma delay_Ok:
  "\<exists>w'. scheduler_delay i w = Finished (Ok ()) w' \<and> w_sent w' = w_sent w"
  using pause_Ok by (auto simp: scheduler_delay_def split: option.split)

lemma read_inputs_sent:
  assumes "inv_datalog i = Some d" "inv_serial i = Some s"
  shows "w_sent (run_world (read_inputs_run i r 40 w)) \<in> {w_sent w, w_sent w @ [block_request i r]}"
    "read_inputs_run i r 40 w = Finished (Ok p) w' \<Longrightarrow> w_sent w' = w_sent w @ [block_request i r]"
proof -
  let ?p = "PTranslatedData \<lparr> td_datalog = d, td_device_function = DevReadInput, td_inverter = s,
       td_register = r, td_values = [40, 0] \<rparr>"
  have run: "read_inputs_run i r 40 w = request_coordinator ?p w"
    by (simp add: read_inputs_run_def td_request_def lift_def assms)
  have msg: "block_request i r = ToCoordinator (CoSendPacket ?p)" by (simp add: block_request_def assms)
  show "w_sent (run_world (read_inputs_run i r 40 w)) \<in> {w_sent w, w_sent w @ [block_request i r]}"
    unfolding run msg using coord.request_sent[of ?p w] by simp
  show "read_inputs_run i r 40 w = Finished (Ok p) w' \<Longrightarrow> w_sent w' = w_sent w @ [block_request i r]"
    unfolding run msg using coord.request_ok[of ?p w p w'] by simp
qed

lemma scheduler_read_loop_sent:
  assumes "inv_datalog i = Some d" "inv_serial i = Some s"
  shows "\<exists>n \<le> length rs. w_sent (run_world (scheduler_read_loop i rs w)) = w_sent w @ map (block_request i) (take n rs)"
proof (induction rs arbitrary: w)
  case (Cons r rs)
  show ?case
  proof (cases "\<exists>p w1. read_inputs_run i r 40 w = Finished (Ok p) w1")
    case True
    then obtain p w1 where r: "read_inputs_run i r 40 w = Finished (Ok p) w1" by blast
    obtain w2 where w2: "scheduler_delay i w1 = Finished (Ok ()) w2"
        "w_sent w2 = w_sent w1"
      using delay_Ok by blast
    obtain n where "n \<le> length rs"
        "w_sent (run_world (scheduler_read_loop i rs w2)) = w_sent w2 @ map (block_request i) (take n rs)"
      using Cons.IH by blast
    then show ?thesis
      using read_inputs_sent(2)[OF assms r] w2 by (intro exI[of _ "Suc n"]) (simp add: r)
  next
    case False
    then have "run_world (scheduler_read_loop i (r # rs) w) = run_world (read_inputs_run i r 40 w)"
      by (auto simp: rbind_def split: run.split outcome.split)
    then have "w_sent (run_world (scheduler_read_loop i (r # rs) w)) \<in> {w_sent w, w_sent w @ [block_request i r]}"
      using read_inputs_sent(1)[OF assms, of r w] by simp
    moreover have "w_sent w = w_sent w @ map (block_request i) (take 0 (r # rs))"
      "w_sent w @ [block_request i r] = w_sent w @ map (block_request i) (take 1 (r # rs))" by simp_all
    ultimately show ?thesis by (metis One_nat_def Suc_le_mono insertE le0 length_Cons singletonD)
  qed
qed simp

lemma scheduler_read_loop_all:
  assumes "inv_datalog i = Some d" "inv_serial i = Some s" "scheduler_read_loop i rs w = Finished (Ok ()) w'"
  shows "w_sent w' = w_sent w @ map (block_request i) rs"
  using assms(3)
proof (induction rs arbitrary: w)
  case (Cons r rs)
  obtain p w1 where r: "read_inputs_run i r 40 w = Finished (Ok p) w1"
    using Cons.prems by (auto simp: rbind_eq_Ok)
  obtain w2 where w2: "scheduler_delay i w1 = Finished (Ok ()) w2"
      "w_sent w2 = w_sent w1"
    using delay_Ok by blast
  show ?case
    using Cons.IH[of w2] Cons.prems read_inputs_sent(2)[OF assms(1,2) r] w2 by (simp add: r)
qed simp

text \<open>
  A run of the scheduler asks for the input blocks of an inverter in order, from 0 to 200 in steps of
  40, with 40 registers each; it stops at the first block that is not answered, and asks for all six
  when it succeeds.
\<close>

theorem scheduler_reads_blocks_in_order:
  assumes "inv_datalog i = Some d" "inv_serial i = Some s"
  shows "let requests = map (\<lambda>r. ToCoordinator (CoSendPacket (PTranslatedData
       \<lparr> td_datalog = d, td_device_function = DevReadInput, td_inverter = s, td_register = r, td_values = [40, 0] \<rparr>)))
     [0, 40, 80, 120, 160, 200]; run = scheduler_read_input_registers i w in
    (\<exists>n \<le> 6. w_sent (run_world run) = w_sent w @ take n requests) \<and>
    (\<forall>w'. run = Finished (Ok ()) w' \<longrightarrow> w_sent w' = w_sent w @ requests)"
proof -
  let ?requests = "map (\<lambda>r. ToCoordinator (CoSendPacket (PTranslatedData
       \<lparr> td_datalog = d, td_device_function = DevReadInput, td_inverter = s, td_register = r, td_values = [40, 0] \<rparr>)))
     [0, 40, 80, 120, 160, 200]"
  have "scheduler_blocks = [0, 40, 80, 120, 160, 200]" by (simp add: scheduler_blocks_def upt_conv_Cons)
  then have r: "map (block_request i) scheduler_blocks = ?requests" "length scheduler_blocks = 6"
    using assms(1,2) by (simp add: block_request_def, simp add: scheduler_blocks_def)
  have "\<exists>n \<le> 6. w_sent (run_world (scheduler_read_input_registers i w)) = w_sent w @ take n ?requests"
    using scheduler_read_loop_sent[OF assms(1,2), of scheduler_blocks w]
    unfolding scheduler_read_input_registers_def r(2) take_map[symmetric] r(1) .
  moreover have "scheduler_read_input_registers i w = Finished (Ok ()) w' \<Longrightarrow> w_sent w' = w_sent w @ ?requests" for w'
    unfolding scheduler_read_input_registers_def r(1)[symmetric] by (rule scheduler_read_loop_all[OF assms(1,2)])
  ultimately show ?thesis unfolding Let_def by blast
qed

theorem scheduler_reads_blocks_in_order_witness:
  "\<exists>n \<le> 6. length (w_sent (run_world (scheduler_read_input_registers example_inverter (example_world [])))) = n"
proof -
  have i: "inv_datalog example_inverter = Some serial_default" "inv_serial example_inverter = Some serial_default"
    by (simp_all add: example_inverter_def)
  have "w_sent (example_world []) = []" by (simp add: example_world_def)
  with scheduler_reads_blocks_in_order[OF i, of "example_world []"] show ?thesis
    unfolding Let_def by fastforce
qed

end
