(* ===== verification/Home_Assistant.thy ===== *)
theory Home_Assistant
  imports Mqtt
begin

text \<open>
  The discovery messages for Home Assistant (\<^verbatim>\<open>home_assistant.rs\<close>): the entities, their topics and JSON
  objects, and \<^verbatim>\<open>all\<close>. The derived \<^verbatim>\<open>Serialize\<close> instances are translated to a JSON tree; the text of
  a tree is the argument \<open>js\<close>. Strings are lists of bytes, so the degree sign has two.
\<close>

section \<open>JSON\<close>

datatype json = JStr string | JNum f64 | JArr "json list" | JObj "(string \<times> json) list"

type_synonym json_text = "json \<Rightarrow> string outcome"

definition field_opt :: "string \<Rightarrow> string option \<Rightarrow> (string \<times> json) list" where
  "field_opt k v = (case v of Some s \<Rightarrow> [(k, JStr s)] | None \<Rightarrow> [])"

section \<open>Entities\<close>

datatype value_template = VtNone | VtDefault | VtString string

text \<open>A name between double braces, as the template languages want it.\<close>

definition value_json :: "string \<Rightarrow> string" where
  "value_json key = ''{{ value_json.'' @ key @ '' }}''"

definition from_default :: "string \<Rightarrow> value_template" where
  "from_default key = VtString (value_json key)"

text \<open>\<^verbatim>\<open>None\<close> is skipped by the attribute of the field; \<^verbatim>\<open>Default\<close> is \<^verbatim>\<open>unreachable!()\<close>.\<close>

definition value_template_json :: "value_template \<Rightarrow> (string \<times> json) list outcome" where
  "value_template_json v =
     (case v of VtNone \<Rightarrow> Ok [] | VtDefault \<Rightarrow> Panic | VtString s \<Rightarrow> Ok [(''value_template'', JStr s)])"

record ha_device =
  dev_manufacturer :: string
  dev_name :: string
  dev_identifiers :: string

record ha_config =
  hac_inverter :: config_inverter
  hac_mqtt :: mqtt_config
  hac_global :: config

record ha_entity =
  en_key :: string
  en_unique_id :: string
  en_name :: string
  en_state_topic :: string
  en_entity_category :: "string option"
  en_state_class :: "string option"
  en_device_class :: "string option"
  en_value_template :: value_template
  en_unit_of_measurement :: "string option"
  en_icon :: "string option"
  en_device :: ha_device
  en_availability :: string

record ha_switch =
  sw_name :: string
  sw_state_topic :: string
  sw_command_topic :: string
  sw_value_template :: string
  sw_unique_id :: string
  sw_device :: ha_device
  sw_availability :: string

record ha_number =
  nu_name :: string
  nu_state_topic :: string
  nu_command_topic :: string
  nu_value_template :: string
  nu_unique_id :: string
  nu_device :: ha_device
  nu_availability :: string
  nu_min :: f64
  nu_max :: f64
  nu_step :: f64
  nu_unit_of_measurement :: string

record ha_text =
  tx_name :: string
  tx_state_topic :: string
  tx_command_topic :: string
  tx_command_template :: string
  tx_value_template :: string
  tx_unique_id :: string
  tx_device :: ha_device
  tx_availability :: string
  tx_pattern :: string

text \<open>The derived serialisers, field by field.\<close>

definition device_json :: "ha_device \<Rightarrow> json" where
  "device_json d = JObj [(''manufacturer'', JStr (dev_manufacturer d)), (''name'', JStr (dev_name d)),
     (''identifiers'', JArr [JStr (dev_identifiers d)])]"

definition availability_json :: "string \<Rightarrow> json" where
  "availability_json topic = JObj [(''topic'', JStr topic)]"

definition entity_json :: "ha_entity \<Rightarrow> json outcome" where
  "entity_json e =
     obind (value_template_json (en_value_template e)) (\<lambda>template.
     Ok (JObj ([(''unique_id'', JStr (en_unique_id e)), (''name'', JStr (en_name e)),
         (''state_topic'', JStr (en_state_topic e))] @
       field_opt ''entity_category'' (en_entity_category e) @ field_opt ''state_class'' (en_state_class e) @
       field_opt ''device_class'' (en_device_class e) @ template @
       field_opt ''unit_of_measurement'' (en_unit_of_measurement e) @ field_opt ''icon'' (en_icon e) @
       [(''device'', device_json (en_device e)), (''availability'', availability_json (en_availability e))])))"

definition switch_json :: "ha_switch \<Rightarrow> json" where
  "switch_json s = JObj [(''name'', JStr (sw_name s)), (''state_topic'', JStr (sw_state_topic s)),
     (''command_topic'', JStr (sw_command_topic s)), (''value_template'', JStr (sw_value_template s)),
     (''unique_id'', JStr (sw_unique_id s)), (''device'', device_json (sw_device s)),
     (''availability'', availability_json (sw_availability s))]"

definition number_json :: "ha_number \<Rightarrow> json" where
  "number_json n = JObj [(''name'', JStr (nu_name n)), (''state_topic'', JStr (nu_state_topic n)),
     (''command_topic'', JStr (nu_command_topic n)), (''value_template'', JStr (nu_value_template n)),
     (''unique_id'', JStr (nu_unique_id n)), (''device'', device_json (nu_device n)),
     (''availability'', availability_json (nu_availability n)), (''min'', JNum (nu_min n)),
     (''max'', JNum (nu_max n)), (''step'', JNum (nu_step n)),
     (''unit_of_measurement'', JStr (nu_unit_of_measurement n))]"

definition text_json :: "ha_text \<Rightarrow> json" where
  "text_json t = JObj [(''name'', JStr (tx_name t)), (''state_topic'', JStr (tx_state_topic t)),
     (''command_topic'', JStr (tx_command_topic t)), (''command_template'', JStr (tx_command_template t)),
     (''value_template'', JStr (tx_value_template t)), (''unique_id'', JStr (tx_unique_id t)),
     (''device'', device_json (tx_device t)), (''availability'', availability_json (tx_availability t)),
     (''pattern'', JStr (tx_pattern t))]"

section \<open>Names\<close>

definition ha_datalog :: "ha_config \<Rightarrow> string" where
  "ha_datalog h = datalog_or_default (hac_inverter h)"

text \<open>The topics of the form \<^verbatim>\<open>namespace/datalog...\<close>.\<close>

definition ha_topic :: "ha_config \<Rightarrow> string \<Rightarrow> string" where
  "ha_topic h rest = mq_namespace (hac_mqtt h) @ ''/'' @ ha_datalog h @ rest"

definition ha_command_topic :: "ha_config \<Rightarrow> string \<Rightarrow> string" where
  "ha_command_topic h rest = mq_namespace (hac_mqtt h) @ ''/cmd/'' @ ha_datalog h @ ''/set/'' @ rest"

definition ha_discovery_topic :: "ha_config \<Rightarrow> string \<Rightarrow> string \<Rightarrow> string" where
  "ha_discovery_topic h kind name =
     ha_prefix (mq_homeassistant (hac_mqtt h)) @ ''/'' @ kind @ ''/lxp_'' @ ha_datalog h @ ''/'' @
     replace_char (CHR ''/'') (CHR ''_'') name @ ''/config''"

definition ha_unique_id :: "ha_config \<Rightarrow> string \<Rightarrow> string" where
  "ha_unique_id h name = ''lxp_'' @ ha_datalog h @ ''_'' @ name"

definition ha_device_of :: "ha_config \<Rightarrow> ha_device" where
  "ha_device_of h = \<lparr> dev_manufacturer = ''LuxPower'', dev_name = ''lxp_'' @ ha_datalog h,
     dev_identifiers = ''lxp_'' @ ha_datalog h \<rparr>"

definition ha_availability_of :: "ha_config \<Rightarrow> string" where
  "ha_availability_of h = mq_namespace (hac_mqtt h) @ ''/LWT''"

text \<open>\<^verbatim>\<open>{:?}\<close> of a register.\<close>

primrec register_debug :: "register \<Rightarrow> string" where
  "register_debug RegModel = ''Model''"
| "register_debug RegSerialNum = ''SerialNum''"
| "register_debug RegFirmwareCode = ''FirmwareCode''"
| "register_debug RegTime = ''Time''"
| "register_debug RegComAddr = ''ComAddr''"
| "register_debug RegLanguage = ''Language''"
| "register_debug RegDeviceType = ''DeviceType''"
| "register_debug RegPvInputMode = ''PvInputMode''"
| "register_debug RegConnectTime = ''ConnectTime''"
| "register_debug RegReconnectTime = ''ReconnectTime''"
| "register_debug RegAutoTestStatus = ''AutoTestStatus''"
| "register_debug RegAutoTestLimit = ''AutoTestLimit''"
| "register_debug RegAutoTestDefaultTime = ''AutoTestDefaultTime''"
| "register_debug RegAutoTestTripValue = ''AutoTestTripValue''"
| "register_debug RegAutoTestTripTime = ''AutoTestTripTime''"
| "register_debug RegStartPvVolt = ''StartPvVolt''"
| "register_debug RegGridVoltConnLow = ''GridVoltConnLow''"
| "register_debug RegGridVoltConnHigh = ''GridVoltConnHigh''"
| "register_debug RegGridFreqConnLow = ''GridFreqConnLow''"
| "register_debug RegGridFreqConnHigh = ''GridFreqConnHigh''"
| "register_debug RegGridVoltLimit1Low = ''GridVoltLimit1Low''"
| "register_debug RegGridVoltLimit1High = ''GridVoltLimit1High''"
| "register_debug RegGridVoltLimit1LowTime = ''GridVoltLimit1LowTime''"
| "register_debug RegGridVoltLimit1HighTime = ''GridVoltLimit1HighTime''"
| "register_debug RegGridVoltLimit2Low = ''GridVoltLimit2Low''"
| "register_debug RegGridVoltLimit2High = ''GridVoltLimit2High''"
| "register_debug RegGridVoltLimit2LowTime = ''GridVoltLimit2LowTime''"
| "register_debug RegGridVoltLimit2HighTime = ''GridVoltLimit2HighTime''"
| "register_debug RegGridVoltLimit3Low = ''GridVoltLimit3Low''"
| "register_debug RegGridVoltLimit3High = ''GridVoltLimit3High''"
| "register_debug RegGridVoltLimit3LowTime = ''GridVoltLimit3LowTime''"
| "register_debug RegGridVoltLimit3HighTime = ''GridVoltLimit3HighTime''"
| "register_debug RegGridVoltMovAvgHigh = ''GridVoltMovAvgHigh''"
| "register_debug RegGridFreqLimit1Low = ''GridFreqLimit1Low''"
| "register_debug RegGridFreqLimit1High = ''GridFreqLimit1High''"
| "register_debug RegGridFreqLimit1LowTime = ''GridFreqLimit1LowTime''"
| "register_debug RegGridFreqLimit1HighTime = ''GridFreqLimit1HighTime''"
| "register_debug RegGridFreqLimit2Low = ''GridFreqLimit2Low''"
| "register_debug RegGridFreqLimit2High = ''GridFreqLimit2High''"
| "register_debug RegGridFreqLimit2LowTime = ''GridFreqLimit2LowTime''"
| "register_debug RegGridFreqLimit2HighTime = ''GridFreqLimit2HighTime''"
| "register_debug RegGridFreqLimit3Low = ''GridFreqLimit3Low''"
| "register_debug RegGridFreqLimit3High = ''GridFreqLimit3High''"
| "register_debug RegGridFreqLimit3LowTime = ''GridFreqLimit3LowTime''"
| "register_debug RegGridFreqLimit3HighTime = ''GridFreqLimit3HighTime''"
| "register_debug RegMaxQPercentForQv = ''MaxQPercentForQv''"
| "register_debug RegV1L = ''V1L''"
| "register_debug RegV2L = ''V2L''"
| "register_debug RegV1H = ''V1H''"
| "register_debug RegV2H = ''V2H''"
| "register_debug RegReactivePowerCmdType = ''ReactivePowerCmdType''"
| "register_debug RegActivePowerPercentCmd = ''ActivePowerPercentCmd''"
| "register_debug RegReactivePowerPercentCmd = ''ReactivePowerPercentCmd''"
| "register_debug RegPfCmd = ''PfCmd''"
| "register_debug RegPowerSoftStartSlope = ''PowerSoftStartSlope''"
| "register_debug RegRegister21 = ''Register21''"
| "register_debug RegChargePowerPercentCmd = ''ChargePowerPercentCmd''"
| "register_debug RegDischgPowerPercentCmd = ''DischgPowerPercentCmd''"
| "register_debug RegAcChargePowerCmd = ''AcChargePowerCmd''"
| "register_debug RegAcChargeSocLimit = ''AcChargeSocLimit''"
| "register_debug RegChargePriorityPowerCmd = ''ChargePriorityPowerCmd''"
| "register_debug RegChargePrioritySocLimit = ''ChargePrioritySocLimit''"
| "register_debug RegForcedDischgSocLimit = ''ForcedDischgSocLimit''"
| "register_debug RegDischgCutOffSocEod = ''DischgCutOffSocEod''"
| "register_debug RegEpsDischgCutoffSocEod = ''EpsDischgCutoffSocEod''"
| "register_debug RegAcChargeStartSocLimit = ''AcChargeStartSocLimit''"
| "register_debug RegAcChargeEndSocLimit = ''AcChargeEndSocLimit''"

section \<open>Sensors\<close>

definition base_entity :: "ha_config \<Rightarrow> ha_entity" where
  "base_entity h =
     \<lparr> en_key = [], en_unique_id = [], en_name = [], en_state_topic = ha_topic h ''/inputs/all'',
       en_entity_category = None, en_state_class = None, en_device_class = None,
       en_value_template = VtDefault, en_unit_of_measurement = None, en_icon = None,
       en_device = ha_device_of h, en_availability = ha_availability_of h \<rparr>"

definition voltage_entity :: "ha_config \<Rightarrow> ha_entity" where
  "voltage_entity h = (base_entity h)\<lparr> en_device_class := Some ''voltage'', en_state_class := Some ''measurement'',
     en_unit_of_measurement := Some ''V'' \<rparr>"

definition frequency_entity :: "ha_config \<Rightarrow> ha_entity" where
  "frequency_entity h = (base_entity h)\<lparr> en_device_class := Some ''frequency'', en_state_class := Some ''measurement'',
     en_unit_of_measurement := Some ''Hz'' \<rparr>"

definition power_entity :: "ha_config \<Rightarrow> ha_entity" where
  "power_entity h = (base_entity h)\<lparr> en_device_class := Some ''power'', en_state_class := Some ''measurement'',
     en_unit_of_measurement := Some ''W'' \<rparr>"

definition current_entity :: "ha_config \<Rightarrow> ha_entity" where
  "current_entity h = (base_entity h)\<lparr> en_device_class := Some ''current'', en_state_class := Some ''measurement'',
     en_unit_of_measurement := Some ''A'' \<rparr>"

definition energy_entity :: "ha_config \<Rightarrow> ha_entity" where
  "energy_entity h = (base_entity h)\<lparr> en_device_class := Some ''energy'', en_state_class := Some ''total_increasing'',
     en_unit_of_measurement := Some ''kWh'' \<rparr>"

definition temperature_entity :: "ha_config \<Rightarrow> ha_entity" where
  "temperature_entity h = (base_entity h)\<lparr> en_device_class := Some ''temperature'', en_state_class := Some ''measurement'',
     en_unit_of_measurement := Some [char_of (0xC2 :: nat), char_of (0xB0 :: nat), CHR ''C''] \<rparr>"

definition sensors_status :: "ha_config \<Rightarrow> ha_entity list" where
  "sensors_status h =
     [(base_entity h)\<lparr> en_key := ''status'', en_name := ''Status'',
         en_state_topic := ha_topic h ''/input/0/parsed'', en_value_template := VtNone \<rparr>,
      (base_entity h)\<lparr> en_key := ''soc'', en_name := ''State of Charge'',
         en_device_class := Some ''battery'', en_state_class := Some ''measurement'',
         en_unit_of_measurement := Some ''%'' \<rparr>,
      (base_entity h)\<lparr> en_key := ''fault_code'', en_name := ''Fault Code'',
         en_entity_category := Some ''diagnostic'',
         en_state_topic := ha_topic h ''/input/fault_code/parsed'', en_value_template := VtNone,
         en_icon := Some ''mdi:alert'' \<rparr>,
      (base_entity h)\<lparr> en_key := ''warning_code'', en_name := ''Warning Code'',
         en_entity_category := Some ''diagnostic'',
         en_state_topic := ha_topic h ''/input/warning_code/parsed'', en_value_template := VtNone,
         en_icon := Some ''mdi:alert-outline'' \<rparr>,
      (base_entity h)\<lparr> en_key := ''bat_status_9'', en_name := ''Battery Status'',
         en_entity_category := Some ''diagnostic'',
         en_state_topic := ha_topic h ''/inputs/3/bat_status_9_decoded'', en_value_template := VtNone,
         en_icon := Some ''mdi:battery-status-variant'' \<rparr>,
      (base_entity h)\<lparr> en_key := ''bat_status_inv'', en_name := ''Battery Inverter Status'',
         en_entity_category := Some ''diagnostic'',
         en_state_topic := ha_topic h ''/inputs/3/bat_status_inv_decoded'',
         en_value_template := VtNone, en_icon := Some ''mdi:battery-sync'' \<rparr>]"

definition sensors_voltage :: "ha_config \<Rightarrow> ha_entity list" where
  "sensors_voltage h =
     [(voltage_entity h)\<lparr> en_key := ''v_bat'', en_name := ''Battery Voltage'' \<rparr>,
      (voltage_entity h)\<lparr> en_key := ''v_ac_r'', en_name := ''Grid Voltage'' \<rparr>,
      (voltage_entity h)\<lparr> en_key := ''v_pv_1'', en_name := ''PV Voltage (String 1)'' \<rparr>,
      (voltage_entity h)\<lparr> en_key := ''v_pv_2'', en_name := ''PV Voltage (String 2)'' \<rparr>,
      (voltage_entity h)\<lparr> en_key := ''v_pv_3'', en_name := ''PV Voltage (String 3)'' \<rparr>,
      (voltage_entity h)\<lparr> en_key := ''v_eps_r'', en_name := ''EPS Voltage'' \<rparr>,
      (voltage_entity h)\<lparr> en_key := ''v_gen'', en_name := ''Generator Voltage'' \<rparr>,
      (voltage_entity h)\<lparr> en_key := ''v_eps_l1'', en_name := ''EPS Voltage L1'' \<rparr>,
      (voltage_entity h)\<lparr> en_key := ''v_eps_l2'', en_name := ''EPS Voltage L2'' \<rparr>]"

definition sensors_power :: "ha_config \<Rightarrow> ha_entity list" where
  "sensors_power h =
     [(frequency_entity h)\<lparr> en_key := ''f_ac'', en_name := ''Grid Frequency'' \<rparr>,
      (frequency_entity h)\<lparr> en_key := ''f_eps'', en_name := ''EPS Frequency'' \<rparr>,
      (frequency_entity h)\<lparr> en_key := ''f_gen'', en_name := ''Generator Frequency'' \<rparr>,
      (power_entity h)\<lparr> en_key := ''s_eps'', en_name := ''Apparent EPS Power'',
         en_device_class := Some ''apparent_power'', en_unit_of_measurement := Some ''VA'' \<rparr>,
      (power_entity h)\<lparr> en_key := ''s_eps_l1'', en_name := ''Apparent EPS Power L1'',
         en_device_class := Some ''apparent_power'', en_unit_of_measurement := Some ''VA'' \<rparr>,
      (power_entity h)\<lparr> en_key := ''s_eps_l2'', en_name := ''Apparent EPS Power L2'',
         en_device_class := Some ''apparent_power'', en_unit_of_measurement := Some ''VA'' \<rparr>,
      (power_entity h)\<lparr> en_key := ''p_pv'', en_name := ''PV Power (Array)'' \<rparr>,
      (power_entity h)\<lparr> en_key := ''p_pv_1'', en_name := ''PV Power (String 1)'' \<rparr>,
      (power_entity h)\<lparr> en_key := ''p_pv_2'', en_name := ''PV Power (String 2)'' \<rparr>,
      (power_entity h)\<lparr> en_key := ''p_pv_3'', en_name := ''PV Power (String 3)'' \<rparr>,
      (power_entity h)\<lparr> en_key := ''p_battery'',
         en_name := ''Battery Power (discharge is negative)'' \<rparr>,
      (power_entity h)\<lparr> en_key := ''p_charge'', en_name := ''Battery Charge'' \<rparr>,
      (power_entity h)\<lparr> en_key := ''p_discharge'', en_name := ''Battery Discharge'' \<rparr>,
      (power_entity h)\<lparr> en_key := ''p_grid'',
         en_name := ''Grid Power (export is negative)'' \<rparr>,
      (power_entity h)\<lparr> en_key := ''p_to_user'', en_name := ''Power from Grid'' \<rparr>,
      (power_entity h)\<lparr> en_key := ''p_to_grid'', en_name := ''Power to Grid'' \<rparr>,
      (power_entity h)\<lparr> en_key := ''p_eps'', en_name := ''Active EPS Power'' \<rparr>,
      (power_entity h)\<lparr> en_key := ''p_inv'', en_name := ''Inverter Power'' \<rparr>,
      (power_entity h)\<lparr> en_key := ''p_rec'', en_name := ''AC Charge Power'' \<rparr>,
      (power_entity h)\<lparr> en_key := ''p_gen'', en_name := ''Generator Power'' \<rparr>,
      (power_entity h)\<lparr> en_key := ''p_eps_l1'', en_name := ''EPS Power L1'' \<rparr>,
      (power_entity h)\<lparr> en_key := ''p_eps_l2'', en_name := ''EPS Power L2'' \<rparr>]"

definition sensors_energy :: "ha_config \<Rightarrow> ha_entity list" where
  "sensors_energy h =
     [(energy_entity h)\<lparr> en_key := ''e_pv_all'', en_name := ''PV Generation (All time)'' \<rparr>,
      (energy_entity h)\<lparr> en_key := ''e_pv_all_1'',
         en_name := ''PV Generation (All time) (String 1)'' \<rparr>,
      (energy_entity h)\<lparr> en_key := ''e_pv_all_2'',
         en_name := ''PV Generation (All time) (String 2)'' \<rparr>,
      (energy_entity h)\<lparr> en_key := ''e_pv_all_3'',
         en_name := ''PV Generation (All time) (String 3)'' \<rparr>,
      (energy_entity h)\<lparr> en_key := ''e_pv_day'', en_name := ''PV Generation (Today))'' \<rparr>,
      (energy_entity h)\<lparr> en_key := ''e_pv_day_1'',
         en_name := ''PV Generation (Today) (String 1)'' \<rparr>,
      (energy_entity h)\<lparr> en_key := ''e_pv_day_2'',
         en_name := ''PV Generation (Today) (String 2)'' \<rparr>,
      (energy_entity h)\<lparr> en_key := ''e_pv_day_3'',
         en_name := ''PV Generation (Today) (String 3)'' \<rparr>,
      (energy_entity h)\<lparr> en_key := ''e_chg_all'', en_name := ''Battery Charge (All time)'' \<rparr>,
      (energy_entity h)\<lparr> en_key := ''e_chg_day'', en_name := ''Battery Charge (Today)'' \<rparr>,
      (energy_entity h)\<lparr> en_key := ''e_dischg_all'',
         en_name := ''Battery Discharge (All time)'' \<rparr>,
      (energy_entity h)\<lparr> en_key := ''e_dischg_day'',
         en_name := ''Battery Discharge (Today)'' \<rparr>,
      (energy_entity h)\<lparr> en_key := ''e_to_user_all'',
         en_name := ''Energy from Grid (All time)'' \<rparr>,
      (energy_entity h)\<lparr> en_key := ''e_to_user_day'',
         en_name := ''Energy from Grid (Today)'' \<rparr>,
      (energy_entity h)\<lparr> en_key := ''e_to_grid_all'',
         en_name := ''Energy to Grid (All time)'' \<rparr>,
      (energy_entity h)\<lparr> en_key := ''e_to_grid_day'',
         en_name := ''Energy to Grid (Today)'' \<rparr>,
      (energy_entity h)\<lparr> en_key := ''e_eps_all'',
         en_name := ''Energy from EPS (All time)'' \<rparr>,
      (energy_entity h)\<lparr> en_key := ''e_eps_day'', en_name := ''Energy from EPS (Today)'' \<rparr>,
      (energy_entity h)\<lparr> en_key := ''e_rec_all'',
         en_name := ''Energy of AC Charging (All time)'' \<rparr>,
      (energy_entity h)\<lparr> en_key := ''e_rec_day'',
         en_name := ''Energy of AC Charging (Today)'' \<rparr>,
      (energy_entity h)\<lparr> en_key := ''e_inv_all'',
         en_name := ''Energy of Inverter (All time)'' \<rparr>,
      (energy_entity h)\<lparr> en_key := ''e_inv_day'',
         en_name := ''Energy of Inverter (Today)'' \<rparr>,
      (energy_entity h)\<lparr> en_key := ''e_gen_all'',
         en_name := ''Energy of Generator (All time)'' \<rparr>,
      (energy_entity h)\<lparr> en_key := ''e_gen_day'',
         en_name := ''Energy of Generator (Today)'' \<rparr>,
      (energy_entity h)\<lparr> en_key := ''e_eps_l1_all'',
         en_name := ''Energy of EPS L1 (All time)'' \<rparr>,
      (energy_entity h)\<lparr> en_key := ''e_eps_l1_day'',
         en_name := ''Energy of EPS L1  (Today)'' \<rparr>,
      (energy_entity h)\<lparr> en_key := ''e_eps_l2_all'',
         en_name := ''Energy of EPS L2 (All time)'' \<rparr>,
      (energy_entity h)\<lparr> en_key := ''e_eps_l2_day'',
         en_name := ''Energy of EPS L2  (Today)'' \<rparr>]"

definition sensors_other :: "ha_config \<Rightarrow> ha_entity list" where
  "sensors_other h =
     [(temperature_entity h)\<lparr> en_key := ''t_inner'', en_name := ''Inverter Temperature'' \<rparr>,
      (temperature_entity h)\<lparr> en_key := ''t_rad_1'', en_name := ''Radiator 1 Temperature'' \<rparr>,
      (temperature_entity h)\<lparr> en_key := ''t_rad_2'', en_name := ''Radiator 2 Temperature'' \<rparr>,
      (temperature_entity h)\<lparr> en_key := ''t_bat'', en_name := ''Battery Temperature'' \<rparr>,
      (current_entity h)\<lparr> en_key := ''max_chg_curr'', en_name := ''Max Charge Current'' \<rparr>,
      (current_entity h)\<lparr> en_key := ''max_dischg_curr'',
         en_name := ''Max Discharge Current'' \<rparr>,
      (voltage_entity h)\<lparr> en_key := ''min_cell_voltage'',
         en_name := ''Min Cell Voltage (BMS)'' \<rparr>,
      (voltage_entity h)\<lparr> en_key := ''max_cell_voltage'',
         en_name := ''Max Cell Voltage (BMS)'' \<rparr>,
      (temperature_entity h)\<lparr> en_key := ''min_cell_temp'',
         en_name := ''Min Cell Temperature (BMS)'' \<rparr>,
      (temperature_entity h)\<lparr> en_key := ''max_cell_temp'',
         en_name := ''Max Cell Temperature (BMS)'' \<rparr>,
      (base_entity h)\<lparr> en_key := ''runtime'', en_name := ''Total Runtime'',
         en_entity_category := Some ''diagnostic'', en_device_class := Some ''duration'',
         en_state_class := Some ''total_increasing'', en_unit_of_measurement := Some ''s'' \<rparr>]"

definition sensor_entities :: "ha_config \<Rightarrow> ha_entity list" where
  "sensor_entities h = sensors_status h @ sensors_voltage h @ sensors_power h @ sensors_energy h @ sensors_other h"

text \<open>The identifier and the default template are derived from the key.\<close>

definition complete_entity :: "ha_config \<Rightarrow> ha_entity \<Rightarrow> ha_entity" where
  "complete_entity h e =
     (let e = e\<lparr> en_unique_id := ha_unique_id h (en_key e) \<rparr>
      in if en_value_template e = VtDefault then e\<lparr> en_value_template := from_default (en_key e) \<rparr> else e)"

definition sensor_message :: "json_text \<Rightarrow> ha_config \<Rightarrow> ha_entity \<Rightarrow> mqtt_message outcome" where
  "sensor_message js h e =
     (case obind (entity_json (complete_entity h e)) js of
        Ok payload \<Rightarrow> Ok (mqtt_msg (ha_discovery_topic h ''sensor'' (en_key e)) True payload)
      | _ \<Rightarrow> Panic)"

definition ha_sensors :: "json_text \<Rightarrow> ha_config \<Rightarrow> mqtt_message list outcome" where
  "ha_sensors js h = omap (sensor_message js h) (sensor_entities h)"

section \<open>Controls\<close>

definition ha_switch_of :: "ha_config \<Rightarrow> string \<Rightarrow> string \<Rightarrow> ha_switch" where
  "ha_switch_of h name label =
     \<lparr> sw_name = label, sw_state_topic = ha_topic h ''/hold/21/bits'', sw_command_topic = ha_command_topic h name,
       sw_value_template = value_json (name @ ''_en''), sw_unique_id = ha_unique_id h name,
       sw_device = ha_device_of h, sw_availability = ha_availability_of h \<rparr>"

definition ha_switch_message :: "json_text \<Rightarrow> ha_config \<Rightarrow> string \<Rightarrow> string \<Rightarrow> mqtt_message outcome" where
  "ha_switch_message js h name label =
     obind (js (switch_json (ha_switch_of h name label))) (\<lambda>payload.
     Ok (mqtt_msg (ha_discovery_topic h ''switch'' name) True payload))"

definition ha_number_of :: "ha_config \<Rightarrow> register \<Rightarrow> string \<Rightarrow> ha_number" where
  "ha_number_of h r label =
     \<lparr> nu_name = label, nu_state_topic = ha_topic h (''/hold/'' @ show_u16 (register_u16 r)),
       nu_command_topic = ha_command_topic h (''hold/'' @ show_u16 (register_u16 r)),
       nu_value_template = ''{{ float(value) }}'', nu_unique_id = ha_unique_id h (''number_'' @ register_debug r),
       nu_device = ha_device_of h, nu_availability = ha_availability_of h,
       nu_min = 0, nu_max = 100, nu_step = 1, nu_unit_of_measurement = ''%'' \<rparr>"

definition number_percent :: "json_text \<Rightarrow> ha_config \<Rightarrow> register \<Rightarrow> string \<Rightarrow> mqtt_message outcome" where
  "number_percent js h r label =
     obind (js (number_json (ha_number_of h r label))) (\<lambda>payload.
     Ok (mqtt_msg (ha_discovery_topic h ''number'' (register_debug r)) True payload))"

definition ha_text_of :: "ha_config \<Rightarrow> string \<Rightarrow> string \<Rightarrow> ha_text" where
  "ha_text_of h name label =
     \<lparr> tx_name = label, tx_state_topic = ha_topic h (''/'' @ name), tx_command_topic = ha_command_topic h name,
       tx_command_template = ''{% set parts = value.split('' @ CHR 0x22 # ''-'' @ CHR 0x22 # '') %}{'' @
         CHR 0x22 # ''start'' @ CHR 0x22 # '':'' @ CHR 0x22 # ''{{ parts[0] }}'' @ CHR 0x22 # '', '' @
         CHR 0x22 # ''end'' @ CHR 0x22 # '':'' @ CHR 0x22 # ''{{ parts[1] }}'' @ CHR 0x22 # ''}'',
       tx_value_template = ''{{ value_json['' @ CHR 0x22 # ''start'' @ CHR 0x22 # ''] }}-{{ value_json['' @
         CHR 0x22 # ''end'' @ CHR 0x22 # ''] }}'',
       tx_unique_id = ha_unique_id h (''text_'' @ name),
       tx_device = ha_device_of h, tx_availability = ha_availability_of h,
       tx_pattern = ''([01]?[0-9]|2[0-3]):[0-5][0-9]-([01]?[0-9]|2[0-3]):[0-5][0-9]'' \<rparr>"

definition time_range :: "json_text \<Rightarrow> ha_config \<Rightarrow> string \<Rightarrow> string \<Rightarrow> mqtt_message outcome" where
  "time_range js h name label =
     obind (js (text_json (ha_text_of h name label))) (\<lambda>payload.
     Ok (mqtt_msg (ha_discovery_topic h ''text'' name) True payload))"

definition ha_switches :: "(string \<times> string) list" where
  "ha_switches = [(''ac_charge'', ''AC Charge''), (''charge_priority'', ''Charge Priority''),
     (''forced_discharge'', ''Forced Discharge'')]"

definition ha_numbers :: "(register \<times> string) list" where
  "ha_numbers =
     [(RegChargePowerPercentCmd, ''System Charge Rate (%)''), (RegDischgPowerPercentCmd, ''System Discharge Rate (%)''),
      (RegAcChargePowerCmd, ''AC Charge Rate (%)''), (RegAcChargeSocLimit, ''AC Charge Limit %''),
      (RegChargePriorityPowerCmd, ''Charge Priority Rate (%)''), (RegChargePrioritySocLimit, ''Charge Priority Limit %''),
      (RegForcedDischgSocLimit, ''Forced Discharge Limit %''), (RegDischgCutOffSocEod, ''Discharge Cutoff %''),
      (RegEpsDischgCutoffSocEod, ''Discharge Cutoff for EPS %''),
      (RegAcChargeStartSocLimit, ''Charge From AC Lower Limit %''),
      (RegAcChargeEndSocLimit, ''Charge From AC Upper Limit %'')]"

definition ha_time_ranges :: "(string \<times> string) list" where
  "ha_time_ranges =
     [(''ac_charge/1'', ''AC Charge Timeslot 1''), (''ac_charge/2'', ''AC Charge Timeslot 2''),
      (''ac_charge/3'', ''AC Charge Timeslot 3''), (''ac_first/1'', ''AC First Timeslot 1''),
      (''ac_first/2'', ''AC First Timeslot 2''), (''ac_first/3'', ''AC First Timeslot 3''),
      (''charge_priority/1'', ''Charge Priority Timeslot 1''), (''charge_priority/2'', ''Charge Priority Timeslot 2''),
      (''charge_priority/3'', ''Charge Priority Timeslot 3''), (''forced_discharge/1'', ''Forced Discharge Timeslot 1''),
      (''forced_discharge/2'', ''Forced Discharge Timeslot 2''), (''forced_discharge/3'', ''Forced Discharge Timeslot 3'')]"

definition ha_all :: "json_text \<Rightarrow> ha_config \<Rightarrow> mqtt_message list outcome" where
  "ha_all js h =
     (if \<not> cfg_homeassistant_enabled (hac_global h) then Ok []
      else obind (omap (\<lambda>(name, label). ha_switch_message js h name label) ha_switches) (\<lambda>a.
           obind (omap (\<lambda>(r, label). number_percent js h r label) ha_numbers) (\<lambda>b.
           obind (omap (\<lambda>(name, label). time_range js h name label) ha_time_ranges) (\<lambda>c.
           obind (ha_sensors js h) (\<lambda>d. Ok (a @ b @ c @ d))))))"

end
