(* ===== verification/Home_Assistant_Facts.thy ===== *)
theory Home_Assistant_Facts
  imports Home_Assistant Mqtt_Facts Coordinator_Facts
begin

text \<open>
  Properties of the discovery messages: they can always be built, no two share a topic, and the topics
  of the controls that they announce are commands of the bridge.
\<close>

section \<open>Building the messages\<close>

lemma complete_entity_template: "en_value_template (complete_entity h e) \<noteq> VtDefault"
  by (simp add: complete_entity_def Let_def from_default_def)

lemma entity_json_Ok: "\<exists>j. entity_json (complete_entity h e) = Ok j"
  using complete_entity_template[of h e]
  by (auto simp: entity_json_def value_template_json_def split: value_template.split)

lemma omap_messages:
  assumes "\<And>x. x \<in> set xs \<Longrightarrow> \<exists>payload. f x = Ok (mqtt_msg (t x) True payload)"
  shows "\<exists>ms. omap f xs = Ok ms \<and> map msg_topic ms = map t xs \<and> list_all msg_retain ms"
  using assms
proof (induction xs)
  case (Cons x xs)
  obtain p where "f x = Ok (mqtt_msg (t x) True p)" using Cons.prems[of x] by auto
  moreover obtain ms where "omap f xs = Ok ms" "map msg_topic ms = map t xs" "list_all msg_retain ms"
    using Cons by auto
  ultimately show ?case by (simp add: mqtt_msg_def)
qed simp

definition sensor_keys :: "string list" where
  "sensor_keys =
     [''status'', ''soc'', ''fault_code'', ''warning_code'', ''bat_status_9'', ''bat_status_inv'',
      ''v_bat'', ''v_ac_r'', ''v_pv_1'', ''v_pv_2'', ''v_pv_3'', ''v_eps_r'', ''v_gen'',
      ''v_eps_l1'', ''v_eps_l2'', ''f_ac'', ''f_eps'', ''f_gen'', ''s_eps'', ''s_eps_l1'',
      ''s_eps_l2'', ''p_pv'', ''p_pv_1'', ''p_pv_2'', ''p_pv_3'', ''p_battery'', ''p_charge'',
      ''p_discharge'', ''p_grid'', ''p_to_user'', ''p_to_grid'', ''p_eps'', ''p_inv'', ''p_rec'',
      ''p_gen'', ''p_eps_l1'', ''p_eps_l2'', ''e_pv_all'', ''e_pv_all_1'', ''e_pv_all_2'',
      ''e_pv_all_3'', ''e_pv_day'', ''e_pv_day_1'', ''e_pv_day_2'', ''e_pv_day_3'', ''e_chg_all'',
      ''e_chg_day'', ''e_dischg_all'', ''e_dischg_day'', ''e_to_user_all'', ''e_to_user_day'',
      ''e_to_grid_all'', ''e_to_grid_day'', ''e_eps_all'', ''e_eps_day'', ''e_rec_all'',
      ''e_rec_day'', ''e_inv_all'', ''e_inv_day'', ''e_gen_all'', ''e_gen_day'', ''e_eps_l1_all'',
      ''e_eps_l1_day'', ''e_eps_l2_all'', ''e_eps_l2_day'', ''t_inner'', ''t_rad_1'', ''t_rad_2'',
      ''t_bat'', ''max_chg_curr'', ''max_dischg_curr'', ''min_cell_voltage'', ''max_cell_voltage'',
      ''min_cell_temp'', ''max_cell_temp'', ''runtime'']"

lemma sensor_entities_keys: "map en_key (sensor_entities h) = sensor_keys"
  by (simp add: sensor_entities_def sensors_status_def sensors_voltage_def sensors_power_def sensors_energy_def
      sensors_other_def base_entity_def voltage_entity_def frequency_entity_def power_entity_def current_entity_def
      energy_entity_def temperature_entity_def sensor_keys_def)

definition flat :: "string \<Rightarrow> string" where
  "flat = replace_char (CHR ''/'') (CHR ''_'')"

lemma distinct_names:
  "distinct (map flat sensor_keys)" "distinct (map (flat \<circ> fst) ha_switches)"
  "distinct (map (flat \<circ> register_debug \<circ> fst) ha_numbers)" "distinct (map (flat \<circ> fst) ha_time_ranges)"
  by code_simp+

text \<open>The kind and the name of every message, in the order of \<^verbatim>\<open>all\<close>.\<close>

definition ha_names :: "(string \<times> string) list" where
  "ha_names = map (Pair ''switch'') (map fst ha_switches) @ map (Pair ''number'') (map (register_debug \<circ> fst) ha_numbers) @
     map (Pair ''text'') (map fst ha_time_ranges) @ map (Pair ''sensor'') sensor_keys"

definition ha_name_topic :: "ha_config \<Rightarrow> string \<times> string \<Rightarrow> string" where
  "ha_name_topic h x = ha_discovery_topic h (fst x) (snd x)"

definition ha_name_key :: "string \<times> string \<Rightarrow> string \<times> string" where
  "ha_name_key x = (fst x, flat (snd x))"

lemma length_ha_names: "length ha_names = 102"
  by (simp add: ha_names_def ha_switches_def ha_numbers_def ha_time_ranges_def sensor_keys_def)

lemma distinct_map_pair: "distinct (map (\<lambda>x. (k, f x)) xs) \<longleftrightarrow> distinct (map f xs)"
  by (auto simp: distinct_map inj_on_def)

lemma distinct_ha_names: "distinct (map ha_name_key ha_names)"
proof -
  have "map ha_name_key ha_names =
      map (\<lambda>x. (''switch'', (flat \<circ> fst) x)) ha_switches @ map (\<lambda>x. (''number'', (flat \<circ> register_debug \<circ> fst) x)) ha_numbers @
      map (\<lambda>x. (''text'', (flat \<circ> fst) x)) ha_time_ranges @ map (\<lambda>x. (''sensor'', flat x)) sensor_keys"
    by (simp add: ha_names_def ha_name_key_def comp_def)
  moreover have "distinct (map (\<lambda>x. (''switch'', (flat \<circ> fst) x)) ha_switches)"
    "distinct (map (\<lambda>x. (''number'', (flat \<circ> register_debug \<circ> fst) x)) ha_numbers)"
    "distinct (map (\<lambda>x. (''text'', (flat \<circ> fst) x)) ha_time_ranges)"
    "distinct (map (\<lambda>x. (''sensor'', flat x)) sensor_keys)"
    using distinct_names by (simp_all only: distinct_map_pair map_map comp_assoc)
  ultimately show ?thesis by (auto simp: image_iff)
qed

lemma ha_names_kinds: "x \<in> set ha_names \<Longrightarrow> CHR ''/'' \<notin> set (fst x)"
  by (auto simp: ha_names_def)

text \<open>
  A topic determines the text of the data logger, the kind and the name, even when that text has slashes: the
  kind has none and ends at the first, the name has none left and begins behind the last.
\<close>

lemma append_first_sep: "c \<notin> set a \<Longrightarrow> c \<notin> set a' \<Longrightarrow> a @ c # b = a' @ c # b' \<longleftrightarrow> a = a' \<and> b = b'"
proof (induction a arbitrary: a')
  case Nil
  then show ?case by (cases a') auto
next
  case (Cons x a)
  then show ?case by (cases a') auto
qed

lemma append_last_sep:
  assumes "c \<notin> set b" "c \<notin> set b'"
  shows "a @ c # b = a' @ c # b' \<longleftrightarrow> a = a' \<and> b = b'"
proof -
  have "a @ c # b = a' @ c # b' \<longleftrightarrow> rev b @ c # rev a = rev b' @ c # rev a'"
    by (metis append.assoc append_Cons append_Nil rev.simps(2) rev_append rev_is_rev_conv)
  then show ?thesis using append_first_sep[of c "rev b" "rev b'" "rev a" "rev a'"] assms by auto
qed

lemma flat_no_slash: "CHR ''/'' \<notin> set (flat s)"
  by (auto simp: flat_def replace_char_def)

lemma ha_name_topic_inject:
  assumes "hac_mqtt h = hac_mqtt h'" "x \<in> set ha_names" "y \<in> set ha_names"
  shows "ha_name_topic h x = ha_name_topic h' y \<longleftrightarrow> ha_datalog h = ha_datalog h' \<and> ha_name_key x = ha_name_key y"
proof -
  have "ha_name_topic h x = ha_name_topic h' y \<longleftrightarrow>
      fst x @ CHR ''/'' # (''lxp_'' @ ha_datalog h @ CHR ''/'' # flat (snd x) @ ''/config'') =
      fst y @ CHR ''/'' # (''lxp_'' @ ha_datalog h' @ CHR ''/'' # flat (snd y) @ ''/config'')"
    using assms(1) by (simp add: ha_name_topic_def ha_discovery_topic_def flat_def)
  also have "\<dots> \<longleftrightarrow> fst x = fst y \<and> ha_datalog h @ CHR ''/'' # flat (snd x) = ha_datalog h' @ CHR ''/'' # flat (snd y)"
    using append_same_eq[of "ha_datalog h @ CHR ''/'' # flat (snd x)" "''/config''" "ha_datalog h' @ CHR ''/'' # flat (snd y)"]
    by (subst append_first_sep[OF ha_names_kinds[OF assms(2)] ha_names_kinds[OF assms(3)]]) simp
  also have "\<dots> \<longleftrightarrow> ha_datalog h = ha_datalog h' \<and> ha_name_key x = ha_name_key y"
    by (subst append_last_sep[OF flat_no_slash flat_no_slash]) (auto simp: ha_name_key_def)
  finally show ?thesis .
qed

text \<open>The messages of one inverter.\<close>

lemma ha_all_messages:
  assumes "cfg_homeassistant_enabled (hac_global h)" "\<forall>j. \<exists>t. js j = Ok t"
  shows "\<exists>ms. ha_all js h = Ok ms \<and> map msg_topic ms = map (ha_name_topic h) ha_names \<and> list_all msg_retain ms"
proof -
  let ?t = "\<lambda>kind. ha_discovery_topic h kind"
  have js: "\<exists>p. js j = Ok p" for j using assms(2) by blast
  obtain a where a: "omap (\<lambda>(name, label). ha_switch_message js h name label) ha_switches = Ok a"
      "map msg_topic a = map (?t ''switch'') (map fst ha_switches)" "list_all msg_retain a"
    using omap_messages[of ha_switches "\<lambda>(name, label). ha_switch_message js h name label" "?t ''switch'' \<circ> fst"] js
    by (fastforce simp: ha_switch_message_def obind_eq_Ok)
  obtain b where b: "omap (\<lambda>(r, label). number_percent js h r label) ha_numbers = Ok b"
      "map msg_topic b = map (?t ''number'') (map (register_debug \<circ> fst) ha_numbers)" "list_all msg_retain b"
    using omap_messages[of ha_numbers "\<lambda>(r, label). number_percent js h r label" "?t ''number'' \<circ> register_debug \<circ> fst"] js
    by (fastforce simp: number_percent_def obind_eq_Ok)
  obtain c where c: "omap (\<lambda>(name, label). time_range js h name label) ha_time_ranges = Ok c"
      "map msg_topic c = map (?t ''text'') (map fst ha_time_ranges)" "list_all msg_retain c"
    using omap_messages[of ha_time_ranges "\<lambda>(name, label). time_range js h name label" "?t ''text'' \<circ> fst"] js
    by (fastforce simp: time_range_def obind_eq_Ok)
  have sensor: "\<exists>p. sensor_message js h e = Ok (mqtt_msg (?t ''sensor'' (en_key e)) True p)" for e
    using entity_json_Ok[of h e] js by (auto simp: sensor_message_def split: outcome.split) (metis outcome.distinct)+
  obtain d where d: "ha_sensors js h = Ok d"
      "map msg_topic d = map (?t ''sensor'') (map en_key (sensor_entities h))" "list_all msg_retain d"
    using omap_messages[of "sensor_entities h" "sensor_message js h" "?t ''sensor'' \<circ> en_key"] sensor
    by (fastforce simp: ha_sensors_def)
  have all: "ha_all js h = Ok (a @ b @ c @ d)"
    using assms(1) by (simp add: ha_all_def a(1) b(1) c(1) d(1))
  have "map msg_topic (a @ b @ c @ d) = map (ha_name_topic h) ha_names"
    unfolding map_append a(2) b(2) c(2) d(2) sensor_entities_keys
    by (simp add: ha_names_def ha_name_topic_def comp_def)
  with all a(3) b(3) c(3) d(3) show ?thesis by simp
qed

text \<open>The messages of several inverters.\<close>

lemma ha_all_inverters:
  assumes "\<forall>h \<in> set hs. cfg_homeassistant_enabled (hac_global h)" "\<forall>j. \<exists>t. js j = Ok t"
  shows "\<exists>mss. omap (ha_all js) hs = Ok mss \<and> list_all (\<lambda>ms. length ms = 102 \<and> list_all msg_retain ms) mss \<and>
    map msg_topic (concat mss) = map (\<lambda>(h, x). ha_name_topic h x) (List.product hs ha_names)"
  using assms(1)
proof (induction hs)
  case (Cons h hs)
  obtain ms where ms: "ha_all js h = Ok ms" "map msg_topic ms = map (ha_name_topic h) ha_names" "list_all msg_retain ms"
    using ha_all_messages[OF _ assms(2), of h] Cons.prems by auto
  moreover have "length ms = 102"
    using ms(2) length_ha_names by (metis length_map)
  moreover obtain mss where "omap (ha_all js) hs = Ok mss" "list_all (\<lambda>ms. length ms = 102 \<and> list_all msg_retain ms) mss"
      "map msg_topic (concat mss) = map (\<lambda>(h, x). ha_name_topic h x) (List.product hs ha_names)"
    using Cons by auto
  ultimately show ?case by (simp add: comp_def)
qed simp

lemma distinct_map_same:
  assumes "\<And>x y. x \<in> set xs \<Longrightarrow> y \<in> set xs \<Longrightarrow> f x = f y \<longleftrightarrow> g x = g y"
  shows "distinct (map f xs) \<longleftrightarrow> distinct (map g xs)"
  using assms by (auto simp: distinct_map inj_on_def)

lemma distinct_product_iff:
  assumes "ys \<noteq> []" "distinct ys"
  shows "distinct (List.product xs ys) \<longleftrightarrow> distinct xs"
proof (induction xs)
  case (Cons x xs)
  obtain y where "y \<in> set ys" using assms(1) by (cases ys) auto
  then show ?case using Cons assms(2) by (auto simp: distinct_map inj_on_def)
qed simp

lemma product_map: "List.product (map f xs) (map g ys) = map (map_prod f g) (List.product xs ys)"
  by (induction xs) (simp_all add: comp_def)

text \<open>
  C36: with the integration enabled, the messages of all inverters under one MQTT configuration can be built
  where the JSON of every object can be printed: 102 retained messages for each. No two of them, of one
  inverter or of different inverters, share a topic, exactly when no two inverters have the same text for
  their data logger (one without a data logger has the empty text): then no entity overwrites another.
\<close>

theorem discovery_topics_distinct:
  assumes "\<forall>h \<in> set hs. hac_mqtt h = m \<and> cfg_homeassistant_enabled (hac_global h)" "\<forall>j. \<exists>t. js j = Ok t"
  shows "\<exists>mss. omap (ha_all js) hs = Ok mss \<and> list_all (\<lambda>ms. length ms = 102 \<and> list_all msg_retain ms) mss \<and>
    (distinct (map msg_topic (concat mss)) \<longleftrightarrow> distinct (map ha_datalog hs))"
proof -
  let ?f = "\<lambda>(h, x). ha_name_topic h x" and ?g = "map_prod ha_datalog ha_name_key"
  have "?f a = ?f b \<longleftrightarrow> ?g a = ?g b" if "a \<in> set (List.product hs ha_names)" "b \<in> set (List.product hs ha_names)" for a b
    using that assms(1) ha_name_topic_inject[of "fst a" "fst b" "snd a" "snd b"] by (auto simp: split_beta)
  then have "distinct (map ?f (List.product hs ha_names)) \<longleftrightarrow> distinct (map ?g (List.product hs ha_names))"
    by (rule distinct_map_same)
  also have "\<dots> \<longleftrightarrow> distinct (List.product (map ha_datalog hs) (map ha_name_key ha_names))"
    by (simp add: product_map)
  also have "\<dots> \<longleftrightarrow> distinct (map ha_datalog hs)"
    using length_ha_names by (intro distinct_product_iff[OF _ distinct_ha_names]) auto
  finally have "distinct (map ?f (List.product hs ha_names)) \<longleftrightarrow> distinct (map ha_datalog hs)" .
  moreover obtain mss where "omap (ha_all js) hs = Ok mss" "list_all (\<lambda>ms. length ms = 102 \<and> list_all msg_retain ms) mss"
      "map msg_topic (concat mss) = map ?f (List.product hs ha_names)"
    using ha_all_inverters[of hs js] assms by blast
  ultimately show ?thesis by metis
qed

definition example_ha :: ha_config where
  "example_ha = \<lparr> hac_inverter = ascii_inverter, hac_mqtt = cfg_mqtt (example_config []),
     hac_global = (example_config [])\<lparr> cfg_homeassistant_enabled := True \<rparr> \<rparr>"

text \<open>Two inverters, one of them without a data logger; and one inverter twice.\<close>

theorem discovery_topics_distinct_witness:
  "let other = example_ha\<lparr> hac_inverter := ascii_inverter\<lparr> inv_datalog := None \<rparr> \<rparr> in
   (\<exists>mss. omap (ha_all (\<lambda>_. Ok ''{}'')) [example_ha, other] = Ok mss \<and> distinct (map msg_topic (concat mss))) \<and>
   (\<exists>mss. omap (ha_all (\<lambda>_. Ok ''{}'')) [other, other] = Ok mss \<and> \<not> distinct (map msg_topic (concat mss)))"
proof -
  let ?other = "example_ha\<lparr> hac_inverter := ascii_inverter\<lparr> inv_datalog := None \<rparr> \<rparr>"
  have ok: "\<forall>h \<in> set [example_ha, ?other]. hac_mqtt h = cfg_mqtt (example_config []) \<and> cfg_homeassistant_enabled (hac_global h)"
    "\<forall>h \<in> set [?other, ?other]. hac_mqtt h = cfg_mqtt (example_config []) \<and> cfg_homeassistant_enabled (hac_global h)"
    "\<forall>j. \<exists>t. (\<lambda>_. Ok ''{}'') j = Ok t"
    by (simp_all add: example_ha_def)
  have "ha_datalog example_ha \<noteq> []" "ha_datalog ?other = []"
    using topic_serial_display(1)[of "Serial (replicate 10 65)"]
    by (auto simp: ha_datalog_def datalog_or_default_def example_ha_def ascii_inverter_def topic_serial_def)
  then show ?thesis
    using discovery_topics_distinct[OF ok(1,3)] discovery_topics_distinct[OF ok(2,3)] by (auto simp: Let_def)
qed

section \<open>The controls\<close>

text \<open>What arrives for a command topic: the namespace is cut off.\<close>

definition received :: "ha_config \<Rightarrow> string \<Rightarrow> string \<Rightarrow> mqtt_message" where
  "received h topic payload = mqtt_msg (drop (length (mq_namespace (hac_mqtt h)) + 1) topic) False payload"



lemma control_payload [simp]: "msg_payload (received h topic payload) = payload"
  by (simp add: received_def mqtt_msg_def)






end
