(* ===== verification/Mqtt_Client.thy ===== *)
theory Mqtt_Client
  imports Home_Assistant Coordinator
begin

text \<open>
  The tasks of the MQTT client (\<^verbatim>\<open>mqtt.rs\<close>): what is published and subscribed when it starts, the loop over
  the events of the broker, and the sender with its retries. The client itself is a parameter: the
  result of each of its operations.
\<close>

section \<open>Setup\<close>

datatype client_op = Publish string bool string | Subscribe string

type_synonym client = "client_op \<Rightarrow> unit outcome"

text \<open>Operations that must succeed, one after the other; what was asked of the client is returned.\<close>

fun client_ops :: "client \<Rightarrow> client_op list \<Rightarrow> unit outcome \<times> client_op list" where
  "client_ops k [] = (Ok (), [])"
| "client_ops k (x # xs) =
     (case k x of
        Ok _ \<Rightarrow> (case client_ops k xs of (r, done) \<Rightarrow> (r, x # done))
      | r \<Rightarrow> (r, [x]))"

definition command_filter :: "config \<Rightarrow> config_inverter \<Rightarrow> string" where
  "command_filter c i = mq_namespace (cfg_mqtt c) @ ''/cmd/'' @ datalog_or_default i @ ''/#''"

text \<open>The body for one inverter: results of publishing discovery messages are ignored.\<close>

definition setup_inverter :: "client \<Rightarrow> json_text \<Rightarrow> config \<Rightarrow> config_inverter \<Rightarrow> unit outcome \<times> client_op list" where
  "setup_inverter k js c i =
     (case k (Subscribe (command_filter c i)) of
        Ok _ \<Rightarrow>
          (if cfg_homeassistant_enabled c \<and> ha_enabled (mq_homeassistant (cfg_mqtt c)) then
             (case ha_all js \<lparr> hac_inverter = i, hac_mqtt = cfg_mqtt c, hac_global = c \<rparr> of
                Ok ms \<Rightarrow> (Ok (), Subscribe (command_filter c i) #
                                  map (\<lambda>m. Publish (msg_topic m) (msg_retain m) (msg_payload m)) ms)
              | Err e \<Rightarrow> (Err e, [Subscribe (command_filter c i)])
              | Panic \<Rightarrow> (Panic, [Subscribe (command_filter c i)]))
           else (Ok (), [Subscribe (command_filter c i)]))
      | r \<Rightarrow> (r, [Subscribe (command_filter c i)]))"

fun setup_inverters :: "client \<Rightarrow> json_text \<Rightarrow> config \<Rightarrow> config_inverter list \<Rightarrow> unit outcome \<times> client_op list" where
  "setup_inverters k js c [] = (Ok (), [])"
| "setup_inverters k js c (i # is) =
     (case setup_inverter k js c i of
        (Ok _, ops) \<Rightarrow> (case setup_inverters k js c is of (r, ops') \<Rightarrow> (r, ops @ ops'))
      | (r, ops) \<Rightarrow> (r, ops))"

definition mqtt_setup :: "client \<Rightarrow> json_text \<Rightarrow> config \<Rightarrow> unit outcome \<times> client_op list" where
  "mqtt_setup k js c =
     (case client_ops k [Publish (lwt_topic c) True ''online'', Subscribe (mq_namespace (cfg_mqtt c) @ ''/cmd/all/#'')] of
        (Ok _, ops) \<Rightarrow> (case setup_inverters k js c (enabled_inverters c) of (r, ops') \<Rightarrow> (r, ops @ ops'))
      | (r, ops) \<Rightarrow> (r, ops))"

section \<open>From the broker\<close>

text \<open>A poll of the event loop: a message, an error, anything else, or nothing for a second.\<close>

datatype broker_event = BrokerPublish string bool bytes | BrokerError | BrokerOther | BrokerQuiet

fun mqtt_receiver :: "config \<Rightarrow> broker_event list \<Rightarrow> world \<Rightarrow> unit run" where
  "mqtt_receiver c [] w = Waiting w"
| "mqtt_receiver c (BrokerPublish topic retain payload # evs) w =
     rbind (handle_message c topic retain payload w) (\<lambda>_. mqtt_receiver c evs)"
| "mqtt_receiver c (BrokerError # evs) w = mqtt_receiver c evs (w\<lparr> w_now := w_now w + 5000 \<rparr>)"
| "mqtt_receiver c (BrokerOther # evs) w = mqtt_receiver c evs w"
| "mqtt_receiver c (BrokerQuiet # evs) w = mqtt_receiver c evs w"

section \<open>To the broker\<close>

record mqtt_sender_state =
  mss_stats :: packet_stats
  mss_published :: "(string \<times> bool \<times> string) list"
  mss_slept :: nat

text \<open>
  The attempts to publish one message; \<open>oks\<close> says which of them succeed. The loop has no exit but a
  success: when the list ends it is still retrying (\<open>False\<close>).
\<close>

fun publish_attempts :: "config \<Rightarrow> mqtt_message \<Rightarrow> bool list \<Rightarrow> mqtt_sender_state \<Rightarrow> bool \<times> mqtt_sender_state" where
  "publish_attempts c m [] s = (False, s)"
| "publish_attempts c m (ok # oks) s =
     (if ok then
        (True, s\<lparr> mss_published := mss_published s @ [(published_topic c m, msg_retain m, msg_payload m)],
                  mss_stats := (mss_stats s)\<lparr> st_mqtt_messages_sent := st_mqtt_messages_sent (mss_stats s) + 1 \<rparr> \<rparr>)
      else publish_attempts c m oks
        (s\<lparr> mss_stats := (mss_stats s)\<lparr> st_mqtt_errors := st_mqtt_errors (mss_stats s) + 1 \<rparr>,
            mss_slept := mss_slept s + 10 \<rparr>))"

datatype mqtt_recv = MqMessage mqtt_message "bool list" | MqShutdown | MqRecvError string

datatype mqtt_sender_result =
  MqttOn mqtt_sender_state | MqttRetrying mqtt_sender_state | MqttEnd "unit outcome" mqtt_sender_state

fun mqtt_sender :: "config \<Rightarrow> mqtt_recv list \<Rightarrow> mqtt_sender_state \<Rightarrow> mqtt_sender_result" where
  "mqtt_sender c [] s = MqttOn s"
| "mqtt_sender c (MqMessage m oks # evs) s =
     (case publish_attempts c m oks s of
        (True, s) \<Rightarrow> mqtt_sender c evs s
      | (False, s) \<Rightarrow> MqttRetrying s)"
| "mqtt_sender c (MqShutdown # evs) s = MqttEnd (Ok ()) s"
| "mqtt_sender c (MqRecvError e # evs) s = MqttEnd (Err e) s"

section \<open>Start and stop\<close>

text \<open>The options of the client: its name, the broker, the last will and the login.\<close>

record last_will =
  lw_topic :: string
  lw_message :: string
  lw_retain :: bool

record mqtt_options =
  mo_client_id :: string
  mo_host :: string
  mo_port :: u16
  mo_last_will :: last_will
  mo_keep_alive :: nat
  mo_credentials :: "(string \<times> string) option"

definition mqtt_options_of :: "config \<Rightarrow> mqtt_options" where
  "mqtt_options_of c =
     (let m = cfg_mqtt c
      in \<lparr> mo_client_id = ''lxp-bridge'', mo_host = mq_host m, mo_port = mq_port m,
           mo_last_will = \<lparr> lw_topic = lwt_topic c, lw_message = ''offline'', lw_retain = True \<rparr>,
           mo_keep_alive = 60,
           mo_credentials = (case (mq_username m, mq_password m) of (Some u, Some p) \<Rightarrow> Some (u, p) | _ \<Rightarrow> None) \<rparr>)"

text \<open>
  \<^verbatim>\<open>try_join!\<close> of the three tasks: the results in the order in which they come. The first failure ends
  all; without one, the join ends when all have ended. \<open>None\<close>: still running.
\<close>

fun try_join :: "nat \<Rightarrow> unit outcome list \<Rightarrow> unit outcome option" where
  "try_join 0 rs = Some (Ok ())"
| "try_join (Suc n) [] = None"
| "try_join (Suc n) (Ok _ # rs) = try_join n rs"
| "try_join (Suc n) (r # rs) = Some r"

definition mqtt_start :: "config \<Rightarrow> unit outcome list \<Rightarrow> mqtt_options option \<times> unit outcome option" where
  "mqtt_start c ends =
     (if \<not> mq_enabled (cfg_mqtt c) then (None, Some (Ok ()))
      else (Some (mqtt_options_of c), try_join 3 ends))"

text \<open>\<^verbatim>\<open>stop\<close>: a failure to send is ignored, then one second passes.\<close>

definition mqtt_stop :: "world \<Rightarrow> world" where
  "mqtt_stop w =
     (case send (SendShutdown ChanFromMqtt) ''SendError'' w of
        Finished _ w \<Rightarrow> w\<lparr> w_now := w_now w + 1000 \<rparr> | Waiting w \<Rightarrow> w)"

section \<open>Delivery\<close>

definition delivered :: "config \<Rightarrow> (mqtt_message \<times> bool list) list \<Rightarrow> mqtt_sender_state \<Rightarrow> mqtt_sender_state \<Rightarrow> bool" where
  "delivered c ms s s' \<longleftrightarrow>
     mss_published s' = mss_published s @ map (\<lambda>(m, oks). (published_topic c m, msg_retain m, msg_payload m)) ms \<and>
     st_mqtt_messages_sent (mss_stats s') = st_mqtt_messages_sent (mss_stats s) + word_of_nat (length ms)"

lemma publish_attempts_True:
  "\<exists>s'. publish_attempts c m oks s = (True \<in> set oks, s') \<and>
    delivered c (if True \<in> set oks then [(m, oks)] else []) s s' \<and>
    mss_slept s' = mss_slept s + 10 * length (takeWhile Not oks)"
proof (induction oks arbitrary: s)
  case Nil
  then show ?case by (simp add: delivered_def)
next
  case (Cons ok oks)
  show ?case
  proof (cases ok)
    case True
    then show ?thesis by (simp add: delivered_def)
  next
    case False
    let ?s = "s\<lparr> mss_stats := (mss_stats s)\<lparr> st_mqtt_errors := st_mqtt_errors (mss_stats s) + 1 \<rparr>,
            mss_slept := mss_slept s + 10 \<rparr>"
    show ?thesis using Cons.IH[of ?s] False by (auto simp: delivered_def)
  qed
qed

lemma delivered_Cons: "delivered c [x] s s1 \<Longrightarrow> delivered c ms s1 s' \<Longrightarrow> delivered c (x # ms) s s'"
  by (simp add: delivered_def)

text \<open>
  The messages of the channel are published in order, each once, and counted. A message that the
  client does not take is tried again every ten seconds without end, although the log says
  \<^verbatim>\<open>attempt n/3\<close>: no later message is published before it.
\<close>

theorem messages_published_in_order:
  "\<exists>s'. mqtt_sender c (map (\<lambda>(m, oks). MqMessage m oks) ms) s =
      (if list_all (\<lambda>(m, oks). True \<in> set oks) ms then MqttOn s' else MqttRetrying s') \<and>
    mss_published s' = mss_published s @
      map (\<lambda>(m, oks). (published_topic c m, msg_retain m, msg_payload m)) (takeWhile (\<lambda>(m, oks). True \<in> set oks) ms) \<and>
    st_mqtt_messages_sent (mss_stats s') = st_mqtt_messages_sent (mss_stats s) +
      word_of_nat (length (takeWhile (\<lambda>(m, oks). True \<in> set oks) ms))"
proof -
  have "\<exists>s'. mqtt_sender c (map (\<lambda>(m, oks). MqMessage m oks) ms) s =
      (if list_all (\<lambda>(m, oks). True \<in> set oks) ms then MqttOn s' else MqttRetrying s') \<and>
    delivered c (takeWhile (\<lambda>(m, oks). True \<in> set oks) ms) s s'"
  proof (induction ms arbitrary: s)
    case Nil
    then show ?case by (simp add: delivered_def)
  next
    case (Cons x ms)
    obtain m oks where x: "x = (m, oks)" by (cases x)
    obtain s1 where s1: "publish_attempts c m oks s = (True \<in> set oks, s1)"
        "delivered c (if True \<in> set oks then [(m, oks)] else []) s s1"
      using publish_attempts_True by blast
    show ?case
    proof (cases "True \<in> set oks")
      case True
      then obtain s' where "mqtt_sender c (map (\<lambda>(m, oks). MqMessage m oks) ms) s1 =
          (if list_all (\<lambda>(m, oks). True \<in> set oks) ms then MqttOn s' else MqttRetrying s')"
          "delivered c (takeWhile (\<lambda>(m, oks). True \<in> set oks) ms) s1 s'"
        using Cons.IH by blast
      then show ?thesis using s1 True delivered_Cons[of c x s s1] by (auto simp: x)
    next
      case False
      then show ?thesis using s1 by (simp add: x)
    qed
  qed
  then show ?thesis by (simp add: delivered_def)
qed

end
