(* ===== verification/Bridge.thy ===== *)
theory Bridge
  imports Coordinator_Properties Inverter_Properties
begin

text \<open>
  The tasks of the bridge together: the receiver of an inverter, the main loop of the coordinator and
  the register cache, each at its own speed. A broadcast channel is the log of what was sent on it,
  with the position of its receiver; the configuration is one object behind a lock that the receiver
  and the coordinator share. A turn of a task is one step. The theory shows that the cache follows
  the byte stream of the inverter, whatever the order of the steps.
\<close>

section \<open>State and steps\<close>

record bridge =
  br_config :: config
  br_reader :: reader_result
  br_loop :: loop_result
  br_taken :: nat
  br_cache :: "register_cache outcome"
  br_stored :: nat

text \<open>The packets on the channel from the inverters, and the messages on the channel to the cache.\<close>

fun sent_packets :: "sent list \<Rightarrow> packet list" where
  "sent_packets [] = []"
| "sent_packets (FromInverter (ChPacket p) # ms) = p # sent_packets ms"
| "sent_packets (m # ms) = sent_packets ms"

fun sent_values :: "sent list \<Rightarrow> (u16 \<times> u16) list" where
  "sent_values [] = []"
| "sent_values (ToRegisterCache r v # ms) = (r, v) # sent_values ms"
| "sent_values (m # ms) = sent_values ms"

definition packet_log :: "bridge \<Rightarrow> packet list" where
  "packet_log b = sent_packets (w_sent (iv_world (reader_state (br_reader b))))"

definition cache_log :: "bridge \<Rightarrow> (u16 \<times> u16) list" where
  "cache_log b = sent_values (w_sent (co_world (result_state (br_loop b))))"

text \<open>
  A channel has a receiver as long as the task that listens to it runs: the main loop for packets, the
  setter for the cache. Nothing else is said about the channels, the clock and the polls of a wait.
\<close>

definition loop_runs :: "bridge \<Rightarrow> bool" where
  "loop_runs b = (case br_loop b of Continue s \<Rightarrow> True | _ \<Rightarrow> False)"

definition setter_runs :: "bridge \<Rightarrow> bool" where
  "setter_runs b = (case br_cache b of Ok c \<Rightarrow> rc_setter c | _ \<Rightarrow> False)"

definition surroundings :: "bridge \<Rightarrow> world \<Rightarrow> world \<Rightarrow> bool" where
  "surroundings b w w' \<longleftrightarrow> w_sent w' = w_sent w \<and> w_dropped w' = [] \<and>
     (loop_runs b \<longrightarrow> ChanFromInverter \<notin> set (w_closed w')) \<and>
     (setter_runs b \<longrightarrow> ChanCache \<notin> set (w_closed w'))"

text \<open>The events of the main loop that bring no packet; \<^verbatim>\<open>CoPacket\<close> is sent by no task.\<close>

fun carries_packet :: "loop_event \<Rightarrow> bool" where
  "carries_packet (FromInverterRecv (Some (ChPacket _))) = True"
| "carries_packet (ToCoordinatorRecv (Some (CoPacket _))) = True"
| "carries_packet _ = False"

datatype bridge_action =
    ActRead nat reader_event
  | ActPacket bridge_env
  | ActOther bridge_env loop_event
  | ActStore
  | ActCache cache_event

text \<open>
  The steps. The receiver of the inverter takes an event; the main loop takes the next packet of the
  channel, or another event (a receive error among them, which a receiver that fell behind gets);
  the setter of the cache stores the next value, or its task gets another event.
\<close>

inductive bridge_step :: "bool \<Rightarrow> crc16 \<Rightarrow> (bytes \<Rightarrow> packet list \<times> unit outcome) \<Rightarrow>
    bridge \<Rightarrow> bridge_action \<Rightarrow> bridge \<Rightarrow> bool" for oc crc eof where
  step_read: "br_reader b = ReaderOn buf s \<Longrightarrow> surroundings b (iv_world s) w \<Longrightarrow>
    r = reader_turn oc crc eof t ev buf (s\<lparr> iv_config := br_config b, iv_world := w \<rparr>) \<Longrightarrow>
    bridge_step oc crc eof b (ActRead t ev)
      (b\<lparr> br_reader := r, br_config := iv_config (reader_state r) \<rparr>)"
| step_packet: "br_loop b = Continue s \<Longrightarrow> br_taken b < length (packet_log b) \<Longrightarrow>
    surroundings b (co_world s) w \<Longrightarrow>
    l = loop_step E (FromInverterRecv (Some (ChPacket (packet_log b ! br_taken b))))
      (s\<lparr> co_config := br_config b, co_world := w \<rparr>) \<Longrightarrow>
    bridge_step oc crc eof b (ActPacket E)
      (b\<lparr> br_loop := l, br_config := co_config (result_state l), br_taken := br_taken b + 1 \<rparr>)"
| step_other: "br_loop b = Continue s \<Longrightarrow> \<not> carries_packet ev \<Longrightarrow> surroundings b (co_world s) w \<Longrightarrow>
    l = loop_step E ev (s\<lparr> co_config := br_config b, co_world := w \<rparr>) \<Longrightarrow>
    bridge_step oc crc eof b (ActOther E ev)
      (b\<lparr> br_loop := l, br_config := co_config (result_state l) \<rparr>)"
| step_store: "br_cache b = Ok c \<Longrightarrow> rc_setter c \<Longrightarrow> br_stored b < length (cache_log b) \<Longrightarrow>
    cache_log b ! br_stored b = (r, v) \<Longrightarrow>
    bridge_step oc crc eof b ActStore
      (b\<lparr> br_cache := cache_step (OnWrite (RegisterData r v)) c, br_stored := br_stored b + 1 \<rparr>)"
| step_cache: "br_cache b = Ok c \<Longrightarrow> writes [ev] = [] \<Longrightarrow>
    bridge_step oc crc eof b (ActCache ev) (b\<lparr> br_cache := cache_step ev c \<rparr>)"

inductive bridge_run :: "bool \<Rightarrow> crc16 \<Rightarrow> (bytes \<Rightarrow> packet list \<times> unit outcome) \<Rightarrow>
    bridge \<Rightarrow> bridge_action list \<Rightarrow> bridge \<Rightarrow> bool" for oc crc eof where
  run_refl: "bridge_run oc crc eof b [] b"
| run_step: "bridge_run oc crc eof b acts b' \<Longrightarrow> bridge_step oc crc eof b' act b'' \<Longrightarrow>
    bridge_run oc crc eof b (acts @ [act]) b''"

interpretation bridge_tasks: interleaving "bridge_step oc crc eof" "bridge_run oc crc eof" for oc crc eof
proof unfold_locales
  fix b b' b'' acts act
  show "bridge_run oc crc eof b [] b' \<longleftrightarrow> b' = b"
    by (auto simp: bridge_run.simps[of oc crc eof b "[]"])
  show "bridge_run oc crc eof b (acts @ [act]) b'' \<longleftrightarrow>
      (\<exists>b'. bridge_run oc crc eof b acts b' \<and> bridge_step oc crc eof b' act b'')"
    by (auto simp: bridge_run.simps[of oc crc eof b "acts @ [act]"])
qed

text \<open>The bytes read in a run.\<close>

definition run_bytes :: "bridge_action list \<Rightarrow> bytes" where
  "run_bytes acts = received_bytes (concat (map (\<lambda>a. case a of ActRead t ev \<Rightarrow> [(t, ev)] | _ \<Rightarrow> []) acts))"

text \<open>The bridge when its tasks have been started and the inverter is connected.\<close>

definition bridge_init :: "config \<Rightarrow> config_inverter \<Rightarrow> bool \<Rightarrow> world \<Rightarrow> world \<Rightarrow> bridge" where
  "bridge_init c i influx w w' =
     \<lparr> br_config = c, br_reader = ReaderOn [] (inverter_new c i w),
       br_loop = Continue ((start_databases (coordinator_new c w'))\<lparr> co_influx := influx \<rparr>),
       br_taken = 0, br_cache = Ok register_cache_new, br_stored = 0 \<rparr>"

section \<open>What one packet stores\<close>

fun chunk_word :: "bytes \<Rightarrow> u16" where
  "chunk_word [a, b] = u16_from_le a b"
| "chunk_word [a] = ucast a"
| "chunk_word _ = 0"

text \<open>The registers of the value bytes; a last single byte counts as a register.\<close>

definition cached_values :: "u16 \<Rightarrow> bytes \<Rightarrow> (u16 \<times> u16) list" where
  "cached_values register values =
     map (\<lambda>(i, chunk). (register + word_of_nat i, chunk_word chunk)) (enumerate (chunks2 values))"

fun packet_values :: "packet \<Rightarrow> (u16 \<times> u16) list" where
  "packet_values (PTranslatedData td) = cached_values (td_register td) (td_values td)"
| "packet_values (PReadParam rp) = cached_values (rp_register rp) (rp_values rp)"
| "packet_values (PWriteParam wp) = cached_values (wp_register wp) (wp_values wp)"
| "packet_values (PHeartbeat hb) = []"

lemma sent_values_append [simp]: "sent_values (xs @ ys) = sent_values xs @ sent_values ys"
  by (induction xs rule: sent_values.induct) auto

lemma sent_packets_append [simp]: "sent_packets (xs @ ys) = sent_packets xs @ sent_packets ys"
  by (induction xs rule: sent_packets.induct) auto

lemma sent_values_none: "\<forall>m \<in> set ms. not_cached m \<Longrightarrow> sent_values ms = []"
  by (induction ms rule: sent_values.induct) (auto simp: not_cached_def)

lemma sent_packets_forwarded [simp]: "sent_packets (map (\<lambda>p. FromInverter (ChPacket p)) ps) = ps"
  by (induction ps) auto

lemma sends_values: "sends not_cached s s' \<Longrightarrow> sent_values (w_sent (co_world s')) = sent_values (w_sent (co_world s))"
  using sends_fields(7)[of not_cached s s'] by (auto simp: sent_values_none)

lemma chunks2_lengths: "chunk \<in> set (chunks2 xs) \<Longrightarrow> length chunk = 1 \<or> length chunk = 2"
  by (induction xs rule: chunks2.induct) auto

lemma chunk_value_word: "length chunk = 1 \<or> length chunk = 2 \<Longrightarrow> chunk_value chunk = Ok (chunk_word chunk)"
  by (cases chunk rule: chunk_word.cases) (auto simp: chunk_value_def)

lemma cache_loop_values:
  assumes "ChanCache \<notin> set (w_closed (co_world s))" "fst (cache_loop oc register xs s) \<noteq> Panic"
  shows "sent_values (w_sent (co_world (snd (cache_loop oc register xs s)))) =
    sent_values (w_sent (co_world s)) @ map (\<lambda>(i, v). (register + word_of_nat i, v)) xs"
  using assms
proof (induction xs arbitrary: s)
  case (Cons x xs)
  obtain i v where x: "x = (i, v)" by (cases x)
  have ok: "add_oc oc register (word_of_nat i) = Ok (register + word_of_nat i)"
    using Cons.prems(2) by (auto simp: x add_oc_def split: if_splits)
  show ?case using Cons by (simp add: x ok co_send_def)
qed simp

lemma enumerate_map: "enumerate (map f xs) = map (\<lambda>(i, x). (i, f x)) (enumerate xs)"
  by (rule nth_equalityI) (simp_all add: enumerate_map_upt)

lemma cache_register_values:
  assumes "ChanCache \<notin> set (w_closed (co_world s))" "fst (cache_register oc register xs s) \<noteq> Panic"
  shows "sent_values (w_sent (co_world (snd (cache_register oc register xs s)))) =
    sent_values (w_sent (co_world s)) @ cached_values register xs"
proof -
  have "omap chunk_value (chunks2 xs) = Ok (map chunk_word (chunks2 xs))"
    by (rule omap_Ok) (use chunks2_lengths chunk_value_word in blast)
  then show ?thesis
    using assms cache_loop_values[of s oc register "enumerate (map chunk_word (chunks2 xs))"]
    by (simp add: cache_register_def cached_values_def enumerate_map comp_def case_prod_beta)
qed

lemma co_log_next: "fst (co_log m f) \<noteq> Panic \<Longrightarrow> fst m \<noteq> Panic \<and> co_log m f = f (snd m)"
  by (cases m; cases "fst m") auto

lemma translated_data_values:
  assumes "ChanCache \<notin> set (w_closed (co_world s))" "fst (process_translated_data E td s) \<noteq> Panic"
  shows "sent_values (w_sent (co_world (snd (process_translated_data E td s)))) =
    sent_values (w_sent (co_world s)) @ cached_values (td_register td) (td_values td)"
proof -
  obtain i where i: "parse_input E td = Ok i"
    using assms(2) by (cases "parse_input E td") (auto simp: process_translated_data_def parse_input_def
        split: if_splits outcome.splits)
  let ?f1 = "if td_device_function td = DevWriteSingle \<or> td_device_function td = DevWriteMulti
       then (Ok (), s) else send_to_influx E td s"
  let ?s1 = "snd ?f1"
  let ?s2 = "snd (send_to_database td i ?s1)"
  let ?c = "cache_register (en_oc E) (td_register td) (td_values td) ?s2"
  let ?m = "send_to_mqtt E td i (snd ?c)"
  note p1 = assms(2)[unfolded process_translated_data_def i co_then_simps]
  note n1 = co_log_next[OF p1]
  note n2 = co_log_next[OF p1[unfolded conjunct2[OF n1]]]
  note n3 = co_log_next[OF p1[unfolded conjunct2[OF n1] conjunct2[OF n2]]]
  note n4 = co_log_next[OF p1[unfolded conjunct2[OF n1] conjunct2[OF n2] conjunct2[OF n3]]]
  have end_state: "snd (process_translated_data E td s) = snd ?m"
    unfolding process_translated_data_def i co_then_simps conjunct2[OF n1] conjunct2[OF n2] conjunct2[OF n3] conjunct2[OF n4]
    by simp
  have quiet: "sends not_cached s ?s1" "sends not_cached ?s1 ?s2" "sends not_cached (snd ?c) (snd ?m)"
    by (auto intro!: sends_influx sends_database sends_mqtt simp: not_cached_def)
  have "ChanCache \<notin> set (w_closed (co_world ?s2))"
    using assms(1) sends_fields(5)[OF quiet(1)] sends_fields(5)[OF quiet(2)] by simp
  from cache_register_values[OF this conjunct1[OF n3]] show ?thesis
    unfolding end_state sends_values[OF quiet(3)] sends_values[OF quiet(2)] sends_values[OF quiet(1)] .
qed

text \<open>With writes allowed everywhere, the echo of a parameter write is stored like a reply.\<close>

definition writable :: "config \<Rightarrow> bool" where
  "writable c \<longleftrightarrow> \<not> cfg_global_read_only c \<and> list_all (\<lambda>i. \<not> cfg_read_only i) (cfg_inverters c)"

lemma learn_keeps:
  shows learn_writable: "writable (learn p c) = writable c"
    and learn_ready: "iv_ready c host \<Longrightarrow> iv_ready (learn p c) host"
proof -
  have "writable (learn p c) = writable c \<and> (iv_ready c host \<longrightarrow> iv_ready (learn p c) host)"
  proof (cases p c rule: learn_cases)
    case (2 td i old "is")
    then obtain pre j post where c: "cfg_inverters c = pre @ j # post"
        and "is": "is = pre @ j\<lparr> inv_serial := Some (td_inverter td) \<rparr> # post"
      by (auto simp: update_serial_loop_first)
    then show ?thesis
      using 2(6) iv_ready_replace[OF _ c, where f = "inv_serial_update (\<lambda>_. Some (td_inverter td))"]
      by (auto simp: writable_def cfg_read_only_def)
  qed simp
  then show "writable (learn p c) = writable c" "iv_ready c host \<Longrightarrow> iv_ready (learn p c) host" by auto
qed

lemma process_packet_values:
  assumes "ChanCache \<notin> set (w_closed (co_world s))" "w_dropped (co_world s) = []" "writable (co_config s)"
    "fst (process_packet E p s) \<noteq> Panic"
  shows "sent_values (w_sent (co_world (snd (process_packet E p s)))) =
    sent_values (w_sent (co_world s)) @ packet_values p"
proof -
  let ?s = "s\<lparr> co_stats := count_packet p (co_stats s), co_config := learn p (co_config s) \<rparr>"
  have run: "\<not> is_shutting_down ?s" using assms(2) by (simp add: is_shutting_down_def)
  have read_only: "\<not> (case enabled_inverter_with_datalog (learn p (co_config s)) d of
      Some inverter \<Rightarrow> cfg_global_read_only (learn p (co_config s)) \<or> cfg_read_only inverter | None \<Rightarrow> False)" for d
    using assms(3) learn_writable[of p "co_config s"] find_datalog_enabled[of "learn p (co_config s)" d]
    by (auto simp: writable_def list_all_iff split: option.split)
  show ?thesis
  proof (cases p)
    case (PTranslatedData td)
    then show ?thesis
      using translated_data_values[of ?s E td] assms run by (simp add: process_packet_def Let_def)
  next
    case (PReadParam rp)
    then show ?thesis
      using cache_register_values[of ?s "en_oc E" "rp_register rp" "rp_values rp"] assms run
        co_log_next[of "cache_register (en_oc E) (rp_register rp) (rp_values rp) ?s" "\<lambda>s. (Ok (), s)"]
      by (simp add: process_packet_def Let_def)
  next
    case (PWriteParam wp)
    have "process_write_param E wp ?s = co_log (cache_register (en_oc E) (wp_register wp) (wp_values wp) ?s) (\<lambda>s. (Ok (), s))"
      using read_only[of "wp_datalog wp"] by (simp add: process_write_param_def split: option.splits)
    with PWriteParam show ?thesis
      using cache_register_values[of ?s "en_oc E" "wp_register wp" "wp_values wp"] assms run
        co_log_next[of "cache_register (en_oc E) (wp_register wp) (wp_values wp) ?s" "\<lambda>s. (Ok (), s)"]
      by (simp add: process_packet_def Let_def)
  next
    case (PHeartbeat hb)
    then show ?thesis using run by (simp add: process_packet_def Let_def)
  qed
qed

end
