(* ===== verification/Bridge_Properties.thy ===== *)
theory Bridge_Properties
  imports Bridge
begin

text \<open>
  The register cache follows the byte stream of the inverter: the invariant of the transition system of
  theory Bridge, proved by rule induction, and a run that shows all tasks at work.
\<close>

section \<open>One turn of the receiver\<close>

lemma evolves_writable: "evolves c c' \<Longrightarrow> writable c' = writable c"
proof -
  assume e: "evolves c c'"
  have map: "list_all (\<lambda>i. \<not> cfg_read_only i) is = list_all (\<lambda>i. \<not> cfg_read_only i) (map no_serials is)" for "is"
    by (simp add: list.pred_map comp_def cfg_read_only_def no_serials_def)
  have "cfg_global_read_only (c'\<lparr> cfg_inverters := [] \<rparr>) = cfg_global_read_only (c\<lparr> cfg_inverters := [] \<rparr>)"
    using e by (simp add: evolves_def)
  then show ?thesis
    using e map[of "cfg_inverters c"] map[of "cfg_inverters c'"] by (simp add: writable_def evolves_def)
qed

lemma handle_all_good:
  assumes "reader_good s"
  shows "\<exists>s'. handle_all ps s = (Ok (), s') \<and> iv_config s' = iv_config s \<and> iv_host s' = iv_host s \<and>
    sent_packets (w_sent (iv_world s')) = sent_packets (w_sent (iv_world s)) @ ps"
  using assms
proof (induction ps arbitrary: s)
  case (Cons p ps)
  from Cons.prems obtain i where i: "iv_self s = Ok i" by (auto simp: reader_good_def elim: iv_ready_self)
  let ?s = "s\<lparr> iv_world := (iv_world s)\<lparr> w_sent := w_sent (iv_world s) @ [FromInverter (ChPacket p)] \<rparr> \<rparr>"
  have h: "handle_incoming_packet p s = (Ok (), ?s)"
    using Cons.prems by (simp add: handle_incoming_packet_def i iv_send_def iv_try_def reader_good_def)
  have "reader_good ?s" using Cons.prems by (simp add: reader_good_def)
  from Cons.IH[OF this] h show ?case by (auto simp: iv_try_def)
qed simp

text \<open>Whatever a turn does, packets are only added to the channel; a turn that goes on adds those of the stream.\<close>

lemma reader_turn_log:
  assumes "reader_good s"
  shows "evolves (iv_config s) (iv_config (reader_state (reader_turn oc crc eof t ev buf s))) \<and>
    iv_host (reader_state (reader_turn oc crc eof t ev buf s)) = iv_host s \<and>
    (\<exists>qs. sent_packets (w_sent (iv_world (reader_state (reader_turn oc crc eof t ev buf s)))) =
       sent_packets (w_sent (iv_world s)) @ qs)"
proof -
  have flush: "iv_config (reader_state (reader_flush eof r b s)) = iv_config s \<and>
      iv_host (reader_state (reader_flush eof r b s)) = iv_host s \<and>
      (\<exists>qs. sent_packets (w_sent (iv_world (reader_state (reader_flush eof r b s)))) =
        sent_packets (w_sent (iv_world s)) @ qs)" for r b
    using handle_all_good[OF assms, of "fst (eof b)"]
    by (auto simp: reader_flush_def split: prod.split outcome.split)
  have dec: "evolves (iv_config s) (iv_config s') \<and> iv_host s' = iv_host s \<and>
      (\<exists>qs. sent_packets (w_sent (iv_world s')) = sent_packets (w_sent (iv_world s)) @ qs)"
    if "reader_decode oc crc t' b s = (e, rest, s')" for t' b e rest s'
  proof -
    obtain ps e' rest' where "drain oc crc b = (ps, e', rest')" by (cases "drain oc crc b")
    from reader_decode_good[OF assms this, of t'] that show ?thesis by (auto simp: forwarded_def)
  qed
  show ?thesis
    using flush dec by (auto simp: reader_turn_def split: reader_event.split prod.split outcome.split)
qed

lemma reader_turn_stream:
  assumes "reader_good s" "drained oc crc buf" "reader_turn oc crc eof t ev buf s = ReaderOn rest s'"
  shows "\<exists>qs. drain oc crc (buf @ event_bytes ev) = (qs, Ok (), rest) \<and> drained oc crc rest \<and>
    sent_packets (w_sent (iv_world s')) = sent_packets (w_sent (iv_world s)) @ qs"
proof -
  consider m where "ev = RdChannel m" "rest = buf" "s' = s"
    | t' bs where "ev = RdData t' bs" "reader_decode oc crc t' (buf @ bs) s = (Ok (), rest, s')"
    using assms(3) by (auto simp: reader_turn_def reader_flush_def split: if_splits reader_event.splits prod.splits outcome.splits)
  then show ?thesis
  proof cases
    case 1
    then show ?thesis using assms(2) by (auto simp: drained_def)
  next
    case 2
    obtain ps e b where d: "drain oc crc (buf @ bs) = (ps, e, b)" by (cases "drain oc crc (buf @ bs)")
    with reader_decode_good[OF assms(1) d, of t'] 2(2)
    have d': "drain oc crc (buf @ bs) = (ps, Ok (), rest)" and f: "forwarded ps s s'" by auto
    then show ?thesis using drain_drained[OF d'] 2(1) by (auto simp: forwarded_def)
  qed
qed

section \<open>One turn of the main loop\<close>

lemma after_handler_Continue: "after_handler m = Continue s \<longleftrightarrow> fst m \<noteq> Panic \<and> s = snd m"
  by (cases m; cases "fst m") (auto simp: after_handler_def)

lemma message_no_values:
  "sent_values (w_sent (run_world (process_message J oc c m w))) = sent_values (w_sent w)"
proof -
  obtain ms where ms: "\<forall>m \<in> set ms. command_traffic m" "w_sent (run_world (process_message J oc c m w)) = w_sent w @ ms"
    using emits_process_message[of w J oc c m] unfolding emits_def by blast
  have "not_cached m" if "command_traffic m" for m
    using that by (cases m rule: command_traffic.cases; cases m) (auto simp: not_cached_def)
  with ms show ?thesis by (simp add: sent_values_none)
qed

lemma message_run_values:
  "process_message J oc c m w = Finished x w' \<Longrightarrow> sent_values (w_sent w') = sent_values (w_sent w)"
  "process_message J oc c m w = Waiting w' \<Longrightarrow> sent_values (w_sent w') = sent_values (w_sent w)"
  using message_no_values[of J oc c m w] by simp_all

text \<open>An event without a packet stores nothing and leaves the configuration alone.\<close>

lemma loop_step_quiet:
  assumes "\<not> carries_packet ev"
  shows "sent_values (w_sent (co_world (result_state (loop_step E ev s)))) = sent_values (w_sent (co_world s)) \<and>
    co_config (result_state (loop_step E ev s)) = co_config s"
proof -
  have after: "result_state (after_handler m) = snd m" for m
    by (cases m; cases "fst m") (auto simp: after_handler_def)
  have fwd: "snd (co_log m (\<lambda>s. (Ok (), s))) = snd m" for m
    by (cases m; cases "fst m") auto
  show ?thesis
    using assms
    by (cases "(E, ev, s)" rule: loop_step.cases)
      (auto simp: after fwd co_send_def dest!: message_run_values split: run.split outcome.split)
qed

section \<open>The invariant\<close>

text \<open>
  While the main loop and the setter of the cache run: the receiver has put the packets of the stream on
  the channel, the loop has sent the values of those it took, and the cache holds those it stored.
\<close>

definition in_step :: "bool \<Rightarrow> crc16 \<Rightarrow> string \<Rightarrow> bytes \<Rightarrow> bridge \<Rightarrow> bool" where
  "in_step oc crc host bytes b \<longleftrightarrow>
     iv_ready (br_config b) host \<and> writable (br_config b) \<and> iv_host (reader_state (br_reader b)) = host \<and>
     (\<forall>buf s. br_reader b = ReaderOn buf s \<longrightarrow> drain oc crc bytes = (packet_log b, Ok (), buf) \<and> drained oc crc buf) \<and>
     br_taken b \<le> length (packet_log b) \<and>
     cache_log b = concat (map packet_values (take (br_taken b) (packet_log b))) \<and>
     br_stored b \<le> length (cache_log b)"

definition cache_holds :: "(u16 \<times> u16) list \<Rightarrow> register_cache outcome \<Rightarrow> bool" where
  "cache_holds vs r \<longleftrightarrow> (case r of
       Ok rc \<Rightarrow> (\<forall>k \<in> fst ` set vs. in_cache k) \<and> rc_data rc = cache.put_all vs (replicate REGISTER_COUNT 0)
     | _ \<Rightarrow> False)"

definition bridge_inv :: "bool \<Rightarrow> crc16 \<Rightarrow> string \<Rightarrow> bytes \<Rightarrow> bridge \<Rightarrow> bool" where
  "bridge_inv oc crc host bytes b \<longleftrightarrow>
     (loop_runs b \<longrightarrow> setter_runs b \<longrightarrow> in_step oc crc host bytes b \<and>
       cache_holds (take (br_stored b) (cache_log b)) (br_cache b))"

lemma in_step_stored: "in_step oc crc host bytes b \<Longrightarrow> br_stored b \<le> length (cache_log b)"
  unfolding in_step_def by (elim conjE)

lemma loop_runsE:
  assumes "loop_runs b"
  obtains s where "br_loop b = Continue s"
  using assms by (auto simp: loop_runs_def split: loop_result.splits)

lemma bridge_inv_read:
  assumes inv: "bridge_inv oc crc host bytes b" and b: "br_reader b = ReaderOn buf s"
    and w: "surroundings b (iv_world s) w"
    and r: "r = reader_turn oc crc eof t ev buf (s\<lparr> iv_config := br_config b, iv_world := w \<rparr>)"
  shows "bridge_inv oc crc host (bytes @ event_bytes ev) (b\<lparr> br_reader := r, br_config := iv_config (reader_state r) \<rparr>)"
  unfolding bridge_inv_def
proof (intro impI)
  let ?b = "b\<lparr> br_reader := r, br_config := iv_config (reader_state r) \<rparr>"
  let ?s = "s\<lparr> iv_config := br_config b, iv_world := w \<rparr>"
  assume "loop_runs ?b" "setter_runs ?b"
  then have run: "loop_runs b" "setter_runs b" by (simp_all add: loop_runs_def setter_runs_def)
  with inv have i: "in_step oc crc host bytes b" "cache_holds (take (br_stored b) (cache_log b)) (br_cache b)" by (simp_all add: bridge_inv_def)
  then have good: "reader_good ?s"
    using w run by (simp add: reader_good_def in_step_def surroundings_def b)
  have log: "packet_log b = sent_packets (w_sent (iv_world ?s))" using w by (simp add: packet_log_def b surroundings_def)
  obtain qs where q: "evolves (br_config b) (iv_config (reader_state r))" "iv_host (reader_state r) = iv_host s"
      "packet_log ?b = packet_log b @ qs"
    using reader_turn_log[OF good, of oc crc eof t ev buf] unfolding r[symmetric] log by (auto simp: packet_log_def)
  have cl: "cache_log ?b = cache_log b" by (simp add: cache_log_def)
  have stream: "drain oc crc (bytes @ event_bytes ev) = (packet_log ?b, Ok (), buf') \<and> drained oc crc buf'"
    if r': "r = ReaderOn buf' s'" for buf' s'
  proof -
    have d: "drain oc crc bytes = (packet_log b, Ok (), buf)" "drained oc crc buf" using i(1) b by (simp_all add: in_step_def)
    obtain ps where ps: "drain oc crc (buf @ event_bytes ev) = (ps, Ok (), buf')" "drained oc crc buf'"
        "sent_packets (w_sent (iv_world s')) = sent_packets (w_sent (iv_world ?s)) @ ps"
      using reader_turn_stream[OF good d(2)] r r' by metis
    have "drain oc crc (bytes @ event_bytes ev) = (packet_log b @ ps, Ok (), buf')"
      by (subst drain_split) (simp add: d(1) ps(1))
    moreover have "packet_log ?b = packet_log b @ ps" unfolding log ps(3)[symmetric] by (simp add: packet_log_def r')
    ultimately show ?thesis using ps(2) by simp
  qed
  have "iv_ready (iv_config (reader_state r)) host" using q(1) i(1) by (simp add: evolves_def in_step_def)
  moreover have "writable (iv_config (reader_state r))" using evolves_writable[OF q(1)] i(1) by (simp add: in_step_def)
  ultimately have "in_step oc crc host (bytes @ event_bytes ev) ?b"
    using i(1) q(2) stream unfolding in_step_def cl q(3) by (auto simp: b)
  moreover have "cache_holds (take (br_stored ?b) (cache_log ?b)) (br_cache ?b)" using i(2) unfolding cl by simp
  ultimately show "in_step oc crc host (bytes @ event_bytes ev) ?b \<and>
    cache_holds (take (br_stored ?b) (cache_log ?b)) (br_cache ?b)" by simp
qed

text \<open>The main loop handles the next packet: had it panicked, the loop would not run any more.\<close>

lemma bridge_inv_packet:
  assumes inv: "bridge_inv oc crc host bytes b" and b: "br_loop b = Continue s"
    and n: "br_taken b < length (packet_log b)" and w: "surroundings b (co_world s) w"
    and l: "l = loop_step E (FromInverterRecv (Some (ChPacket (packet_log b ! br_taken b))))
      (s\<lparr> co_config := br_config b, co_world := w \<rparr>)"
  shows "bridge_inv oc crc host bytes (b\<lparr> br_loop := l, br_config := co_config (result_state l), br_taken := br_taken b + 1 \<rparr>)"
  unfolding bridge_inv_def
proof (intro impI)
  let ?b = "b\<lparr> br_loop := l, br_config := co_config (result_state l), br_taken := br_taken b + 1 \<rparr>"
  let ?p = "packet_log b ! br_taken b" and ?s = "s\<lparr> co_config := br_config b, co_world := w \<rparr>"
  assume r: "loop_runs ?b" "setter_runs ?b"
  then have run: "loop_runs b" "setter_runs b" by (simp_all add: loop_runs_def setter_runs_def b)
  with inv have i: "in_step oc crc host bytes b" "cache_holds (take (br_stored b) (cache_log b)) (br_cache b)"
    by (simp_all add: bridge_inv_def)
  obtain s' where "after_handler (process_packet E ?p ?s) = Continue s'"
    using r(1) l by (auto elim: loop_runsE)
  then have p: "fst (process_packet E ?p ?s) \<noteq> Panic" "l = Continue s'" "s' = snd (process_packet E ?p ?s)"
    using l by (simp_all add: after_handler_Continue)
  have "co_config s' = learn ?p (br_config b)"
    using sends_fields(1)[OF sends_packet[of ?p ?s E]] p(3) by simp
  then have config: "iv_ready (co_config s') host" "writable (co_config s')"
    using i(1) learn_ready learn_writable by (simp_all add: in_step_def)
  have "sent_values (w_sent (co_world s')) = sent_values (w_sent w) @ packet_values ?p"
    using process_packet_values[of ?s E ?p] w run i(1) p by (simp add: surroundings_def in_step_def)
  then have log: "cache_log ?b = cache_log b @ packet_values ?p"
    using w by (simp add: cache_log_def p(2) b surroundings_def)
  have plog: "packet_log ?b = packet_log b" by (simp add: packet_log_def)
  have "cache_log ?b = concat (map packet_values (take (br_taken b + 1) (packet_log b)))"
    using i(1) n unfolding log by (simp add: in_step_def take_Suc_conv_app_nth)
  moreover have "br_stored b \<le> length (cache_log ?b)" using in_step_stored[OF i(1)] unfolding log by simp
  ultimately have "in_step oc crc host bytes ?b"
    using i(1) n config unfolding in_step_def plog by (simp add: p(2))
  moreover have "take (br_stored ?b) (cache_log ?b) = take (br_stored b) (cache_log b)"
    using in_step_stored[OF i(1)] unfolding log by simp
  ultimately show "in_step oc crc host bytes ?b \<and> cache_holds (take (br_stored ?b) (cache_log ?b)) (br_cache ?b)"
    using i(2) by simp
qed

lemma bridge_inv_other:
  assumes inv: "bridge_inv oc crc host bytes b" and b: "br_loop b = Continue s"
    and ev: "\<not> carries_packet ev" and w: "surroundings b (co_world s) w"
    and l: "l = loop_step E ev (s\<lparr> co_config := br_config b, co_world := w \<rparr>)"
  shows "bridge_inv oc crc host bytes (b\<lparr> br_loop := l, br_config := co_config (result_state l) \<rparr>)"
proof -
  let ?b = "b\<lparr> br_loop := l, br_config := co_config (result_state l) \<rparr>"
  note q = loop_step_quiet[OF ev, of E "s\<lparr> co_config := br_config b, co_world := w \<rparr>"]
  have log: "cache_log ?b = cache_log b" "packet_log ?b = packet_log b" "br_config ?b = br_config b"
    using q w unfolding l by (simp_all add: cache_log_def packet_log_def b surroundings_def)
  have "loop_runs b" by (simp add: loop_runs_def b)
  then have i: "in_step oc crc host bytes b \<and> cache_holds (take (br_stored b) (cache_log b)) (br_cache b)" if "setter_runs b"
    using inv that by (simp add: bridge_inv_def)
  have "in_step oc crc host bytes ?b \<longleftrightarrow> in_step oc crc host bytes b"
    unfolding in_step_def log by simp
  moreover have "setter_runs ?b = setter_runs b" by (simp add: setter_runs_def)
  ultimately show ?thesis using i unfolding bridge_inv_def log(1) by simp
qed

lemma cache_holds_store:
  assumes "cache_holds vs (Ok c)" "rc_setter c" "cache_step (OnWrite (RegisterData r v)) c = Ok c'"
  shows "cache_holds (vs @ [(r, v)]) (Ok c') \<and> rc_setter c'"
proof -
  have len: "length (rc_data c) = REGISTER_COUNT"
    using assms(1) cache.valid_put_all[of "replicate REGISTER_COUNT 0" vs] by (simp add: cache_holds_def)
  with assms(2,3) have "in_cache r" "c' = c\<lparr> rc_data := cache_put r v (rc_data c) \<rparr>"
    by (auto simp: in_cache_def cache_put_def split: if_splits)
  then show ?thesis using assms(1,2) by (auto simp: cache_holds_def cache.put_all_append)
qed

lemma setter_runs_simps:
  "setter_runs (b\<lparr> br_cache := x, br_stored := n \<rparr>) = (case x of Ok c \<Rightarrow> rc_setter c | _ \<Rightarrow> False)"
  "setter_runs (b\<lparr> br_cache := x \<rparr>) = (case x of Ok c \<Rightarrow> rc_setter c | _ \<Rightarrow> False)"
  by (simp_all add: setter_runs_def)

lemma setter_caseE:
  assumes "case x of Ok c \<Rightarrow> rc_setter c | _ \<Rightarrow> False"
  obtains c where "x = Ok c" "rc_setter c"
  using assms by (auto split: outcome.splits)

lemma bridge_inv_store:
  assumes inv: "bridge_inv oc crc host bytes b" and b: "br_cache b = Ok c" "rc_setter c"
    and n: "br_stored b < length (cache_log b)" "cache_log b ! br_stored b = (r, v)"
  shows "bridge_inv oc crc host bytes
    (b\<lparr> br_cache := cache_step (OnWrite (RegisterData r v)) c, br_stored := br_stored b + 1 \<rparr>)"
  unfolding bridge_inv_def
proof (intro impI)
  let ?b = "b\<lparr> br_cache := cache_step (OnWrite (RegisterData r v)) c, br_stored := br_stored b + 1 \<rparr>"
  assume r: "loop_runs ?b" "setter_runs ?b"
  then have "loop_runs b" "setter_runs b" using b by (simp_all add: loop_runs_def setter_runs_def)
  with inv b(1) have i: "in_step oc crc host bytes b" "cache_holds (take (br_stored b) (cache_log b)) (Ok c)"
    by (simp_all add: bridge_inv_def)
  obtain c' where c': "cache_step (OnWrite (RegisterData r v)) c = Ok c'"
    using r(2) unfolding setter_runs_simps by (rule setter_caseE)
  have log: "cache_log ?b = cache_log b" "packet_log ?b = packet_log b" by (simp_all add: cache_log_def packet_log_def)
  have "in_step oc crc host bytes ?b" using i(1) n(1) unfolding in_step_def log by simp
  moreover have "take (br_stored ?b) (cache_log ?b) = take (br_stored b) (cache_log b) @ [(r, v)]"
    unfolding log using n by (simp add: take_Suc_conv_app_nth)
  moreover have "br_cache ?b = Ok c'" unfolding c'[symmetric] by simp
  ultimately show "in_step oc crc host bytes ?b \<and> cache_holds (take (br_stored ?b) (cache_log ?b)) (br_cache ?b)"
    using cache_holds_store[OF i(2) b(2) c'] by simp
qed

lemma cache_step_quiet:
  assumes "writes [ev] = []" "cache_step ev c = Ok c'"
  shows "rc_data c' = rc_data c \<and> (rc_setter c' \<longrightarrow> rc_setter c)"
proof (cases ev)
  case (OnRead m)
  then show ?thesis using assms by (cases m) (auto simp: obind_eq_Ok split: if_splits)
next
  case (OnWrite m)
  then show ?thesis using assms by (cases m) (auto split: if_splits)
qed

lemma bridge_inv_cache:
  assumes inv: "bridge_inv oc crc host bytes b" and b: "br_cache b = Ok c" and ev: "writes [ev] = []"
  shows "bridge_inv oc crc host bytes (b\<lparr> br_cache := cache_step ev c \<rparr>)"
  unfolding bridge_inv_def
proof (intro impI)
  let ?b = "b\<lparr> br_cache := cache_step ev c \<rparr>"
  assume r: "loop_runs ?b" "setter_runs ?b"
  obtain c' where c': "cache_step ev c = Ok c'" "rc_setter c'"
    using r(2) unfolding setter_runs_simps by (rule setter_caseE)
  note q = cache_step_quiet[OF ev c'(1)]
  have "loop_runs b" "setter_runs b" using r(1) q c'(2) b by (simp_all add: loop_runs_def setter_runs_def)
  with inv b have i: "in_step oc crc host bytes b" "cache_holds (take (br_stored b) (cache_log b)) (Ok c)"
    by (simp_all add: bridge_inv_def)
  have log: "cache_log ?b = cache_log b" "packet_log ?b = packet_log b" by (simp_all add: cache_log_def packet_log_def)
  have "in_step oc crc host bytes ?b \<longleftrightarrow> in_step oc crc host bytes b" unfolding in_step_def log by simp
  with i(1) show "in_step oc crc host bytes ?b \<and> cache_holds (take (br_stored ?b) (cache_log ?b)) (br_cache ?b)"
    using i(2) q unfolding log by (simp add: c'(1) cache_holds_def)
qed

section \<open>Runs\<close>

lemma run_bytes_snoc: "run_bytes (acts @ [act]) = run_bytes acts @ (case act of ActRead t ev \<Rightarrow> event_bytes ev | _ \<Rightarrow> [])"
  by (cases act) (simp_all add: run_bytes_def received_bytes_def)

lemma bridge_run_inv:
  assumes "bridge_run oc crc eof b acts b'" "bridge_inv oc crc host [] b"
  shows "bridge_inv oc crc host (run_bytes acts) b'"
  using assms(1)
proof (rule bridge_tasks.run_invariant)
  show "bridge_inv oc crc host (run_bytes []) b" using assms(2) by (simp add: run_bytes_def)
  fix acts b b' act
  assume inv: "bridge_inv oc crc host (run_bytes acts) b" and "bridge_step oc crc eof b act b'"
  from this(2) show "bridge_inv oc crc host (run_bytes (acts @ [act])) b'"
  proof (cases rule: bridge_step.cases)
    case step_read
    then show ?thesis using bridge_inv_read[OF inv step_read(3-5)] by (simp only: run_bytes_snoc bridge_action.case)
  next
    case step_packet
    then show ?thesis using bridge_inv_packet[OF inv step_packet(3-6)] by (simp only: run_bytes_snoc bridge_action.case append_Nil2)
  next
    case step_other
    then show ?thesis using bridge_inv_other[OF inv step_other(3-6)] by (simp only: run_bytes_snoc bridge_action.case append_Nil2)
  next
    case step_store
    then show ?thesis using bridge_inv_store[OF inv step_store(3-6)] by (simp only: run_bytes_snoc bridge_action.case append_Nil2)
  next
    case step_cache
    then show ?thesis using bridge_inv_cache[OF inv step_cache(3,4)] by (simp only: run_bytes_snoc bridge_action.case append_Nil2)
  qed
qed

lemma bridge_init_inv:
  assumes "iv_ready c (inv_host i)" "writable c" "sent_packets (w_sent w) = []" "sent_values (w_sent w') = []"
  shows "bridge_inv oc crc (inv_host i) [] (bridge_init c i influx w w')"
  using assms drained_Nil[of oc crc]
  by (simp add: bridge_inv_def in_step_def bridge_init_def packet_log_def cache_log_def inverter_new_def
      coordinator_new_def start_databases_def drained_def cache_holds_def register_cache_new_def cache.put_all.simps)

text \<open>
  C1: the register cache follows the inverter. Let the receiver of a connection, the main loop with all
  its other work, and the task of the cache run in any order, from the start until some moment at
  which they all still run. Then the packets of all bytes read are on the channel, the main loop has
  taken a prefix of them, the cache has stored a prefix of the values of these, and a read of
  register \<open>r\<close> returns the last value that the stored prefix has for \<open>r\<close> (0 if none, and a panic from
  512 on). So when nothing is pending, the cache shows the last values that the inverter sent.
\<close>

theorem cache_follows_stream:
  assumes "iv_ready c (inv_host i)" "writable c" "sent_packets (w_sent w) = []" "sent_values (w_sent w') = []"
    and "bridge_run oc crc eof (bridge_init c i influx w w') acts b"
    and "br_reader b = ReaderOn rest s" "br_loop b = Continue co" "br_cache b = Ok rc" "rc_setter rc" "rc_getter rc"
  shows "\<exists>ps. drain oc crc (run_bytes acts) = (ps, Ok (), rest) \<and> packet_log b = ps \<and> br_taken b \<le> length ps \<and>
    (let vs = concat (map packet_values (take (br_taken b) ps)) in
       cache_log b = vs \<and> br_stored b \<le> length vs \<and>
       (\<forall>r. cache_get (br_cache b) r =
         (if unat r < 512
          then Ok (case map_of (rev (take (br_stored b) vs)) r of Some v \<Rightarrow> v | None \<Rightarrow> 0) else Panic)))"
proof -
  have "bridge_inv oc crc (inv_host i) (run_bytes acts) b"
    by (rule bridge_run_inv[OF assms(5) bridge_init_inv[OF assms(1-4)]])
  moreover have "loop_runs b" "setter_runs b" using assms(7-9) by (simp_all add: loop_runs_def setter_runs_def)
  ultimately have inv: "in_step oc crc (inv_host i) (run_bytes acts) b"
      "cache_holds (take (br_stored b) (cache_log b)) (br_cache b)"
    by (simp_all add: bridge_inv_def)
  let ?vs = "take (br_stored b) (cache_log b)" and ?zero = "replicate REGISTER_COUNT (0 :: u16)"
  have keys: "\<forall>k \<in> fst ` set ?vs. in_cache k" and data: "rc_data rc = cache.put_all ?vs ?zero"
    using inv(2) assms(8) by (simp_all add: cache_holds_def)
  have len: "length (rc_data rc) = REGISTER_COUNT"
    unfolding data by (rule cache.valid_put_all) (use keys in simp_all)
  have get: "cache_get (br_cache b) r =
      (if unat r < 512 then Ok (case map_of (rev ?vs) r of Some v \<Rightarrow> v | None \<Rightarrow> 0) else Panic)" for r
  proof (cases "unat r < 512")
    case True
    then have r: "in_cache r" by (simp add: in_cache_def REGISTER_COUNT_def)
    have "cache_get (br_cache b) r = Ok (cache_nth (rc_data rc) r)"
      using assms(8,10) len True by (simp add: cache_get_def cache_nth_def REGISTER_COUNT_def)
    also have "cache_nth (rc_data rc) r = (case map_of (rev ?vs) r of Some v \<Rightarrow> v | None \<Rightarrow> cache_nth ?zero r)"
      unfolding data by (rule cache.get_put_all[OF _ keys r]) simp
    also have "cache_nth ?zero r = 0" using r by (simp add: cache_nth_def in_cache_def)
    finally show ?thesis using True by simp
  next
    case False
    then show ?thesis using assms(8,10) len by (simp add: cache_get_def index_def REGISTER_COUNT_def)
  qed
  have log: "cache_log b = concat (map packet_values (take (br_taken b) (packet_log b)))"
    using inv(1) unfolding in_step_def by (elim conjE)
  have "drain oc crc (run_bytes acts) = (packet_log b, Ok (), rest) \<and> br_taken b \<le> length (packet_log b)"
    using inv(1) assms(6) by (simp add: in_step_def)
  then show ?thesis
    using get in_step_stored[OF inv(1)] unfolding Let_def log by simp
qed

section \<open>The shared configuration\<close>

text \<open>Two configurations that differ in serial numbers only, none of which is forgotten.\<close>

definition same_but_serials :: "config \<Rightarrow> config \<Rightarrow> bool" where
  "same_but_serials c c' \<longleftrightarrow>
     map no_serials (cfg_inverters c') = map no_serials (cfg_inverters c) \<and>
     c'\<lparr> cfg_inverters := [] \<rparr> = c\<lparr> cfg_inverters := [] \<rparr> \<and>
     (\<forall>host. iv_ready c host \<longrightarrow> iv_ready c' host)"

lemma same_but_serials_trans: "same_but_serials a b \<Longrightarrow> same_but_serials b c \<Longrightarrow> same_but_serials a c"
  by (simp add: same_but_serials_def)

lemma same_but_serials_refl [simp]: "same_but_serials c c"
  by (simp add: same_but_serials_def)

lemma evolves_same: "evolves c c' \<Longrightarrow> same_but_serials c c'"
  by (simp add: evolves_def same_but_serials_def)

lemma learn_same: "same_but_serials c (learn p c)"
proof (cases p c rule: learn_cases)
  case (2 td i old "is")
  then obtain pre j post where "cfg_inverters c = pre @ j # post" "is = pre @ j\<lparr> inv_serial := Some (td_inverter td) \<rparr> # post"
    by (auto simp: update_serial_loop_first)
  moreover have "\<forall>host. iv_ready c host \<longrightarrow> iv_ready (learn p c) host" using learn_ready by blast
  ultimately show ?thesis using 2(6) by (simp add: same_but_serials_def no_serials_def)
qed simp

lemma loop_step_config: "same_but_serials (co_config s) (co_config (result_state (loop_step E ev s)))"
proof (cases E ev s rule: loop_step_cases)
  case (2 p)
  then show ?thesis using sends_fields(1)[OF sends_packet[of p s E]] learn_same[of "co_config s" p] by simp
qed (simp_all add: co_send_def)

lemma bridge_step_config: "bridge_step oc crc eof b act b' \<Longrightarrow> same_but_serials (br_config b) (br_config b')"
proof (induction rule: bridge_step.induct)
  case (step_read b buf s w r t ev)
  then show ?case
    using evolves_same[OF reader_turn_config[of "s\<lparr> iv_config := br_config b, iv_world := w \<rparr>" oc crc eof t ev buf]] by simp
next
  case (step_packet b s w l E)
  then show ?case
    using loop_step_config[of "s\<lparr> co_config := br_config b, co_world := w \<rparr>" E] by (simp del: loop_step.simps)
next
  case (step_other b s ev w l E)
  then show ?case
    using loop_step_config[of "s\<lparr> co_config := br_config b, co_world := w \<rparr>" E ev] by (simp del: loop_step.simps)
qed simp_all

text \<open>
  C24: the configuration that the receiver and the coordinator share. In every reachable state, also after
  a task has ended or crashed, it differs from the one that was loaded in serial numbers only, and an
  inverter that had both of its serial numbers still has both. So no update makes the receiver lose its
  own entry.
\<close>

theorem shared_configuration:
  assumes "bridge_run oc crc eof (bridge_init c i influx w w') acts b"
  shows "map no_serials (cfg_inverters (br_config b)) = map no_serials (cfg_inverters c) \<and>
    (br_config b)\<lparr> cfg_inverters := [] \<rparr> = c\<lparr> cfg_inverters := [] \<rparr> \<and>
    (if iv_ready c host then iv_ready (br_config b) host else True)"
proof -
  have "same_but_serials (br_config a) (br_config b)" if "bridge_run oc crc eof a acts b" for a
    using bridge_tasks.run_related[OF that, of "\<lambda>b b'. same_but_serials (br_config b) (br_config b')"]
      same_but_serials_trans bridge_step_config by force
  from this[OF assms] show ?thesis by (simp add: same_but_serials_def bridge_init_def)
qed

section \<open>A run\<close>

text \<open>The example frame is read, its packet handled and its value stored.\<close>

definition example_entry :: config_inverter where
  "example_entry = example_inverter\<lparr> inv_datalog := Some serial_a, inv_serial := Some serial_a \<rparr>"

definition example_bridge :: bridge where
  "example_bridge = bridge_init (example_config [example_entry]) example_entry False (example_world []) (example_world [])"

definition example_bytes :: bytes where
  "example_bytes = reply_frame example_crc example_hold @ [161]"

lemma even_packet_runs:
  assumes "even (length (td_values td))" "unat (td_register td) + length (td_values td) \<le> 2 ^ 16" "w_dropped (co_world s) = []"
  shows "fst (process_packet example_env (PTranslatedData td) s) \<noteq> Panic"
proof -
  have E: "nom_ok (en_nom example_env)" "json_no_panic (en_json example_env)"
    by (simp_all add: example_env_def nom_ok_ref example_json_no_panic)
  show ?thesis
    using process_translated_data_Panic[OF E assms(2)] assms(1,3)
    by (simp add: process_packet_def Let_def is_shutting_down_def)
qed

lemma example_link_new: "inverter_new (example_config [example_entry]) example_entry (example_world []) = example_link"
  by (simp add: inverter_new_def example_link_def example_entry_def example_inverter_def)

lemma example_read:
  obtains s b where "bridge_step True example_crc (\<lambda>_. ([], Ok ())) example_bridge (ActRead 1 (RdData 1 example_bytes)) b"
    "br_reader b = ReaderOn [161] s" "packet_log b = [example_hold]" "br_loop b = br_loop example_bridge"
    "br_cache b = Ok register_cache_new" "br_taken b = 0" "br_stored b = 0"
proof -
  let ?eof = "\<lambda>_ :: bytes. ([] :: packet list, Ok () :: unit outcome)"
  obtain s' where s': "reader_decode True example_crc 1 ([] @ example_bytes) example_link = (Ok (), [161], s')"
      "forwarded [example_hold] example_link s'"
    using reader_decode_good[OF example_link_simps(4) drain_example_hold, of 1] by (auto simp: example_bytes_def)
  have turn: "reader_turn True example_crc ?eof 1 (RdData 1 example_bytes) [] example_link = ReaderOn [161] s'"
    using s'(1) by (simp add: reader_turn_def MAX_BUFFER_SIZE_def time_since_received_def message_timestamps_new_def
        example_bytes_def)
  have b: "br_reader example_bridge = ReaderOn [] example_link"
    by (simp add: example_bridge_def bridge_init_def example_link_new)
  have conf: "example_link\<lparr> iv_config := br_config example_bridge, iv_world := iv_world example_link \<rparr> = example_link"
    by (simp add: example_bridge_def bridge_init_def example_link_def example_entry_def)
  have around: "surroundings example_bridge (iv_world example_link) (iv_world example_link)"
    by (simp add: surroundings_def example_link_def example_world_def)
  let ?b = "example_bridge\<lparr> br_reader := ReaderOn [161] s', br_config := iv_config (reader_state (ReaderOn [161] s')) \<rparr>"
  have step: "bridge_step True example_crc ?eof example_bridge (ActRead 1 (RdData 1 example_bytes)) ?b"
    by (rule step_read[OF b around]) (simp only: conf turn)
  have log: "packet_log ?b = [example_hold]"
    using s'(2) by (simp add: packet_log_def forwarded_def)
  show thesis
    by (rule that[OF step _ log]) (simp_all add: example_bridge_def bridge_init_def)
qed

lemma example_packet:
  assumes "packet_log b = [example_hold]" "br_loop b = br_loop example_bridge" "br_taken b = 0" "writable (br_config b)"
  obtains co b' where "bridge_step True example_crc eof b (ActPacket example_env) b'" "br_loop b' = Continue co"
    "cache_log b' = [(21, 128)]" "br_reader b' = br_reader b" "br_cache b' = br_cache b" "br_stored b' = br_stored b"
proof -
  let ?s = "(start_databases (coordinator_new (example_config [example_entry]) (example_world [])))\<lparr> co_influx := False \<rparr>"
  have b: "br_loop b = Continue ?s" by (simp add: assms(2) example_bridge_def bridge_init_def)
  let ?t = "?s\<lparr> co_config := br_config b, co_world := co_world ?s \<rparr>"
  have w: "w_dropped (co_world ?s) = []" "w_closed (co_world ?s) = []" "w_sent (co_world ?s) = []"
    by (simp_all add: start_databases_def coordinator_new_def example_world_def)
  have around: "surroundings b (co_world ?s) (co_world ?s)" using w by (simp add: surroundings_def)
  have run: "fst (process_packet example_env example_hold ?t) \<noteq> Panic"
    unfolding example_hold_def by (rule even_packet_runs) (use w in simp_all)
  let ?co = "snd (process_packet example_env example_hold ?t)"
  have l: "Continue ?co = loop_step example_env (FromInverterRecv (Some (ChPacket (packet_log b ! br_taken b)))) ?t"
    using run by (simp add: assms(1,3) eq_commute[of "Continue _"] after_handler_Continue)
  let ?b = "b\<lparr> br_loop := Continue ?co, br_config := co_config (result_state (Continue ?co)), br_taken := br_taken b + 1 \<rparr>"
  have step: "bridge_step True example_crc eof b (ActPacket example_env) ?b"
    by (rule step_packet[OF b _ around l]) (simp add: assms(1,3))
  have "packet_values example_hold = [(21, 128)]"
    by (simp add: example_hold_def cached_values_def enumerate_def u16_from_le_def)
  then have log: "cache_log ?b = [(21, 128)]"
    using process_packet_values[of ?t example_env example_hold] run w assms(4) by (simp add: cache_log_def)
  show thesis by (rule that[OF step _ log]) simp_all
qed

theorem cache_follows_stream_witness:
  "\<exists>acts b. bridge_run True example_crc (\<lambda>_. ([], Ok ())) example_bridge acts b \<and>
     run_bytes acts = example_bytes \<and> cache_get (br_cache b) 21 = Ok 128"
proof -
  let ?eof = "\<lambda>_ :: bytes. ([] :: packet list, Ok () :: unit outcome)"
  have init: "iv_ready (example_config [example_entry]) (inv_host example_entry)" "writable (example_config [example_entry])"
    "sent_packets (w_sent (example_world [])) = []" "sent_values (w_sent (example_world [])) = []"
    by (simp_all add: iv_ready_def inverter_with_host_def writable_def cfg_read_only_def example_config_def
        example_entry_def example_inverter_def example_world_def)
  obtain s b1 where b1: "bridge_step True example_crc ?eof example_bridge (ActRead 1 (RdData 1 example_bytes)) b1"
      "br_reader b1 = ReaderOn [161] s" "packet_log b1 = [example_hold]" "br_loop b1 = br_loop example_bridge"
      "br_cache b1 = Ok register_cache_new" "br_taken b1 = 0" "br_stored b1 = 0"
    by (rule example_read)
  have run1: "bridge_run True example_crc ?eof example_bridge [ActRead 1 (RdData 1 example_bytes)] b1"
    using run_step[OF run_refl b1(1)] by simp
  have "bridge_inv True example_crc (inv_host example_entry) (run_bytes [ActRead 1 (RdData 1 example_bytes)]) b1"
    by (rule bridge_run_inv[OF run1]) (unfold example_bridge_def, rule bridge_init_inv[OF init])
  moreover have "loop_runs b1" "setter_runs b1"
    using b1(4,5) by (simp_all add: loop_runs_def setter_runs_def example_bridge_def bridge_init_def register_cache_new_def)
  ultimately have wr: "writable (br_config b1)" by (simp add: bridge_inv_def in_step_def)
  obtain co b2 where b2: "bridge_step True example_crc ?eof b1 (ActPacket example_env) b2" "br_loop b2 = Continue co"
      "cache_log b2 = [(21, 128)]" "br_reader b2 = br_reader b1" "br_cache b2 = br_cache b1" "br_stored b2 = br_stored b1"
    by (rule example_packet[OF b1(3,4,6) wr])
  let ?c = "register_cache_new\<lparr> rc_data := (rc_data register_cache_new)[21 := 128] \<rparr>"
  let ?b3 = "b2\<lparr> br_cache := cache_step (OnWrite (RegisterData 21 128)) register_cache_new, br_stored := br_stored b2 + 1 \<rparr>"
  have cache: "br_cache ?b3 = Ok ?c" by (simp add: register_cache_new_def REGISTER_COUNT_def)
  have step3: "bridge_step True example_crc ?eof b2 ActStore ?b3"
    by (rule step_store) (use b2 b1 in \<open>simp_all add: register_cache_new_def\<close>)
  let ?acts = "[ActRead 1 (RdData 1 example_bytes), ActPacket example_env, ActStore]"
  have run: "bridge_run True example_crc ?eof example_bridge ?acts ?b3"
    using run_step[OF run_step[OF run1 b2(1)] step3] by simp
  have log: "cache_log ?b3 = [(21, 128)]" "br_stored ?b3 = 1" using b2(3,6) b1(7) by (simp_all add: cache_log_def)
  have "cache_get (br_cache ?b3) 21 = Ok 128"
    using cache_follows_stream[OF init run[unfolded example_bridge_def], of "[161]" s co ?c] b1 b2 cache log
    by (auto simp: Let_def register_cache_new_def)
  moreover have "run_bytes ?acts = example_bytes" by (simp add: run_bytes_def received_bytes_def)
  ultimately show ?thesis using run by blast
qed

theorem shared_configuration_witness:
  "\<exists>b. bridge_run True example_crc (\<lambda>_. ([], Ok ())) example_bridge [ActRead 1 (RdData 1 example_bytes)] b \<and>
     iv_ready (br_config b) ''h''"
proof -
  obtain s b where b: "bridge_step True example_crc (\<lambda>_. ([], Ok ())) example_bridge (ActRead 1 (RdData 1 example_bytes)) b"
    by (rule example_read)
  have run: "bridge_run True example_crc (\<lambda>_. ([], Ok ())) example_bridge [ActRead 1 (RdData 1 example_bytes)] b"
    using run_step[OF run_refl b] by simp
  have "iv_ready (example_config [example_entry]) ''h''"
    by (simp add: iv_ready_def inverter_with_host_def example_config_def example_entry_def example_inverter_def)
  then show ?thesis
    using shared_configuration[OF run[unfolded example_bridge_def], of "''h''"] run by auto
qed

end
