(* ===== verification/Startup.thy ===== *)
theory Startup
  imports Inverter_Properties Coordinator_Properties Influx Mqtt_Client Datalog_Writer
begin

text \<open>
  How the bridge starts and stops (\<^verbatim>\<open>Coordinator::start\<close>, \<^verbatim>\<open>Coordinator::app\<close> and \<^verbatim>\<open>Components::stop\<close> in
  \<^verbatim>\<open>coordinator/mod.rs\<close>, once more in \<^verbatim>\<open>lib.rs\<close>): the tasks in the order in which they are spawned, the failures that end the start,
  and the connection to each inverter before the main loop.
\<close>

section \<open>The components\<close>

datatype bridge_task =
    TaskRegisterCache
  | TaskDatalogWriter string
  | TaskMqtt
  | TaskDatabase database_config
  | TaskTimer config_inverter

text \<open>
  The results of the surroundings: the file system for the datalog file, the environment variable that skips the MQTT
  broker, the URL and the connection test of InfluxDB, and the attempts to connect to the inverter
  with a given number (whether the socket opened, and who listened then).
\<close>

record start_env =
  se_files :: file_ops
  se_skip_broker :: bool
  se_influx_url :: "unit outcome"
  se_influx_test :: "unit outcome"
  se_attempts :: "nat \<Rightarrow> (socket_results \<times> (nat \<Rightarrow> bool)) list"

definition start_datalog :: "start_env \<Rightarrow> config \<Rightarrow> bridge_task list outcome" where
  "start_datalog V c =
     (case cfg_datalog_file c of
        Some path \<Rightarrow> obind (datalog_new (se_files V) path) (\<lambda>_. Ok [TaskDatalogWriter path])
      | None \<Rightarrow> Ok [])"

definition start_mqtt :: "start_env \<Rightarrow> config \<Rightarrow> bridge_task list" where
  "start_mqtt V c = (if mq_enabled (cfg_mqtt c) \<and> \<not> se_skip_broker V then [TaskMqtt] else [])"

text \<open>The checks of the channels: a channel is closed when it has no sender left.\<close>

definition check_subscribers :: "coordinator \<Rightarrow> unit outcome" where
  "check_subscribers s =
     (let c = co_config s; is_closed = (\<lambda>ch. ch \<in> set (w_dropped (co_world s)))
      in if cfg_datalog_file c \<noteq> None \<and> is_closed ChanFromInverter then Err ''Datalog writer channel is closed''
         else if ifx_enabled (cfg_influx c) \<and> is_closed ChanInflux then Err ''InfluxDB channel is closed''
         else if mq_enabled (cfg_mqtt c) \<and> is_closed ChanMqtt then Err ''MQTT channel is closed''
         else if co_databases s \<noteq> [] \<and> is_closed ChanDatabase then Err ''Database channel is closed''
         else Ok ())"

definition start_components :: "start_env \<Rightarrow> coordinator \<Rightarrow> bridge_task list \<times> unit handled" where
  "start_components V s =
     (let c = co_config s
      in case start_datalog V c of
           Err e \<Rightarrow> ([TaskRegisterCache], Err e, s)
         | Panic \<Rightarrow> ([TaskRegisterCache], Panic, s)
         | Ok writer \<Rightarrow>
             let tasks = TaskRegisterCache # writer @ start_mqtt V c
             in case start_influx (obind (influx_start c (se_influx_url V) (se_influx_test V)) (\<lambda>_. Ok ())) s of
                  Err e \<Rightarrow> (tasks, Err e, s)
                | Panic \<Rightarrow> (tasks, Panic, s)
                | Ok s \<Rightarrow>
                    let s = start_databases s
                    in (tasks @ map TaskDatabase (co_databases s), check_subscribers s, s))"

section \<open>The inverters\<close>

datatype inverters_result = AllStarted "inverter list" | StillConnecting "inverter list" | StartPanic "inverter list"

text \<open>One after the other; \<open>start\<close> of an inverter returns only when it is connected.\<close>

fun start_inverters :: "(nat \<Rightarrow> (socket_results \<times> (nat \<Rightarrow> bool)) list) \<Rightarrow> nat \<Rightarrow> inverter list \<Rightarrow> inverter list \<Rightarrow>
    inverters_result" where
  "start_inverters attempts n [] started = AllStarted started"
| "start_inverters attempts n (i # is) started =
     (case start_attempts (attempts n) i of
        (Some (_, Panic), i') \<Rightarrow> StartPanic started
      | (Some _, i') \<Rightarrow> start_inverters attempts (n + 1) is (started @ [i'])
      | (None, i') \<Rightarrow> StillConnecting started)"

section \<open>Start, application and stop\<close>

text \<open>The start ends with a result, is still connecting, or runs the main loop, over the given events.\<close>

datatype start_result =
    StartEnd "unit outcome" coordinator
  | Connecting "inverter list" coordinator
  | MainLoop "inverter list" loop_result

definition coordinator_start :: "start_env \<Rightarrow> (bridge_env \<times> loop_event) list \<Rightarrow> coordinator \<Rightarrow>
    bridge_task list \<times> start_result" where
  "coordinator_start V evs s =
     (case start_components V s of
        (tasks, Ok _, s) \<Rightarrow>
          let is = enabled_inverters (co_config s);
              inverters = map (\<lambda>i. inverter_new (co_config s) i (co_world s)) is
          in (tasks @ map TaskTimer is,
              case start_inverters (se_attempts V) 0 inverters [] of
                AllStarted started \<Rightarrow> MainLoop started (main_loop evs s)
              | StillConnecting started \<Rightarrow> Connecting started s
              | StartPanic started \<Rightarrow> StartEnd Panic s)
      | (tasks, r, s) \<Rightarrow> (tasks, StartEnd r s))"

definition app :: "start_env \<Rightarrow> (bridge_env \<times> loop_event) list \<Rightarrow> config \<Rightarrow> world \<Rightarrow> bridge_task list \<times> start_result" where
  "app V evs c w = coordinator_start V evs (coordinator_new c w)"

text \<open>
  All components; the datalog writer has nothing to stop. The databases are stopped through the one
  channel that they share.
\<close>

record components =
  cs_coordinator :: coordinator
  cs_influx :: bool
  cs_mqtt :: bool
  cs_databases :: "database_config list"

definition stop_shutdown :: "channel \<Rightarrow> coordinator \<Rightarrow> coordinator" where
  "stop_shutdown ch s = snd (co_send (SendShutdown ch) ''SendError'' s)"

definition components_stop :: "components \<Rightarrow> components" where
  "components_stop x =
     (let s = snd (coordinator_stop (cs_coordinator x));
          s = (if cs_influx x then stop_shutdown ChanInflux s else s);
          s = (if cs_mqtt x then s\<lparr> co_world := mqtt_stop (co_world s) \<rparr> else s);
          s = fold (\<lambda>_. stop_shutdown ChanDatabase) (cs_databases x) s
      in x\<lparr> cs_coordinator := s \<rparr>)"

text \<open>\<^verbatim>\<open>lib.rs\<close> has the same struct with the same \<^verbatim>\<open>stop\<close> once more.\<close>

definition lib_components_stop :: "components \<Rightarrow> components" where
  "lib_components_stop x =
     (let s = snd (coordinator_stop (cs_coordinator x));
          s = (if cs_influx x then stop_shutdown ChanInflux s else s);
          s = (if cs_mqtt x then s\<lparr> co_world := mqtt_stop (co_world s) \<rparr> else s);
          s = fold (\<lambda>_. stop_shutdown ChanDatabase) (cs_databases x) s
      in x\<lparr> cs_coordinator := s \<rparr>)"

section \<open>The inverters come first\<close>

lemma oexpect_not_Err [simp]: "oexpect x \<noteq> Err e"
  by (cases x) simp_all

text \<open>One of the attempts opened the socket.\<close>

definition reached :: "(socket_results \<times> (nat \<Rightarrow> bool)) list \<Rightarrow> bool" where
  "reached attempts \<longleftrightarrow> list_ex (\<lambda>(R, _). opened R) attempts"

lemma start_attempts_reached:
  assumes "start_attempts attempts s = (r, s')"
  shows "case r of Some (_, Panic) \<Rightarrow> True | Some (_, Err e) \<Rightarrow> False | Some (_, Ok _) \<Rightarrow> reached attempts
    | None \<Rightarrow> \<not> reached attempts"
  using assms
proof (induction attempts arbitrary: s r s')
  case Nil
  then show ?case by (auto simp: reached_def)
next
  case (Cons a attempts)
  obtain tcp heard where a: "a = (tcp, heard)" by (cases a)
  obtain x s1 where c: "connect tcp heard s = (x, s1)" by (cases "connect tcp heard s")
  show ?case
  proof (cases x)
    case (Ok u)
    then show ?thesis using Cons.prems connect_cases(1)[of tcp heard s] by (auto simp: a c reached_def)
  next
    case (Err e)
    let ?s = "s1\<lparr> iv_world := (iv_world s1)\<lparr> w_now := w_now (iv_world s1) + 1000 * RECONNECT_DELAY_SECS \<rparr> \<rparr>"
    obtain r1 s2 where rest: "start_attempts attempts ?s = (r1, s2)" by (cases "start_attempts attempts ?s")
    have "\<not> opened tcp" using connect_cases(2)[of tcp heard s e] c Err by simp
    then have more: "reached (a # attempts) = reached attempts" by (simp add: a reached_def)
    have r: "r = map_option (\<lambda>(n, y). (Suc n, y)) r1"
      using Cons.prems by (auto simp: a c Err rest split: option.splits)
    show ?thesis using Cons.IH[OF rest] unfolding more r by (auto split: option.splits outcome.splits)
  next
    case Panic
    then show ?thesis using Cons.prems by (auto simp: a c)
  qed
qed

lemma start_inverters_reached:
  "case start_inverters attempts n xs started of
     AllStarted started' \<Rightarrow> length started' = length started + length xs \<and>
       (\<forall>k < length xs. reached (attempts (n + k)))
   | StillConnecting started' \<Rightarrow> (\<exists>k < length xs. length started' = length started + k \<and>
       (\<forall>j < k. reached (attempts (n + j))) \<and> \<not> reached (attempts (n + k)))
   | StartPanic _ \<Rightarrow> True"
proof (induction xs arbitrary: n started)
  case (Cons i xs)
  obtain r i' where a: "start_attempts (attempts n) i = (r, i')" by (cases "start_attempts (attempts n) i")
  note reach = start_attempts_reached[OF a]
  note IH = Cons.IH[where n = "n + 1" and started = "started @ [i']"]
  show ?case
  proof (cases r)
    case None
    then show ?thesis using reach by (auto simp: a intro!: exI[of _ 0])
  next
    case (Some p)
    obtain m x where p: "p = (m, x)" by (cases p)
    show ?thesis
    proof (cases x)
      case (Ok u)
      have now: "reached (attempts n)" using reach by (simp add: Some p Ok)
      have all: "(\<forall>j < Suc k. reached (attempts (n + j)))" if "\<forall>j < k. reached (attempts (n + 1 + j))" for k
        using now that by (auto simp: less_Suc_eq_0_disj)
      show ?thesis
      proof (cases "start_inverters attempts (n + 1) xs (started @ [i'])")
        case (AllStarted st)
        have "length st = length (started @ [i']) + length xs" "\<forall>k < length xs. reached (attempts (n + 1 + k))"
          using IH unfolding AllStarted by simp_all
        then show ?thesis using AllStarted a all[of "length xs"] by (simp add: Some p Ok)
      next
        case (StillConnecting st)
        obtain k where k: "k < length xs" "length st = length (started @ [i']) + k"
            "\<forall>j < k. reached (attempts (n + 1 + j))" "\<not> reached (attempts (n + 1 + k))"
          using IH unfolding StillConnecting by auto
        then show ?thesis
          using StillConnecting a all[OF k(3)] by (auto simp: Some p Ok intro!: exI[of _ "Suc k"])
      next
        case (StartPanic st)
        then show ?thesis using a by (simp add: Some p Ok)
      qed
    qed (use reach in \<open>auto simp: a Some p\<close>)
  qed
qed simp

lemma start_components_Ok:
  assumes "start_components V (coordinator_new c w) = (tasks, Ok u, s)"
  shows "s = (start_databases (coordinator_new c w))\<lparr> co_influx := ifx_enabled (cfg_influx c) \<rparr>"
  using assms
  by (auto simp: start_components_def Let_def start_influx_def start_databases_def coordinator_new_def
      split: outcome.splits if_splits)

text \<open>
  C25: the main loop runs only when every enabled inverter has been connected, one after the other. An
  inverter whose attempts all fail keeps the coordinator waiting: the inverters before it are
  connected, those behind it are not tried, and no packet and no command is handled. When the loop
  runs, it starts with empty statistics, the enabled databases, and InfluxDB if it is enabled.
\<close>

theorem startup_connects_all_first:
  "let s = (start_databases (coordinator_new c w))\<lparr> co_influx := ifx_enabled (cfg_influx c) \<rparr>;
       n = length (enabled_inverters c)
   in case snd (app V evs c w) of
        MainLoop started l \<Rightarrow> l = main_loop evs s \<and> length started = n \<and>
          list_all (\<lambda>k. reached (se_attempts V k)) [0..<n]
      | Connecting started s' \<Rightarrow> s' = s \<and> length started < n \<and>
          list_all (\<lambda>k. reached (se_attempts V k)) [0..<length started] \<and>
          \<not> reached (se_attempts V (length started))
      | StartEnd r _ \<Rightarrow> r \<noteq> Ok ()"
proof (cases "start_components V (coordinator_new c w)")
  case (fields tasks r s)
  show ?thesis
  proof (cases r)
    case (Ok u)
    note s = start_components_Ok[OF fields[unfolded Ok]]
    have conf: "co_config s = c" by (simp add: s start_databases_def coordinator_new_def)
    note reach = start_inverters_reached[where attempts = "se_attempts V" and n = 0 and started = "[]" and xs =
        "map (\<lambda>i. inverter_new c i (co_world s)) (enabled_inverters c)"]
    show ?thesis
      using reach
      by (cases "start_inverters (se_attempts V) 0 (map (\<lambda>i. inverter_new c i (co_world s)) (enabled_inverters c)) []")
        (auto simp: app_def coordinator_start_def fields Ok Let_def conf list_all_iff simp flip: s)
  qed (simp_all add: app_def coordinator_start_def fields Let_def)
qed

end
