(* ===== verification/Config_File.thy ===== *)
theory Config_File
  imports Config
begin

text \<open>
  Loading the configuration file (\<^verbatim>\<open>Config::new\<close> in \<^verbatim>\<open>config.rs\<close>): the fields of each struct as its
  attributes for \<^verbatim>\<open>serde\<close> state them (required, optional, with a default, read by \<^verbatim>\<open>de_serial\<close>), the
  defaults, and the validation that follows. The YAML library is a parameter: the document it makes
  of a text, and how it reads a scalar as a string, a truth value or a number. Keys of mappings are
  strings.
\<close>

section \<open>Documents\<close>

record scalar =
  sc_plain :: bool
  sc_text :: string

datatype node = Scalar scalar | Sequence "node list" | Mapping "(string \<times> node) list"

record yaml_lib =
  y_parse :: "string \<Rightarrow> node outcome"
  y_string :: "scalar \<Rightarrow> string outcome"
  y_bool :: "scalar \<Rightarrow> bool outcome"
  y_u16 :: "scalar \<Rightarrow> u16 outcome"
  y_u64 :: "scalar \<Rightarrow> nat outcome"
  y_null :: "scalar \<Rightarrow> bool"
  y_empty :: "scalar \<Rightarrow> bool"

type_synonym 'a reader = "node \<Rightarrow> 'a outcome"

definition read_scalar :: "(scalar \<Rightarrow> 'a outcome) \<Rightarrow> 'a reader" where
  "read_scalar f n = (case n of Scalar s \<Rightarrow> f s | _ \<Rightarrow> Err ''invalid type'')"

text \<open>\<^verbatim>\<open>Option\<close>: a null is \<^verbatim>\<open>None\<close>.\<close>

definition read_option :: "yaml_lib \<Rightarrow> 'a reader \<Rightarrow> 'a option reader" where
  "read_option Y rd n =
     (case n of
        Scalar s \<Rightarrow> if y_null Y s then Ok None else obind (rd n) (\<lambda>a. Ok (Some a))
      | _ \<Rightarrow> obind (rd n) (\<lambda>a. Ok (Some a)))"

definition read_vec :: "yaml_lib \<Rightarrow> 'a reader \<Rightarrow> 'a list reader" where
  "read_vec Y rd n =
     (case n of
        Sequence ns \<Rightarrow> omap rd ns
      | Scalar s \<Rightarrow> if y_empty Y s then Ok [] else Err ''invalid type''
      | Mapping _ \<Rightarrow> Err ''invalid type'')"

section \<open>Structs\<close>

text \<open>
  What \<^verbatim>\<open>derive(Deserialize)\<close> generates for a struct. The entries of a mapping are visited in the order of
  the document: an unknown key is skipped, a field that comes twice is an error, and so is a value
  that its reader rejects. Then the fields that did not come are filled in, in the order of the
  struct. A sequence gives the fields by position; there a field is left out at the end only, and
  only one that has a default.
\<close>

record struct_source =
  src_named :: bool
  src_entries :: "(string \<times> node) list"

definition checked :: "'a reader \<Rightarrow> unit reader" where
  "checked rd n = obind (rd n) (\<lambda>_. Ok ())"

fun visit_entries :: "(string \<rightharpoonup> unit reader) \<Rightarrow> string list \<Rightarrow> (string \<times> node) list \<Rightarrow> unit outcome" where
  "visit_entries fs seen [] = Ok ()"
| "visit_entries fs seen ((k, n) # es) =
     (case fs k of
        None \<Rightarrow> visit_entries fs seen es
      | Some check \<Rightarrow>
          if k \<in> set seen then Err ''duplicate field''
          else obind (check n) (\<lambda>_. visit_entries fs (k # seen) es))"

definition read_struct :: "yaml_lib \<Rightarrow> (string \<times> unit reader) list \<Rightarrow> (struct_source \<Rightarrow> 'a outcome) \<Rightarrow> 'a reader" where
  "read_struct Y fs build n =
     (case n of
        Mapping es \<Rightarrow>
          obind (visit_entries (map_of fs) [] es) (\<lambda>_. build \<lparr> src_named = True, src_entries = es \<rparr>)
      | Sequence ns \<Rightarrow>
          obind (build \<lparr> src_named = False, src_entries = zip (map fst fs) ns \<rparr>) (\<lambda>a.
            if length ns > length fs then Err ''invalid length'' else Ok a)
      | Scalar s \<Rightarrow>
          if y_empty Y s then build \<lparr> src_named = True, src_entries = [] \<rparr> else Err ''invalid type'')"

definition required :: "'a reader \<Rightarrow> string \<Rightarrow> struct_source \<Rightarrow> 'a outcome" where
  "required rd k s =
     (case map_of (src_entries s) k of
        Some n \<Rightarrow> rd n
      | None \<Rightarrow> Err (if src_named s then ''missing field'' else ''invalid length''))"

definition optional :: "yaml_lib \<Rightarrow> 'a reader \<Rightarrow> string \<Rightarrow> struct_source \<Rightarrow> 'a option outcome" where
  "optional Y rd k s =
     (case map_of (src_entries s) k of
        Some n \<Rightarrow> read_option Y rd n
      | None \<Rightarrow> if src_named s then Ok None else Err ''invalid length'')"

definition defaulted :: "'a \<Rightarrow> 'a reader \<Rightarrow> string \<Rightarrow> struct_source \<Rightarrow> 'a outcome" where
  "defaulted d rd k s = (case map_of (src_entries s) k of Some n \<Rightarrow> rd n | None \<Rightarrow> Ok d)"

section \<open>Defaults\<close>

definition default_enabled :: bool where "default_enabled = True"

definition default_mqtt_port :: u16 where "default_mqtt_port = 1883"

definition default_mqtt_namespace :: string where "default_mqtt_namespace = ''lxp''"

definition default_mqtt_homeassistant_prefix :: string where
  "default_mqtt_homeassistant_prefix = ''homeassistant''"

definition default_mqtt_homeassistant :: homeassistant_config where
  "default_mqtt_homeassistant =
     \<lparr> ha_enabled = default_enabled, ha_prefix = default_mqtt_homeassistant_prefix \<rparr>"

definition default_loglevel :: string where "default_loglevel = ''info''"

definition default_homeassistant_enabled :: bool where "default_homeassistant_enabled = False"

definition default_strict_data_check :: bool where "default_strict_data_check = False"

definition default_verbose :: bool where "default_verbose = False"

definition default_human_timestamps :: bool where "default_human_timestamps = False"

definition default_show_unknown :: bool where "default_show_unknown = False"

definition default_register_read_interval :: nat where "default_register_read_interval = 60"

definition default_inverter_timeout :: nat where "default_inverter_timeout = 300"

lemmas default_defs = default_enabled_def default_mqtt_port_def default_mqtt_namespace_def
  default_mqtt_homeassistant_prefix_def default_mqtt_homeassistant_def default_loglevel_def
  default_homeassistant_enabled_def default_strict_data_check_def default_verbose_def
  default_human_timestamps_def default_show_unknown_def default_register_read_interval_def
  default_inverter_timeout_def

section \<open>The structs of the configuration\<close>

text \<open>\<^verbatim>\<open>de_serial\<close> reads a string first; a field with \<^verbatim>\<open>deserialize_with\<close> and no default must be there.\<close>

definition read_serial :: "yaml_lib \<Rightarrow> serial option reader" where
  "read_serial Y n = obind (read_scalar (y_string Y) n) de_serial"

definition inverter_fields :: "yaml_lib \<Rightarrow> (string \<times> unit reader) list" where
  "inverter_fields Y =
     [(''enabled'', checked (read_scalar (y_bool Y))),
      (''host'', checked (read_scalar (y_string Y))),
      (''port'', checked (read_scalar (y_u16 Y))),
      (''serial'', checked (read_serial Y)),
      (''datalog'', checked (read_serial Y)),
      (''heartbeats'', checked (read_option Y (read_scalar (y_bool Y)))),
      (''publish_holdings_on_connect'', checked (read_option Y (read_scalar (y_bool Y)))),
      (''read_timeout'', checked (read_option Y (read_scalar (y_u64 Y)))),
      (''use_tcp_nodelay'', checked (read_option Y (read_scalar (y_bool Y)))),
      (''register_block_size'', checked (read_option Y (read_scalar (y_u16 Y)))),
      (''delay_ms'', checked (read_option Y (read_scalar (y_u64 Y)))),
      (''read_only'', checked (read_option Y (read_scalar (y_bool Y)))),
      (''register_read_interval'', checked (read_option Y (read_scalar (y_u64 Y))))]"

definition read_inverter :: "yaml_lib \<Rightarrow> config_inverter reader" where
  "read_inverter Y = read_struct Y (inverter_fields Y) (\<lambda>s.
     obind (defaulted default_enabled (read_scalar (y_bool Y)) ''enabled'' s) (\<lambda>enabled.
     obind (required (read_scalar (y_string Y)) ''host'' s) (\<lambda>host.
     obind (required (read_scalar (y_u16 Y)) ''port'' s) (\<lambda>port.
     obind (required (read_serial Y) ''serial'' s) (\<lambda>serial.
     obind (required (read_serial Y) ''datalog'' s) (\<lambda>datalog.
     obind (optional Y (read_scalar (y_bool Y)) ''heartbeats'' s) (\<lambda>heartbeats.
     obind (optional Y (read_scalar (y_bool Y)) ''publish_holdings_on_connect'' s) (\<lambda>holdings.
     obind (optional Y (read_scalar (y_u64 Y)) ''read_timeout'' s) (\<lambda>read_timeout.
     obind (optional Y (read_scalar (y_bool Y)) ''use_tcp_nodelay'' s) (\<lambda>nodelay.
     obind (optional Y (read_scalar (y_u16 Y)) ''register_block_size'' s) (\<lambda>block_size.
     obind (optional Y (read_scalar (y_u64 Y)) ''delay_ms'' s) (\<lambda>delay_ms.
     obind (optional Y (read_scalar (y_bool Y)) ''read_only'' s) (\<lambda>read_only.
     obind (optional Y (read_scalar (y_u64 Y)) ''register_read_interval'' s) (\<lambda>interval.
       Ok \<lparr> inv_enabled = enabled, inv_host = host, inv_port = port, inv_serial = serial, inv_datalog = datalog,
            inv_heartbeats = heartbeats, inv_publish_holdings_on_connect = holdings,
            inv_read_timeout = read_timeout, inv_use_tcp_nodelay = nodelay,
            inv_register_block_size = block_size, inv_delay_ms = delay_ms, inv_read_only = read_only,
            inv_register_read_interval = interval \<rparr>))))))))))))))"

definition homeassistant_fields :: "yaml_lib \<Rightarrow> (string \<times> unit reader) list" where
  "homeassistant_fields Y =
     [(''enabled'', checked (read_scalar (y_bool Y))), (''prefix'', checked (read_scalar (y_string Y)))]"

definition read_homeassistant :: "yaml_lib \<Rightarrow> homeassistant_config reader" where
  "read_homeassistant Y = read_struct Y (homeassistant_fields Y) (\<lambda>s.
     obind (defaulted default_enabled (read_scalar (y_bool Y)) ''enabled'' s) (\<lambda>enabled.
     obind (defaulted default_mqtt_homeassistant_prefix (read_scalar (y_string Y)) ''prefix'' s) (\<lambda>prefix.
       Ok \<lparr> ha_enabled = enabled, ha_prefix = prefix \<rparr>)))"

definition mqtt_fields :: "yaml_lib \<Rightarrow> (string \<times> unit reader) list" where
  "mqtt_fields Y =
     [(''enabled'', checked (read_scalar (y_bool Y))),
      (''host'', checked (read_scalar (y_string Y))),
      (''port'', checked (read_scalar (y_u16 Y))),
      (''username'', checked (read_option Y (read_scalar (y_string Y)))),
      (''password'', checked (read_option Y (read_scalar (y_string Y)))),
      (''namespace'', checked (read_scalar (y_string Y))),
      (''homeassistant'', checked (read_homeassistant Y)),
      (''publish_individual_input'', checked (read_option Y (read_scalar (y_bool Y))))]"

definition read_mqtt :: "yaml_lib \<Rightarrow> mqtt_config reader" where
  "read_mqtt Y = read_struct Y (mqtt_fields Y) (\<lambda>s.
     obind (defaulted default_enabled (read_scalar (y_bool Y)) ''enabled'' s) (\<lambda>enabled.
     obind (required (read_scalar (y_string Y)) ''host'' s) (\<lambda>host.
     obind (defaulted default_mqtt_port (read_scalar (y_u16 Y)) ''port'' s) (\<lambda>port.
     obind (optional Y (read_scalar (y_string Y)) ''username'' s) (\<lambda>username.
     obind (optional Y (read_scalar (y_string Y)) ''password'' s) (\<lambda>password.
     obind (defaulted default_mqtt_namespace (read_scalar (y_string Y)) ''namespace'' s) (\<lambda>namespace.
     obind (defaulted default_mqtt_homeassistant (read_homeassistant Y) ''homeassistant'' s) (\<lambda>homeassistant.
     obind (optional Y (read_scalar (y_bool Y)) ''publish_individual_input'' s) (\<lambda>individual.
       Ok \<lparr> mq_enabled = enabled, mq_host = host, mq_port = port, mq_username = username,
            mq_password = password, mq_namespace = namespace, mq_homeassistant = homeassistant,
            mq_publish_individual_input = individual \<rparr>)))))))))"

definition influx_fields :: "yaml_lib \<Rightarrow> (string \<times> unit reader) list" where
  "influx_fields Y =
     [(''enabled'', checked (read_scalar (y_bool Y))),
      (''url'', checked (read_scalar (y_string Y))),
      (''username'', checked (read_option Y (read_scalar (y_string Y)))),
      (''password'', checked (read_option Y (read_scalar (y_string Y)))),
      (''database'', checked (read_scalar (y_string Y)))]"

definition read_influx :: "yaml_lib \<Rightarrow> influx_config reader" where
  "read_influx Y = read_struct Y (influx_fields Y) (\<lambda>s.
     obind (defaulted default_enabled (read_scalar (y_bool Y)) ''enabled'' s) (\<lambda>enabled.
     obind (required (read_scalar (y_string Y)) ''url'' s) (\<lambda>url.
     obind (optional Y (read_scalar (y_string Y)) ''username'' s) (\<lambda>username.
     obind (optional Y (read_scalar (y_string Y)) ''password'' s) (\<lambda>password.
     obind (required (read_scalar (y_string Y)) ''database'' s) (\<lambda>database.
       Ok \<lparr> ifx_enabled = enabled, ifx_url = url, ifx_username = username, ifx_password = password,
            ifx_database = database \<rparr>))))))"

definition database_fields :: "yaml_lib \<Rightarrow> (string \<times> unit reader) list" where
  "database_fields Y =
     [(''enabled'', checked (read_scalar (y_bool Y))), (''url'', checked (read_scalar (y_string Y)))]"

definition read_database :: "yaml_lib \<Rightarrow> database_config reader" where
  "read_database Y = read_struct Y (database_fields Y) (\<lambda>s.
     obind (defaulted default_enabled (read_scalar (y_bool Y)) ''enabled'' s) (\<lambda>enabled.
     obind (required (read_scalar (y_string Y)) ''url'' s) (\<lambda>url.
       Ok \<lparr> db_enabled = enabled, db_url = url \<rparr>)))"

definition scheduler_fields :: "yaml_lib \<Rightarrow> (string \<times> unit reader) list" where
  "scheduler_fields Y =
     [(''enabled'', checked (read_scalar (y_bool Y))),
      (''timesync_cron'', checked (read_option Y (read_scalar (y_string Y))))]"

definition read_scheduler :: "yaml_lib \<Rightarrow> scheduler_config reader" where
  "read_scheduler Y = read_struct Y (scheduler_fields Y) (\<lambda>s.
     obind (defaulted default_enabled (read_scalar (y_bool Y)) ''enabled'' s) (\<lambda>enabled.
     obind (optional Y (read_scalar (y_string Y)) ''timesync_cron'' s) (\<lambda>cron.
       Ok \<lparr> sch_enabled = enabled, sch_timesync_cron = cron \<rparr>)))"

definition config_fields :: "yaml_lib \<Rightarrow> (string \<times> unit reader) list" where
  "config_fields Y =
     [(''inverters'', checked (read_vec Y (read_inverter Y))),
      (''mqtt'', checked (read_mqtt Y)),
      (''influx'', checked (read_influx Y)),
      (''databases'', checked (read_vec Y (read_database Y))),
      (''scheduler'', checked (read_option Y (read_scheduler Y))),
      (''loglevel'', checked (read_scalar (y_string Y))),
      (''read_only'', checked (read_scalar (y_bool Y))),
      (''homeassistant_enabled'', checked (read_scalar (y_bool Y))),
      (''strict_data_check'', checked (read_scalar (y_bool Y))),
      (''datalog_file'', checked (read_option Y (read_scalar (y_string Y)))),
      (''register_file'', checked (read_option Y (read_scalar (y_string Y)))),
      (''register_read_interval'', checked (read_scalar (y_u64 Y))),
      (''verbose'', checked (read_scalar (y_bool Y))),
      (''human_timestamps'', checked (read_scalar (y_bool Y))),
      (''show_unknown'', checked (read_scalar (y_bool Y))),
      (''inverter_timeout'', checked (read_scalar (y_u64 Y)))]"

definition read_config :: "yaml_lib \<Rightarrow> config reader" where
  "read_config Y = read_struct Y (config_fields Y) (\<lambda>s.
     obind (required (read_vec Y (read_inverter Y)) ''inverters'' s) (\<lambda>inverters.
     obind (required (read_mqtt Y) ''mqtt'' s) (\<lambda>mqtt.
     obind (required (read_influx Y) ''influx'' s) (\<lambda>influx.
     obind (defaulted [] (read_vec Y (read_database Y)) ''databases'' s) (\<lambda>databases.
     obind (optional Y (read_scheduler Y) ''scheduler'' s) (\<lambda>scheduler.
     obind (defaulted default_loglevel (read_scalar (y_string Y)) ''loglevel'' s) (\<lambda>loglevel.
     obind (required (read_scalar (y_bool Y)) ''read_only'' s) (\<lambda>read_only.
     obind (defaulted default_homeassistant_enabled (read_scalar (y_bool Y)) ''homeassistant_enabled'' s) (\<lambda>ha.
     obind (defaulted default_strict_data_check (read_scalar (y_bool Y)) ''strict_data_check'' s) (\<lambda>strict.
     obind (optional Y (read_scalar (y_string Y)) ''datalog_file'' s) (\<lambda>datalog_file.
     obind (optional Y (read_scalar (y_string Y)) ''register_file'' s) (\<lambda>register_file.
     obind (defaulted default_register_read_interval (read_scalar (y_u64 Y)) ''register_read_interval'' s) (\<lambda>interval.
     obind (defaulted default_verbose (read_scalar (y_bool Y)) ''verbose'' s) (\<lambda>verbose.
     obind (defaulted default_human_timestamps (read_scalar (y_bool Y)) ''human_timestamps'' s) (\<lambda>timestamps.
     obind (defaulted default_show_unknown (read_scalar (y_bool Y)) ''show_unknown'' s) (\<lambda>show_unknown.
     obind (defaulted default_inverter_timeout (read_scalar (y_u64 Y)) ''inverter_timeout'' s) (\<lambda>timeout.
       Ok \<lparr> cfg_inverters = inverters, cfg_mqtt = mqtt, cfg_influx = influx, cfg_databases = databases,
            cfg_scheduler = scheduler, cfg_loglevel = loglevel, cfg_global_read_only = read_only,
            cfg_homeassistant_enabled = ha, cfg_strict_data_check = strict, cfg_datalog_file = datalog_file,
            cfg_register_file = register_file, cfg_register_read_interval = interval, cfg_verbose = verbose,
            cfg_human_timestamps = timestamps, cfg_show_unknown = show_unknown,
            cfg_inverter_timeout = timeout \<rparr>)))))))))))))))))"

section \<open>Loading\<close>

text \<open>\<open>file\<close> is the result of reading the file with the given name.\<close>

definition config_new :: "yaml_lib \<Rightarrow> (string \<Rightarrow> bool) \<Rightarrow> (string \<Rightarrow> string outcome) \<Rightarrow> string \<Rightarrow> config outcome" where
  "config_new Y url_ok file path =
     obind (case file path of Ok content \<Rightarrow> Ok content | Err e \<Rightarrow> Err ''config.rs:error reading {}: {}'' | Panic \<Rightarrow> Panic)
       (\<lambda>content.
     obind (obind (y_parse Y content) (read_config Y)) (\<lambda>config.
     obind (config_validate url_ok config) (\<lambda>_. Ok config)))"

end
