(* ===== verification/Config_Facts.thy ===== *)
theory Config_Facts
  imports Config_File
begin

text \<open>
  What loading the configuration guarantees: a document that shows a configuration, in any order of
  its keys and with defaults left out, is read as that configuration; keys that must be there; and
  what a validated configuration satisfies.
\<close>

section \<open>Documents that show a value\<close>

text \<open>How a value is written: the scalars that the YAML library reads as it.\<close>

record yaml_text =
  t_string :: "string \<Rightarrow> scalar"
  t_bool :: "bool \<Rightarrow> scalar"
  t_u16 :: "u16 \<Rightarrow> scalar"
  t_u64 :: "nat \<Rightarrow> scalar"
  t_null :: scalar

definition is_text :: "string \<Rightarrow> bool" where
  "is_text s \<longleftrightarrow> utf8_lossy (bytes_of_str s) = bytes_of_str s"

definition yaml_prints :: "yaml_lib \<Rightarrow> yaml_text \<Rightarrow> bool" where
  "yaml_prints Y T \<longleftrightarrow>
     (\<forall>s. is_text s \<longrightarrow> y_string Y (t_string T s) = Ok s \<and> \<not> y_null Y (t_string T s)) \<and>
     (\<forall>b. y_bool Y (t_bool T b) = Ok b \<and> \<not> y_null Y (t_bool T b)) \<and>
     (\<forall>w. y_u16 Y (t_u16 T w) = Ok w \<and> \<not> y_null Y (t_u16 T w)) \<and>
     (\<forall>n. n < 2 ^ 64 \<longrightarrow> y_u64 Y (t_u64 T n) = Ok n \<and> \<not> y_null Y (t_u64 T n)) \<and>
     y_null Y (t_null T)"

definition shows_string :: "yaml_text \<Rightarrow> string \<Rightarrow> node \<Rightarrow> bool" where
  "shows_string T s n \<longleftrightarrow> n = Scalar (t_string T s) \<and> is_text s"

definition shows_bool :: "yaml_text \<Rightarrow> bool \<Rightarrow> node \<Rightarrow> bool" where
  "shows_bool T b n \<longleftrightarrow> n = Scalar (t_bool T b)"

definition shows_u16 :: "yaml_text \<Rightarrow> u16 \<Rightarrow> node \<Rightarrow> bool" where
  "shows_u16 T w n \<longleftrightarrow> n = Scalar (t_u16 T w)"

definition shows_u64 :: "yaml_text \<Rightarrow> nat \<Rightarrow> node \<Rightarrow> bool" where
  "shows_u64 T k n \<longleftrightarrow> n = Scalar (t_u64 T k) \<and> k < 2 ^ 64"

fun serial_text :: "serial option \<Rightarrow> string" where
  "serial_text None = []"
| "serial_text (Some s) = str_of_bytes (serial_data s)"

definition shows_serial :: "yaml_text \<Rightarrow> serial option \<Rightarrow> node \<Rightarrow> bool" where
  "shows_serial T s n \<longleftrightarrow> shows_string T (serial_text s) n \<and> pred_option serial_wf s"

definition shows_list :: "('a \<Rightarrow> node \<Rightarrow> bool) \<Rightarrow> 'a list \<Rightarrow> node \<Rightarrow> bool" where
  "shows_list P vs n \<longleftrightarrow> (case n of Sequence ns \<Rightarrow> list_all2 P vs ns | _ \<Rightarrow> False)"

text \<open>A field that must be there, one that may be left out or null, and one with a default.\<close>

definition has_field :: "(string \<times> node) list \<Rightarrow> string \<Rightarrow> (node \<Rightarrow> bool) \<Rightarrow> bool" where
  "has_field es k P \<longleftrightarrow> (case map_of es k of Some n \<Rightarrow> P n | None \<Rightarrow> False)"

definition may_have :: "yaml_text \<Rightarrow> (string \<times> node) list \<Rightarrow> string \<Rightarrow> ('a \<Rightarrow> node \<Rightarrow> bool) \<Rightarrow> 'a option \<Rightarrow> bool" where
  "may_have T es k P v \<longleftrightarrow>
     (case map_of es k of
        None \<Rightarrow> v = None
      | Some n \<Rightarrow> (case v of None \<Rightarrow> n = Scalar (t_null T) | Some a \<Rightarrow> P a n))"

definition has_unless :: "(string \<times> node) list \<Rightarrow> string \<Rightarrow> ('a \<Rightarrow> node \<Rightarrow> bool) \<Rightarrow> 'a \<Rightarrow> 'a \<Rightarrow> bool" where
  "has_unless es k P d v \<longleftrightarrow> (case map_of es k of Some n \<Rightarrow> P v n | None \<Rightarrow> v = d)"

text \<open>A mapping with different keys and the given fields; other keys are of no matter.\<close>

definition shows_struct :: "((string \<times> node) list \<Rightarrow> 'a \<Rightarrow> bool) \<Rightarrow> 'a \<Rightarrow> node \<Rightarrow> bool" where
  "shows_struct fs v n \<longleftrightarrow> (case n of Mapping es \<Rightarrow> distinct (map fst es) \<and> fs es v | _ \<Rightarrow> False)"

definition inverter_entries :: "yaml_text \<Rightarrow> (string \<times> node) list \<Rightarrow> config_inverter \<Rightarrow> bool" where
  "inverter_entries T es i \<longleftrightarrow>
     has_unless es ''enabled'' (shows_bool T) True (inv_enabled i) \<and>
     has_field es ''host'' (shows_string T (inv_host i)) \<and>
     has_field es ''port'' (shows_u16 T (inv_port i)) \<and>
     has_field es ''serial'' (shows_serial T (inv_serial i)) \<and>
     has_field es ''datalog'' (shows_serial T (inv_datalog i)) \<and>
     may_have T es ''heartbeats'' (shows_bool T) (inv_heartbeats i) \<and>
     may_have T es ''publish_holdings_on_connect'' (shows_bool T) (inv_publish_holdings_on_connect i) \<and>
     may_have T es ''read_timeout'' (shows_u64 T) (inv_read_timeout i) \<and>
     may_have T es ''use_tcp_nodelay'' (shows_bool T) (inv_use_tcp_nodelay i) \<and>
     may_have T es ''register_block_size'' (shows_u16 T) (inv_register_block_size i) \<and>
     may_have T es ''delay_ms'' (shows_u64 T) (inv_delay_ms i) \<and>
     may_have T es ''read_only'' (shows_bool T) (inv_read_only i) \<and>
     may_have T es ''register_read_interval'' (shows_u64 T) (inv_register_read_interval i)"

definition homeassistant_entries :: "yaml_text \<Rightarrow> (string \<times> node) list \<Rightarrow> homeassistant_config \<Rightarrow> bool" where
  "homeassistant_entries T es h \<longleftrightarrow>
     has_unless es ''enabled'' (shows_bool T) True (ha_enabled h) \<and>
     has_unless es ''prefix'' (shows_string T) ''homeassistant'' (ha_prefix h)"

definition mqtt_entries :: "yaml_text \<Rightarrow> (string \<times> node) list \<Rightarrow> mqtt_config \<Rightarrow> bool" where
  "mqtt_entries T es m \<longleftrightarrow>
     has_unless es ''enabled'' (shows_bool T) True (mq_enabled m) \<and>
     has_field es ''host'' (shows_string T (mq_host m)) \<and>
     has_unless es ''port'' (shows_u16 T) 1883 (mq_port m) \<and>
     may_have T es ''username'' (shows_string T) (mq_username m) \<and>
     may_have T es ''password'' (shows_string T) (mq_password m) \<and>
     has_unless es ''namespace'' (shows_string T) ''lxp'' (mq_namespace m) \<and>
     has_unless es ''homeassistant'' (shows_struct (homeassistant_entries T))
       \<lparr> ha_enabled = True, ha_prefix = ''homeassistant'' \<rparr> (mq_homeassistant m) \<and>
     may_have T es ''publish_individual_input'' (shows_bool T) (mq_publish_individual_input m)"

definition influx_entries :: "yaml_text \<Rightarrow> (string \<times> node) list \<Rightarrow> influx_config \<Rightarrow> bool" where
  "influx_entries T es x \<longleftrightarrow>
     has_unless es ''enabled'' (shows_bool T) True (ifx_enabled x) \<and>
     has_field es ''url'' (shows_string T (ifx_url x)) \<and>
     may_have T es ''username'' (shows_string T) (ifx_username x) \<and>
     may_have T es ''password'' (shows_string T) (ifx_password x) \<and>
     has_field es ''database'' (shows_string T (ifx_database x))"

definition database_entries :: "yaml_text \<Rightarrow> (string \<times> node) list \<Rightarrow> database_config \<Rightarrow> bool" where
  "database_entries T es d \<longleftrightarrow>
     has_unless es ''enabled'' (shows_bool T) True (db_enabled d) \<and>
     has_field es ''url'' (shows_string T (db_url d))"

definition scheduler_entries :: "yaml_text \<Rightarrow> (string \<times> node) list \<Rightarrow> scheduler_config \<Rightarrow> bool" where
  "scheduler_entries T es s \<longleftrightarrow>
     has_unless es ''enabled'' (shows_bool T) True (sch_enabled s) \<and>
     may_have T es ''timesync_cron'' (shows_string T) (sch_timesync_cron s)"

definition config_entries :: "yaml_text \<Rightarrow> (string \<times> node) list \<Rightarrow> config \<Rightarrow> bool" where
  "config_entries T es c \<longleftrightarrow>
     has_field es ''inverters'' (shows_list (shows_struct (inverter_entries T)) (cfg_inverters c)) \<and>
     has_field es ''mqtt'' (shows_struct (mqtt_entries T) (cfg_mqtt c)) \<and>
     has_field es ''influx'' (shows_struct (influx_entries T) (cfg_influx c)) \<and>
     has_unless es ''databases'' (shows_list (shows_struct (database_entries T))) [] (cfg_databases c) \<and>
     may_have T es ''scheduler'' (shows_struct (scheduler_entries T)) (cfg_scheduler c) \<and>
     has_unless es ''loglevel'' (shows_string T) ''info'' (cfg_loglevel c) \<and>
     has_field es ''read_only'' (shows_bool T (cfg_global_read_only c)) \<and>
     has_unless es ''homeassistant_enabled'' (shows_bool T) False (cfg_homeassistant_enabled c) \<and>
     has_unless es ''strict_data_check'' (shows_bool T) False (cfg_strict_data_check c) \<and>
     may_have T es ''datalog_file'' (shows_string T) (cfg_datalog_file c) \<and>
     may_have T es ''register_file'' (shows_string T) (cfg_register_file c) \<and>
     has_unless es ''register_read_interval'' (shows_u64 T) 60 (cfg_register_read_interval c) \<and>
     has_unless es ''verbose'' (shows_bool T) False (cfg_verbose c) \<and>
     has_unless es ''human_timestamps'' (shows_bool T) False (cfg_human_timestamps c) \<and>
     has_unless es ''show_unknown'' (shows_bool T) False (cfg_show_unknown c) \<and>
     has_unless es ''inverter_timeout'' (shows_u64 T) 300 (cfg_inverter_timeout c)"

section \<open>Readers read what is shown\<close>

definition reads_shown :: "yaml_lib \<Rightarrow> 'a reader \<Rightarrow> ('a \<Rightarrow> node \<Rightarrow> bool) \<Rightarrow> bool" where
  "reads_shown Y rd P \<longleftrightarrow>
     (\<forall>v n. P v n \<longrightarrow> rd n = Ok v \<and> (case n of Scalar s \<Rightarrow> \<not> y_null Y s | _ \<Rightarrow> True))"

lemma reads_shown_scalars:
  assumes "yaml_prints Y T"
  shows "reads_shown Y (read_scalar (y_string Y)) (shows_string T)"
    and "reads_shown Y (read_scalar (y_bool Y)) (shows_bool T)"
    and "reads_shown Y (read_scalar (y_u16 Y)) (shows_u16 T)"
    and "reads_shown Y (read_scalar (y_u64 Y)) (shows_u64 T)"
  using assms
  by (auto simp: reads_shown_def yaml_prints_def read_scalar_def shows_string_def shows_bool_def shows_u16_def
      shows_u64_def)

lemma de_serial_text: "pred_option serial_wf s \<Longrightarrow> de_serial (serial_text s) = Ok s"
  by (cases s; cases "the s")
    (auto simp: de_serial_def serial_from_str_def serial_wf_def dest: arg_cong[where f = length])

lemma reads_shown_serial:
  assumes "yaml_prints Y T" shows "reads_shown Y (read_serial Y) (shows_serial T)"
  using reads_shown_scalars(1)[OF assms] de_serial_text
  by (auto simp: reads_shown_def read_serial_def shows_serial_def)

lemma reads_shown_list:
  assumes "reads_shown Y rd P" shows "reads_shown Y (read_vec Y rd) (shows_list P)"
proof -
  have "omap rd ns = Ok vs" if "list_all2 P vs ns" for vs ns
    using that by (induction rule: list_all2_induct) (use assms in \<open>auto simp: reads_shown_def\<close>)
  then show ?thesis by (auto simp: reads_shown_def shows_list_def read_vec_def split: node.splits)
qed

lemma field_values:
  assumes "reads_shown Y rd P"
  shows "has_field es k (P v) \<Longrightarrow> required rd k \<lparr> src_named = True, src_entries = es \<rparr> = Ok v"
    and "has_unless es k P d v \<Longrightarrow> defaulted d rd k \<lparr> src_named = True, src_entries = es \<rparr> = Ok v"
  using assms
  by (auto simp: reads_shown_def has_field_def has_unless_def required_def defaulted_def split: option.splits)

lemma read_option_shown:
  assumes "reads_shown Y rd P" "P a n" shows "read_option Y rd n = Ok (Some a)"
proof -
  have "rd n = Ok a" "case n of Scalar s \<Rightarrow> \<not> y_null Y s | _ \<Rightarrow> True"
    using assms by (auto simp: reads_shown_def)
  then show ?thesis by (cases n) (auto simp: read_option_def)
qed

lemma read_option_null: "yaml_prints Y T \<Longrightarrow> read_option Y rd (Scalar (t_null T)) = Ok None"
  by (simp add: read_option_def yaml_prints_def)

lemma optional_value:
  assumes "yaml_prints Y T" "reads_shown Y rd P" "may_have T es k P v"
  shows "optional Y rd k \<lparr> src_named = True, src_entries = es \<rparr> = Ok v"
  using assms(3) read_option_shown[OF assms(2)] read_option_null[OF assms(1)]
  by (cases v; cases "map_of es k") (auto simp: may_have_def optional_def)

text \<open>The visit accepts an entry if its value is shown.\<close>

definition entry_ok :: "(string \<times> node) list \<Rightarrow> string \<Rightarrow> unit reader \<Rightarrow> bool" where
  "entry_ok es k check \<longleftrightarrow> (case map_of es k of Some n \<Rightarrow> check n = Ok () | None \<Rightarrow> True)"

lemma entry_ok_fields:
  assumes "reads_shown Y rd P"
  shows "has_field es k (P v) \<Longrightarrow> entry_ok es k (checked rd)"
    and "has_unless es k P d v \<Longrightarrow> entry_ok es k (checked rd)"
  using assms
  by (auto simp: reads_shown_def has_field_def has_unless_def entry_ok_def checked_def split: option.splits)

lemma entry_ok_optional:
  assumes "yaml_prints Y T" "reads_shown Y rd P" "may_have T es k P v"
  shows "entry_ok es k (checked (read_option Y rd))"
  using assms(3) read_option_shown[OF assms(2)] read_option_null[OF assms(1), of rd]
  by (cases v; cases "map_of es k") (auto simp: may_have_def entry_ok_def checked_def)

lemma visit_entries_ok:
  assumes "distinct (map fst es)" "set seen \<inter> fst ` set es = {}"
    and "\<And>k n check. (k, n) \<in> set es \<Longrightarrow> fs k = Some check \<Longrightarrow> check n = Ok ()"
  shows "visit_entries fs seen es = Ok ()"
  using assms
proof (induction es arbitrary: seen)
  case (Cons e es)
  obtain k n where e: "e = (k, n)" by (cases e)
  have "visit_entries fs (k # seen) es = Ok ()" "visit_entries fs seen es = Ok ()"
    using Cons.prems by (intro Cons.IH; force simp: e)+
  moreover have "k \<notin> set seen" using Cons.prems(2) by (auto simp: e)
  moreover have "check n = Ok ()" if "fs k = Some check" for check
    using Cons.prems(3)[of k n check] that by (simp add: e)
  ultimately show ?case by (cases "fs k") (simp_all add: e)
qed simp

lemma visit_struct:
  assumes "distinct (map fst es)" "list_all (\<lambda>(k, check). entry_ok es k check) fs"
  shows "visit_entries (map_of fs) [] es = Ok ()"
proof (rule visit_entries_ok)
  fix k n check
  assume "(k, n) \<in> set es" "map_of fs k = Some check"
  then have "map_of es k = Some n" "entry_ok es k check"
    using assms by (auto simp: list_all_iff dest: map_of_SomeD)
  then show "check n = Ok ()" by (simp add: entry_ok_def)
qed (use assms in auto)

lemma reads_shown_struct:
  assumes "\<And>es v. shown es v \<Longrightarrow> list_all (\<lambda>(k, check). entry_ok es k check) fs"
    and "\<And>es v. shown es v \<Longrightarrow> build \<lparr> src_named = True, src_entries = es \<rparr> = Ok v"
  shows "reads_shown Y (read_struct Y fs build) (shows_struct shown)"
  using assms visit_struct
  by (auto simp: reads_shown_def shows_struct_def read_struct_def split: node.splits)

text \<open>
  One lemma for a struct: from the entries that are shown follow that the visit accepts them and the
  values of the fields.
\<close>

lemma reads_shown_homeassistant:
  assumes Y: "yaml_prints Y T"
  shows "reads_shown Y (read_homeassistant Y) (shows_struct (homeassistant_entries T))"
proof -
  note R = reads_shown_scalars[OF Y]
  note E = R[THEN entry_ok_fields(1)] R[THEN entry_ok_fields(2)] R[THEN entry_ok_optional[OF Y]]
  note V = R[THEN field_values(1)] R[THEN field_values(2)] R[THEN optional_value[OF Y]]
  show ?thesis
    unfolding read_homeassistant_def
    by (rule reads_shown_struct)
      (simp_all add: homeassistant_entries_def homeassistant_fields_def default_defs, (elim conjE, intro conjI; erule E),
       (elim conjE, (drule V)+, simp))
qed

lemma reads_shown_inverter:
  assumes Y: "yaml_prints Y T"
  shows "reads_shown Y (read_inverter Y) (shows_struct (inverter_entries T))"
proof -
  note R = reads_shown_scalars[OF Y] reads_shown_serial[OF Y]
  note E = R[THEN entry_ok_fields(1)] R[THEN entry_ok_fields(2)] R[THEN entry_ok_optional[OF Y]]
  note V = R[THEN field_values(1)] R[THEN field_values(2)] R[THEN optional_value[OF Y]]
  show ?thesis
    unfolding read_inverter_def
    by (rule reads_shown_struct)
      (simp_all add: inverter_entries_def inverter_fields_def default_defs, (elim conjE, intro conjI; erule E),
       (elim conjE, (drule V)+, simp))
qed

lemma reads_shown_mqtt:
  assumes Y: "yaml_prints Y T"
  shows "reads_shown Y (read_mqtt Y) (shows_struct (mqtt_entries T))"
proof -
  note R = reads_shown_scalars[OF Y] reads_shown_homeassistant[OF Y]
  note E = R[THEN entry_ok_fields(1)] R[THEN entry_ok_fields(2)] R[THEN entry_ok_optional[OF Y]]
  note V = R[THEN field_values(1)] R[THEN field_values(2)] R[THEN optional_value[OF Y]]
  show ?thesis
    unfolding read_mqtt_def
    by (rule reads_shown_struct)
      (simp_all add: mqtt_entries_def mqtt_fields_def default_defs, (elim conjE, intro conjI; erule E),
       (elim conjE, (drule V)+, simp))
qed

lemma reads_shown_influx:
  assumes Y: "yaml_prints Y T"
  shows "reads_shown Y (read_influx Y) (shows_struct (influx_entries T))"
proof -
  note R = reads_shown_scalars[OF Y]
  note E = R[THEN entry_ok_fields(1)] R[THEN entry_ok_fields(2)] R[THEN entry_ok_optional[OF Y]]
  note V = R[THEN field_values(1)] R[THEN field_values(2)] R[THEN optional_value[OF Y]]
  show ?thesis
    unfolding read_influx_def
    by (rule reads_shown_struct)
      (simp_all add: influx_entries_def influx_fields_def default_defs, (elim conjE, intro conjI; erule E),
       (elim conjE, (drule V)+, simp))
qed

lemma reads_shown_database:
  assumes Y: "yaml_prints Y T"
  shows "reads_shown Y (read_database Y) (shows_struct (database_entries T))"
proof -
  note R = reads_shown_scalars[OF Y]
  note E = R[THEN entry_ok_fields(1)] R[THEN entry_ok_fields(2)] R[THEN entry_ok_optional[OF Y]]
  note V = R[THEN field_values(1)] R[THEN field_values(2)] R[THEN optional_value[OF Y]]
  show ?thesis
    unfolding read_database_def
    by (rule reads_shown_struct)
      (simp_all add: database_entries_def database_fields_def default_defs, (elim conjE, intro conjI; erule E),
       (elim conjE, (drule V)+, simp))
qed

lemma reads_shown_scheduler:
  assumes Y: "yaml_prints Y T"
  shows "reads_shown Y (read_scheduler Y) (shows_struct (scheduler_entries T))"
proof -
  note R = reads_shown_scalars[OF Y]
  note E = R[THEN entry_ok_fields(1)] R[THEN entry_ok_fields(2)] R[THEN entry_ok_optional[OF Y]]
  note V = R[THEN field_values(1)] R[THEN field_values(2)] R[THEN optional_value[OF Y]]
  show ?thesis
    unfolding read_scheduler_def
    by (rule reads_shown_struct)
      (simp_all add: scheduler_entries_def scheduler_fields_def default_defs, (elim conjE, intro conjI; erule E),
       (elim conjE, (drule V)+, simp))
qed

lemma reads_shown_config:
  assumes Y: "yaml_prints Y T"
  shows "reads_shown Y (read_config Y) (shows_struct (config_entries T))"
proof -
  note R = reads_shown_scalars[OF Y] reads_shown_mqtt[OF Y] reads_shown_influx[OF Y] reads_shown_scheduler[OF Y]
    reads_shown_list[OF reads_shown_inverter[OF Y]] reads_shown_list[OF reads_shown_database[OF Y]]
  note E = R[THEN entry_ok_fields(1)] R[THEN entry_ok_fields(2)] R[THEN entry_ok_optional[OF Y]]
  note V = R[THEN field_values(1)] R[THEN field_values(2)] R[THEN optional_value[OF Y]]
  show ?thesis
    unfolding read_config_def
    by (rule reads_shown_struct)
      (simp_all add: config_entries_def config_fields_def default_defs, (elim conjE, intro conjI; erule E),
       (elim conjE, (drule V)+, simp))
qed

section \<open>A validated configuration\<close>

definition inverter_valid :: "config_inverter \<Rightarrow> bool" where
  "inverter_valid i \<longleftrightarrow> (inv_enabled i \<longrightarrow>
     inv_port i \<noteq> 0 \<and> inv_host i \<noteq> [] \<and> cfg_read_timeout i \<noteq> 0 \<and> cfg_register_block_size i = 40)"

definition config_valid :: "(string \<Rightarrow> bool) \<Rightarrow> config \<Rightarrow> bool" where
  "config_valid url_ok c \<longleftrightarrow>
     (mq_enabled (cfg_mqtt c) \<longrightarrow> mq_port (cfg_mqtt c) \<noteq> 0 \<and> mq_host (cfg_mqtt c) \<noteq> []) \<and>
     (ifx_enabled (cfg_influx c) \<longrightarrow> url_ok (ifx_url (cfg_influx c)) \<and> ifx_database (cfg_influx c) \<noteq> []) \<and>
     list_all (\<lambda>d. db_enabled d \<longrightarrow> url_ok (db_url d)) (cfg_databases c) \<and>
     list_all inverter_valid (cfg_inverters c) \<and>
     pred_option (\<lambda>s. sch_enabled s \<longrightarrow> sch_timesync_cron s \<noteq> Some []) (cfg_scheduler c)"

lemma validate_parts:
  "validate_mqtt m = Ok () \<longleftrightarrow> (mq_enabled m \<longrightarrow> mq_port m \<noteq> 0 \<and> mq_host m \<noteq> [])"
  "validate_influx url_ok x = Ok () \<longleftrightarrow> (ifx_enabled x \<longrightarrow> url_ok (ifx_url x) \<and> ifx_database x \<noteq> [])"
  "validate_scheduler s = Ok () \<longleftrightarrow> pred_option (\<lambda>s. sch_enabled s \<longrightarrow> sch_timesync_cron s \<noteq> Some []) s"
  by (auto simp: validate_mqtt_def validate_influx_def validate_scheduler_def split: option.splits)

lemma validate_databases_iff:
  "validate_databases url_ok ds = Ok () \<longleftrightarrow> list_all (\<lambda>d. db_enabled d \<longrightarrow> url_ok (db_url d)) ds"
  by (induction ds) auto

lemma validate_inverters_iff: "validate_inverters xs = Ok () \<longleftrightarrow> list_all inverter_valid xs"
proof (induction xs)
  case (Cons i xs)
  show ?case
    by (cases "inv_register_block_size i")
      (auto simp: Cons.IH inverter_valid_def cfg_read_timeout_def cfg_register_block_size_def)
qed simp

lemma config_validate_iff: "config_validate url_ok c = Ok () \<longleftrightarrow> config_valid url_ok c"
  by (simp add: config_validate_def obind_eq_Ok validate_parts validate_databases_iff validate_inverters_iff
      config_valid_def)

lemma config_validate_not_Panic: "config_validate url_ok c \<noteq> Panic"
proof -
  have "validate_databases url_ok ds \<noteq> Panic" for ds by (induction ds) auto
  moreover have "validate_inverters xs \<noteq> Panic" for xs
    by (induction xs rule: validate_inverters.induct) (auto split: option.splits)
  ultimately show ?thesis
    by (auto simp: config_validate_def obind_eq_Panic validate_mqtt_def validate_influx_def
        validate_scheduler_def split: option.splits if_splits)
qed

section \<open>Loading\<close>

text \<open>
  C38: a file whose document shows a configuration loads as exactly that configuration, if it is
  valid, and is an error if it is not. The keys may come in any order, unknown keys are ignored, and
  every field with a default may be left out when it has the default.
\<close>

theorem config_file_loads:
  assumes "yaml_prints Y T" "y_parse Y content = Ok document" "shows_struct (config_entries T) c document"
  shows "if config_valid url_ok c then config_new Y url_ok (\<lambda>_. Ok content) path = Ok c
         else is_err (config_new Y url_ok (\<lambda>_. Ok content) path)"
proof -
  have "read_config Y document = Ok c"
    using reads_shown_config[OF assms(1)] assms(3) by (simp add: reads_shown_def)
  then have "config_new Y url_ok (\<lambda>_. Ok content) path = obind (config_validate url_ok c) (\<lambda>_. Ok c)"
    using assms(2) by (simp add: config_new_def)
  then show ?thesis
    using config_validate_iff[of url_ok c] config_validate_not_Panic[of url_ok c]
    by (cases "config_validate url_ok c") simp_all
qed

text \<open>A YAML library for evaluating the model, and a document with the fewest fields.\<close>

definition example_scalar :: "bool \<Rightarrow> string \<Rightarrow> scalar" where
  "example_scalar plain s = \<lparr> sc_plain = plain, sc_text = s \<rparr>"

definition example_text :: yaml_text where
  "example_text =
     \<lparr> t_string = example_scalar False, t_bool = (\<lambda>b. example_scalar True (if b then ''true'' else ''false'')),
       t_u16 = (\<lambda>w. example_scalar True (show_nat (unat w))), t_u64 = (\<lambda>n. example_scalar True (show_nat n)),
       t_null = example_scalar True ''~'' \<rparr>"

definition example_inverter_entries :: "(string \<times> node) list" where
  "example_inverter_entries =
     [(''host'', Scalar (t_string example_text ''10.0.0.2'')), (''port'', Scalar (t_u16 example_text 8000)),
      (''serial'', Scalar (t_string example_text '''')), (''datalog'', Scalar (t_string example_text ''2222222222'')),
      (''comment'', Scalar (t_string example_text ''garage''))]"

definition example_entries :: "(string \<times> node) list" where
  "example_entries =
     [(''inverters'', Sequence [Mapping example_inverter_entries]),
      (''read_only'', Scalar (t_bool example_text True)),
      (''influx'', Mapping [(''enabled'', Scalar (t_bool example_text False)),
         (''url'', Scalar (t_string example_text '''')), (''database'', Scalar (t_string example_text ''''))]),
      (''mqtt'', Mapping [(''host'', Scalar (t_string example_text ''localhost''))])]"

definition example_yaml :: yaml_lib where
  "example_yaml =
     \<lparr> y_parse = (\<lambda>_. Ok (Mapping example_entries)), y_string = (\<lambda>s. Ok (sc_text s)),
       y_bool = (\<lambda>s. if sc_text s = ''true'' then Ok True else if sc_text s = ''false'' then Ok False else Err ''''),
       y_u16 = (\<lambda>s. parse_uint (sc_text s)),
       y_u64 = (\<lambda>s. obind (parse_uint (sc_text s) :: 64 word outcome) (\<lambda>w. Ok (unat w))),
       y_null = (\<lambda>s. sc_plain s \<and> sc_text s = ''~''), y_empty = (\<lambda>s. sc_plain s \<and> sc_text s = []) \<rparr>"

definition example_loaded :: config where
  "example_loaded =
     \<lparr> cfg_inverters = [\<lparr> inv_enabled = True, inv_host = ''10.0.0.2'', inv_port = 8000, inv_serial = None,
         inv_datalog = Some (Serial (bytes_of_str ''2222222222'')), inv_heartbeats = None,
         inv_publish_holdings_on_connect = None, inv_read_timeout = None, inv_use_tcp_nodelay = None,
         inv_register_block_size = None, inv_delay_ms = None, inv_read_only = None,
         inv_register_read_interval = None \<rparr>],
       cfg_mqtt = \<lparr> mq_enabled = True, mq_host = ''localhost'', mq_port = 1883, mq_username = None,
         mq_password = None, mq_namespace = ''lxp'',
         mq_homeassistant = \<lparr> ha_enabled = True, ha_prefix = ''homeassistant'' \<rparr>,
         mq_publish_individual_input = None \<rparr>,
       cfg_influx = \<lparr> ifx_enabled = False, ifx_url = '''', ifx_username = None, ifx_password = None,
         ifx_database = '''' \<rparr>,
       cfg_databases = [], cfg_scheduler = None, cfg_loglevel = ''info'', cfg_global_read_only = True,
       cfg_homeassistant_enabled = False, cfg_strict_data_check = False, cfg_datalog_file = None,
       cfg_register_file = None, cfg_register_read_interval = 60, cfg_verbose = False,
       cfg_human_timestamps = False, cfg_show_unknown = False, cfg_inverter_timeout = 300 \<rparr>"

lemma show_nat_not_tilde [simp]: "show_nat n \<noteq> ''~''"
  using show_nat_no_char[of "CHR ''~''" n] by (auto simp: char_digit_def)

lemma example_yaml_prints: "yaml_prints example_yaml example_text"
proof -
  have "parse_uint (show_nat n) = Ok (word_of_nat n :: 64 word)" "unat (word_of_nat n :: 64 word) = n"
    if "n < 2 ^ 64" for n
    using that parse_uint_show_nat[of "word_of_nat n :: 64 word"] by (simp_all add: unat_of_nat)
  then show ?thesis
    by (auto simp: yaml_prints_def example_yaml_def example_text_def example_scalar_def parse_uint_show_nat)
qed

lemma example_entries_shown: "shows_struct (config_entries example_text) example_loaded (Mapping example_entries)"
proof -
  have ascii: "is_text s" if "list_all (\<lambda>b. b < 0x80) (bytes_of_str s)" for s
    using that by (auto simp: is_text_def list_all_iff intro: utf8_lossy_ascii)
  have "is_text ''10.0.0.2''" "is_text ''''" "is_text ''2222222222''" "is_text ''localhost''"
    by (intro ascii; simp add: bytes_of_str_def)+
  then show ?thesis
    by (simp add: shows_struct_def config_entries_def has_field_def has_unless_def may_have_def shows_list_def
        inverter_entries_def mqtt_entries_def influx_entries_def shows_string_def shows_bool_def shows_u16_def
        shows_serial_def serial_wf_def example_entries_def example_inverter_entries_def example_loaded_def)
qed

lemma example_parts:
  "y_parse example_yaml content = Ok (Mapping example_entries)" "config_valid (\<lambda>_. True) example_loaded"
  by (simp_all add: example_yaml_def config_valid_def example_loaded_def inverter_valid_def cfg_read_timeout_def
      cfg_register_block_size_def)

lemma example_loads: "config_new example_yaml (\<lambda>_. True) (\<lambda>_. Ok content) path = Ok example_loaded"
proof -
  have "read_config example_yaml (Mapping example_entries) = Ok example_loaded"
    using reads_shown_config[OF example_yaml_prints] example_entries_shown by (simp add: reads_shown_def)
  moreover have "config_validate (\<lambda>_. True) example_loaded = Ok ()"
    by (simp add: config_validate_iff example_parts)
  ultimately show ?thesis by (simp add: config_new_def example_parts)
qed

theorem config_file_loads_witness:
  "config_new example_yaml (\<lambda>_. True) (\<lambda>_. Ok ''text'') ''config.yaml'' = Ok example_loaded"
  using config_file_loads[OF example_yaml_prints example_parts(1) example_entries_shown, of "\<lambda>_. True"]
    example_parts(2) by simp

section \<open>Keys that must be there\<close>

definition keys :: "(string \<times> node) list \<Rightarrow> string set" where
  "keys es = fst ` set es"

lemma required_Ok: "required rd k s = Ok v \<Longrightarrow> \<exists>n. map_of (src_entries s) k = Some n \<and> rd n = Ok v"
  by (auto simp: required_def split: option.splits)

lemma omap_elem: "omap f xs = Ok ys \<Longrightarrow> x \<in> set xs \<Longrightarrow> \<exists>y. f x = Ok y"
  by (induction xs arbitrary: ys) (auto simp: obind_eq_Ok)

lemma read_inverter_keys:
  assumes "read_inverter Y (Mapping es) = Ok i"
  shows "{''host'', ''port'', ''serial'', ''datalog''} \<subseteq> keys es"
proof -
  from assms have "map_of es k \<noteq> None" if "k \<in> {''host'', ''port'', ''serial'', ''datalog''}" for k
    using that by (auto simp: read_inverter_def read_struct_def obind_eq_Ok dest!: required_Ok)
  then show ?thesis by (auto simp: keys_def map_of_eq_None_iff)
qed

text \<open>
  C39: a file that loads has the keys \<open>inverters\<close>, \<open>mqtt\<close>, \<open>influx\<close> and \<open>read_only\<close>, and every inverter
  has \<open>host\<close>, \<open>port\<close>, \<open>serial\<close> and \<open>datalog\<close>, also those that are not enabled: leaving out the
  serial number or the read-only flag is an error, not a default.
\<close>

theorem config_keys_required:
  assumes "config_new Y url_ok file path = Ok c" "file path = Ok content" "y_parse Y content = Ok (Mapping es)"
  shows "{''inverters'', ''mqtt'', ''influx'', ''read_only''} \<subseteq> keys es \<and>
    (case map_of es ''inverters'' of
       Some (Sequence ns) \<Rightarrow> list_all (\<lambda>n. case n of
         Mapping fs \<Rightarrow> {''host'', ''port'', ''serial'', ''datalog''} \<subseteq> keys fs | _ \<Rightarrow> True) ns
     | _ \<Rightarrow> True)"
proof
  have c: "read_config Y (Mapping es) = Ok c"
    using assms by (auto simp: config_new_def obind_eq_Ok)
  then have "map_of es k \<noteq> None" if "k \<in> {''inverters'', ''mqtt'', ''influx'', ''read_only''}" for k
    using that by (auto simp: read_config_def read_struct_def obind_eq_Ok dest!: required_Ok)
  then show "{''inverters'', ''mqtt'', ''influx'', ''read_only''} \<subseteq> keys es"
    by (auto simp: keys_def map_of_eq_None_iff)
  from c obtain n xs where n: "map_of es ''inverters'' = Some n" "read_vec Y (read_inverter Y) n = Ok xs"
    by (auto simp: read_config_def read_struct_def obind_eq_Ok dest!: required_Ok)
  have "{''host'', ''port'', ''serial'', ''datalog''} \<subseteq> keys fs" if ns: "n = Sequence ns" "Mapping fs \<in> set ns" for ns fs
  proof -
    obtain i where "read_inverter Y (Mapping fs) = Ok i"
      using n(2) omap_elem[of "read_inverter Y" ns] ns by (auto simp: read_vec_def)
    then show ?thesis by (rule read_inverter_keys)
  qed
  then show "case map_of es ''inverters'' of
       Some (Sequence ns) \<Rightarrow> list_all (\<lambda>n. case n of
         Mapping fs \<Rightarrow> {''host'', ''port'', ''serial'', ''datalog''} \<subseteq> keys fs | _ \<Rightarrow> True) ns
     | _ \<Rightarrow> True"
    unfolding n(1) by (auto simp: list_all_iff split: node.splits)
qed

theorem config_keys_required_witness:
  "config_new example_yaml (\<lambda>_. True) (\<lambda>_. Ok ''text'') ''config.yaml'' = Ok example_loaded \<and>
   y_parse example_yaml ''text'' = Ok (Mapping example_entries) \<and>
   {''inverters'', ''mqtt'', ''influx'', ''read_only''} \<subseteq> keys example_entries \<and>
   {''host'', ''port'', ''serial'', ''datalog''} \<subseteq> keys example_inverter_entries"
proof -
  note parse = example_parts(1)
  from config_keys_required[OF example_loads refl parse] show ?thesis
    using example_loads parse by (simp add: example_entries_def)
qed

end
