(* ===== verification/Process.thy ===== *)
theory Process
  imports Startup Config_Facts
begin

text \<open>
  The process (\<^verbatim>\<open>main.rs\<close>) and the entry point of the library (\<^verbatim>\<open>run\<close> in \<^verbatim>\<open>lib.rs\<close>): the configuration is
  loaded, the coordinator runs in a task of its own, and the main task waits for the time limit or for
  Ctrl+C. The parser of the command line is not modelled; its result is \<open>args\<close>.
\<close>

section \<open>The application\<close>

record args =
  arg_config :: string
  arg_time :: "nat option"

text \<open>What \<^verbatim>\<open>Coordinator::app\<close> has returned, when it has: the end of the start, or of the main loop.\<close>

fun app_result :: "start_result \<Rightarrow> unit outcome option" where
  "app_result (StartEnd r s) = Some r"
| "app_result (Connecting inverters s) = None"
| "app_result (MainLoop inverters (Continue s)) = None"
| "app_result (MainLoop inverters (Leave s)) = Some (Ok ())"
| "app_result (MainLoop inverters (Crash s)) = Some Panic"
| "app_result (MainLoop inverters (Stuck s)) = None"

section \<open>The main task\<close>

datatype process_event = AppReturned "unit outcome" | TimeElapsed | CtrlC "unit outcome"

datatype process_state = Running | Exited nat

text \<open>
  The task of the application exits the process on an error. A panic ends only that task, and a
  normal end is of no consequence.
\<close>

fun app_task :: "unit outcome \<Rightarrow> process_state" where
  "app_task (Err e) = Exited 1"
| "app_task (Ok u) = Running"
| "app_task Panic = Running"

fun main_wait :: "nat option \<Rightarrow> process_event list \<Rightarrow> process_state" where
  "main_wait time [] = Running"
| "main_wait time (AppReturned r # evs) =
     (case app_task r of Exited code \<Rightarrow> Exited code | Running \<Rightarrow> main_wait time evs)"
| "main_wait time (TimeElapsed # evs) =
     (case time of Some duration \<Rightarrow> Exited 0 | None \<Rightarrow> main_wait time evs)"
| "main_wait time (CtrlC r # evs) = Exited 0"

text \<open>An error of \<^verbatim>\<open>main\<close> is exit code 1, a panic of the main task 101.\<close>

definition process_main :: "yaml_lib \<Rightarrow> (string \<Rightarrow> bool) \<Rightarrow> (string \<Rightarrow> string outcome) \<Rightarrow> args \<Rightarrow>
    (config \<Rightarrow> process_event list) \<Rightarrow> process_state" where
  "process_main Y url_ok file args evs =
     (case config_new Y url_ok file (arg_config args) of
        Ok c \<Rightarrow> main_wait (arg_time args) (evs c)
      | Err e \<Rightarrow> Exited 1
      | Panic \<Rightarrow> Exited 101)"

text \<open>
  \<^verbatim>\<open>run\<close> of \<^verbatim>\<open>lib.rs\<close>. Ctrl+C sends on the shutdown channel, whose receiver goes to \<^verbatim>\<open>app\<close>, which
  ignores it: \<open>signals\<close> are the results of waiting for Ctrl+C, and what they send is returned.
\<close>

definition lib_run :: "start_env \<Rightarrow> (bridge_env \<times> loop_event) list \<Rightarrow> unit outcome list \<Rightarrow> config \<Rightarrow> world \<Rightarrow>
    unit outcome option \<times> unit list" where
  "lib_run V evs signals c w = (app_result (snd (app V evs c w)), map (\<lambda>_. ()) (take 1 signals))"

section \<open>When the process ends\<close>

text \<open>Neither the time limit nor Ctrl+C.\<close>

definition keeps_waiting :: "nat option \<Rightarrow> process_event \<Rightarrow> bool" where
  "keeps_waiting time ev = (case ev of CtrlC _ \<Rightarrow> False | TimeElapsed \<Rightarrow> time = None | AppReturned _ \<Rightarrow> False)"

lemma main_wait_skip: "list_all (keeps_waiting time) evs \<Longrightarrow> main_wait time (evs @ rest) = main_wait time rest"
  by (induction evs) (auto simp: keeps_waiting_def split: process_event.splits option.splits)

text \<open>What the main task sees of the application.\<close>

definition app_events :: "start_result \<Rightarrow> process_event list" where
  "app_events r = (case app_result r of Some x \<Rightarrow> [AppReturned x] | None \<Rightarrow> [])"

lemma main_wait_app:
  "main_wait time (app_events r @ evs) =
     (case r of StartEnd (Err e) s \<Rightarrow> Exited 1 | _ \<Rightarrow> main_wait time evs)"
  by (cases r rule: app_result.cases) (auto simp: app_events_def split: outcome.splits)

text \<open>
  C40: until the time limit or Ctrl+C, the process ends for two reasons only: the configuration does
  not load, or an error while the coordinator starts. Once the main loop runs nothing in it ends the
  process: when the loop is left or its task panics, the process goes on without it, and nothing
  starts it again.
\<close>

theorem process_outlives_coordinator:
  assumes "list_all (keeps_waiting (arg_time a)) before" "list_all (keeps_waiting (arg_time a)) after"
  shows "process_main Y url_ok file a (\<lambda>c. before @ app_events (snd (app V (evs c) c w)) @ after) =
    (case config_new Y url_ok file (arg_config a) of
       Ok c \<Rightarrow> (case snd (app V (evs c) c w) of StartEnd (Err e) s \<Rightarrow> Exited 1 | _ \<Rightarrow> Running)
     | Err e \<Rightarrow> Exited 1
     | Panic \<Rightarrow> Exited 101)"
  using main_wait_skip[OF assms(1)] main_wait_skip[OF assms(2), of "[]"]
  by (simp add: process_main_def main_wait_app split: outcome.split start_result.split)

definition example_start :: start_env where
  "example_start =
     \<lparr> se_files = \<lparr> fo_create_parent = (\<lambda>_. Ok ()), fo_open = (\<lambda>_. Ok []), fo_set_permissions = (\<lambda>_. Ok ()) \<rparr>,
       se_skip_broker = False, se_influx_url = Ok (), se_influx_test = Ok (),
       se_attempts = (\<lambda>_. [(example_socket TcpTimedOut, \<lambda>_. True)]) \<rparr>"

theorem process_outlives_coordinator_witness:
  "process_main example_yaml (\<lambda>_. True) (\<lambda>_. Ok ''text'') \<lparr> arg_config = ''config.yaml'', arg_time = None \<rparr>
     (\<lambda>c. [TimeElapsed] @ app_events (snd (app example_start [] c (example_world []))) @ []) = Running"
proof -
  have app: "\<exists>i s. snd (app example_start [] example_loaded (example_world [])) = Connecting i s"
    by (simp add: app_def coordinator_start_def start_components_def start_datalog_def coordinator_new_def
        example_loaded_def Let_def start_influx_def influx_start_def start_databases_def check_subscribers_def
        enabled_inverters_def enabled_databases_def example_world_def example_start_def connect_def iv_self_def
        inverter_with_host_def inverter_new_def open_socket_def example_socket_def)
  show ?thesis
    using app process_outlives_coordinator[of "\<lparr> arg_config = ''config.yaml'', arg_time = None \<rparr>" "[TimeElapsed]" "[]"
        example_yaml "\<lambda>_. True" "\<lambda>_. Ok ''text''" example_start "\<lambda>_. []" "example_world []"]
    by (auto simp: example_loads keeps_waiting_def)
qed

end
