(* ===== verification/Outgoing.thy ===== *)
theory Outgoing
  imports Bridge_Properties
begin

text \<open>
  The way out of the bridge: the main loop, the receivers, the timers, the periodic requests and the
  senders of all inverters together, over the log of all messages that were sent. A channel is the
  part of the log that goes to it, and a task that listens to it has a position in it. The theory
  shows what reaches the sockets: the requests that the main loop has taken, in order, interleaved
  with what other tasks send directly; and in read-only mode nothing that writes but the bit switches.
\<close>

section \<open>Channels in the log\<close>

fun to_coordinator_log :: "sent list \<Rightarrow> coordinator_msg list" where
  "to_coordinator_log [] = []"
| "to_coordinator_log (ToCoordinator m # ms) = m # to_coordinator_log ms"
| "to_coordinator_log (m # ms) = to_coordinator_log ms"

fun to_inverter_log :: "sent list \<Rightarrow> inverter_msg list" where
  "to_inverter_log [] = []"
| "to_inverter_log (ToInverter m # ms) = m # to_inverter_log ms"
| "to_inverter_log (m # ms) = to_inverter_log ms"

fun requests :: "coordinator_msg list \<Rightarrow> packet list" where
  "requests [] = []"
| "requests (CoSendPacket p # ms) = p # requests ms"
| "requests (m # ms) = requests ms"

fun packets :: "inverter_msg list \<Rightarrow> packet list" where
  "packets [] = []"
| "packets (ChPacket p # ms) = p # packets ms"
| "packets (m # ms) = packets ms"

lemma to_coordinator_log_append [simp]: "to_coordinator_log (xs @ ys) = to_coordinator_log xs @ to_coordinator_log ys"
  by (induction xs rule: to_coordinator_log.induct) auto

lemma to_inverter_log_append [simp]: "to_inverter_log (xs @ ys) = to_inverter_log xs @ to_inverter_log ys"
  by (induction xs rule: to_inverter_log.induct) auto

lemma requests_append [simp]: "requests (xs @ ys) = requests xs @ requests ys"
  by (induction xs rule: requests.induct) auto

lemma packets_append [simp]: "packets (xs @ ys) = packets xs @ packets ys"
  by (induction xs rule: packets.induct) auto

section \<open>State and steps\<close>

text \<open>
  The sender of a connection: the serial number of its data logger, whether it still runs, how many messages
  of the channel it has taken, and the frames it has written to its socket.
\<close>

record link =
  ln_datalog :: serial
  ln_sender :: sender_result
  ln_taken :: nat
  ln_times :: message_timestamps
  ln_frames :: "bytes list"

record outgoing =
  og_config :: config
  og_log :: "sent list"
  og_loop :: loop_result
  og_asked :: nat
  og_link :: "nat \<Rightarrow> link"

datatype out_action =
    OutLoop bridge_env loop_event
  | OutForward bridge_env
  | OutTimer string nat
  | OutPeriodic config_inverter
  | OutRead nat reader_event
  | OutSend nat nat write_result
  | OutSenderError nat

definition some_sender :: "outgoing \<Rightarrow> bool" where
  "some_sender b \<longleftrightarrow> (\<exists>k. ln_sender (og_link b k) = SenderOn)"

text \<open>
  The steps. A turn of the main loop gets any event but a message of its own channel; these it takes in order
  by \<open>forward\<close>. The channel to the inverters is open as long as a sender runs. A turn of a
  timer, of the periodic requests or of a receiver starts from any state of that task (the time
  stamps, the buffer) with the shared configuration and channels. A sender takes the next message of
  the channel, or gets an error from it.
\<close>

inductive out_step :: "bool \<Rightarrow> crc16 \<Rightarrow> (bytes \<Rightarrow> packet list \<times> unit outcome) \<Rightarrow>
    outgoing \<Rightarrow> out_action \<Rightarrow> outgoing \<Rightarrow> bool" for oc crc eof where
  out_loop: "og_loop b = Continue s \<Longrightarrow> (\<forall>m. ev \<noteq> ToCoordinatorRecv (Some m)) \<Longrightarrow> w_sent w = og_log b \<Longrightarrow>
    l = loop_step E ev (s\<lparr> co_config := og_config b, co_world := w \<rparr>) \<Longrightarrow>
    out_step oc crc eof b (OutLoop E ev)
      (b\<lparr> og_loop := l, og_config := co_config (result_state l), og_log := w_sent (co_world (result_state l)) \<rparr>)"
| out_forward: "og_loop b = Continue s \<Longrightarrow> og_asked b < length (to_coordinator_log (og_log b)) \<Longrightarrow>
    w_sent w = og_log b \<Longrightarrow> (some_sender b \<longrightarrow> ChanToInverter \<notin> set (w_closed w)) \<Longrightarrow>
    l = loop_step E (ToCoordinatorRecv (Some (to_coordinator_log (og_log b) ! og_asked b)))
      (s\<lparr> co_config := og_config b, co_world := w \<rparr>) \<Longrightarrow>
    out_step oc crc eof b (OutForward E)
      (b\<lparr> og_loop := l, og_config := co_config (result_state l), og_log := w_sent (co_world (result_state l)),
         og_asked := og_asked b + 1 \<rparr>)"
| out_timer: "w_sent (iv_world s) = og_log b \<Longrightarrow> (r, s') = timer_turn datalog elapsed s \<Longrightarrow>
    out_step oc crc eof b (OutTimer datalog elapsed) (b\<lparr> og_log := w_sent (iv_world s') \<rparr>)"
| out_periodic: "w_sent (iv_world s) = og_log b \<Longrightarrow> (r, s') = periodic_turn i s \<Longrightarrow>
    out_step oc crc eof b (OutPeriodic i) (b\<lparr> og_log := w_sent (iv_world s') \<rparr>)"
| out_read: "w_sent (iv_world s) = og_log b \<Longrightarrow> iv_config s = og_config b \<Longrightarrow>
    r = reader_turn oc crc eof t ev buf s \<Longrightarrow>
    out_step oc crc eof b (OutRead t ev)
      (b\<lparr> og_config := iv_config (reader_state r), og_log := w_sent (iv_world (reader_state r)) \<rparr>)"
| out_send: "og_link b k = x \<Longrightarrow> ln_sender x = SenderOn \<Longrightarrow> ln_taken x < length (to_inverter_log (og_log b)) \<Longrightarrow>
    sender_step oc crc (ln_datalog x) elapsed (Some (to_inverter_log (og_log b) ! ln_taken x)) wr
      (ln_times x, ln_frames x) = (r, ts, frames) \<Longrightarrow>
    out_step oc crc eof b (OutSend k elapsed wr)
      (b\<lparr> og_link := (og_link b)(k := x\<lparr> ln_sender := r, ln_taken := ln_taken x + 1, ln_times := ts, ln_frames := frames \<rparr>) \<rparr>)"
| out_sender_error: "og_link b k = x \<Longrightarrow> ln_sender x = SenderOn \<Longrightarrow>
    sender_step oc crc (ln_datalog x) elapsed None wr (ln_times x, ln_frames x) = (r, ts, frames) \<Longrightarrow>
    out_step oc crc eof b (OutSenderError k)
      (b\<lparr> og_link := (og_link b)(k := x\<lparr> ln_sender := r, ln_times := ts, ln_frames := frames \<rparr>) \<rparr>)"

inductive out_run :: "bool \<Rightarrow> crc16 \<Rightarrow> (bytes \<Rightarrow> packet list \<times> unit outcome) \<Rightarrow>
    outgoing \<Rightarrow> out_action list \<Rightarrow> outgoing \<Rightarrow> bool" for oc crc eof where
  out_refl: "out_run oc crc eof b [] b"
| out_more: "out_run oc crc eof b acts b' \<Longrightarrow> out_step oc crc eof b' act b'' \<Longrightarrow>
    out_run oc crc eof b (acts @ [act]) b''"

interpretation out_tasks: interleaving "out_step oc crc eof" "out_run oc crc eof" for oc crc eof
proof unfold_locales
  fix b b' b'' acts act
  show "out_run oc crc eof b [] b' \<longleftrightarrow> b' = b"
    by (auto simp: out_run.simps[of oc crc eof b "[]"])
  show "out_run oc crc eof b (acts @ [act]) b'' \<longleftrightarrow>
      (\<exists>b'. out_run oc crc eof b acts b' \<and> out_step oc crc eof b' act b'')"
    by (auto simp: out_run.simps[of oc crc eof b "acts @ [act]"])
qed

text \<open>The start: the main loop runs, nothing was sent, and \<open>links\<close> are senders that have written nothing.\<close>

definition out_init :: "config \<Rightarrow> bool \<Rightarrow> (nat \<Rightarrow> serial) \<Rightarrow> world \<Rightarrow> outgoing" where
  "out_init c influx datalog w =
     \<lparr> og_config = c, og_log = [],
       og_loop = Continue ((start_databases (coordinator_new c (w\<lparr> w_sent := [] \<rparr>)))\<lparr> co_influx := influx \<rparr>),
       og_asked = 0,
       og_link = (\<lambda>k. \<lparr> ln_datalog = datalog k, ln_sender = SenderOn, ln_taken = 0,
                        ln_times = message_timestamps_new, ln_frames = [] \<rparr>) \<rparr>"

end
