(* ===== verification/Outgoing_Properties.thy ===== *)
theory Outgoing_Properties
  imports Outgoing
begin

text \<open>
  What each turn adds to the log of the channels, the invariant of the transition system of theory
  Outgoing by rule induction, and its two consequences for the sockets of the inverters.
\<close>

section \<open>What the tasks of a connection send\<close>

definition iv_sends :: "(sent \<Rightarrow> bool) \<Rightarrow> inverter \<Rightarrow> inverter \<Rightarrow> bool" where
  "iv_sends P s s' \<longleftrightarrow> (\<exists>ms. (\<forall>m \<in> set ms. P m) \<and> w_sent (iv_world s') = w_sent (iv_world s) @ ms)"

named_theorems iv_rules \<open>what a handler of a connection sends, by its structure\<close>

lemma iv_sends_refl [iv_rules, simp]: "iv_sends P s s"
  by (simp add: iv_sends_def)

lemma iv_sends_same: "w_sent (iv_world s') = w_sent (iv_world s) \<Longrightarrow> iv_sends P s s'"
  by (simp add: iv_sends_def)

lemma iv_sends_trans: "iv_sends P s s' \<Longrightarrow> iv_sends P s' s'' \<Longrightarrow> iv_sends P s s''"
  unfolding iv_sends_def by (elim exE) (rule_tac x = "ms @ msa" in exI, auto)

lemma iv_sends_send [iv_rules]: "P m \<Longrightarrow> iv_sends P s (snd (iv_send m e s))"
  unfolding iv_sends_def iv_send_def
  by (cases "channel_of m \<in> set (w_closed (iv_world s))") (auto intro: exI[of _ "[m]"])

lemma iv_sends_try [iv_rules]: "iv_sends P s (snd m) \<Longrightarrow> iv_sends P s (snd (iv_try m))"
  by (cases m; cases "fst m") (auto simp: iv_try_def)

lemma iv_sends_then [iv_rules]:
  assumes "iv_sends P s (snd m)" "\<And>a s'. iv_sends P s' (snd (f a s'))"
  shows "iv_sends P s (snd (iv_then m f))"
  using assms by (cases m; cases "fst m") (auto simp: iv_then_def intro: iv_sends_trans)

lemma iv_sends_from: "w_sent (iv_world s0) = w_sent (iv_world s) \<Longrightarrow> iv_sends P s0 s' \<Longrightarrow> iv_sends P s s'"
  by (simp add: iv_sends_def)

fun heartbeat_message :: "sent \<Rightarrow> bool" where
  "heartbeat_message (ToInverter (ChPacket (PHeartbeat _))) = True"
| "heartbeat_message _ = False"

lemma timer_turn_traffic: "iv_sends heartbeat_message s (snd (timer_turn datalog elapsed s))"
  unfolding timer_turn_def Let_def
  by (auto intro!: iv_rules split: outcome.split)

fun parameter_request :: "sent \<Rightarrow> bool" where
  "parameter_request (ToInverter (ChPacket (PReadParam rp))) = (rp_register rp \<in> {3, 4} \<and> rp_values rp = [])"
| "parameter_request _ = False"

lemma periodic_turn_sends: "iv_sends parameter_request s (snd (periodic_turn i s))"
  unfolding periodic_turn_def periodic_requests_def
  by (auto intro!: iv_rules split: outcome.split)

fun from_inverter :: "sent \<Rightarrow> bool" where
  "from_inverter (FromInverter _) = True"
| "from_inverter _ = False"

lemma handle_incoming_sends: "iv_sends from_inverter s (snd (handle_incoming_packet p s))"
  unfolding handle_incoming_packet_def by (auto intro!: iv_rules)

lemma compare_sends:
  "iv_sends from_inverter s (snd (compare_datalog p s))"
  "iv_sends from_inverter s (snd (compare_inverter p s))"
proof -
  have log: "iv_sends from_inverter s (snd (log_update r s))" for r s
    by (auto simp: log_update_def set_config_def intro: iv_sends_same split: outcome.split)
  show "iv_sends from_inverter s (snd (compare_datalog p s))"
    unfolding compare_datalog_def by (auto intro!: iv_rules log)
  show "iv_sends from_inverter s (snd (compare_inverter p s))"
    unfolding compare_inverter_def by (cases p) (auto intro!: iv_rules log)
qed

lemma reader_packet_sends: "iv_sends from_inverter s (snd (reader_packet t p s))"
  unfolding reader_packet_def
  by (intro iv_sends_then iv_sends_from[OF _ handle_incoming_sends] iv_sends_from[OF _ compare_sends(1)] compare_sends(2))
    simp_all

lemma reader_decode_sends: "iv_sends from_inverter s (snd (snd (reader_decode oc crc t buf s)))"
proof (induction oc crc t buf s rule: reader_decode.induct)
  case (1 oc crc t buf s)
  show ?case
  proof (cases "\<exists>p b. decoder_decode oc crc buf = (Ok (Some p), b)")
    case True
    then obtain p b where d: "decoder_decode oc crc buf = (Ok (Some p), b)" by blast
    obtain r s1 where p: "reader_packet t p s = (r, s1)" by (cases "reader_packet t p s")
    then have e: "iv_sends from_inverter s s1" using reader_packet_sends[of s t p] by simp
    have "r = Ok u \<Longrightarrow> iv_sends from_inverter s1 (snd (snd (reader_decode oc crc t b s1)))" for u
      using 1[OF d[symmetric] refl refl] p by simp
    with e show ?thesis
      by (subst reader_decode.simps) (auto simp: d p split: outcome.split intro: iv_sends_trans)
  next
    case False
    then show ?thesis
      by (subst reader_decode.simps) (auto intro: iv_sends_same split: prod.split outcome.split option.split)
  qed
qed

lemma handle_all_sends: "iv_sends from_inverter s (snd (handle_all ps s))"
  by (induction ps arbitrary: s) (auto intro!: iv_rules handle_incoming_sends)

lemma reader_turn_sends: "iv_sends from_inverter s (reader_state (reader_turn oc crc eof t ev buf s))"
proof -
  have flush: "iv_sends from_inverter s (reader_state (reader_flush eof r b s))" for r b
    using handle_all_sends[of s "fst (eof b)"]
    by (auto simp: reader_flush_def split: prod.splits outcome.splits)
  have "iv_sends from_inverter s (snd (snd (reader_decode oc crc t' (buf @ bs) s)))" for t' bs
    by (rule reader_decode_sends)
  then show ?thesis
    by (auto simp: reader_turn_def flush intro: iv_sends_same split: reader_event.split prod.split outcome.split)
      (metis snd_conv)+
qed

section \<open>What a turn of the main loop sends\<close>

text \<open>
  The packets that reach the inverters without the main loop: heartbeats, the two parameter requests,
  and the traffic of the bit switches, which read and write register 21.
\<close>

fun direct_packet :: "packet \<Rightarrow> bool" where
  "direct_packet (PHeartbeat _) = True"
| "direct_packet (PReadParam rp) = (rp_register rp \<in> {3, 4} \<and> rp_values rp = [])"
| "direct_packet (PTranslatedData td) =
     (td_register td = 21 \<and> td_device_function td \<in> {DevReadHold, DevWriteSingle})"
| "direct_packet (PWriteParam _) = False"

text \<open>The messages of a turn; \<open>ro\<close>: in read-only mode.\<close>

fun traffic :: "bool \<Rightarrow> sent \<Rightarrow> bool" where
  "traffic ro (ToCoordinator (CoSendPacket p)) = (ro \<longrightarrow> read_request p)"
| "traffic ro (ToCoordinator _) = False"
| "traffic ro (ToInverter (ChPacket p)) = direct_packet p"
| "traffic ro (ToInverter _) = False"
| "traffic ro _ = True"

lemma traffic_of:
  "heartbeat_message m \<Longrightarrow> traffic ro m"
  "parameter_request m \<Longrightarrow> traffic ro m"
  "from_inverter m \<Longrightarrow> traffic ro m"
  "fan_out m \<Longrightarrow> traffic ro m"
  "asks m \<Longrightarrow> traffic ro m"
  "via_coordinator m \<Longrightarrow> traffic False m"
  by (cases m rule: heartbeat_message.cases, auto)
    (cases m rule: parameter_request.cases, auto, cases m rule: from_inverter.cases, auto,
     cases m rule: fan_out.cases, auto, cases m rule: asks.cases, auto, cases m rule: via_coordinator.cases, auto)

lemma emits_switch: "emits (traffic ro) w (update_hold_run i 21 b e w)"
  unfolding update_hold_run_def update_hold_write_def Let_def
  by (intro emits_td_request emit_rules) (simp_all add: td_packet_def)

lemma emits_bit_switch: "bit_switch c \<Longrightarrow> emits (traffic ro) w (process_command J oc cfg c w)"
  by (cases c) (simp_all add: update_hold_def emits_switch)

definition read_only_config :: "config \<Rightarrow> bool" where
  "read_only_config c \<longleftrightarrow> cfg_global_read_only c \<or> list_all cfg_read_only (cfg_inverters c)"

lemma if_Ok_cases: "(if b then x else y) = Ok v \<Longrightarrow> (b \<Longrightarrow> x = Ok v \<Longrightarrow> P) \<Longrightarrow> (\<not> b \<Longrightarrow> y = Ok v \<Longrightarrow> P) \<Longrightarrow> P"
  by (cases b) auto

lemma command_parts_inverter:
  "read_command i m what arg = Ok c \<Longrightarrow> command_inverter c = i"
  "set_command i m what = Ok c \<Longrightarrow> command_inverter c = i"
  "set_command_arg J i m what arg = Ok c \<Longrightarrow> command_inverter c = i"
  unfolding read_command_def set_command_def set_command_arg_def
  by ((elim if_Ok_cases; auto simp: obind_eq_Ok)+)

lemma to_command_inverter:
  assumes "to_command J m i = Ok c"
  shows "command_inverter c = i"
proof -
  obtain t parts where "split_cmd_topic m = Ok (t, parts)"
    using assms by (auto simp: to_command_def obind_eq_Ok)
  note c = assms[unfolded to_command_def this obind_simps prod.case]
  consider "parts = []" | x where "parts = [x]" | x y where "parts = [x, y]" | x y z where "parts = [x, y, z]"
    | x y z u us where "parts = x # y # z # u # us"
    by (metis list.exhaust)
  then show ?thesis
    using c by cases (auto elim!: if_Ok_cases intro: command_parts_inverter)
qed

lemma emits_message_traffic: "emits (traffic (read_only_config cfg)) w (process_message J oc cfg m w)"
proof (rule emits_process_message_if)
  fix i c w
  assume i: "i \<in> set (cfg_inverters cfg)" "to_command J m i = Ok c"
  show "emits (traffic (read_only_config cfg)) w (process_command J oc cfg c w)"
  proof (cases "bit_switch c")
    case False
    show ?thesis
    proof (cases "read_only_config cfg")
      case True
      then have "cfg_global_read_only cfg \<or> cfg_read_only (command_inverter c)"
        using i to_command_inverter[OF i(2)] by (auto simp: read_only_config_def list_all_iff)
      from emits_command_read_only[OF False this] show ?thesis by (rule emits_weaken) (rule traffic_of)
    next
      case ro: False
      show ?thesis using emits_command(1)[OF False] by (rule emits_weaken) (simp add: ro traffic_of)
    qed
  qed (rule emits_bit_switch)
qed simp

section \<open>The invariant\<close>

lemma same_read_only: "same_but_serials c c' \<Longrightarrow> read_only_config c' = read_only_config c"
proof -
  assume same: "same_but_serials c c'"
  have map: "list_all cfg_read_only is = list_all cfg_read_only (map no_serials is)" for "is"
    by (simp add: list.pred_map comp_def cfg_read_only_def[abs_def] no_serials_def)
  have "cfg_global_read_only (c'\<lparr> cfg_inverters := [] \<rparr>) = cfg_global_read_only (c\<lparr> cfg_inverters := [] \<rparr>)"
    using same by (simp add: same_but_serials_def)
  then show ?thesis
    using same map[of "cfg_inverters c"] map[of "cfg_inverters c'"]
    by (simp add: read_only_config_def same_but_serials_def)
qed

text \<open>
  What a step does to the log: it adds messages of the traffic, or it forwards the next request, which
  is lost only when no sender listens.
\<close>

definition log_grows :: "bool \<Rightarrow> outgoing \<Rightarrow> outgoing \<Rightarrow> bool" where
  "log_grows ro b b' \<longleftrightarrow> og_asked b' = og_asked b \<and>
     (\<exists>ms. og_log b' = og_log b @ ms \<and> (\<forall>m \<in> set ms. traffic ro m))"

definition log_forwards :: "outgoing \<Rightarrow> outgoing \<Rightarrow> bool" where
  "log_forwards b b' \<longleftrightarrow> og_asked b' = og_asked b + 1 \<and> og_asked b < length (to_coordinator_log (og_log b)) \<and>
     (\<exists>p. to_coordinator_log (og_log b) ! og_asked b = CoSendPacket p \<and>
        (og_log b' = og_log b @ [ToInverter (ChPacket p)] \<or> og_log b' = og_log b \<and> \<not> some_sender b))"

definition only_requests :: "bool \<Rightarrow> outgoing \<Rightarrow> bool" where
  "only_requests ro b \<longleftrightarrow>
     (\<forall>m \<in> set (to_coordinator_log (og_log b)). \<exists>p. m = CoSendPacket p \<and> (ro \<longrightarrow> read_request p))"

lemma loop_step_grows:
  assumes "\<forall>m. ev \<noteq> ToCoordinatorRecv (Some m)"
  shows "\<exists>ms. w_sent (co_world (result_state (loop_step E ev s))) = w_sent (co_world s) @ ms \<and>
    (\<forall>m \<in> set ms. traffic (read_only_config (co_config s)) m)"
proof -
  have after: "result_state (after_handler m) = snd m" for m
    by (cases m; cases "fst m") (auto simp: after_handler_def)
  show ?thesis
  proof (cases "(E, ev, s)" rule: loop_step.cases)
    case (1 E' p s')
    then show ?thesis
      using sends_fields(7)[OF sends_packet[of p s E]] traffic_of(4) by (auto simp: after)
  next
    case (13 E' m s')
    then have "result_state (loop_step E ev s) =
        s\<lparr> co_world := run_world (process_message (en_json E) (en_oc E) (co_config s) m (co_world s)) \<rparr>"
      by (auto split: run.split outcome.split)
    then show ?thesis
      using emits_message_traffic[of "co_config s" "co_world s" "en_json E" "en_oc E" m] by (auto simp: emits_def)
  qed (use assms in auto)
qed

lemma out_step_log:
  assumes "out_step oc crc eof b act b'" "only_requests ro b" "ro \<longrightarrow> read_only_config (og_config b)"
  shows "log_grows ro b b' \<or> log_forwards b b'"
  using assms(1)
proof (cases rule: out_step.cases)
  case (out_loop s ev w l E)
  have "traffic (read_only_config (og_config b)) m \<Longrightarrow> traffic ro m" for m
    using assms(3) by (cases "(ro, m)" rule: traffic.cases) auto
  then show ?thesis
    using loop_step_grows[OF out_loop(4), of E "s\<lparr> co_config := og_config b, co_world := w \<rparr>"] out_loop
    by (auto simp: log_grows_def)
next
  case (out_forward s w l E)
  obtain p where p: "to_coordinator_log (og_log b) ! og_asked b = CoSendPacket p"
    using assms(2) out_forward(4) by (auto simp: only_requests_def dest!: nth_mem)
  let ?s = "s\<lparr> co_config := og_config b, co_world := w \<rparr>"
  have "w_sent (co_world (result_state l)) =
      (if ChanToInverter \<in> set (w_closed w) then w_sent w else w_sent w @ [ToInverter (ChPacket p)])"
    using out_forward(7) by (simp add: p after_handler_def co_log_def co_send_def)
  then show ?thesis using out_forward p by (auto simp: log_forwards_def)
next
  case (out_timer s r s' datalog elapsed)
  then show ?thesis
    using timer_turn_traffic[of s datalog elapsed] traffic_of(1) by (auto simp: log_grows_def iv_sends_def simp flip: out_timer(4))
next
  case (out_periodic s r s' i)
  then show ?thesis
    using periodic_turn_sends[of s i] traffic_of(2) by (auto simp: log_grows_def iv_sends_def simp flip: out_periodic(4))
next
  case (out_read s r t ev buf)
  then show ?thesis
    using reader_turn_sends[of s oc crc eof t ev buf] traffic_of(3) by (auto simp: log_grows_def iv_sends_def)
qed (auto simp: log_grows_def)

text \<open>The log: what was asked for, and where the packets on the channel to the inverters come from.\<close>

definition log_inv :: "bool \<Rightarrow> outgoing \<Rightarrow> bool" where
  "log_inv ro b \<longleftrightarrow> only_requests ro b \<and> og_asked b \<le> length (to_coordinator_log (og_log b)) \<and>
     (\<forall>p \<in> set (packets (to_inverter_log (og_log b))). direct_packet p \<or> (ro \<longrightarrow> read_request p)) \<and>
     (some_sender b \<longrightarrow> (\<exists>direct. list_all direct_packet direct \<and>
        packets (to_inverter_log (og_log b)) \<in>
          shuffles (requests (take (og_asked b) (to_coordinator_log (og_log b)))) direct))"

lemma shuffles_append:
  "zs \<in> shuffles xs ys \<Longrightarrow> zs' \<in> shuffles xs' ys' \<Longrightarrow> zs @ zs' \<in> shuffles (xs @ xs') (ys @ ys')"
proof (induction xs ys arbitrary: zs rule: shuffles.induct)
  case (1 ys)
  have "as @ zs' \<in> shuffles xs' (as @ ys')" for as
    using 1(2) by (induction as) (auto intro: Cons_in_shuffles_rightI)
  with 1(1) show ?case by simp
next
  case (2 xs)
  have "as @ zs' \<in> shuffles (as @ xs') ys'" for as
    using 2(2) by (induction as) (auto intro: Cons_in_shuffles_leftI)
  with 2(1) show ?case by simp
next
  case (3 x xs y ys)
  from 3(3) consider z where "zs = x # z" "z \<in> shuffles xs (y # ys)" | z where "zs = y # z" "z \<in> shuffles (x # xs) ys"
    by auto
  then show ?case
  proof cases
    case 1
    then show ?thesis using 3(1)[OF 1(2) 3(4)] by (auto intro: Cons_in_shuffles_leftI)
  next
    case 2
    then show ?thesis using 3(2)[OF 2(2) 3(4)] by (auto intro: Cons_in_shuffles_rightI)
  qed
qed

lemma traffic_logs:
  assumes "\<forall>m \<in> set ms. traffic ro m"
  shows "list_all direct_packet (packets (to_inverter_log ms))"
    and "\<forall>m \<in> set (to_coordinator_log ms). \<exists>p. m = CoSendPacket p \<and> (ro \<longrightarrow> read_request p)"
  using assms
proof (induction ms)
  case (Cons m ms)
  {
    case 1
    then show ?case using Cons.IH by (cases "(ro, m)" rule: traffic.cases) auto
  next
    case 2
    then show ?case using Cons.IH by (cases "(ro, m)" rule: traffic.cases) auto
  }
qed simp_all

lemma log_inv_grows:
  assumes inv: "log_inv ro b" and grows: "log_grows ro b b'" and run: "some_sender b' \<longrightarrow> some_sender b"
  shows "log_inv ro b'"
proof -
  obtain ms where ms: "og_log b' = og_log b @ ms" "\<forall>m \<in> set ms. traffic ro m" and asked: "og_asked b' = og_asked b"
    using grows by (auto simp: log_grows_def)
  note t = traffic_logs[OF ms(2)]
  have "\<exists>direct. list_all direct_packet direct \<and> packets (to_inverter_log (og_log b')) \<in>
      shuffles (requests (take (og_asked b') (to_coordinator_log (og_log b')))) direct" if on: "some_sender b'"
  proof -
    obtain direct where "list_all direct_packet direct"
        "packets (to_inverter_log (og_log b)) \<in> shuffles (requests (take (og_asked b) (to_coordinator_log (og_log b)))) direct"
      using inv run on by (auto simp: log_inv_def)
    then show ?thesis
      using shuffles_append[of "packets (to_inverter_log (og_log b))" _ direct "packets (to_inverter_log ms)" "[]"
          "packets (to_inverter_log ms)"] t(1) inv
      by (intro exI[of _ "direct @ packets (to_inverter_log ms)"]) (simp add: ms(1) asked log_inv_def)
  qed
  then show ?thesis
    using inv t by (auto simp: log_inv_def ms(1) asked only_requests_def list_all_iff)
qed

lemma log_inv_forwards:
  assumes inv: "log_inv ro b" and fwd: "log_forwards b b'" and run: "some_sender b' \<longrightarrow> some_sender b"
  shows "log_inv ro b'"
proof -
  obtain p where p: "to_coordinator_log (og_log b) ! og_asked b = CoSendPacket p"
      "og_log b' = og_log b @ [ToInverter (ChPacket p)] \<or> og_log b' = og_log b \<and> \<not> some_sender b"
    and asked: "og_asked b' = og_asked b + 1" "og_asked b < length (to_coordinator_log (og_log b))"
    using fwd by (auto simp: log_forwards_def)
  have same: "to_coordinator_log (og_log b') = to_coordinator_log (og_log b)" using p(2) by auto
  have take: "requests (take (og_asked b') (to_coordinator_log (og_log b))) =
      requests (take (og_asked b) (to_coordinator_log (og_log b))) @ [p]"
    using asked p(1) by (simp add: take_Suc_conv_app_nth)
  have "CoSendPacket p \<in> set (to_coordinator_log (og_log b))" using p(1) asked(2) nth_mem by metis
  then have read: "ro \<longrightarrow> read_request p" using inv by (auto simp: log_inv_def only_requests_def)
  have "\<exists>direct. list_all direct_packet direct \<and> packets (to_inverter_log (og_log b')) \<in>
      shuffles (requests (take (og_asked b') (to_coordinator_log (og_log b')))) direct" if on: "some_sender b'"
  proof -
    obtain direct where "list_all direct_packet direct"
        "packets (to_inverter_log (og_log b)) \<in> shuffles (requests (take (og_asked b) (to_coordinator_log (og_log b)))) direct"
      using inv run on by (auto simp: log_inv_def)
    moreover have "og_log b' = og_log b @ [ToInverter (ChPacket p)]" using p(2) run on by blast
    ultimately show ?thesis
      using shuffles_append[of "packets (to_inverter_log (og_log b))" _ direct "[p]" "[p]" "[]"]
      by (intro exI[of _ direct]) (simp add: same take)
  qed
  moreover have "only_requests ro b'" using inv by (simp add: log_inv_def only_requests_def same)
  moreover have "\<forall>q \<in> set (packets (to_inverter_log (og_log b'))). direct_packet q \<or> (ro \<longrightarrow> read_request q)"
    using inv p(2) read by (auto simp: log_inv_def)
  ultimately show ?thesis using asked by (simp add: log_inv_def same)
qed

text \<open>A link: the frames it has written, as long as it runs and afterwards.\<close>

definition link_inv :: "bool \<Rightarrow> crc16 \<Rightarrow> sent list \<Rightarrow> serial \<Rightarrow> link \<Rightarrow> bool" where
  "link_inv oc crc msgs d x \<longleftrightarrow> ln_datalog x = d \<and> ln_taken x \<le> length (to_inverter_log msgs) \<and>
     (ln_sender x = SenderOn \<longrightarrow>
        map Ok (ln_frames x) = map (create_frame oc crc d) (packets (take (ln_taken x) (to_inverter_log msgs)))) \<and>
     (\<forall>f \<in> set (ln_frames x). \<exists>p \<in> set (packets (to_inverter_log msgs)). create_frame oc crc d p = Ok f)"

lemma link_inv_append: "link_inv oc crc msgs d x \<Longrightarrow> link_inv oc crc (msgs @ ms) d x"
  by (auto simp: link_inv_def)

lemma sender_step_frames:
  assumes "sender_step oc crc d t m wr (ts, frames) = (r, ts', frames')"
  shows "frames' = frames \<or> (\<exists>p f. m = Some (ChPacket p) \<and> create_frame oc crc d p = Ok f \<and> frames' = frames @ [f])"
  using assms
  by (cases "(oc, crc, d, t, m, wr, (ts, frames))" rule: sender_step.cases)
    (auto simp: Let_def split: outcome.splits write_result.splits)

lemma packets_take_Suc:
  "n < length ms \<Longrightarrow> packets (take (Suc n) ms) = packets (take n ms) @ packets [ms ! n]"
  by (simp only: take_Suc_conv_app_nth packets_append)

lemma packets_single: "packets [m] = (case m of ChPacket p \<Rightarrow> [p] | _ \<Rightarrow> [])"
  by (cases m) auto

lemma packets_mem: "n < length ms \<Longrightarrow> ms ! n = ChPacket p \<Longrightarrow> p \<in> set (packets ms)"
proof (induction ms arbitrary: n)
  case (Cons m ms)
  then show ?case by (cases n; cases m) auto
qed simp

lemma link_inv_send:
  assumes "link_inv oc crc msgs d x" "ln_sender x = SenderOn" "ln_taken x < length (to_inverter_log msgs)"
    and step: "sender_step oc crc (ln_datalog x) t (Some (to_inverter_log msgs ! ln_taken x)) wr (ln_times x, ln_frames x) = (r, ts, frames)"
  shows "link_inv oc crc msgs d (x\<lparr> ln_sender := r, ln_taken := ln_taken x + 1, ln_times := ts, ln_frames := frames \<rparr>)"
proof -
  let ?m = "to_inverter_log msgs ! ln_taken x"
  have d: "ln_datalog x = d" using assms(1) by (simp add: link_inv_def)
  have "r = SenderOn \<Longrightarrow> map Ok frames = map (create_frame oc crc d) (packets (take (Suc (ln_taken x)) (to_inverter_log msgs)))"
    using sender_step_On[of oc crc d t "Some ?m" wr "ln_times x" "ln_frames x" ts frames] assms
    by (auto simp: link_inv_def packets_take_Suc packets_single split: inverter_msg.split)
  then show ?thesis
    using sender_step_frames[OF step] assms(1,3) packets_mem[OF assms(3)]
    by (auto simp: link_inv_def)
qed

definition out_inv :: "bool \<Rightarrow> crc16 \<Rightarrow> config \<Rightarrow> (nat \<Rightarrow> serial) \<Rightarrow> outgoing \<Rightarrow> bool" where
  "out_inv oc crc c datalog b \<longleftrightarrow> same_but_serials c (og_config b) \<and> log_inv (read_only_config c) b \<and>
     (\<forall>k. link_inv oc crc (og_log b) (datalog k) (og_link b k))"

text \<open>No step starts a sender, and the configuration changes in serial numbers only.\<close>

lemma out_step_senders: "out_step oc crc eof b act b' \<Longrightarrow> some_sender b' \<Longrightarrow> some_sender b"
  by (cases rule: out_step.cases) (auto simp: some_sender_def split: if_splits)

lemma out_step_config:
  assumes "out_step oc crc eof b act b'"
  shows "same_but_serials (og_config b) (og_config b')"
  using assms
proof (cases rule: out_step.cases)
  case (out_loop s ev w l E)
  then show ?thesis using loop_step_config[of "s\<lparr> co_config := og_config b, co_world := w \<rparr>" E ev] by simp
next
  case (out_forward s w l E)
  then show ?thesis
    using loop_step_config[of "s\<lparr> co_config := og_config b, co_world := w \<rparr>" E
        "ToCoordinatorRecv (Some (to_coordinator_log (og_log b) ! og_asked b))"] by simp
next
  case (out_read s r t ev buf)
  then show ?thesis using evolves_same[OF reader_turn_config[of s oc crc eof t ev buf]] by simp
qed simp_all

lemma out_step_links:
  assumes "out_step oc crc eof b act b'" "\<forall>k. link_inv oc crc (og_log b) (datalog k) (og_link b k)"
    and "\<exists>ms. og_log b' = og_log b @ ms"
  shows "\<forall>k. link_inv oc crc (og_log b') (datalog k) (og_link b' k)"
  using assms(1)
proof (cases rule: out_step.cases)
  case (out_send k x t wr r ts frames)
  have "link_inv oc crc (og_log b) (datalog k) x" using assms(2) out_send(3) by blast
  from link_inv_send[OF this out_send(4,5,6)] show ?thesis using assms(2) by (simp add: out_send(2))
next
  case (out_sender_error k x t wr r ts frames)
  have "link_inv oc crc (og_log b) (datalog k) x" using assms(2) out_sender_error(3) by blast
  then have "link_inv oc crc (og_log b) (datalog k) (x\<lparr> ln_sender := r, ln_times := ts, ln_frames := frames \<rparr>)"
    using out_sender_error(5) by (auto simp: link_inv_def)
  then show ?thesis using assms(2) by (simp add: out_sender_error(2))
qed (use assms(2,3) link_inv_append in auto)

lemma out_step_inv:
  assumes "out_step oc crc eof b act b'" "out_inv oc crc c datalog b"
  shows "out_inv oc crc c datalog b'"
proof -
  have same: "same_but_serials c (og_config b)" and log: "log_inv (read_only_config c) b"
    using assms(2) by (simp_all add: out_inv_def)
  have run: "some_sender b' \<longrightarrow> some_sender b" using out_step_senders[OF assms(1)] by blast
  have "log_grows (read_only_config c) b b' \<or> log_forwards b b'"
    using out_step_log[OF assms(1), of "read_only_config c"] log same_read_only[OF same] by (simp add: log_inv_def)
  then have "log_inv (read_only_config c) b'" "\<exists>ms. og_log b' = og_log b @ ms"
    using log_inv_grows[OF log _ run] log_inv_forwards[OF log _ run]
    by (auto simp: log_grows_def log_forwards_def)
  then show ?thesis
    using same_but_serials_trans[OF same out_step_config[OF assms(1)]] out_step_links[OF assms(1)] assms(2)
    by (auto simp: out_inv_def)
qed

lemma out_run_inv: "out_run oc crc eof b acts b' \<Longrightarrow> out_inv oc crc c datalog b \<Longrightarrow> out_inv oc crc c datalog b'"
  by (erule out_tasks.run_invariant) (auto intro: out_step_inv)

lemma out_init_inv: "out_inv oc crc c datalog (out_init c influx datalog w)"
  by (simp add: out_inv_def out_init_def log_inv_def only_requests_def link_inv_def)

section \<open>What reaches the sockets\<close>

text \<open>
  C2: what a running sender has written are the frames of a prefix of the packets on its channel, and
  these packets are the requests that the main loop has taken from its own channel, each once and in
  their order, interleaved with heartbeats, the two parameter requests and the traffic of the bit
  switches. This holds in every reachable state, whatever the order of the turns.
\<close>

theorem sockets_carry_requests:
  assumes "out_run oc crc eof (out_init c influx datalog w) acts b" "ln_sender (og_link b k) = SenderOn"
  shows "let channel = to_inverter_log (og_log b);
             taken = requests (take (og_asked b) (to_coordinator_log (og_log b)))
         in map Ok (ln_frames (og_link b k)) =
              map (create_frame oc crc (datalog k)) (packets (take (ln_taken (og_link b k)) channel)) \<and>
            (\<exists>direct. list_all direct_packet direct \<and> packets channel \<in> shuffles taken direct)"
proof -
  have inv: "out_inv oc crc c datalog b" by (rule out_run_inv[OF assms(1) out_init_inv])
  moreover have "some_sender b" using assms(2) by (auto simp: some_sender_def)
  ultimately show ?thesis using assms(2) by (auto simp: out_inv_def log_inv_def link_inv_def Let_def)
qed

text \<open>
  C3: with the global read-only flag, or with that of every inverter, each frame that is ever written to
  a socket asks only: it is the frame of a read request, of a heartbeat, or of a bit switch, which reads
  and writes register 21 whatever the flags say. This holds for every message of the broker and every
  order of the turns.
\<close>

theorem read_only_on_the_wire:
  assumes "out_run oc crc eof (out_init c influx datalog w) acts b" "read_only_config c"
  shows "list_all (\<lambda>f. \<exists>p. create_frame oc crc (datalog k) p = Ok f \<and> (read_request p \<or> direct_packet p))
    (ln_frames (og_link b k))"
proof -
  have "out_inv oc crc c datalog b" by (rule out_run_inv[OF assms(1) out_init_inv])
  then show ?thesis
    using assms(2) by (fastforce simp: out_inv_def log_inv_def link_inv_def list_all_iff)
qed

section \<open>A run\<close>

text \<open>A timer sends a heartbeat, and the first sender writes its frame.\<close>

definition example_heartbeat :: packet where
  "example_heartbeat = PHeartbeat \<lparr> hb_datalog = Serial (bytes_of_str ''1234567890'') \<rparr>"

definition example_read_only :: config where
  "example_read_only = (example_config [])\<lparr> cfg_global_read_only := True \<rparr>"

definition example_out :: outgoing where
  "example_out = out_init example_read_only False (\<lambda>_. serial_a) (example_world [])"

lemma example_out_run:
  obtains b f where "out_run True example_crc (\<lambda>_. ([], Ok ())) example_out [OutTimer ''1234567890'' 200, OutSend 0 0 WriteOk] b"
    "ln_sender (og_link b 0) = SenderOn" "og_asked b = 0" "to_inverter_log (og_log b) = [ChPacket example_heartbeat]"
    "ln_taken (og_link b 0) = 1" "ln_frames (og_link b 0) = [f]"
proof -
  let ?m = "ToInverter (ChPacket example_heartbeat)"
  obtain s' where s': "timer_turn ''1234567890'' 200 example_link = (Ok (), s')" "w_sent (iv_world s') = [?m]"
    by (simp add: timer_turn_def example_link_def message_timestamps_new_def time_since_sent_def
        time_since_received_def serial_from_str_def iv_send_def iv_try_def example_world_def example_heartbeat_def Let_def)
  let ?b = "example_out\<lparr> og_log := [?m] \<rparr>"
  have log: "og_log example_out = []" "w_sent (iv_world example_link) = []"
    by (simp_all add: example_out_def out_init_def example_link_def example_world_def)
  have 1: "out_step True example_crc (\<lambda>_. ([], Ok ())) example_out (OutTimer ''1234567890'' 200) ?b"
    using out_timer[of example_link example_out "Ok ()" s' "''1234567890''" 200] s' log by simp
  obtain f where f: "create_frame True example_crc serial_a example_heartbeat = Ok f"
    by (simp add: create_frame_def example_heartbeat_def heartbeat_bytes_def)
  let ?x = "og_link example_out 0"
  have x: "ln_datalog ?x = serial_a" "ln_sender ?x = SenderOn" "ln_taken ?x = 0" "ln_frames ?x = []"
    by (simp_all add: example_out_def out_init_def)
  obtain ts where "sender_step True example_crc (ln_datalog ?x) 0 (Some (to_inverter_log (og_log ?b) ! ln_taken ?x)) WriteOk
      (ln_times ?x, ln_frames ?x) = (SenderOn, ts, [f])"
    using f by (simp add: x)
  from out_send[of ?b 0 ?x, OF _ x(2) _ this] have
    2: "out_step True example_crc (\<lambda>_. ([], Ok ())) ?b (OutSend 0 0 WriteOk)
      (?b\<lparr> og_link := (og_link ?b)(0 := ?x\<lparr> ln_sender := SenderOn, ln_taken := ln_taken ?x + 1, ln_times := ts, ln_frames := [f] \<rparr>) \<rparr>)"
    by (simp add: x)
  have "out_run True example_crc (\<lambda>_. ([], Ok ())) example_out [OutTimer ''1234567890'' 200, OutSend 0 0 WriteOk]
      (?b\<lparr> og_link := (og_link ?b)(0 := ?x\<lparr> ln_sender := SenderOn, ln_taken := ln_taken ?x + 1, ln_times := ts, ln_frames := [f] \<rparr>) \<rparr>)"
    using out_more[OF out_more[OF out_refl 1] 2] by simp
  then show ?thesis by (rule that) (simp_all add: x example_out_def out_init_def)
qed

theorem sockets_carry_requests_witness:
  "\<exists>b. out_run True example_crc (\<lambda>_. ([], Ok ())) example_out [OutTimer ''1234567890'' 200, OutSend 0 0 WriteOk] b \<and>
     map Ok (ln_frames (og_link b 0)) = [create_frame True example_crc serial_a example_heartbeat]"
proof -
  obtain b f where b: "out_run True example_crc (\<lambda>_. ([], Ok ())) example_out [OutTimer ''1234567890'' 200, OutSend 0 0 WriteOk] b"
    "ln_sender (og_link b 0) = SenderOn" "og_asked b = 0" "to_inverter_log (og_log b) = [ChPacket example_heartbeat]"
    "ln_taken (og_link b 0) = 1" "ln_frames (og_link b 0) = [f]"
    by (rule example_out_run)
  from sockets_carry_requests[OF b(1)[unfolded example_out_def] b(2)] b show ?thesis
    by (auto simp: Let_def example_heartbeat_def)
qed

theorem read_only_on_the_wire_witness:
  "\<exists>b f. out_run True example_crc (\<lambda>_. ([], Ok ())) example_out [OutTimer ''1234567890'' 200, OutSend 0 0 WriteOk] b \<and>
     ln_frames (og_link b 0) = [f] \<and>
     (\<exists>p. create_frame True example_crc serial_a p = Ok f \<and> (read_request p \<or> direct_packet p))"
proof -
  obtain b f where b: "out_run True example_crc (\<lambda>_. ([], Ok ())) example_out [OutTimer ''1234567890'' 200, OutSend 0 0 WriteOk] b"
    "ln_frames (og_link b 0) = [f]"
    by (rule example_out_run)
  have "read_only_config example_read_only" by (simp add: read_only_config_def example_read_only_def)
  from read_only_on_the_wire[OF b(1)[unfolded example_out_def] this, of 0] b show ?thesis by auto
qed

end
