(* ===== verification/Spec2Isabelle.thy ===== *)
theory Spec2Isabelle
  imports Bridge_Prelude F64 Texts Wire Codes Packet Packet_Facts Packet_Decoder Framing Packet_Types
    Inputs Inputs_All Read_Inputs Inputs_Store Config Channels Commands Command_Facts Register_Cache
    Mqtt Mqtt_Facts Coordinator Coordinator_Facts Coordinator_Properties Inverter Inverter_Facts Inverter_Properties
    Datalog_Writer Influx Influx_Properties Database Scheduler Home_Assistant Home_Assistant_Facts Mqtt_Client Bridge Bridge_Properties Startup Process Config_Facts Outgoing_Properties
begin

text \<open>
  eg4-bridge connects inverters, over the LuxPower protocol of their data loggers, with MQTT, Home Assistant,
  InfluxDB and SQL databases. This library models the bridge as it is written and proves what its parts
  do, one after the other and together. File names are relative to \<^verbatim>\<open>src/src\<close>.

  The program. For every inverter there is a connection (\<^verbatim>\<open>eg4/inverter.rs\<close>) with a receiver, which cuts the
  byte stream into frames (\<^verbatim>\<open>eg4/packet_decoder.rs\<close>) and these into packets (\<^verbatim>\<open>eg4/packet.rs\<close>), and a sender. The
  coordinator (\<^verbatim>\<open>coordinator/mod.rs\<close>) takes the packets and hands their contents to the register cache, MQTT,
  InfluxDB and the database; it takes MQTT messages, makes commands of them (\<^verbatim>\<open>mqtt.rs\<close>, \<^verbatim>\<open>command.rs\<close>) and runs
  them (\<^verbatim>\<open>coordinator/commands\<close>), which send requests and wait for replies. The tasks talk over broadcast
  channels and share the configuration (\<^verbatim>\<open>config.rs\<close>).

  Conventions. Integers have their width (\<^verbatim>\<open>u16\<close> is a 16-bit word); \<^verbatim>\<open>f64\<close> is the type of rationals that theory F64
  rounds as IEEE 754 does. Bytes are words, strings are lists of bytes. A fallible operation returns \<^verbatim>\<open>Ok\<close>,
  \<^verbatim>\<open>Err\<close> with a text, or \<^verbatim>\<open>Panic\<close>, so that an index out of range, an \<^verbatim>\<open>unwrap\<close> and, where the flag \<^verbatim>\<open>oc\<close> says that
  the build checks it, an arithmetic overflow are results. An operation that sends and waits is a function of a
  world (theory Channels): the clock, what each poll of its receiver returns, which channels are closed, and the
  log of what was sent; it ends with a result or still waits when the polls are used up. Loops over channels are
  runs over a list of events, which says what each turn receives, so theorems hold for every order of events.
  Recursion is structural or ends by a measure (the length of the buffer in the two decoding loops), so there is
  no fuel; retries are bounded by their counter or run over a list of attempts.

  Theories and code.
  Task_Loop: the locale task_loop (a loop that handles one event per turn and goes on or ends) and the locale interleaving
  (several tasks as a transition system), with their induction rules; the main loop, the receiver, the sender, the cache, and the
  writers interpret the first, Bridge and Outgoing the second.
  Bridge_Prelude, Texts, F64: results, lists, text functions, rounded arithmetic (\<^verbatim>\<open>utils.rs\<close>, the standard library).
  Wire, Codes: byte order, serial numbers, the field parsers; the enums and code tables of \<^verbatim>\<open>eg4/packet.rs\<close>.
  Packet, Packet_Facts, Packet_Decoder, Framing, Packet_Types: the packets, \<^verbatim>\<open>Parser\<close>, \<^verbatim>\<open>TcpFrameFactory\<close>, \<^verbatim>\<open>PacketDecoder\<close>
  and the loop that drains the receive buffer; layouts, round trips, absence of panics in the frame decoder (and the
  bytes on which the parser alone panics), independence of the cuts
  of the stream, and the type of the packets that come out.
  Inputs, Inputs_All, Read_Inputs, Inputs_Store: the structs of input registers, their parsers, derived values,
  validation, and \<^verbatim>\<open>ReadInputs::to_input_all\<close>, with exact conditions for acceptance and exact totals.
  Config, Config_File, Config_Facts: \<^verbatim>\<open>config.rs\<close>: the structs, lookups, updates at run time and validation; \<^verbatim>\<open>Config::new\<close> with the
  readers that serde derives and the defaults; a document that shows a valid configuration loads as it.
  Channels, Commands, Command_Facts: the channels, \<^verbatim>\<open>WaitForReply\<close>, and every command of \<^verbatim>\<open>coordinator/commands\<close>. The
  locale transport states what a request over a channel guarantees; both ways of sending are interpretations.
  Register_Cache: \<^verbatim>\<open>register_cache.rs\<close>; the locale key_value states the laws of a store, and the cache interprets it.
  Mqtt, Mqtt_Facts, Mqtt_Client: topics, payloads, commands and messages of \<^verbatim>\<open>mqtt.rs\<close> and \<^verbatim>\<open>command.rs\<close>; the tasks that
  set up, receive and send.
  Coordinator, Coordinator_Facts, Coordinator_Properties: \<^verbatim>\<open>coordinator/mod.rs\<close>; what handling a packet or a command sends
  (rules in the collection emit_rules), when it panics, and invariants of every run of the main loop.
  Inverter, Inverter_Facts, Inverter_Properties: \<^verbatim>\<open>eg4/inverter.rs\<close>; the receiver refines the drained byte stream, its
  buffer is bounded, it runs exactly as long as the inverter is heard in time, its configuration changes are confined;
  the timer and the sender. Times are seconds since the object was made. A turn of the receiver has the time at which it
  begins (the silence check) and a read the time at which its bytes arrive; a turn of the timer has the shared
  timestamps as the other tasks left them.
  Datalog_Writer, Influx, Influx_Properties, Database, Scheduler: \<^verbatim>\<open>datalog_writer.rs\<close>, \<^verbatim>\<open>influx.rs\<close> and \<^verbatim>\<open>register.rs\<close>,
  \<^verbatim>\<open>database.rs\<close>, \<^verbatim>\<open>scheduler.rs\<close>.
  Home_Assistant, Home_Assistant_Facts: the discovery messages of \<^verbatim>\<open>home_assistant.rs\<close>; their topics are distinct,
  for any list of inverters with different data loggers, and
  their controls are commands of the bridge.
  Bridge, Bridge_Properties: receiver, main loop and cache as one transition system over shared configuration and channels,
  with the proof by rule induction that the cache follows the byte stream in every interleaving.
  Outgoing, Outgoing_Properties: the way out: main loop, receivers, timers, periodic requests and the senders of all connections as
  one transition system over the log of what was sent. What each task may send (the rules of iv_sends and emits)
  gives an invariant of the log, and from it which frames reach the sockets, also in read-only mode.
  Startup, Process: \<^verbatim>\<open>Coordinator::start\<close> and \<^verbatim>\<open>app\<close>, the order in which tasks are started, and the stops; \<^verbatim>\<open>main.rs\<close> and \<^verbatim>\<open>run\<close> of
  \<^verbatim>\<open>lib.rs\<close>: when the process ends, and with which exit code.

  Parameters. Code that is not in the repository is an argument: the checksum \<^verbatim>\<open>crc\<close> (crc16), the parsers of nom
  (nom_lib, with the law nom_ok that they read so many bytes), JSON texts (json_lib), the calendar of chrono,
  HTTP, SQL, file and socket results (file_ops, socket_results), the MQTT client, the documents and scalars of YAML
  (yaml_lib, with the law yaml_prints that a scalar it prints is read back), the rest of a decoder at the end of a
  stream (\<^verbatim>\<open>decode_eof\<close> of tokio_util). Hypotheses on them are named in the theorems and have witnesses.

  Bounds. A turn of a task is one step of the transition system: the lock of the configuration is taken more than
  once in a turn of the program, so finer interleavings exist. A channel of the program holds 2048 messages;
  a receiver that falls behind gets an error, which the model allows at any time. Numbers of 64 bits in the
  configuration and times are natural numbers; the keys of a YAML mapping are strings.

  Not modelled. The parser of the command line (clap), the log and its texts, and the statistics as printed (\<^verbatim>\<open>main.rs\<close>,
  \<^verbatim>\<open>options.rs\<close>, \<^verbatim>\<open>print_summary\<close>); the text of YAML; the statements of the database migrations; the macros that put
  file and line into an error text (\<^verbatim>\<open>error.rs\<close>). These make no decision of the bridge, or are calls of libraries only.
\<close>

end
